(* ===== verification/Prelude.thy ===== *)
theory Prelude
  imports Main
begin

text \<open>
  Shared vocabulary of the development: results with an error branch, SQL tables as lists of
  rows, Go strings as byte lists with the functions of package \<open>strings\<close> that the sources
  call, decimal printing, and Go times with their RFC 3339 rendering. The collections
  \<open>result_simps\<close> and \<open>row_simps\<close> carry the proofs of the component theories.
\<close>

named_theorems result_simps "inversion of results with an error branch"
named_theorems row_simps "rewriting of row selections and updates"

section \<open>Results\<close>

text \<open>
  A Go function that returns \<open>(v, err)\<close> is a function into \<open>'e + 'a\<close>: \<open>Inl e\<close> is the
  early return with the error, \<open>Inr v\<close> the normal return. \<open>bindE\<close> is the idiom
  \<^verbatim>\<open>if err != nil { return err }\<close>.
\<close>

fun bindE :: "'e + 'a \<Rightarrow> ('a \<Rightarrow> 'e + 'b) \<Rightarrow> 'e + 'b" where
  "bindE (Inl e) k = Inl e"
| "bindE (Inr x) k = k x"

lemma bindE_eq_Inr [result_simps]: "bindE m k = Inr y \<longleftrightarrow> (\<exists>x. m = Inr x \<and> k x = Inr y)"
  by (cases m) auto

lemma bindE_eq_Inl [result_simps]:
  "bindE m k = Inl e \<longleftrightarrow> m = Inl e \<or> (\<exists>x. m = Inr x \<and> k x = Inl e)"
  by (cases m) auto

lemma bindE_assoc: "bindE (bindE m k) h = bindE m (\<lambda>x. bindE (k x) h)"
  by (cases m) auto

definition ensure :: "bool \<Rightarrow> 'e \<Rightarrow> 'e + unit" where
  "ensure b e = (if b then Inr () else Inl e)"

lemma ensure_eq_Inr [result_simps]: "ensure b e = Inr u \<longleftrightarrow> b"
  by (simp add: ensure_def)

lemma ensure_eq_Inl [result_simps]: "ensure b e = Inl e' \<longleftrightarrow> \<not> b \<and> e' = e"
  by (auto simp: ensure_def)

definition require :: "'a option \<Rightarrow> 'e \<Rightarrow> 'e + 'a" where
  "require x e = (case x of None \<Rightarrow> Inl e | Some v \<Rightarrow> Inr v)"

lemma require_eq_Inr [result_simps]: "require x e = Inr v \<longleftrightarrow> x = Some v"
  by (simp add: require_def split: option.splits)

lemma require_eq_Inl [result_simps]: "require x e = Inl e' \<longleftrightarrow> x = None \<and> e' = e"
  by (auto simp: require_def split: option.splits)

lemma result_if_Inr [result_simps]:
  "(if b then Inl e else m) = Inr y \<longleftrightarrow> \<not> b \<and> m = Inr y"
  by simp

section \<open>Tables as lists of rows\<close>

text \<open>
  A table is the list of its rows in rowid order. \<open>SELECT \<dots> WHERE P\<close> scanned by
  \<open>QueryRow\<close> reads the first row with \<open>P\<close> (\<open>find\<close>), \<open>EXISTS\<close> is \<open>list_ex\<close>, and an
  \<open>UPDATE \<dots> WHERE P\<close> rewrites every row with \<open>P\<close> and reports their number.
\<close>

definition update_rows :: "('r \<Rightarrow> bool) \<Rightarrow> ('r \<Rightarrow> 'r) \<Rightarrow> 'r list \<Rightarrow> 'r list" where
  "update_rows P f rs = map (\<lambda>r. if P r then f r else r) rs"

definition rows_affected :: "('r \<Rightarrow> bool) \<Rightarrow> 'r list \<Rightarrow> nat" where
  "rows_affected P rs = length (filter P rs)"

lemma update_rows_Nil [simp]: "update_rows P f [] = []"
  by (simp add: update_rows_def)

lemma update_rows_Cons [simp]:
  "update_rows P f (r # rs) = (if P r then f r else r) # update_rows P f rs"
  by (simp add: update_rows_def)

lemma length_update_rows [simp]: "length (update_rows P f rs) = length rs"
  by (simp add: update_rows_def)

lemma set_update_rows: "set (update_rows P f rs) = (\<lambda>r. if P r then f r else r) ` set rs"
  by (simp add: update_rows_def)

lemma mem_update_rowsE:
  assumes "r \<in> set (update_rows P f rs)"
  obtains (kept) "r \<in> set rs" "\<not> P r" | (changed) q where "q \<in> set rs" "P q" "r = f q"
  using assms by (auto simp: set_update_rows split: if_splits)

lemma update_rows_kept: "r \<in> set rs \<Longrightarrow> \<not> P r \<Longrightarrow> r \<in> set (update_rows P f rs)"
  by (auto simp: set_update_rows image_iff intro!: bexI [of _ r])

lemma update_rows_changed: "r \<in> set rs \<Longrightarrow> P r \<Longrightarrow> f r \<in> set (update_rows P f rs)"
  by (auto simp: set_update_rows image_iff intro!: bexI [of _ r])

lemma update_rows_none: "(\<And>r. r \<in> set rs \<Longrightarrow> \<not> P r) \<Longrightarrow> update_rows P f rs = rs"
  by (induction rs) auto

lemma map_update_rows:
  "(\<And>r. g (f r) = g r) \<Longrightarrow> map g (update_rows P f rs) = map g rs"
  by (induction rs) auto

lemma rows_affected_eq_0 [row_simps]: "rows_affected P rs = 0 \<longleftrightarrow> (\<forall>r\<in>set rs. \<not> P r)"
  by (auto simp: rows_affected_def filter_empty_conv)

lemma rows_affected_pos: "rows_affected P rs \<noteq> 0 \<longleftrightarrow> (\<exists>r\<in>set rs. P r)"
  by (auto simp: rows_affected_eq_0)

lemma rows_affected_1E:
  assumes "rows_affected P rs = 1"
  obtains r where "r \<in> set rs" "P r"
proof -
  have "rows_affected P rs \<noteq> 0" using assms by simp
  then have "\<exists>r\<in>set rs. P r" by (simp only: rows_affected_pos)
  then show ?thesis using that by blast
qed

lemma find_SomeD: "find P rs = Some r \<Longrightarrow> r \<in> set rs \<and> P r"
  by (induction rs) (auto split: if_splits)

lemma find_eq_None: "find P rs = None \<longleftrightarrow> (\<forall>r\<in>set rs. \<not> P r)"
  by (auto simp: find_None_iff)

lemma find_append_Some: "find P rs = Some r \<Longrightarrow> find P (rs @ qs) = Some r"
  by (induction rs) (auto split: if_splits)

lemma find_append_None: "find P rs = None \<Longrightarrow> find P (rs @ qs) = find P qs"
  by (induction rs) (auto split: if_splits)

subsection \<open>Keyed tables\<close>

definition keyed :: "('r \<Rightarrow> 'k) \<Rightarrow> 'r list \<Rightarrow> bool" where
  "keyed key rs \<longleftrightarrow> distinct (map key rs)"

lemma keyed_Nil [simp]: "keyed key []"
  by (simp add: keyed_def)

lemma keyed_uniq: "keyed key rs \<Longrightarrow> r \<in> set rs \<Longrightarrow> q \<in> set rs \<Longrightarrow> key r = key q \<Longrightarrow> r = q"
  by (auto simp: keyed_def distinct_map inj_on_def)

lemma keyed_snoc: "keyed key (rs @ [r]) \<longleftrightarrow> keyed key rs \<and> (\<forall>q\<in>set rs. key q \<noteq> key r)"
proof -
  have "key r \<notin> key ` set rs \<longleftrightarrow> (\<forall>q\<in>set rs. key q \<noteq> key r)" by (auto simp: image_iff)
  then show ?thesis by (simp add: keyed_def)
qed

lemma find_key:
  assumes "keyed key rs" and "r \<in> set rs" and "key r = k"
  shows "find (\<lambda>q. key q = k) rs = Some r"
proof -
  have "find (\<lambda>q. key q = k) rs \<noteq> None"
    using assms by (auto simp: find_eq_None)
  then obtain q where q: "find (\<lambda>q. key q = k) rs = Some q" by blast
  then have "q \<in> set rs \<and> key q = k" by (rule find_SomeD)
  with assms have "q = r" by (intro keyed_uniq [of key rs]) auto
  with q show ?thesis by simp
qed

lemma rows_affected_keyed:
  assumes "keyed key rs" and "r \<in> set rs" and "P r" and "\<And>q. P q \<Longrightarrow> key q = key r"
  shows "rows_affected P rs = 1"
proof -
  have "set (filter P rs) = {r}"
    using assms keyed_uniq [OF assms(1)] by auto
  moreover have "distinct (filter P rs)"
    using assms(1) unfolding keyed_def by (metis distinct_filter distinct_map)
  ultimately show ?thesis
    by (metis One_nat_def card.empty card.insert distinct_card empty_iff finite.emptyI
        rows_affected_def)
qed

text \<open>
  An update that keeps the key column of the rows it touches: what every \<open>UPDATE\<close> statement
  of the store promises to the invariants that are stated over keys.
\<close>

lemma map_update_rows_on:
  "(\<And>r. r \<in> set rs \<Longrightarrow> P r \<Longrightarrow> g (f r) = g r) \<Longrightarrow> map g (update_rows P f rs) = map g rs"
  by (induction rs) auto

lemma keyed_update_rows:
  "(\<And>r. r \<in> set rs \<Longrightarrow> P r \<Longrightarrow> key (f r) = key r) \<Longrightarrow> keyed key (update_rows P f rs) = keyed key rs"
  by (simp add: keyed_def map_update_rows_on)

lemma ex_update_rows:
  assumes "\<And>r. r \<in> set rs \<Longrightarrow> P r \<Longrightarrow> Q (f r) = Q r"
  shows "(\<exists>r\<in>set (update_rows P f rs). Q r) \<longleftrightarrow> (\<exists>r\<in>set rs. Q r)"
  using assms by (auto simp: set_update_rows)

lemma find_update_rows:
  assumes "\<And>r. P r \<Longrightarrow> key (f r) = key r"
  shows "find (\<lambda>r. key r = k) (update_rows P f rs) =
    map_option (\<lambda>r. if P r then f r else r) (find (\<lambda>r. key r = k) rs)"
  using assms by (induction rs) auto

section \<open>Go strings\<close>

text \<open>
  A Go string is a sequence of bytes, here a list of \<open>char\<close>. Source literals are ASCII.
\<close>

definition byte :: "char \<Rightarrow> nat" where
  "byte c = of_char c"

abbreviation HasPrefix :: "string \<Rightarrow> string \<Rightarrow> bool" where
  "HasPrefix s p \<equiv> take (length p) s = p"

definition HasSuffix :: "string \<Rightarrow> string \<Rightarrow> bool" where
  "HasSuffix s p \<longleftrightarrow> HasPrefix (rev s) (rev p)"

fun Contains :: "string \<Rightarrow> string \<Rightarrow> bool" where
  "Contains [] p \<longleftrightarrow> p = []"
| "Contains (c # s) p \<longleftrightarrow> HasPrefix (c # s) p \<or> Contains s p"

lemma Contains_sublist: "Contains s p \<longleftrightarrow> (\<exists>u v. s = u @ p @ v)"
proof (induction s)
  case Nil
  then show ?case by auto
next
  case (Cons c s)
  show ?case
  proof
    assume "Contains (c # s) p"
    then consider "HasPrefix (c # s) p" | "Contains s p" by auto
    then show "\<exists>u v. c # s = u @ p @ v"
    proof cases
      case 1
      then have "c # s = [] @ p @ drop (length p) (c # s)"
        by (metis append_Nil append_take_drop_id)
      then show ?thesis by blast
    next
      case 2
      with Cons.IH obtain u v where "s = u @ p @ v" by blast
      then have "c # s = (c # u) @ p @ v" by simp
      then show ?thesis by blast
    qed
  next
    assume "\<exists>u v. c # s = u @ p @ v"
    then obtain u v where uv: "c # s = u @ p @ v" by blast
    show "Contains (c # s) p"
    proof (cases u)
      case Nil
      with uv have "HasPrefix (c # s) p" by simp
      then show ?thesis by simp
    next
      case (Cons d u')
      with uv have "s = u' @ p @ v" by simp
      with \<open>Contains s p \<longleftrightarrow> _\<close> show ?thesis by auto
    qed
  qed
qed

text \<open>\<open>strings.ReplaceAll\<close> of one byte by another, and \<open>strings.Split\<close> at a byte.\<close>

definition replace_char :: "char \<Rightarrow> char \<Rightarrow> string \<Rightarrow> string" where
  "replace_char a b s = map (\<lambda>c. if c = a then b else c) s"

fun split_at_char :: "char \<Rightarrow> string \<Rightarrow> string list" where
  "split_at_char d [] = [[]]"
| "split_at_char d (c # s) =
     (if c = d then [] # split_at_char d s
      else (case split_at_char d s of [] \<Rightarrow> [[c]] | p # ps \<Rightarrow> (c # p) # ps))"

lemma split_at_char_not_Nil: "split_at_char d s \<noteq> []"
  by (induction s) (auto split: list.splits)

lemma split_at_char_no_delim: "p \<in> set (split_at_char d s) \<Longrightarrow> d \<notin> set p"
proof (induction s arbitrary: p)
  case (Cons c s)
  then show ?case
    by (cases "split_at_char d s") (auto split: if_splits)
qed simp

text \<open>
  \<open>strings.TrimSpace\<close> strips the runes of \<open>unicode.IsSpace\<close> on both sides; they are listed
  by their UTF-8 encodings.
\<close>

definition space_runes :: "string list" where
  "space_runes =
     [[CHR 0x09], [CHR 0x0A], [CHR 0x0B], [CHR 0x0C], [CHR 0x0D], [CHR 0x20],
      [CHR 0xC2, CHR 0x85], [CHR 0xC2, CHR 0xA0], [CHR 0xE1, CHR 0x9A, CHR 0x80],
      [CHR 0xE2, CHR 0x80, CHR 0x80], [CHR 0xE2, CHR 0x80, CHR 0x81],
      [CHR 0xE2, CHR 0x80, CHR 0x82], [CHR 0xE2, CHR 0x80, CHR 0x83],
      [CHR 0xE2, CHR 0x80, CHR 0x84], [CHR 0xE2, CHR 0x80, CHR 0x85],
      [CHR 0xE2, CHR 0x80, CHR 0x86], [CHR 0xE2, CHR 0x80, CHR 0x87],
      [CHR 0xE2, CHR 0x80, CHR 0x88], [CHR 0xE2, CHR 0x80, CHR 0x89],
      [CHR 0xE2, CHR 0x80, CHR 0x8A], [CHR 0xE2, CHR 0x80, CHR 0xA8],
      [CHR 0xE2, CHR 0x80, CHR 0xA9], [CHR 0xE2, CHR 0x80, CHR 0xAF],
      [CHR 0xE2, CHR 0x81, CHR 0x9F], [CHR 0xE3, CHR 0x80, CHR 0x80]]"

function strip_front :: "string list \<Rightarrow> string \<Rightarrow> string" where
  "strip_front ws s =
     (case find (\<lambda>w. w \<noteq> [] \<and> HasPrefix s w) ws of
        None \<Rightarrow> s
      | Some w \<Rightarrow> strip_front ws (drop (length w) s))"
  by pat_completeness auto
termination
proof (relation "measure (\<lambda>(ws, s). length s)", goal_cases)
  case (2 ws s w)
  then have "w \<noteq> []" and "take (length w) s = w" by (auto dest: find_SomeD)
  then have "s \<noteq> []" and "0 < length w" by auto
  then show ?case by simp
qed simp

declare strip_front.simps [simp del]

definition TrimSpace :: "string \<Rightarrow> string" where
  "TrimSpace s = rev (strip_front (map rev space_runes) (rev (strip_front space_runes s)))"

lemma TrimSpace_Nil [simp]: "TrimSpace [] = []"
  by (simp add: TrimSpace_def strip_front.simps space_runes_def)

text \<open>
  \<open>strings.ToLower\<close> and \<open>strings.ToUpper\<close>. Their results are only compared with ASCII
  literals: apart from the ASCII letters, the only runes with an ASCII image are the Kelvin
  sign and the dotted capital I (lower case), the dotless i and the long s (upper case).
\<close>

definition lower_char :: "char \<Rightarrow> char" where
  "lower_char c =
     (case map_of (zip ''ABCDEFGHIJKLMNOPQRSTUVWXYZ'' ''abcdefghijklmnopqrstuvwxyz'') c of
        None \<Rightarrow> c | Some d \<Rightarrow> d)"

definition upper_char :: "char \<Rightarrow> char" where
  "upper_char c =
     (case map_of (zip ''abcdefghijklmnopqrstuvwxyz'' ''ABCDEFGHIJKLMNOPQRSTUVWXYZ'') c of
        None \<Rightarrow> c | Some d \<Rightarrow> d)"

fun ToLower :: "string \<Rightarrow> string" where
  "ToLower [] = []"
| "ToLower (c # s) =
     (if c = CHR 0xE2 \<and> HasPrefix s [CHR 0x84, CHR 0xAA] then CHR ''k'' # ToLower (drop 2 s)
      else if c = CHR 0xC4 \<and> HasPrefix s [CHR 0xB0] then CHR ''i'' # ToLower (drop 1 s)
      else lower_char c # ToLower s)"

fun ToUpper :: "string \<Rightarrow> string" where
  "ToUpper [] = []"
| "ToUpper (c # s) =
     (if c = CHR 0xC4 \<and> HasPrefix s [CHR 0xB1] then CHR ''I'' # ToUpper (drop 1 s)
      else if c = CHR 0xC5 \<and> HasPrefix s [CHR 0xBF] then CHR ''S'' # ToUpper (drop 1 s)
      else upper_char c # ToUpper s)"

section \<open>Decimal and hexadecimal printing\<close>

fun show_digits :: "int \<Rightarrow> string" where
  "show_digits i =
     (if i < 10 then [''0123456789'' ! nat i]
      else show_digits (i div 10) @ [''0123456789'' ! nat (i mod 10)])"

declare show_digits.simps [simp del]

definition show_int :: "int \<Rightarrow> string" where
  "show_int i = (if i < 0 then CHR ''-'' # show_digits (- i) else show_digits i)"

definition pad_left :: "nat \<Rightarrow> string \<Rightarrow> string" where
  "pad_left w s = replicate (w - length s) (CHR ''0'') @ s"

definition hex_digit :: "nat \<Rightarrow> char" where
  "hex_digit d = ''0123456789abcdef'' ! d"

definition hex_byte :: "char \<Rightarrow> string" where
  "hex_byte c = [hex_digit (byte c div 16), hex_digit (byte c mod 16)]"

text \<open>\<open>hex.EncodeToString\<close>.\<close>

definition EncodeToString :: "string \<Rightarrow> string" where
  "EncodeToString bs = concat (map hex_byte bs)"

lemma byte_lt: "byte c < 256"
  using of_char_mod_256 [of c] by (metis byte_def mod_less_divisor zero_less_numeral)

lemma byte_inj: "byte a = byte b \<Longrightarrow> a = b"
  by (simp add: byte_def)

lemma hex_digit_inj: "a < 16 \<Longrightarrow> b < 16 \<Longrightarrow> hex_digit a = hex_digit b \<Longrightarrow> a = b"
proof -
  assume ab: "a < 16" "b < 16" and eq: "hex_digit a = hex_digit b"
  have "distinct ''0123456789abcdef''" by simp
  moreover have "a < length ''0123456789abcdef''" and "b < length ''0123456789abcdef''"
    using ab by simp_all
  ultimately show "a = b" using eq unfolding hex_digit_def by (rule nth_eq_iff_index_eq [THEN iffD1])
qed

lemma hex_byte_inj: "hex_byte a = hex_byte b \<Longrightarrow> a = b"
proof -
  assume "hex_byte a = hex_byte b"
  then have "byte a div 16 = byte b div 16" and "byte a mod 16 = byte b mod 16"
    using byte_lt [of a] byte_lt [of b] by (auto simp: hex_byte_def intro: hex_digit_inj)
  then have "byte a = byte b" by (metis div_mult_mod_eq)
  then show "a = b" by (rule byte_inj)
qed

lemma EncodeToString_inj: "EncodeToString a = EncodeToString b \<Longrightarrow> a = b"
proof (induction a arbitrary: b)
  case Nil
  then show ?case by (cases b) (auto simp: EncodeToString_def hex_byte_def)
next
  case (Cons x xs)
  then obtain y ys where b: "b = y # ys"
    by (cases b) (auto simp: EncodeToString_def hex_byte_def)
  with Cons.prems have "hex_byte x = hex_byte y" and "EncodeToString xs = EncodeToString ys"
    by (auto simp: EncodeToString_def hex_byte_def)
  with b show ?case using Cons.IH hex_byte_inj by auto
qed

section \<open>Times\<close>

text \<open>
  A \<open>time.Time\<close> is the number of nanoseconds since 0001-01-01T00:00:00Z, which is Go's zero
  time; a \<open>time.Duration\<close> is a number of nanoseconds. All times of the store are UTC.
\<close>

type_synonym time = int
type_synonym duration = int

definition IsZero :: "time \<Rightarrow> bool" where
  "IsZero t \<longleftrightarrow> t = 0"

definition nanos_per_day :: int where
  "nanos_per_day = 86400 * 1000000000"

text \<open>The first instant of year 10000: \<open>t.Year() > 9999\<close> is \<open>year_10000 \<le> t\<close>.\<close>

definition year_10000 :: time where
  "year_10000 = 3652059 * nanos_per_day"

text \<open>The civil date of a day number counted from 0001-01-01, as \<open>(year, month, day)\<close>.\<close>

definition civil :: "int \<Rightarrow> int \<times> int \<times> int" where
  "civil d =
     (let z = d + 306;
          era = z div 146097;
          doe = z mod 146097;
          yoe = (doe - doe div 1460 + doe div 36524 - doe div 146096) div 365;
          doy = doe - (365 * yoe + yoe div 4 - yoe div 100);
          mp = (5 * doy + 2) div 153;
          dd = doy - (153 * mp + 2) div 5 + 1;
          mm = (if mp < 10 then mp + 3 else mp - 9);
          yy = yoe + era * 400 + (if mm \<le> 2 then 1 else 0)
      in (yy, mm, dd))"

definition drop_trailing_zeros :: "string \<Rightarrow> string" where
  "drop_trailing_zeros s = rev (dropWhile (\<lambda>c. c = CHR ''0'') (rev s))"

text \<open>\<open>t.UTC().Format(time.RFC3339Nano)\<close>.\<close>

definition formatTime :: "time \<Rightarrow> string" where
  "formatTime t =
     (let (y, m, d) = civil (t div nanos_per_day);
          r = t mod nanos_per_day;
          s = r div 1000000000;
          n = r mod 1000000000;
          two = (\<lambda>i. pad_left 2 (show_int i))
      in pad_left 4 (show_int y) @ ''-'' @ two m @ ''-'' @ two d @ ''T'' @
         two (s div 3600) @ '':'' @ two (s div 60 mod 60) @ '':'' @ two (s mod 60) @
         (if n = 0 then [] else CHR ''.'' # drop_trailing_zeros (pad_left 9 (show_int n))) @ ''Z'')"

end
