(* ===== verification/Domain.thy ===== *)
theory Domain
  imports Prelude
begin

text \<open>
  The data model of \<open>internal/domain\<close>. A Go string type with named constants is a datatype
  with the constants as constructors and one constructor for every other string; a struct is
  a record whose fields carry a short prefix for the struct. Pointer fields are options.
\<close>

section \<open>Enumerations\<close>

datatype TaskState =
    StateDraft | StateReady | StateDispatched | StateRunning | StateReportReady
  | StateEvidenceReady | StateReviewing | StateApproved | StateRevisionRequired
  | StateBlocked | StateFailed | StateHumanRequired | StateCancelled
  | OtherTaskState string

fun task_state_string :: "TaskState \<Rightarrow> string" where
  "task_state_string StateDraft = ''DRAFT''"
| "task_state_string StateReady = ''READY''"
| "task_state_string StateDispatched = ''DISPATCHED''"
| "task_state_string StateRunning = ''RUNNING''"
| "task_state_string StateReportReady = ''REPORT_READY''"
| "task_state_string StateEvidenceReady = ''EVIDENCE_READY''"
| "task_state_string StateReviewing = ''REVIEWING''"
| "task_state_string StateApproved = ''APPROVED''"
| "task_state_string StateRevisionRequired = ''REVISION_REQUIRED''"
| "task_state_string StateBlocked = ''BLOCKED''"
| "task_state_string StateFailed = ''FAILED''"
| "task_state_string StateHumanRequired = ''HUMAN_REQUIRED''"
| "task_state_string StateCancelled = ''CANCELLED''"
| "task_state_string (OtherTaskState s) = s"

definition AllTaskStates :: "TaskState list" where
  "AllTaskStates =
     [StateDraft, StateReady, StateDispatched, StateRunning, StateReportReady,
      StateEvidenceReady, StateReviewing, StateApproved, StateRevisionRequired,
      StateBlocked, StateFailed, StateHumanRequired, StateCancelled]"

fun IsValid :: "TaskState \<Rightarrow> bool" where
  "IsValid (OtherTaskState s) = False"
| "IsValid s = True"

definition IsTerminal :: "TaskState \<Rightarrow> bool" where
  "IsTerminal s \<longleftrightarrow> s = StateApproved \<or> s = StateCancelled"

datatype WorkerSessionStatus =
    WorkerSessionActive | WorkerSessionIdle | WorkerSessionTerminated
  | OtherSessionStatus string

datatype QuarantineState = QuarantineClean | QuarantineQuarantined | OtherQuarantine string

datatype PairProvisioningStage =
    ProvisionRequested | ProvisionConfirmed | ProvisionFailed | ProvisionResolved
  | OtherProvisioningStage string

datatype DispatchStage = DispatchBound | SendRequested | SendConfirmed | OtherDispatchStage string

datatype StopPurpose =
    RunningAttemptStop | QuarantineCleanup | PairMaintenance | OtherStopPurpose string

datatype StopStage =
    StopRequested | StopCallSucceeded | StopCallFailed | StopTerminationConfirmed
  | StopTargetAbsent | OtherStopStage string

datatype StopResolutionState =
    StopResolutionInFlight | StopResolutionTerminationConfirmed | StopResolutionTargetAbsent
  | StopResolutionConfirmationTimeout | StopResolutionGenerationMismatch
  | StopResolutionEffectUnprovenAlreadyTerminated | StopResolutionReissueRequiresHuman
  | StopResolutionCallFailed | StopResolutionCallOutcomeUnknown
  | StopResolutionAdministrativeRiskAccepted | OtherStopResolution string

datatype RestoreResolutionState =
    RestoreInFlight | RestoreOutcomeUnknown | RestoreRecoveryClaimed | RestoreCleanupClaimed
  | RestoreResolved

datatype RestoreResolutionBasis =
    RestoreHTTP200Confirmed | PhysicalExecutionResolution | AdministrativeRiskResolution

fun stop_purpose_string :: "StopPurpose \<Rightarrow> string" where
  "stop_purpose_string RunningAttemptStop = ''RUNNING_ATTEMPT_STOP''"
| "stop_purpose_string QuarantineCleanup = ''QUARANTINE_CLEANUP''"
| "stop_purpose_string PairMaintenance = ''PAIR_MAINTENANCE''"
| "stop_purpose_string (OtherStopPurpose s) = s"

fun stop_stage_string :: "StopStage \<Rightarrow> string" where
  "stop_stage_string StopRequested = ''STOP_REQUESTED''"
| "stop_stage_string StopCallSucceeded = ''STOP_CALL_SUCCEEDED''"
| "stop_stage_string StopCallFailed = ''STOP_CALL_FAILED''"
| "stop_stage_string StopTerminationConfirmed = ''STOP_TERMINATION_CONFIRMED''"
| "stop_stage_string StopTargetAbsent = ''STOP_TARGET_ABSENT''"
| "stop_stage_string (OtherStopStage s) = s"

fun stop_resolution_string :: "StopResolutionState \<Rightarrow> string" where
  "stop_resolution_string StopResolutionInFlight = ''IN_FLIGHT''"
| "stop_resolution_string StopResolutionTerminationConfirmed = ''TERMINATION_CONFIRMED''"
| "stop_resolution_string StopResolutionTargetAbsent = ''STOP_TARGET_ABSENT''"
| "stop_resolution_string StopResolutionConfirmationTimeout = ''STOP_CONFIRMATION_TIMEOUT''"
| "stop_resolution_string StopResolutionGenerationMismatch = ''STOP_GENERATION_MISMATCH''"
| "stop_resolution_string StopResolutionEffectUnprovenAlreadyTerminated =
     ''STOP_EFFECT_UNPROVEN_TARGET_ALREADY_TERMINATED''"
| "stop_resolution_string StopResolutionReissueRequiresHuman = ''STOP_REISSUE_REQUIRES_HUMAN''"
| "stop_resolution_string StopResolutionCallFailed = ''STOP_CALL_FAILED''"
| "stop_resolution_string StopResolutionCallOutcomeUnknown = ''STOP_CALL_OUTCOME_UNKNOWN''"
| "stop_resolution_string StopResolutionAdministrativeRiskAccepted =
     ''ADMINISTRATIVE_RISK_ACCEPTED''"
| "stop_resolution_string (OtherStopResolution s) = s"

section \<open>Values of type \<open>any\<close>\<close>

text \<open>
  The dynamic values that the audit details and the verification parameters carry. A map is
  an association list (its keys are distinct in Go); integers of every width are \<open>GInt\<close>, a
  floating-point number is the text JSON prints for it (none for NaN and infinities), a \<open>GReflectMap\<close> is a map type other
  than \<open>map[string]any\<close> (with the flag whether its key kind is string), a \<open>GReflectList\<close> a
  slice or array type other than \<open>[]any\<close>, \<open>GPtr\<close> a pointer (none when nil), \<open>GStruct\<close> a
  struct given by what its JSON marshalling decodes to (none when marshalling fails), and \<open>GUnsupported\<close> a channel or function.
\<close>

datatype goval =
    GNil | GBytes string | GString string | GNumber string | GBool bool | GInt int
  | GFloat "string option" | GMap "(string \<times> goval) list" | GList "goval list"
  | GReflectMap bool "(string \<times> goval) list" | GReflectList "goval list"
  | GPtr "goval option" | GStruct "goval option" | GUnsupported

section \<open>Entities\<close>

text \<open>A Go slice: none is the nil slice, which ranges like the empty one but differs from it.\<close>

type_synonym 'a slice = "'a list option"

definition elements :: "'a slice \<Rightarrow> 'a list" where
  "elements x = (case x of None \<Rightarrow> [] | Some xs \<Rightarrow> xs)"

record Project =
  p_ProjectID :: string
  p_Name :: string
  p_RootPath :: string
  p_RepoURL :: string
  p_RegisteredAt :: time

record Pair =
  pr_PairID :: string
  pr_ProjectID :: string
  pr_CurrentPhaseID :: string
  pr_ActiveTaskID :: string
  pr_State :: string
  pr_CreatedAt :: time

record Task =
  t_TaskID :: string
  t_PhaseID :: string
  t_PairID :: string
  t_State :: TaskState
  t_CurrentAttempt :: int
  t_CreatedAt :: time
  t_UpdatedAt :: time

record VerificationRequest =
  vr_ID :: string
  vr_ProfileID :: string
  vr_Parameters :: "(string \<times> goval) list option"
  vr_Cwd :: string
  vr_TimeoutSeconds :: int

record TaskContract =
  c_ContractID :: string
  c_TaskID :: string
  c_RevisionNumber :: int
  c_SupersedesContractID :: "string option"
  c_PhaseID :: string
  c_Objective :: string
  c_Requirements :: "string slice"
  c_ArchitectureRefs :: "string slice"
  c_BaseSHA :: string
  c_AllowedScope :: "string slice"
  c_ForbiddenScope :: "string slice"
  c_Constraints :: "string slice"
  c_AcceptanceCriteria :: "string slice"
  c_VerificationRequests :: "VerificationRequest slice"
  c_RequiredEvidence :: "string slice"
  c_WorkerProfile :: string
  c_ReportContract :: string
  c_StopConditions :: "string slice"
  c_IsImmutable :: bool

record TaskAttempt =
  a_AttemptID :: string
  a_AttemptNumber :: int
  a_TaskID :: string
  a_ContractID :: string
  a_ExpectedReportPath :: string
  a_StartedAt :: time
  a_EndedAt :: "time option"
  a_WorkerReportRaw :: "string option"
  a_SessionID :: "string option"
  a_TerminalGeneration :: "string option"
  a_RecoveryDisposition :: "string option"
  a_QuarantineState :: QuarantineState

record AuditEvent =
  e_EventID :: string
  e_EventType :: string
  e_Timestamp :: time
  e_TaskID :: string
  e_ContractID :: string
  e_AttemptID :: string
  e_PairID :: string
  e_Actor :: string
  e_Details :: "(string \<times> goval) list"

section \<open>Session lifecycle\<close>

record WorkerSession =
  w_PairID :: string
  w_SessionID :: string
  w_RuntimeType :: string
  w_WorktreePath :: "string option"
  w_WorkerAgentID :: string
  w_Status :: WorkerSessionStatus
  w_TerminalGeneration :: string
  w_QuarantineState :: QuarantineState
  w_CreatedAt :: time
  w_UpdatedAt :: time

record PairProvisioningOperation =
  pv_OperationID :: string
  pv_PairID :: string
  pv_Stage :: PairProvisioningStage
  pv_ClientToken :: string
  pv_SessionID :: "string option"
  pv_RequestedAt :: time
  pv_CompletedAt :: "time option"
  pv_ResolvedAt :: "time option"
  pv_ResolvedBy :: "string option"
  pv_ResolutionNotes :: "string option"

record DispatchOperation =
  d_OperationID :: string
  d_AttemptID :: string
  d_PairID :: string
  d_TaskID :: string
  d_SessionID :: string
  d_TerminalGeneration :: string
  d_Stage :: DispatchStage
  d_RequestedAt :: time
  d_ConfirmedAt :: "time option"
  d_ResolutionState :: "string option"

record StopOperation =
  st_OperationID :: string
  st_Purpose :: StopPurpose
  st_PairID :: string
  st_TaskID :: "string option"
  st_ContractID :: "string option"
  st_AttemptID :: "string option"
  st_SessionID :: string
  st_TerminalGeneration :: string
  st_Stage :: StopStage
  st_Actor :: string
  st_RequestedAt :: time
  st_CallCompletedAt :: "time option"
  st_ConfirmationDeadlineAt :: "time option"
  st_TerminationConfirmedAt :: "time option"
  st_ResolvedAt :: "time option"
  st_ResolutionState :: StopResolutionState
  st_RestoreOperationID :: "string option"
  st_RestorePrincipal :: "string option"
  st_InitiatingFailureReason :: "string option"

record RestoreAuthorization =
  ra_AuthorizationID :: string
  ra_OperationID :: string
  ra_PairID :: string
  ra_SessionID :: string
  ra_ExpectedGeneration :: string
  ra_RiskScope :: string
  ra_AuthorizedPrincipal :: string
  ra_AuthorizationEventID :: string
  ra_IssuedAt :: time
  ra_ConsumedAt :: "time option"
  ra_ConsumedByOperationID :: "string option"

record PairRestoreOperation =
  ro_OperationID :: string
  ro_AuthorizationID :: string
  ro_PairID :: string
  ro_SessionID :: string
  ro_ExpectedGeneration :: string
  ro_ObservedGeneration :: "string option"
  ro_RestoreMode :: "string option"
  ro_Stage :: string
  ro_ResolutionState :: RestoreResolutionState
  ro_ResolutionBasis :: "RestoreResolutionBasis option"
  ro_RecoveryPrincipal :: "string option"
  ro_RecoveryClaimedAt :: "time option"
  ro_RequestedAt :: time
  ro_HTTP200At :: "time option"
  ro_ResolvedAt :: "time option"
  ro_ResolutionEventID :: "string option"
  ro_Version :: int

record ExecutionBudget =
  b_AttemptID :: string
  b_DispatchOperationID :: string
  b_OriginAt :: time
  b_DeadlineAt :: time
  b_Duration :: duration
  b_PolicyRef :: string
  b_BindingBasis :: string
  b_AuthorizedPrincipal :: "string option"
  b_EvidenceRef :: "string option"
  b_BoundAt :: time

record ExecutionBudgetPolicy =
  bp_Duration :: duration
  bp_PolicyRef :: string

text \<open>
  The constants of the enumeration are pairwise different strings, so the datatype and the
  string column determine each other on the canonical values.
\<close>

lemma IsValid_iff: "IsValid s \<longleftrightarrow> s \<in> set AllTaskStates"
  by (cases s) (auto simp: AllTaskStates_def)

lemma task_state_string_inj:
  "IsValid s \<Longrightarrow> IsValid t \<Longrightarrow> task_state_string s = task_state_string t \<Longrightarrow> s = t"
  by (cases s; cases t) simp_all

end
