(* ===== verification/Contract.thy ===== *)
theory Contract
  imports Domain
begin

text \<open>
  The semantic validation of task contracts in \<open>internal/contract\<close>: revision lineage and
  immutability (\<open>revision.go\<close>) and the lexical policy for scope patterns (\<open>path_policy.go\<close>).
  A validation error is known by its category.
\<close>

datatype category =
    SCHEMA | LINEAGE | IMMUTABILITY | VERIFICATION_PROFILE | PATH_CONTAINMENT | SCOPE_PATTERN

datatype validation_error = ValidationError (Category: category)

section \<open>Deep equality\<close>

text \<open>
  \<open>reflect.DeepEqual\<close> on dynamic values: maps are compared by key, slices by position.
\<close>

function deep_equal :: "goval \<Rightarrow> goval \<Rightarrow> bool" where
  "deep_equal (GMap xs) w =
     (case w of
        GMap ys \<Rightarrow> length xs = length ys \<and>
          list_all (\<lambda>kv. case map_of ys (fst kv) of None \<Rightarrow> False | Some v \<Rightarrow> deep_equal (snd kv) v) xs
      | _ \<Rightarrow> False)"
| "deep_equal (GList xs) w =
     (case w of
        GList ys \<Rightarrow> length xs = length ys \<and> list_all (\<lambda>p. deep_equal (fst p) (snd p)) (zip xs ys)
      | _ \<Rightarrow> False)"
| "\<not> (\<exists>xs. v = GMap xs) \<Longrightarrow> \<not> (\<exists>xs. v = GList xs) \<Longrightarrow> deep_equal v w = (v = w)"
  by (atomize_elim) auto
termination
proof (relation "measure (\<lambda>(v, w). size v)", goal_cases)
  case (2 xs w ys kv v)
  then have "size (snd kv) \<le> size_list (size_prod (\<lambda>x. 0) size) xs"
    by (intro size_list_estimation' [of kv]) (simp, cases kv, simp)
  then show ?case by simp
next
  case (3 xs w ys p)
  then have "fst p \<in> set xs" by (metis prod.collapse set_zip_leftD)
  then have "size (fst p) \<le> size_list size xs" by (intro size_list_estimation' [of "fst p"]) simp_all
  then show ?case by (cases p) simp
qed simp

definition parameters_equal ::
  "(string \<times> goval) list option \<Rightarrow> (string \<times> goval) list option \<Rightarrow> bool" where
  "parameters_equal p q =
     (case p of
        None \<Rightarrow> q = None
      | Some xs \<Rightarrow> (case q of None \<Rightarrow> False | Some ys \<Rightarrow> deep_equal (GMap xs) (GMap ys)))"

definition request_equal :: "VerificationRequest \<Rightarrow> VerificationRequest \<Rightarrow> bool" where
  "request_equal r q \<longleftrightarrow>
     vr_ID r = vr_ID q \<and> vr_ProfileID r = vr_ProfileID q \<and> vr_Cwd r = vr_Cwd q \<and>
     vr_TimeoutSeconds r = vr_TimeoutSeconds q \<and>
     parameters_equal (vr_Parameters r) (vr_Parameters q)"

definition slice_equal :: "('a \<Rightarrow> 'a \<Rightarrow> bool) \<Rightarrow> 'a slice \<Rightarrow> 'a slice \<Rightarrow> bool" where
  "slice_equal eq x y =
     (case x of
        None \<Rightarrow> y = None
      | Some xs \<Rightarrow> (case y of None \<Rightarrow> False | Some ys \<Rightarrow> list_all2 eq xs ys))"

section \<open>Revisions\<close>

definition ValidateRevisionLineage ::
  "TaskContract option \<Rightarrow> TaskContract option \<Rightarrow> validation_error + unit" where
  "ValidateRevisionLineage cur prev =
     (let bad = Inl (ValidationError LINEAGE)
      in case cur of
           None \<Rightarrow> bad
         | Some current \<Rightarrow>
             if c_RevisionNumber current \<le> 0 then bad
             else if c_RevisionNumber current = 1 then
               (if c_SupersedesContractID current \<noteq> None then bad
                else if prev \<noteq> None then bad
                else Inr ())
             else case prev of
               None \<Rightarrow> bad
             | Some previous \<Rightarrow>
                 if c_TaskID current \<noteq> c_TaskID previous then bad
                 else if c_ContractID current = c_ContractID previous then bad
                 else if c_RevisionNumber current \<noteq> c_RevisionNumber previous + 1 then bad
                 else if c_SupersedesContractID current = None then bad
                 else if c_SupersedesContractID current \<noteq> Some (c_ContractID previous) then bad
                 else if c_BaseSHA current \<noteq> c_BaseSHA previous then bad
                 else Inr ())"

definition specification_equal :: "TaskContract \<Rightarrow> TaskContract \<Rightarrow> bool" where
  "specification_equal original candidate \<longleftrightarrow>
     c_SupersedesContractID original = c_SupersedesContractID candidate \<and>
     c_TaskID original = c_TaskID candidate \<and>
     c_RevisionNumber original = c_RevisionNumber candidate \<and>
     c_PhaseID original = c_PhaseID candidate \<and>
     c_Objective original = c_Objective candidate \<and>
     c_BaseSHA original = c_BaseSHA candidate \<and>
     c_WorkerProfile original = c_WorkerProfile candidate \<and>
     c_ReportContract original = c_ReportContract candidate \<and>
     c_Requirements original = c_Requirements candidate \<and>
     c_ArchitectureRefs original = c_ArchitectureRefs candidate \<and>
     c_AllowedScope original = c_AllowedScope candidate \<and>
     c_ForbiddenScope original = c_ForbiddenScope candidate \<and>
     c_Constraints original = c_Constraints candidate \<and>
     c_AcceptanceCriteria original = c_AcceptanceCriteria candidate \<and>
     slice_equal request_equal (c_VerificationRequests original) (c_VerificationRequests candidate) \<and>
     c_RequiredEvidence original = c_RequiredEvidence candidate \<and>
     c_StopConditions original = c_StopConditions candidate"

definition ValidateImmutability ::
  "TaskContract option \<Rightarrow> TaskContract option \<Rightarrow> validation_error + unit" where
  "ValidateImmutability original candidate =
     (case (original, candidate) of
        (Some old, Some new) \<Rightarrow>
          if c_ContractID old \<noteq> c_ContractID new then Inr ()
          else if \<not> c_IsImmutable old then Inr ()
          else if \<not> specification_equal old new then Inl (ValidationError IMMUTABILITY)
          else Inr ()
      | _ \<Rightarrow> Inr ())"

section \<open>Scope patterns\<close>

text \<open>
  The loop over the patterns. \<open>volumeName\<close> is \<open>filepath.VolumeName\<close> of the platform.
\<close>

definition scope_pattern_ok :: "(string \<Rightarrow> string) \<Rightarrow> string \<Rightarrow> bool" where
  "scope_pattern_ok volumeName pattern =
     (if pattern \<noteq> TrimSpace pattern then False
      else if length pattern = 0 then False
      else if HasPrefix pattern ''/'' \<or> HasPrefix pattern [CHR 0x5C] then False
      else if 2 \<le> length pattern \<and> pattern ! 1 = CHR '':'' then False
      else if volumeName pattern \<noteq> [] then False
      else if HasPrefix pattern [CHR 0x5C, CHR 0x5C] \<or> HasPrefix pattern ''//'' then False
      else if HasPrefix pattern [CHR 0x5C, CHR 0x5C, CHR ''?'', CHR 0x5C] \<or>
        HasPrefix pattern [CHR 0x5C, CHR ''?'', CHR ''?'', CHR 0x5C] then False
      else let norm = replace_char (CHR 0x5C) (CHR ''/'') pattern;
               parts = split_at_char (CHR ''/'') norm
           in \<not> list_ex (\<lambda>part. part = ''..'') parts)"

fun ValidateScopePatterns :: "(string \<Rightarrow> string) \<Rightarrow> string list \<Rightarrow> validation_error + unit" where
  "ValidateScopePatterns volumeName [] = Inr ()"
| "ValidateScopePatterns volumeName (pattern # rest) =
     (if scope_pattern_ok volumeName pattern then ValidateScopePatterns volumeName rest
      else Inl (ValidationError SCOPE_PATTERN))"

lemma ValidateScopePatterns_ok [result_simps]:
  "ValidateScopePatterns v ps = Inr u \<longleftrightarrow> (\<forall>p\<in>set ps. scope_pattern_ok v p)"
  by (induction ps) auto

section \<open>Properties\<close>

lemma ValidateRevisionLineage_later:
  "ValidateRevisionLineage (Some c) (Some p) = Inr u \<longleftrightarrow>
     1 < c_RevisionNumber c \<and> c_TaskID c = c_TaskID p \<and> c_ContractID c \<noteq> c_ContractID p \<and>
     c_RevisionNumber c = c_RevisionNumber p + 1 \<and>
     c_SupersedesContractID c = Some (c_ContractID p) \<and> c_BaseSHA c = c_BaseSHA p"
  by (auto simp: ValidateRevisionLineage_def Let_def)

lemma ValidateRevisionLineage_first:
  "ValidateRevisionLineage (Some c) None = Inr u \<longleftrightarrow>
     c_RevisionNumber c = 1 \<and> c_SupersedesContractID c = None"
  by (auto simp: ValidateRevisionLineage_def Let_def)

text \<open>A chain of contracts, newest first, in which every link is an accepted revision.\<close>

fun accepted_chain :: "TaskContract list \<Rightarrow> bool" where
  "accepted_chain [] = True"
| "accepted_chain [c] \<longleftrightarrow> ValidateRevisionLineage (Some c) None = Inr ()"
| "accepted_chain (c # p # ps) \<longleftrightarrow>
     ValidateRevisionLineage (Some c) (Some p) = Inr () \<and> accepted_chain (p # ps)"

lemma accepted_chain_revision:
  "accepted_chain (c # ps) \<Longrightarrow> c_RevisionNumber c = int (length (c # ps))"
  by (induction "c # ps" arbitrary: c ps rule: accepted_chain.induct)
    (auto simp: ValidateRevisionLineage_later ValidateRevisionLineage_first)

lemma accepted_chain_same:
  "accepted_chain (c # ps) \<Longrightarrow> p \<in> set ps \<Longrightarrow>
     c_TaskID p = c_TaskID c \<and> c_BaseSHA p = c_BaseSHA c \<and> c_RevisionNumber p < c_RevisionNumber c"
  by (induction "c # ps" arbitrary: c ps rule: accepted_chain.induct)
    (fastforce simp: ValidateRevisionLineage_later)+

text \<open>
  An unbroken chain of accepted revisions is numbered from 1 upwards without a gap, and all
  its contracts belong to one task and one base commit.
\<close>

theorem revision_chain_sound:
  assumes "accepted_chain cs"
  shows "map c_RevisionNumber (rev cs) = map (\<lambda>i. int i + 1) [0..<length cs] \<and>
    (\<forall>c\<in>set cs. \<forall>d\<in>set cs. c_TaskID c = c_TaskID d \<and> c_BaseSHA c = c_BaseSHA d)"
  using assms
proof (induction cs)
  case (Cons c ps)
  have tail: "accepted_chain ps" using Cons.prems by (cases ps) auto
  have "c_RevisionNumber c = int (length ps) + 1"
    using accepted_chain_revision [OF Cons.prems] by simp
  moreover have "\<forall>p\<in>set ps. c_TaskID p = c_TaskID c \<and> c_BaseSHA p = c_BaseSHA c"
    using accepted_chain_same [OF Cons.prems] by blast
  ultimately have rev_c: "c_RevisionNumber c = int (length ps) + 1"
    and ps: "\<forall>p\<in>set ps. c_TaskID p = c_TaskID c \<and> c_BaseSHA p = c_BaseSHA c" .
  have same: "\<forall>x\<in>set (c # ps). c_TaskID x = c_TaskID c \<and> c_BaseSHA x = c_BaseSHA c"
    using ps by simp
  have nums: "map c_RevisionNumber (rev (c # ps)) = map (\<lambda>i. int i + 1) [0..<length (c # ps)]"
    using rev_c Cons.IH [OF tail, THEN conjunct1] by simp
  have "c_TaskID x = c_TaskID y \<and> c_BaseSHA x = c_BaseSHA y"
    if "x \<in> set (c # ps)" "y \<in> set (c # ps)" for x y
    using bspec [OF same that(1)] bspec [OF same that(2)] by simp
  with nums show ?case by blast
qed simp

definition sample_contract :: "string \<Rightarrow> int \<Rightarrow> string option \<Rightarrow> TaskContract" where
  "sample_contract cid n old =
     \<lparr>c_ContractID = cid, c_TaskID = ''task-1'', c_RevisionNumber = n, c_SupersedesContractID = old,
      c_PhaseID = ''P01'', c_Objective = ''build'', c_Requirements = None, c_ArchitectureRefs = None,
      c_BaseSHA = ''abc'', c_AllowedScope = Some [''src/**''], c_ForbiddenScope = None,
      c_Constraints = None, c_AcceptanceCriteria = None, c_VerificationRequests = None,
      c_RequiredEvidence = None, c_WorkerProfile = ''codex'', c_ReportContract = ''v1'',
      c_StopConditions = None, c_IsImmutable = False\<rparr>"

theorem revision_chain_sound_witness:
  "map c_RevisionNumber (rev [sample_contract ''c2'' 2 (Some ''c1''), sample_contract ''c1'' 1 None]) =
     [1, 2]"
proof -
  have "accepted_chain [sample_contract ''c2'' 2 (Some ''c1''), sample_contract ''c1'' 1 None]"
    by (simp add: sample_contract_def ValidateRevisionLineage_def)
  from revision_chain_sound [OF this] show ?thesis by (simp add: sample_contract_def)
qed

text \<open>
  An accepted scope pattern stays below the worktree on every platform: it is neither rooted
  nor drive-qualified, and no component of it, whichever of the two separators delimits it, is the
  parent directory.
\<close>

theorem scope_patterns_contained:
  assumes "ValidateScopePatterns v ps = Inr ()" and "p \<in> set ps"
  shows "p \<noteq> [] \<and> hd p \<noteq> CHR ''/'' \<and> hd p \<noteq> CHR 0x5C \<and> (1 < length p \<longrightarrow> p ! 1 \<noteq> CHR '':'') \<and>
    ''..'' \<notin> set (split_at_char (CHR ''/'') (replace_char (CHR 0x5C) (CHR ''/'') p))"
proof -
  have ok: "scope_pattern_ok v p" using assms by (simp add: result_simps)
  then have "p \<noteq> []" by (auto simp: scope_pattern_ok_def)
  then obtain c q where "p = c # q" by (cases p) auto
  with ok show ?thesis
    by (cases q) (auto simp: scope_pattern_ok_def Let_def list_ex_iff split: if_splits)
qed

theorem scope_patterns_contained_witness:
  "''..'' \<notin> set (split_at_char (CHR ''/'') (replace_char (CHR 0x5C) (CHR ''/'') ''src/**''))"
proof -
  have "ValidateScopePatterns (\<lambda>_. []) [''src/**''] = Inr ()" by code_simp
  from scope_patterns_contained [OF this, of "''src/**''"] show ?thesis by simp
qed

text \<open>
  A validated successor never alters a frozen contract: whatever passes the lineage check against
  its predecessor has another identity, so the immutability check that follows it passes too.
\<close>

lemma lineage_implies_immutability:
  "ValidateRevisionLineage (Some c) (Some p) = Inr () \<Longrightarrow>
     ValidateImmutability (Some p) (Some c) = Inr ()"
  by (auto simp: ValidateRevisionLineage_later ValidateImmutability_def)

end
