(* ===== verification/Contract_Validator.thy ===== *)
theory Contract_Validator
  imports Contract Complex_Main
begin

text \<open>
  The validator of \<open>internal/contract\<close>: the exact projection of JSON numbers (\<open>schema.go\<close>), the
  containment of a working directory (\<open>path_policy.go\<close>) and the validation of a whole contract
  (\<open>validator.go\<close>). The JSON Schema library and the JSON codec are one parameter, the file system and
  the path functions of the platform another.
\<close>

section \<open>Numbers\<close>

text \<open>
  The decimal mantissa and exponent of a number token, as a JSON decoder delivers it; a token of any
  other form is invalid.
\<close>

definition is_digit :: "char \<Rightarrow> bool" where
  "is_digit c \<longleftrightarrow> 48 \<le> byte c \<and> byte c \<le> 57"

definition digits_value :: "string \<Rightarrow> nat" where
  "digits_value ds = foldl (\<lambda>n c. 10 * n + (byte c - 48)) 0 ds"

definition exponent_value :: "string \<Rightarrow> int option" where
  "exponent_value t =
     (let (neg, ds) = (if HasPrefix t ''-'' then (True, tl t) else if HasPrefix t ''+'' then (False, tl t) else (False, t));
          n = int (digits_value ds);
          x = (if neg then - n else n) in
      if ds = [] \<or> \<not> list_all is_digit ds \<or> x < - (2 ^ 63) \<or> 2 ^ 63 \<le> x then None else Some x)"

definition decimal :: "string \<Rightarrow> (int \<times> int) option" where
  "decimal s =
     (let (neg, s1) = (if HasPrefix s ''-'' then (True, tl s) else (False, s));
          ip = takeWhile is_digit s1; s2 = dropWhile is_digit s1;
          fp = (if HasPrefix s2 ''.'' then takeWhile is_digit (tl s2) else []);
          s3 = (if HasPrefix s2 ''.'' then dropWhile is_digit (tl s2) else s2);
          m = int (digits_value (ip @ fp));
          x = (if s3 = [] then Some 0
               else if HasPrefix s3 ''e'' \<or> HasPrefix s3 ''E'' then exponent_value (tl s3) else None) in
      if ip = [] \<or> (HasPrefix s2 ''.'' \<and> fp = []) then None
      else map_option (\<lambda>x. (if neg then - m else m, x - int (length fp))) x)"

text \<open>
  \<open>big.Rat.SetString\<close>: the fraction in lowest terms; exponents beyond a million are refused, unless the
  mantissa is zero.
\<close>

definition rat_of :: "string \<Rightarrow> (int \<times> int) option" where
  "rat_of s =
     (case decimal s of
        None \<Rightarrow> None
      | Some (m, x) \<Rightarrow>
          if m = 0 then Some (0, 1)
          else if 10 ^ 6 < \<bar>x\<bar> then None
          else if 0 \<le> x then Some (m * 10 ^ nat x, 1)
          else let d = 10 ^ nat (- x); g = gcd m d in Some (m div g, d div g))"

text \<open>The values that the schema library can classify; a float is a numerator over a power of two.\<close>

datatype projected =
    PInt int
  | PFloat int nat
  | PMap "(string \<times> projected) list"
  | PList "projected list"
  | POther goval

fun twos :: "nat \<Rightarrow> nat" where
  "twos d = (if 0 < d \<and> even d then Suc (twos (d div 2)) else 0)"

declare twos.simps [simp del]

text \<open>
  The float nearest to a fraction in lowest terms is the fraction itself if the denominator is a
  power of two in the range of the type and the numerator has at most 53 bits.
\<close>

definition exact_float64 :: "int \<Rightarrow> int \<Rightarrow> bool" where
  "exact_float64 n d \<longleftrightarrow> d = 2 ^ twos (nat d) \<and> twos (nat d) \<le> 1074 \<and> \<bar>n\<bar> < 2 ^ 53"

definition projectNumber :: "string \<Rightarrow> projected option" where
  "projectNumber s =
     (case rat_of s of
        None \<Rightarrow> None
      | Some (n, d) \<Rightarrow>
          if d = 1 then
            (if - (2 ^ 63) \<le> n \<and> n < 2 ^ 63 then Some (PInt n)
             else if 0 \<le> n \<and> n < 2 ^ 64 then Some (PInt n)
             else None)
          else if exact_float64 n d then Some (PFloat n (twos (nat d)))
          else None)"

fun projectForValidator :: "goval \<Rightarrow> projected option"
  and project_entries :: "(string \<times> goval) list \<Rightarrow> (string \<times> projected) list option"
  and project_items :: "goval list \<Rightarrow> projected list option" where
  "projectForValidator (GNumber s) = projectNumber s"
| "projectForValidator (GMap kvs) = map_option PMap (project_entries kvs)"
| "projectForValidator (GList xs) = map_option PList (project_items xs)"
| "projectForValidator v = Some (POther v)"
| "project_entries [] = Some []"
| "project_entries ((k, v) # kvs) =
     Option.bind (projectForValidator v) (\<lambda>p. map_option (\<lambda>ps. (k, p) # ps) (project_entries kvs))"
| "project_items [] = Some []"
| "project_items (v # vs) =
     Option.bind (projectForValidator v) (\<lambda>p. map_option (\<lambda>ps. p # ps) (project_items vs))"

section \<open>Schemas\<close>

type_synonym schema = "projected \<Rightarrow> bool"

record library =
  lb_marshal :: "(string \<times> goval) list \<Rightarrow> string option"
  lb_resolve :: "string \<Rightarrow> schema option"
  lb_decode :: "string \<Rightarrow> (goval \<times> bool) option"
  lb_decode_contract :: "string \<Rightarrow> (TaskContract \<times> bool) option"

definition CompileSchema :: "library \<Rightarrow> string \<Rightarrow> schema option" where
  "CompileSchema lb schemaBytes = (if schemaBytes = [] then None else lb_resolve lb schemaBytes)"

text \<open>No schema is a nil validator without an error.\<close>

definition CompileProfileSchema :: "library \<Rightarrow> (string \<times> goval) list \<Rightarrow> schema option option" where
  "CompileProfileSchema lb paramSchema =
     (if paramSchema = [] then Some None
      else Option.bind (lb_marshal lb paramSchema) (\<lambda>b. map_option Some (CompileSchema lb b)))"

text \<open>The second member of a decoded value tells whether the input ends after it.\<close>

definition ParseAndValidateRaw :: "library \<Rightarrow> string \<Rightarrow> schema option \<Rightarrow> validation_error + goval" where
  "ParseAndValidateRaw lb rawJSON resolved =
     (let bad = Inl (ValidationError SCHEMA) in
      if rawJSON = [] then bad
      else case resolved of
        None \<Rightarrow> bad
      | Some sch \<Rightarrow>
          (case lb_decode lb rawJSON of
             None \<Rightarrow> bad
           | Some (v, eof) \<Rightarrow>
               if \<not> eof then bad
               else case projectForValidator v of
                 None \<Rightarrow> bad
               | Some p \<Rightarrow> if sch p then Inr v else bad))"

section \<open>Working directories\<close>

datatype lstat = LstatOk | LstatNotExist | LstatError

record filesystem =
  fs_Abs :: "string \<Rightarrow> string option"
  fs_Stat :: "string \<Rightarrow> bool option"
  fs_Lstat :: "string \<Rightarrow> lstat"
  fs_EvalSymlinks :: "string \<Rightarrow> string option"
  fp_Clean :: "string \<Rightarrow> string"
  fp_Join :: "string \<Rightarrow> string \<Rightarrow> string"
  fp_FromSlash :: "string \<Rightarrow> string"
  fp_ToSlash :: "string \<Rightarrow> string"
  fp_VolumeName :: "string \<Rightarrow> string"
  fp_Rel :: "string \<Rightarrow> string \<Rightarrow> string option"
  fp_EqualFold :: "string \<Rightarrow> string \<Rightarrow> bool"
  fp_Separator :: char

definition device_prefix :: string where
  "device_prefix = [CHR 0x5C, CHR 0x5C, CHR ''?'', CHR 0x5C]"

definition TrimPrefix :: "string \<Rightarrow> string \<Rightarrow> string" where
  "TrimPrefix s pre = (if HasPrefix s pre then drop (length pre) s else s)"

definition isWithinRoot :: "filesystem \<Rightarrow> string \<Rightarrow> string \<Rightarrow> bool" where
  "isWithinRoot fs target rootDir =
     (let targetClean = TrimPrefix (fp_Clean fs target) device_prefix;
          rootClean = TrimPrefix (fp_Clean fs rootDir) device_prefix in
      if fp_EqualFold fs targetClean rootClean then True
      else case fp_Rel fs rootClean targetClean of
        None \<Rightarrow> False
      | Some rel \<Rightarrow>
          let relClean = fp_Clean fs rel in
          if relClean = ''.'' then True
          else \<not> (relClean = ''..'' \<or> HasPrefix relClean (''..'' @ [fp_Separator fs]) \<or> HasPrefix relClean ''../''))"

definition path_error :: "validation_error + 'a" where
  "path_error = Inl (ValidationError PATH_CONTAINMENT)"

text \<open>The trusted root: absolute, existing, a directory, resolved, and a directory again.\<close>

definition canonical_root :: "filesystem \<Rightarrow> string \<Rightarrow> validation_error + string" where
  "canonical_root fs worktreeRoot =
     (if TrimSpace worktreeRoot = [] then path_error
      else case fs_Abs fs worktreeRoot of
        None \<Rightarrow> path_error
      | Some absRoot \<Rightarrow>
          let cleanRoot = fp_Clean fs absRoot in
          if fs_Stat fs cleanRoot \<noteq> Some True then path_error
          else case fs_EvalSymlinks fs cleanRoot of
            None \<Rightarrow> path_error
          | Some realRoot \<Rightarrow>
              let canonicalRealRoot = fp_Clean fs realRoot in
              if fs_Stat fs canonicalRealRoot \<noteq> Some True then path_error
              else Inr canonicalRealRoot)"

text \<open>
  The walk over the components from the root. The first one that does not exist ends it; every one
  that exists is resolved, must lie within the root, and must be a directory unless it is the last.
\<close>

fun walk_components :: "filesystem \<Rightarrow> string \<Rightarrow> string \<Rightarrow> string list \<Rightarrow> validation_error + unit" where
  "walk_components fs rootDir current [] = Inr ()"
| "walk_components fs rootDir current (component # rest) =
     (if component = [] \<or> component = ''.'' then walk_components fs rootDir current rest
      else let nextPath = fp_Join fs current (fp_FromSlash fs component) in
        case fs_Lstat fs nextPath of
          LstatNotExist \<Rightarrow> Inr ()
        | LstatError \<Rightarrow> path_error
        | LstatOk \<Rightarrow>
            (case fs_EvalSymlinks fs nextPath of
               None \<Rightarrow> path_error
             | Some realNext \<Rightarrow>
                 if \<not> isWithinRoot fs realNext rootDir then path_error
                 else if rest \<noteq> [] \<and> fs_Stat fs realNext \<noteq> Some True then path_error
                 else walk_components fs rootDir realNext rest))"

definition forbidden_cwd :: "filesystem \<Rightarrow> string \<Rightarrow> bool" where
  "forbidden_cwd fs cwd \<longleftrightarrow>
     cwd \<noteq> TrimSpace cwd \<or>
     HasPrefix cwd ''/'' \<or> HasPrefix cwd [CHR 0x5C] \<or>
     (2 \<le> length cwd \<and> cwd ! 1 = CHR '':'') \<or>
     fp_VolumeName fs cwd \<noteq> [] \<or>
     HasPrefix cwd [CHR 0x5C, CHR 0x5C] \<or> HasPrefix cwd ''//'' \<or>
     HasPrefix cwd device_prefix \<or> HasPrefix cwd [CHR 0x5C, CHR ''?'', CHR ''?'', CHR 0x5C]"

definition canonical_slash :: "filesystem \<Rightarrow> string \<Rightarrow> string" where
  "canonical_slash fs cwd =
     fp_ToSlash fs (fp_Clean fs (fp_FromSlash fs (replace_char (CHR 0x5C) (CHR ''/'') cwd)))"

definition parent_traversal :: "string \<Rightarrow> bool" where
  "parent_traversal p \<longleftrightarrow> p = ''..'' \<or> HasPrefix p ''../'' \<or> Contains p ''/../''"

definition ValidateCwdContainment :: "filesystem \<Rightarrow> string \<Rightarrow> string \<Rightarrow> string \<Rightarrow> validation_error + unit" where
  "ValidateCwdContainment fs cwd worktreeRoot cwdPolicy0 =
     bindE (canonical_root fs worktreeRoot) (\<lambda>rootDir.
     let cwdPolicy = (if cwdPolicy0 = [] then ''worktree_root'' else cwdPolicy0);
         slash = canonical_slash fs cwd in
     if cwdPolicy \<noteq> ''worktree_root'' \<and> cwdPolicy \<noteq> ''worktree_contained'' then path_error
     else if forbidden_cwd fs cwd then path_error
     else if parent_traversal slash then path_error
     else if cwdPolicy = ''worktree_root'' then
       (if slash \<noteq> ''.'' \<and> slash \<noteq> [] then path_error else Inr ())
     else if slash = ''.'' \<or> slash = [] then Inr ()
     else if \<not> isWithinRoot fs (fp_Join fs rootDir (fp_FromSlash fs slash)) rootDir then path_error
     else walk_components fs rootDir rootDir (split_at_char (CHR ''/'') slash))"

section \<open>Contracts\<close>

record VerificationProfilePolicy =
  vp_ProfileID :: string
  vp_ParameterSchema :: "(string \<times> goval) list option"
  vp_CwdPolicy :: string
  vp_MaxTimeoutSeconds :: int
  vp_AllowedCapabilities :: "string list"

record TaskContractValidator =
  tv_canonicalSchema :: "schema option"
  tv_catalog :: "(string \<Rightarrow> VerificationProfilePolicy option) option"

definition NewValidator ::
  "library \<Rightarrow> string \<Rightarrow> (string \<Rightarrow> VerificationProfilePolicy option) option \<Rightarrow> TaskContractValidator option" where
  "NewValidator lb canonicalSchemaBytes catalog =
     (if canonicalSchemaBytes = [] then None
      else map_option (\<lambda>sch. \<lparr>tv_canonicalSchema = Some sch, tv_catalog = catalog\<rparr>)
        (CompileSchema lb canonicalSchemaBytes))"

definition validate_request ::
  "library \<Rightarrow> filesystem \<Rightarrow> TaskContractValidator \<Rightarrow> string \<Rightarrow> VerificationRequest \<Rightarrow> validation_error + unit" where
  "validate_request lb fs v worktreeRoot req =
     (let bad = Inl (ValidationError VERIFICATION_PROFILE) in
      if vr_ID req = [] then bad
      else if vr_ProfileID req = [] then bad
      else case tv_catalog v of
        None \<Rightarrow> bad
      | Some catalog \<Rightarrow>
      (case catalog (vr_ProfileID req) of
        None \<Rightarrow> bad
      | Some policy \<Rightarrow>
      if vp_ProfileID policy = [] then bad
      else if vp_ProfileID policy \<noteq> vr_ProfileID req then bad
      else if vp_MaxTimeoutSeconds policy \<le> 0 then bad
      else if vr_TimeoutSeconds req < 0 then bad
      else if vr_TimeoutSeconds req > vp_MaxTimeoutSeconds policy then bad
      else (case vp_ParameterSchema policy of
        None \<Rightarrow> bad
      | Some [] \<Rightarrow> bad
      | Some paramSchema \<Rightarrow>
      (case vr_Parameters req of
        None \<Rightarrow> bad
      | Some parameters \<Rightarrow>
      (case CompileProfileSchema lb paramSchema of
        None \<Rightarrow> bad
      | Some None \<Rightarrow> bad
      | Some (Some resolved) \<Rightarrow>
      (case projectForValidator (GMap parameters) of
        None \<Rightarrow> bad
      | Some projectedParams \<Rightarrow>
      if \<not> resolved projectedParams then bad
      else ValidateCwdContainment fs (vr_Cwd req) worktreeRoot
        (if vp_CwdPolicy policy = [] then ''worktree_root'' else vp_CwdPolicy policy)))))))"

fun ValidateVerificationRequests ::
  "library \<Rightarrow> filesystem \<Rightarrow> TaskContractValidator \<Rightarrow> string \<Rightarrow> VerificationRequest list \<Rightarrow> validation_error + unit" where
  "ValidateVerificationRequests lb fs v worktreeRoot [] = Inr ()"
| "ValidateVerificationRequests lb fs v worktreeRoot (req # requests) =
     bindE (validate_request lb fs v worktreeRoot req) (\<lambda>_.
     ValidateVerificationRequests lb fs v worktreeRoot requests)"

definition ValidateContract ::
  "library \<Rightarrow> filesystem \<Rightarrow> TaskContractValidator \<Rightarrow> TaskContract option \<Rightarrow> TaskContract option \<Rightarrow> string \<Rightarrow>
     validation_error + unit" where
  "ValidateContract lb fs v candidate previous worktreeRoot =
     (case candidate of
        None \<Rightarrow> Inl (ValidationError SCHEMA)
      | Some contract \<Rightarrow>
          bindE (ValidateRevisionLineage (Some contract) previous) (\<lambda>_.
          bindE (case previous of
              Some p \<Rightarrow> if c_IsImmutable p then ValidateImmutability previous (Some contract) else Inr ()
            | None \<Rightarrow> Inr ()) (\<lambda>_.
          bindE (ValidateScopePatterns (fp_VolumeName fs) (elements (c_AllowedScope contract))) (\<lambda>_.
          bindE (ValidateScopePatterns (fp_VolumeName fs) (elements (c_ForbiddenScope contract))) (\<lambda>_.
          ValidateVerificationRequests lb fs v worktreeRoot (elements (c_VerificationRequests contract)))))))"

definition ValidateRaw ::
  "library \<Rightarrow> filesystem \<Rightarrow> TaskContractValidator \<Rightarrow> string \<Rightarrow> TaskContract option \<Rightarrow> string \<Rightarrow>
     validation_error + TaskContract" where
  "ValidateRaw lb fs v rawJSON previous worktreeRoot =
     bindE (ParseAndValidateRaw lb rawJSON (tv_canonicalSchema v)) (\<lambda>_.
     (case lb_decode_contract lb rawJSON of
        None \<Rightarrow> Inl (ValidationError SCHEMA)
      | Some (contract, eof) \<Rightarrow>
          if \<not> eof then Inl (ValidationError SCHEMA)
          else bindE (ValidateContract lb fs v (Some contract) previous worktreeRoot) (\<lambda>_. Inr contract)))"

section \<open>Numbers are projected exactly\<close>

definition token_value :: "string \<Rightarrow> rat option" where
  "token_value s = map_option (\<lambda>(m, x). of_int m * 10 powi x) (decimal s)"

fun number_value :: "projected \<Rightarrow> rat option" where
  "number_value (PInt n) = Some (of_int n)"
| "number_value (PFloat n k) = Some (of_int n / 2 ^ k)"
| "number_value _ = None"

lemma rat_of_value:
  assumes "rat_of s = Some (n, d)"
  shows "d > 0 \<and> token_value s = Some (of_int n / of_int d)"
proof -
  obtain m x where m: "decimal s = Some (m, x)" using assms by (auto simp: rat_of_def split: option.splits)
  consider "m = 0" | "m \<noteq> 0" "0 \<le> x" | "m \<noteq> 0" "x < 0" by linarith
  then show ?thesis
  proof cases
    case 3
    define e g where "e = (10 ^ nat (- x) :: int)" and "g = gcd m e"
    have nd: "n = m div g" "d = e div g"
      using assms m 3 by (auto simp: rat_of_def Let_def e_def g_def split: if_splits)
    have e: "e > 0" by (simp add: e_def)
    then have g: "g > 0" by (simp add: g_def)
    have m': "m = n * g" and e': "e = d * g" by (simp_all add: nd g_def)
    have "(of_int m :: rat) / of_int e = of_int (n * g) / of_int (d * g)" by (simp only: m' [symmetric] e' [symmetric])
    also have "\<dots> = of_int n / of_int d" using g by simp
    finally have "(of_int m :: rat) / of_int e = of_int n / of_int d" .
    moreover have "d > 0" using e e' g by (metis zero_less_mult_pos2)
    moreover have "(10 :: rat) powi x = 1 / of_int e" using 3(2) by (simp add: power_int_def e_def inverse_eq_divide power_one_over)
    ultimately show ?thesis using m by (simp add: token_value_def)
  qed (use assms m in \<open>auto simp: rat_of_def token_value_def power_int_def split: if_splits\<close>)
qed

lemma projectNumber_exact:
  assumes "projectNumber s = Some v"
  shows "number_value v = token_value s \<and> token_value s \<noteq> None \<and>
    (case v of
       PInt n \<Rightarrow> - (2 ^ 63) \<le> n \<and> n < 2 ^ 64
     | PFloat n k \<Rightarrow> \<bar>n\<bar> < 2 ^ 53 \<and> k \<le> 1074
     | _ \<Rightarrow> False)"
proof -
  obtain n d where nd: "rat_of s = Some (n, d)" using assms by (auto simp: projectNumber_def split: option.splits)
  note val = rat_of_value [OF nd]
  show ?thesis
  proof (cases "d = 1")
    case True
    with assms nd val show ?thesis by (auto simp: projectNumber_def split: if_splits)
  next
    case False
    with assms nd have "exact_float64 n d" "v = PFloat n (twos (nat d))"
      by (auto simp: projectNumber_def split: if_splits)
    moreover from this have "(of_int d :: rat) = 2 ^ twos (nat d)"
      by (metis exact_float64_def of_int_numeral of_int_power)
    ultimately show ?thesis using val by (simp add: exact_float64_def)
  qed
qed

text \<open>A projected value: the same value, with every number replaced by an equal one.\<close>

inductive exactly :: "goval \<Rightarrow> projected \<Rightarrow> bool" where
  number: "token_value s = Some q \<Longrightarrow> number_value p = Some q \<Longrightarrow> exactly (GNumber s) p"
| object: "list_all2 (\<lambda>kv kp. fst kv = fst kp \<and> exactly (snd kv) (snd kp)) kvs ps \<Longrightarrow> exactly (GMap kvs) (PMap ps)"
| array: "list_all2 exactly vs ps \<Longrightarrow> exactly (GList vs) (PList ps)"
| other: "\<nexists>s. v = GNumber s \<Longrightarrow> \<nexists>kvs. v = GMap kvs \<Longrightarrow> \<nexists>vs. v = GList vs \<Longrightarrow> exactly v (POther v)"

lemma projection_exactly:
  "projectForValidator v = Some p \<Longrightarrow> exactly v p"
  "project_entries kvs = Some ps \<Longrightarrow> list_all2 (\<lambda>kv kp. fst kv = fst kp \<and> exactly (snd kv) (snd kp)) kvs ps"
  "project_items vs = Some qs \<Longrightarrow> list_all2 exactly vs qs"
proof (induction v and kvs and vs arbitrary: p and ps and qs rule: projectForValidator_project_entries_project_items.induct)
  case (1 s)
  then show ?case using projectNumber_exact [of s p] by (auto intro: exactly.number)
qed (auto simp: bind_eq_Some_conv intro: exactly.intros)

section \<open>A walk stays within the root\<close>

text \<open>The resolved paths of the components that exist, in the order of the walk.\<close>

fun visited :: "filesystem \<Rightarrow> string \<Rightarrow> string list \<Rightarrow> string list" where
  "visited fs current [] = []"
| "visited fs current (component # rest) =
     (if component = [] \<or> component = ''.'' then visited fs current rest
      else let nextPath = fp_Join fs current (fp_FromSlash fs component) in
        if fs_Lstat fs nextPath \<noteq> LstatOk then []
        else case fs_EvalSymlinks fs nextPath of
          None \<Rightarrow> []
        | Some realNext \<Rightarrow> realNext # visited fs realNext rest)"

lemma walk_within:
  "walk_components fs rootDir current cs = Inr u \<Longrightarrow> \<forall>p\<in>set (visited fs current cs). isWithinRoot fs p rootDir"
  by (induction fs rootDir current cs rule: walk_components.induct)
    (auto simp: path_error_def Let_def split: if_splits option.splits lstat.splits)

section \<open>Validated contracts\<close>

definition request_safe ::
  "library \<Rightarrow> filesystem \<Rightarrow> TaskContractValidator \<Rightarrow> string \<Rightarrow> VerificationRequest \<Rightarrow> bool" where
  "request_safe lb fs v worktreeRoot req \<longleftrightarrow>
     vr_ID req \<noteq> [] \<and>
     (\<exists>catalog policy paramSchema sch parameters p rootDir.
        tv_catalog v = Some catalog \<and> catalog (vr_ProfileID req) = Some policy \<and>
        vp_ProfileID policy = vr_ProfileID req \<and>
        0 \<le> vr_TimeoutSeconds req \<and> vr_TimeoutSeconds req \<le> vp_MaxTimeoutSeconds policy \<and>
        vp_ParameterSchema policy = Some paramSchema \<and> CompileProfileSchema lb paramSchema = Some (Some sch) \<and>
        vr_Parameters req = Some parameters \<and> exactly (GMap parameters) p \<and> sch p \<and>
        canonical_root fs worktreeRoot = Inr rootDir \<and> \<not> forbidden_cwd fs (vr_Cwd req) \<and>
        (let slash = canonical_slash fs (vr_Cwd req) in
         slash = ''.'' \<or> slash = [] \<or>
         vp_CwdPolicy policy = ''worktree_contained'' \<and> \<not> parent_traversal slash \<and>
         isWithinRoot fs (fp_Join fs rootDir (fp_FromSlash fs slash)) rootDir \<and>
         (\<forall>q\<in>set (visited fs rootDir (split_at_char (CHR ''/'') slash)). isWithinRoot fs q rootDir)))"

lemma ValidateCwdContainment_ok:
  assumes "ValidateCwdContainment fs cwd worktreeRoot policy = Inr ()"
  obtains rootDir where "canonical_root fs worktreeRoot = Inr rootDir" "\<not> forbidden_cwd fs cwd"
    "canonical_slash fs cwd = ''.'' \<or> canonical_slash fs cwd = [] \<or>
       policy = ''worktree_contained'' \<and> \<not> parent_traversal (canonical_slash fs cwd) \<and>
       isWithinRoot fs (fp_Join fs rootDir (fp_FromSlash fs (canonical_slash fs cwd))) rootDir \<and>
       walk_components fs rootDir rootDir (split_at_char (CHR ''/'') (canonical_slash fs cwd)) = Inr ()"
  using assms by (auto simp: ValidateCwdContainment_def path_error_def Let_def result_simps split: if_splits)

lemma validate_request_safe:
  assumes "validate_request lb fs v worktreeRoot req = Inr ()"
  shows "request_safe lb fs v worktreeRoot req"
proof -
  obtain catalog policy paramSchema sch parameters p where
    facts: "vr_ID req \<noteq> []" "tv_catalog v = Some catalog" "catalog (vr_ProfileID req) = Some policy"
      "vp_ProfileID policy = vr_ProfileID req" "0 \<le> vr_TimeoutSeconds req"
      "vr_TimeoutSeconds req \<le> vp_MaxTimeoutSeconds policy" "vp_ParameterSchema policy = Some paramSchema"
      "CompileProfileSchema lb paramSchema = Some (Some sch)" "vr_Parameters req = Some parameters"
      "projectForValidator (GMap parameters) = Some p" "sch p"
    and cwd: "ValidateCwdContainment fs (vr_Cwd req) worktreeRoot
        (if vp_CwdPolicy policy = [] then ''worktree_root'' else vp_CwdPolicy policy) = Inr ()"
    using assms by (simp add: validate_request_def Let_def split: if_splits option.splits list.splits)
  from cwd show ?thesis
  proof (rule ValidateCwdContainment_ok)
    fix rootDir
    assume rootDir: "canonical_root fs worktreeRoot = Inr rootDir" "\<not> forbidden_cwd fs (vr_Cwd req)"
      and slash: "canonical_slash fs (vr_Cwd req) = ''.'' \<or> canonical_slash fs (vr_Cwd req) = [] \<or>
       (if vp_CwdPolicy policy = [] then ''worktree_root'' else vp_CwdPolicy policy) = ''worktree_contained'' \<and>
       \<not> parent_traversal (canonical_slash fs (vr_Cwd req)) \<and>
       isWithinRoot fs (fp_Join fs rootDir (fp_FromSlash fs (canonical_slash fs (vr_Cwd req)))) rootDir \<and>
       walk_components fs rootDir rootDir (split_at_char (CHR ''/'') (canonical_slash fs (vr_Cwd req))) = Inr ()"
    have "canonical_slash fs (vr_Cwd req) = ''.'' \<or> canonical_slash fs (vr_Cwd req) = [] \<or>
       vp_CwdPolicy policy = ''worktree_contained'' \<and> \<not> parent_traversal (canonical_slash fs (vr_Cwd req)) \<and>
       isWithinRoot fs (fp_Join fs rootDir (fp_FromSlash fs (canonical_slash fs (vr_Cwd req)))) rootDir \<and>
       (\<forall>q\<in>set (visited fs rootDir (split_at_char (CHR ''/'') (canonical_slash fs (vr_Cwd req)))). isWithinRoot fs q rootDir)"
      using slash walk_within [of fs rootDir rootDir] by (simp split: if_splits) blast
    with facts rootDir projection_exactly(1) [OF facts(10)] show ?thesis
      unfolding request_safe_def Let_def by blast
  qed
qed

lemma ValidateVerificationRequests_ok:
  "ValidateVerificationRequests lb fs v worktreeRoot reqs = Inr u \<Longrightarrow>
     \<forall>r\<in>set reqs. validate_request lb fs v worktreeRoot r = Inr ()"
  by (induction reqs) (auto simp: result_simps)

definition confined_pattern :: "string \<Rightarrow> bool" where
  "confined_pattern p \<longleftrightarrow>
     p \<noteq> [] \<and> hd p \<noteq> CHR ''/'' \<and> hd p \<noteq> CHR 0x5C \<and> (1 < length p \<longrightarrow> p ! 1 \<noteq> CHR '':'') \<and>
     ''..'' \<notin> set (split_at_char (CHR ''/'') (replace_char (CHR 0x5C) (CHR ''/'') p))"

text \<open>
  C34: a contract that is accepted from its raw text is safe to hand to a worker. The schema has accepted
  the decoded text with every number projected to an equal one; the contract is the next revision of
  its predecessor; its scope patterns are relative and without a parent component under either
  separator; and every verification request names a known profile, stays within its time limit, has
  parameters whose exact projection satisfies the schema of the profile, and a working directory that
  is the root of the worktree or, where the profile allows it, resolves within it component by
  component.
\<close>

theorem validated_contract_safe:
  assumes "ValidateRaw lb fs v rawJSON previous worktreeRoot = Inr c"
  shows "(\<exists>d p sch. lb_decode lb rawJSON = Some (d, True) \<and> exactly d p \<and> tv_canonicalSchema v = Some sch \<and> sch p) \<and>
    lb_decode_contract lb rawJSON = Some (c, True) \<and>
    ValidateRevisionLineage (Some c) previous = Inr () \<and>
    (\<forall>p\<in>set (elements (c_AllowedScope c)) \<union> set (elements (c_ForbiddenScope c)). confined_pattern p) \<and>
    (\<forall>r\<in>set (elements (c_VerificationRequests c)). request_safe lb fs v worktreeRoot r)"
proof -
  obtain w where parsed: "ParseAndValidateRaw lb rawJSON (tv_canonicalSchema v) = Inr w"
    and decoded: "lb_decode_contract lb rawJSON = Some (c, True)"
    and valid: "ValidateContract lb fs v (Some c) previous worktreeRoot = Inr ()"
    using assms by (auto simp: ValidateRaw_def result_simps split: option.splits if_splits)
  obtain d p sch where "lb_decode lb rawJSON = Some (d, True)" "projectForValidator d = Some p"
      "tv_canonicalSchema v = Some sch" "sch p"
    using parsed by (auto simp: ParseAndValidateRaw_def Let_def split: option.splits if_splits)
  moreover have "exactly d p" using calculation(2) by (rule projection_exactly)
  moreover have lineage: "ValidateRevisionLineage (Some c) previous = Inr ()"
    and scopes: "ValidateScopePatterns (fp_VolumeName fs) (elements (c_AllowedScope c)) = Inr ()"
      "ValidateScopePatterns (fp_VolumeName fs) (elements (c_ForbiddenScope c)) = Inr ()"
    and reqs: "ValidateVerificationRequests lb fs v worktreeRoot (elements (c_VerificationRequests c)) = Inr ()"
    using valid by (auto simp: ValidateContract_def result_simps)
  moreover have "confined_pattern q" if "q \<in> set (elements (c_AllowedScope c)) \<union> set (elements (c_ForbiddenScope c))" for q
    using that scope_patterns_contained [OF scopes(1), of q] scope_patterns_contained [OF scopes(2), of q]
    by (auto simp: confined_pattern_def)
  ultimately show ?thesis using decoded ValidateVerificationRequests_ok [OF reqs] validate_request_safe by blast
qed

definition sample_request :: VerificationRequest where
  "sample_request = \<lparr>vr_ID = ''r'', vr_ProfileID = ''go-test'', vr_Parameters = Some [(''n'', GNumber ''2.5'')],
     vr_Cwd = ''pkg/x'', vr_TimeoutSeconds = 60\<rparr>"

definition sample_library :: library where
  "sample_library = \<lparr>lb_marshal = (\<lambda>_. Some ''s''), lb_resolve = (\<lambda>_. Some (\<lambda>p. case p of PMap _ \<Rightarrow> True | _ \<Rightarrow> False)),
     lb_decode = (\<lambda>_. Some (GMap [(''revision_number'', GNumber ''1'')], True)),
     lb_decode_contract = (\<lambda>_. Some ((sample_contract ''c1'' 1 None)\<lparr>c_VerificationRequests := Some [sample_request]\<rparr>, True))\<rparr>"

definition sample_files :: filesystem where
  "sample_files = \<lparr>fs_Abs = Some, fs_Stat = (\<lambda>_. Some True),
     fs_Lstat = (\<lambda>p. if p = ''/w/pkg'' then LstatOk else LstatNotExist), fs_EvalSymlinks = Some, fp_Clean = (\<lambda>p. p),
     fp_Join = (\<lambda>a b. a @ ''/'' @ b), fp_FromSlash = (\<lambda>p. p), fp_ToSlash = (\<lambda>p. p), fp_VolumeName = (\<lambda>_. []),
     fp_Rel = (\<lambda>a b. if HasPrefix b (a @ ''/'') then Some (drop (length a + 1) b) else None), fp_EqualFold = (=),
     fp_Separator = CHR ''/''\<rparr>"

definition sample_validator :: TaskContractValidator where
  "sample_validator = \<lparr>tv_canonicalSchema = Some (\<lambda>_. True),
     tv_catalog = Some (\<lambda>i. if i = ''go-test'' then Some \<lparr>vp_ProfileID = ''go-test'',
       vp_ParameterSchema = Some [(''type'', GString ''object'')], vp_CwdPolicy = ''worktree_contained'',
       vp_MaxTimeoutSeconds = 60, vp_AllowedCapabilities = []\<rparr> else None)\<rparr>"

theorem validated_contract_safe_witness:
  "\<exists>c. ValidateRaw sample_library sample_files sample_validator ''{}'' None ''/w'' = Inr c \<and>
     request_safe sample_library sample_files sample_validator ''/w'' sample_request"
proof -
  have "case ValidateRaw sample_library sample_files sample_validator ''{}'' None ''/w'' of
      Inl e \<Rightarrow> False | Inr c \<Rightarrow> c_VerificationRequests c = Some [sample_request]" by code_simp
  then obtain c where c: "ValidateRaw sample_library sample_files sample_validator ''{}'' None ''/w'' = Inr c"
    "c_VerificationRequests c = Some [sample_request]" by (auto split: sum.splits)
  from validated_contract_safe [OF c(1)] c(2)
  have "request_safe sample_library sample_files sample_validator ''/w'' sample_request"
    by (simp add: elements_def)
  with c(1) show ?thesis by blast
qed

end
