(* ===== verification/Workflow.thy ===== *)
theory Workflow
  imports Domain
begin

text \<open>
  The canonical task workflow of \<open>internal/workflow/state_machine.go\<close>: the table of the 22
  executable transitions, the check \<open>CanTransition\<close>, the validating \<open>Transition\<close>, and the 25
  edges of the documented graph. The lemmas show that the table and the documented graph are
  the same relation, and what can be reached from where.
\<close>

datatype transition_error = InvalidTransitionError TaskState TaskState

definition TaskStateCount :: nat where
  "TaskStateCount = 13"

definition DomainTransitionCount :: nat where
  "DomainTransitionCount = 22"

definition CanonicalGraphEdgeCount :: nat where
  "CanonicalGraphEdgeCount = 25"

definition CanonicalGraphEdges :: "(string \<times> string) list" where
  "CanonicalGraphEdges =
     [(''[*]'', ''DRAFT''),
      (''DRAFT'', ''READY''),
      (''DRAFT'', ''CANCELLED''),
      (''READY'', ''DISPATCHED''),
      (''READY'', ''CANCELLED''),
      (''DISPATCHED'', ''RUNNING''),
      (''DISPATCHED'', ''FAILED''),
      (''RUNNING'', ''REPORT_READY''),
      (''RUNNING'', ''FAILED''),
      (''RUNNING'', ''BLOCKED''),
      (''REPORT_READY'', ''EVIDENCE_READY''),
      (''REPORT_READY'', ''FAILED''),
      (''EVIDENCE_READY'', ''REVIEWING''),
      (''EVIDENCE_READY'', ''FAILED''),
      (''REVIEWING'', ''APPROVED''),
      (''REVIEWING'', ''REVISION_REQUIRED''),
      (''REVIEWING'', ''BLOCKED''),
      (''REVISION_REQUIRED'', ''READY''),
      (''BLOCKED'', ''HUMAN_REQUIRED''),
      (''FAILED'', ''HUMAN_REQUIRED''),
      (''FAILED'', ''READY''),
      (''HUMAN_REQUIRED'', ''DRAFT''),
      (''HUMAN_REQUIRED'', ''CANCELLED''),
      (''APPROVED'', ''[*]''),
      (''CANCELLED'', ''[*]'')]"

text \<open>The map literal \<open>allowedTransitions\<close>, as an association list from state to targets.\<close>

definition allowedTransitions :: "(TaskState \<times> TaskState list) list" where
  "allowedTransitions =
     [(StateDraft, [StateReady, StateCancelled]),
      (StateReady, [StateDispatched, StateCancelled]),
      (StateDispatched, [StateRunning, StateFailed]),
      (StateRunning, [StateReportReady, StateFailed, StateBlocked]),
      (StateReportReady, [StateEvidenceReady, StateFailed]),
      (StateEvidenceReady, [StateReviewing, StateFailed]),
      (StateReviewing, [StateApproved, StateRevisionRequired, StateBlocked]),
      (StateApproved, []),
      (StateRevisionRequired, [StateReady]),
      (StateBlocked, [StateHumanRequired]),
      (StateFailed, [StateHumanRequired, StateReady]),
      (StateHumanRequired, [StateDraft, StateCancelled]),
      (StateCancelled, [])]"

definition CanTransition :: "TaskState \<Rightarrow> TaskState \<Rightarrow> bool" where
  "CanTransition from to =
     (case map_of allowedTransitions from of
        None \<Rightarrow> False
      | Some targets \<Rightarrow> to \<in> set targets)"

definition Transition :: "TaskState \<Rightarrow> TaskState \<Rightarrow> transition_error + unit" where
  "Transition from to =
     (if \<not> CanTransition from to then Inl (InvalidTransitionError from to) else Inr ())"

text \<open>
  \<open>AllowedTransitions\<close> ranges over a Go map, so the order of its result is not fixed; the
  model lists the pairs in the order of the literal.
\<close>

definition AllowedTransitions :: "(TaskState \<times> TaskState) list" where
  "AllowedTransitions =
     concat (map (\<lambda>(from, targets). map (\<lambda>to. (from, to)) targets) allowedTransitions)"

section \<open>Basic facts\<close>

lemmas workflow_defs = CanTransition_def allowedTransitions_def

lemma Transition_ok [result_simps]: "Transition from to = Inr u \<longleftrightarrow> CanTransition from to"
  by (simp add: Transition_def)

lemma CanTransition_valid: "CanTransition from to \<Longrightarrow> IsValid from \<and> IsValid to"
  by (cases "from") (auto simp: workflow_defs)

lemma CanTransition_irrefl: "\<not> CanTransition s s"
  by (cases s) (simp_all add: workflow_defs)

lemma mem_AllowedTransitions: "(from, to) \<in> set AllowedTransitions \<longleftrightarrow> CanTransition from to"
  by (cases "from") (auto simp: AllowedTransitions_def workflow_defs)

section \<open>Reachability\<close>

inductive workflow_reach :: "TaskState \<Rightarrow> TaskState \<Rightarrow> bool" where
  reach_refl: "workflow_reach s s"
| reach_step: "workflow_reach s t \<Longrightarrow> CanTransition t u \<Longrightarrow> workflow_reach s u"

inductive_cases workflow_reachE: "workflow_reach s t"

lemma workflow_reach_trans: "workflow_reach s t \<Longrightarrow> workflow_reach t u \<Longrightarrow> workflow_reach s u"
proof (rotate_tac, induction rule: workflow_reach.induct)
  case (reach_refl s)
  then show ?case .
next
  case (reach_step t v w)
  then show ?case by (blast intro: workflow_reach.reach_step)
qed

lemma workflow_reach_one: "CanTransition s t \<Longrightarrow> workflow_reach s t"
  by (blast intro: workflow_reach.intros)

lemma reach_forward: "CanTransition s t \<Longrightarrow> workflow_reach t u \<Longrightarrow> workflow_reach s u"
  by (blast intro: workflow_reach_one workflow_reach_trans)

lemma workflow_reach_valid: "workflow_reach s t \<Longrightarrow> IsValid s \<Longrightarrow> IsValid t"
  by (induction rule: workflow_reach.induct) (auto dest: CanTransition_valid)

lemma terminal_stuck: "IsTerminal s \<Longrightarrow> \<not> CanTransition s t"
  by (auto simp: IsTerminal_def workflow_defs)

lemma nonterminal_progress: "IsValid s \<Longrightarrow> \<not> IsTerminal s \<Longrightarrow> \<exists>t. CanTransition s t"
  by (cases s) (auto simp: IsTerminal_def workflow_defs)

lemma workflow_reach_terminal: "workflow_reach s t \<Longrightarrow> IsTerminal s \<Longrightarrow> t = s"
  by (induction rule: workflow_reach.induct) (auto dest: terminal_stuck)

text \<open>Every canonical state still has a way to \<open>CANCELLED\<close>, except the approved one.\<close>

lemma reach_cancelled:
  assumes "IsValid s" and "s \<noteq> StateApproved"
  shows "workflow_reach s StateCancelled"
proof -
  have hr: "workflow_reach StateHumanRequired StateCancelled"
    by (rule workflow_reach_one) (simp add: workflow_defs)
  have fl: "workflow_reach StateFailed StateCancelled"
    by (rule reach_forward [OF _ hr]) (simp add: workflow_defs)
  have bl: "workflow_reach StateBlocked StateCancelled"
    by (rule reach_forward [OF _ hr]) (simp add: workflow_defs)
  have rd: "workflow_reach StateReady StateCancelled"
    by (rule workflow_reach_one) (simp add: workflow_defs)
  have step: "workflow_reach s StateCancelled"
    if "CanTransition s StateFailed \<or> CanTransition s StateBlocked \<or> CanTransition s StateReady"
    using that fl bl rd by (blast intro: reach_forward)
  show ?thesis
    using assms hr fl bl rd step
    by (cases s) (auto simp: workflow_defs intro: workflow_reach.reach_refl workflow_reach_one)
qed

text \<open>
  An approval is only reached through a review, and a review only through collected evidence:
  the sole edge into each of the two states.
\<close>

lemma into_approved: "CanTransition s StateApproved \<longleftrightarrow> s = StateReviewing"
  by (cases s) (simp_all add: workflow_defs)

lemma into_reviewing: "CanTransition s StateReviewing \<longleftrightarrow> s = StateEvidenceReady"
  by (cases s) (simp_all add: workflow_defs)

lemma into_dispatched: "CanTransition s StateDispatched \<longleftrightarrow> s = StateReady"
  by (cases s) (simp_all add: workflow_defs)

lemma into_running: "CanTransition s StateRunning \<longleftrightarrow> s = StateDispatched"
  by (cases s) (simp_all add: workflow_defs)

section \<open>The documented graph\<close>

text \<open>
  C32: the table of executable transitions is the documented graph. Without the two pseudo-state
  ends, the 25 documented edges are, as a set of pairs of state names, exactly the 22 transitions
  that \<open>CanTransition\<close> admits, and the counters declared beside them are right.
\<close>

theorem workflow_graph_agrees:
  "length AllTaskStates = TaskStateCount \<and> distinct AllTaskStates \<and>
   length CanonicalGraphEdges = CanonicalGraphEdgeCount \<and> distinct CanonicalGraphEdges \<and>
   length AllowedTransitions = DomainTransitionCount \<and> distinct AllowedTransitions \<and>
   filter (\<lambda>(a, b). a \<noteq> ''[*]'' \<and> b \<noteq> ''[*]'') CanonicalGraphEdges =
     map (\<lambda>(a, b). (task_state_string a, task_state_string b)) AllowedTransitions \<and>
   {(a, b). CanTransition a b} = set AllowedTransitions"
proof -
  have "{(a, b). CanTransition a b} = set AllowedTransitions"
    by (auto simp: mem_AllowedTransitions)
  then show ?thesis
    by (simp add: AllTaskStates_def TaskStateCount_def CanonicalGraphEdges_def
        CanonicalGraphEdgeCount_def AllowedTransitions_def allowedTransitions_def
        DomainTransitionCount_def)
qed

end
