(* ===== verification/Scrubber.thy ===== *)
theory Scrubber
  imports Domain
begin

text \<open>
  The credential scrubber of \<open>internal/audit/scrubber.go\<close>: the five credential patterns with a
  matcher that has the leftmost-first semantics of Go's \<open>regexp\<close>, the recursive scrubbing of
  dynamic values, the canonical JSON text of the details, and the sanitized audit event.
  The lemmas show that a scrubbed value has every sensitive key redacted at every depth, and
  that scrubbing only ever replaces text by a redaction marker.
\<close>

section \<open>Patterns\<close>

text \<open>
  A pattern is matched on a position: the byte before it, if any, and the bytes that follow.
  \<open>One p alts\<close> is a character class: the bytes with \<open>p\<close> and the listed longer encodings
  (the Unicode case variants that \<open>(?i)\<close> adds); \<open>Many\<close> is its greedy repetition. The
  results of \<open>matches\<close> are in the order in which a backtracking matcher prefers them.
\<close>

datatype pattern =
    Eps
  | Boundary
  | One "char \<Rightarrow> bool" "string list"
  | Many "char \<Rightarrow> bool" "string list"
  | Seq pattern pattern
  | Alt pattern pattern

type_synonym position = "char option \<times> string"

definition digits :: string where
  "digits = ''0123456789''"

definition uppers :: string where
  "uppers = ''ABCDEFGHIJKLMNOPQRSTUVWXYZ''"

definition lowers :: string where
  "lowers = ''abcdefghijklmnopqrstuvwxyz''"

definition alnum :: "char \<Rightarrow> bool" where
  "alnum c \<longleftrightarrow> c \<in> set (digits @ uppers @ lowers)"

definition word_char :: "char \<Rightarrow> bool" where
  "word_char c \<longleftrightarrow> alnum c \<or> c = CHR ''_''"

definition at_boundary :: "position \<Rightarrow> bool" where
  "at_boundary pos =
     ((case fst pos of None \<Rightarrow> False | Some c \<Rightarrow> word_char c) \<noteq>
      (case snd pos of [] \<Rightarrow> False | c # _ \<Rightarrow> word_char c))"

fun take_one :: "(char \<Rightarrow> bool) \<Rightarrow> string list \<Rightarrow> string \<Rightarrow> (char \<times> string) option" where
  "take_one p alts [] = None"
| "take_one p alts (c # s) =
     (if p c then Some (c, s)
      else case find (\<lambda>w. w \<noteq> [] \<and> HasPrefix (c # s) w) alts of
        None \<Rightarrow> None
      | Some w \<Rightarrow> Some (last w, drop (length w) (c # s)))"

lemma take_one_shorter: "take_one p alts s = Some (c, s') \<Longrightarrow> length s' < length s"
  by (cases s) (auto split: if_splits option.splits dest!: find_SomeD)

function many :: "(char \<Rightarrow> bool) \<Rightarrow> string list \<Rightarrow> position \<Rightarrow> position list" where
  "many p alts pos =
     (case take_one p alts (snd pos) of
        None \<Rightarrow> [pos]
      | Some (c, s) \<Rightarrow> many p alts (Some c, s) @ [pos])"
  by pat_completeness auto
termination
  by (relation "measure (\<lambda>(p, alts, pos). length (snd pos))") (auto dest: take_one_shorter)

declare many.simps [simp del]

primrec matches :: "pattern \<Rightarrow> position \<Rightarrow> position list" where
  "matches Eps pos = [pos]"
| "matches Boundary pos = (if at_boundary pos then [pos] else [])"
| "matches (One p alts) pos =
     (case take_one p alts (snd pos) of None \<Rightarrow> [] | Some (c, s) \<Rightarrow> [(Some c, s)])"
| "matches (Many p alts) pos = many p alts pos"
| "matches (Seq a b) pos = concat (map (matches b) (matches a pos))"
| "matches (Alt a b) pos = matches a pos @ matches b pos"

fun seqs :: "pattern list \<Rightarrow> pattern" where
  "seqs [] = Eps"
| "seqs (r # rs) = Seq r (seqs rs)"

fun alts_of :: "pattern list \<Rightarrow> pattern" where
  "alts_of [] = One (\<lambda>_. False) []"
| "alts_of [r] = r"
| "alts_of (r # rs) = Alt r (alts_of rs)"

definition lit :: "string \<Rightarrow> pattern" where
  "lit w = seqs (map (\<lambda>c. One (\<lambda>d. d = c) []) w)"

text \<open>Under \<open>(?i)\<close>, \<open>k\<close> also matches the Kelvin sign and \<open>s\<close> the long s.\<close>

definition fold_alts :: "char \<Rightarrow> string list" where
  "fold_alts c =
     (if lower_char c = CHR ''k'' then [[CHR 0xE2, CHR 0x84, CHR 0xAA]]
      else if lower_char c = CHR ''s'' then [[CHR 0xC5, CHR 0xBF]] else [])"

definition ilit :: "string \<Rightarrow> pattern" where
  "ilit w = seqs (map (\<lambda>c. One (\<lambda>d. lower_char d = lower_char c) (fold_alts c)) w)"

definition repeat_at_least :: "nat \<Rightarrow> (char \<Rightarrow> bool) \<Rightarrow> pattern" where
  "repeat_at_least n p = Seq (seqs (replicate n (One p []))) (Many p [])"

definition regex_space :: "char \<Rightarrow> bool" where
  "regex_space c \<longleftrightarrow> c \<in> set [CHR 0x09, CHR 0x0A, CHR 0x0C, CHR 0x0D, CHR 0x20]"

text \<open>
  A rule is a compiled pattern with its replacement template: after \<open>\b\<close> the capture group 1,
  then the rest of the pattern; the template is the group's text, if \<open>keep\<close>, and a literal.
\<close>

record scrub_rule =
  group1 :: pattern
  after1 :: pattern
  keep :: bool
  literal :: string

definition RedactedMarker :: string where
  "RedactedMarker = ''[REDACTED]''"

definition RedactedBinaryMarker :: string where
  "RedactedBinaryMarker = ''[REDACTED_BINARY]''"

definition token_char :: "char \<Rightarrow> bool" where
  "token_char c \<longleftrightarrow> alnum c \<or> c \<in> set ''._~+/-''"

definition both_fold_alts :: "string list" where
  "both_fold_alts = [[CHR 0xE2, CHR 0x84, CHR 0xAA], [CHR 0xC5, CHR 0xBF]]"

definition bearerRegex :: scrub_rule where
  "bearerRegex =
     \<lparr>group1 = Seq (ilit ''bearer'') (Seq (One regex_space []) (Many regex_space [])),
      after1 = Seq (One token_char both_fold_alts)
                (Seq (Many token_char both_fold_alts) (Many (\<lambda>c. c = CHR ''='') [])),
      keep = True, literal = RedactedMarker\<rparr>"

definition envAssignmentRegex :: scrub_rule where
  "envAssignmentRegex =
     \<lparr>group1 = alts_of (map ilit [''OPENAI_API_KEY'', ''API_KEY'', ''TOKEN'', ''ACCESS_TOKEN'',
                                  ''PASSWORD'', ''CLIENT_SECRET'']),
      after1 = Seq (lit ''='')
                (Seq (One (\<lambda>c. \<not> regex_space c \<and> c \<noteq> CHR '','' \<and> c \<noteq> CHR '';'') [])
                     (Many (\<lambda>c. \<not> regex_space c \<and> c \<noteq> CHR '','' \<and> c \<noteq> CHR '';'') [])),
      keep = True, literal = CHR ''='' # RedactedMarker\<rparr>"

definition githubTokenRegex :: scrub_rule where
  "githubTokenRegex =
     \<lparr>group1 = Alt (seqs [lit ''gh'', One (\<lambda>c. c \<in> set ''opurs'') [], lit ''_'',
                          repeat_at_least 16 word_char])
                   (Seq (lit ''github_pat_'') (repeat_at_least 16 word_char)),
      after1 = Boundary, keep = False, literal = RedactedMarker\<rparr>"

definition openAIRegex :: scrub_rule where
  "openAIRegex =
     \<lparr>group1 = seqs [lit ''sk-'', Alt (lit ''proj-'') Eps,
                     repeat_at_least 16 (\<lambda>c. word_char c \<or> c = CHR ''-'')],
      after1 = Boundary, keep = False, literal = RedactedMarker\<rparr>"

definition awsKeyRegex :: scrub_rule where
  "awsKeyRegex =
     \<lparr>group1 = Seq (lit ''AKIA'') (seqs (replicate 16 (One (\<lambda>c. c \<in> set (digits @ uppers)) []))),
      after1 = Boundary, keep = False, literal = RedactedMarker\<rparr>"

section \<open>Replacement\<close>

text \<open>The preferred match at a position: the end of group 1 and the end of the match.\<close>

definition match_at :: "scrub_rule \<Rightarrow> position \<Rightarrow> (position \<times> position) option" where
  "match_at r pos =
     (if \<not> at_boundary pos then None
      else case concat (map (\<lambda>g. map (Pair g) (matches (after1 r) g)) (matches (group1 r) pos)) of
             [] \<Rightarrow> None
           | m # _ \<Rightarrow> Some m)"

text \<open>
  \<open>ReplaceAllString\<close>: scan from left to right; a match that consumes text is replaced and the
  scan goes on behind it. (No rule matches the empty string.)
\<close>

function replace_all :: "scrub_rule \<Rightarrow> position \<Rightarrow> string" where
  "replace_all r (pv, []) = []"
| "replace_all r (pv, c # s) =
     (case match_at r (pv, c # s) of
        None \<Rightarrow> c # replace_all r (Some c, s)
      | Some (g, e) \<Rightarrow>
          if length (snd e) < length (c # s)
          then (if keep r then take (length (c # s) - length (snd g)) (c # s) else []) @
               literal r @ replace_all r e
          else c # replace_all r (Some c, s))"
  by pat_completeness auto
termination
  by (relation "measure (\<lambda>(r, pos). length (snd pos))") auto

definition ReplaceAllString :: "scrub_rule \<Rightarrow> string \<Rightarrow> string" where
  "ReplaceAllString r s = replace_all r (None, s)"

definition ScrubString :: "string \<Rightarrow> string" where
  "ScrubString s =
     (if s = [] then s
      else
        let s1 = ReplaceAllString bearerRegex s;
            s2 = ReplaceAllString envAssignmentRegex s1;
            s3 = ReplaceAllString githubTokenRegex s2;
            s4 = ReplaceAllString openAIRegex s3
        in ReplaceAllString awsKeyRegex s4)"

section \<open>Sensitive keys\<close>

definition sensitiveKeys :: "string list" where
  "sensitiveKeys =
     [''password'', ''passwd'', ''secret'', ''client_secret'', ''api_key'', ''apikey'', ''token'',
      ''access_token'', ''refresh_token'', ''id_token'', ''session_token'', ''authorization'',
      ''proxy_authorization'', ''cookie'', ''set_cookie'', ''private_key'']"

definition normalizeKey :: "string \<Rightarrow> string" where
  "normalizeKey k = replace_char (CHR ''-'') (CHR ''_'') (ToLower (TrimSpace k))"

definition IsSensitiveKey :: "string \<Rightarrow> bool" where
  "IsSensitiveKey key \<longleftrightarrow> normalizeKey key \<in> set sensitiveKeys"

section \<open>Scrubbing values\<close>

datatype scrub_error =
    ErrSanitizedKeyCollision string
  | ErrNonStringMapKey
  | ErrMarshalStruct
  | ErrUnsupportedValue
  | ErrRootNotMap
  | ErrMarshalDetails

text \<open>
  The map loops thread the result map built so far; the two loops of the source (for
  \<open>map[string]any\<close> and for other string-keyed maps) are the same code.
\<close>

fun ScrubValue :: "goval \<Rightarrow> scrub_error + goval"
  and scrub_entries :: "(string \<times> goval) list \<Rightarrow> (string \<times> goval) list \<Rightarrow> scrub_error + (string \<times> goval) list"
  and scrub_items :: "goval list \<Rightarrow> scrub_error + goval list"
where
  "ScrubValue GNil = Inr GNil"
| "ScrubValue (GBytes b) = Inr (GString RedactedBinaryMarker)"
| "ScrubValue (GString s) = Inr (GString (ScrubString s))"
| "ScrubValue (GNumber n) = Inr (GNumber n)"
| "ScrubValue (GBool b) = Inr (GBool b)"
| "ScrubValue (GInt i) = Inr (GInt i)"
| "ScrubValue (GFloat f) = Inr (GFloat f)"
| "ScrubValue (GMap kvs) = bindE (scrub_entries [] kvs) (\<lambda>res. Inr (GMap res))"
| "ScrubValue (GList vs) = bindE (scrub_items vs) (\<lambda>res. Inr (GList res))"
| "ScrubValue (GReflectMap string_keys kvs) =
     (if \<not> string_keys then Inl ErrNonStringMapKey
      else bindE (scrub_entries [] kvs) (\<lambda>res. Inr (GMap res)))"
| "ScrubValue (GReflectList vs) = bindE (scrub_items vs) (\<lambda>res. Inr (GList res))"
| "ScrubValue (GPtr None) = Inr GNil"
| "ScrubValue (GPtr (Some v)) = ScrubValue v"
| "ScrubValue (GStruct None) = Inl ErrMarshalStruct"
| "ScrubValue (GStruct (Some decoded)) = ScrubValue decoded"
| "ScrubValue GUnsupported = Inl ErrUnsupportedValue"
| "scrub_entries res [] = Inr res"
| "scrub_entries res ((k, item) # rest) =
     (let outKey = (if IsSensitiveKey k then k else ScrubString k)
      in if outKey \<in> fst ` set res then Inl (ErrSanitizedKeyCollision outKey)
         else if IsSensitiveKey k then scrub_entries (res @ [(outKey, GString RedactedMarker)]) rest
         else bindE (ScrubValue item) (\<lambda>scrubbed. scrub_entries (res @ [(outKey, scrubbed)]) rest))"
| "scrub_items [] = Inr []"
| "scrub_items (v # vs) =
     bindE (ScrubValue v) (\<lambda>scrubbed. bindE (scrub_items vs) (\<lambda>res. Inr (scrubbed # res)))"

section \<open>Canonical JSON text\<close>

text \<open>
  What \<open>encoding/json\<close> prints for a scrubbed value: object keys in byte order, HTML-unsafe
  and control characters escaped, invalid UTF-8 replaced.
\<close>

definition cont :: "char \<Rightarrow> bool" where
  "cont c \<longleftrightarrow> 128 \<le> byte c \<and> byte c < 192"

text \<open>\<open>utf8.DecodeRune\<close> on a string that starts with a byte of at least 128: the length of the
  valid encoding, or 0.\<close>

fun rune_length :: "string \<Rightarrow> nat" where
  "rune_length (a # b # c # d # s) =
     (if 194 \<le> byte a \<and> byte a \<le> 223 \<and> cont b then 2
      else if 224 \<le> byte a \<and> byte a \<le> 239 \<and> cont b \<and> cont c \<and>
        (byte a = 224 \<longrightarrow> 160 \<le> byte b) \<and> (byte a = 237 \<longrightarrow> byte b \<le> 159) then 3
      else if 240 \<le> byte a \<and> byte a \<le> 244 \<and> cont b \<and> cont c \<and> cont d \<and>
        (byte a = 240 \<longrightarrow> 144 \<le> byte b) \<and> (byte a = 244 \<longrightarrow> byte b \<le> 143) then 4
      else 0)"
| "rune_length [a, b, c] =
     (if 194 \<le> byte a \<and> byte a \<le> 223 \<and> cont b then 2
      else if 224 \<le> byte a \<and> byte a \<le> 239 \<and> cont b \<and> cont c \<and>
        (byte a = 224 \<longrightarrow> 160 \<le> byte b) \<and> (byte a = 237 \<longrightarrow> byte b \<le> 159) then 3
      else 0)"
| "rune_length [a, b] = (if 194 \<le> byte a \<and> byte a \<le> 223 \<and> cont b then 2 else 0)"
| "rune_length s = 0"

definition escape_ascii :: "char \<Rightarrow> string" where
  "escape_ascii c =
     (if c = CHR 0x5C then [CHR 0x5C, CHR 0x5C]
      else if c = CHR 0x22 then [CHR 0x5C, CHR 0x22]
      else if c = CHR 0x08 then [CHR 0x5C, CHR ''b'']
      else if c = CHR 0x0C then [CHR 0x5C, CHR ''f'']
      else if c = CHR 0x0A then [CHR 0x5C, CHR ''n'']
      else if c = CHR 0x0D then [CHR 0x5C, CHR ''r'']
      else if c = CHR 0x09 then [CHR 0x5C, CHR ''t'']
      else if byte c < 32 \<or> c \<in> set ''<>&'' then CHR 0x5C # ''u00'' @ hex_byte c
      else [c])"

function json_chars :: "string \<Rightarrow> string" where
  "json_chars [] = []"
| "json_chars (c # s) =
     (if byte c < 128 then escape_ascii c @ json_chars s
      else if rune_length (c # s) = 0 then CHR 0x5C # ''ufffd'' @ json_chars s
      else if take 3 (c # s) = [CHR 0xE2, CHR 0x80, CHR 0xA8] then CHR 0x5C # ''u2028'' @ json_chars (drop 2 s)
      else if take 3 (c # s) = [CHR 0xE2, CHR 0x80, CHR 0xA9] then CHR 0x5C # ''u2029'' @ json_chars (drop 2 s)
      else take (rune_length (c # s)) (c # s) @ json_chars (drop (rune_length (c # s)) (c # s)))"
  by pat_completeness auto
termination
  by (relation "measure length") auto

definition json_string :: "string \<Rightarrow> string" where
  "json_string s = CHR 0x22 # json_chars s @ [CHR 0x22]"

text \<open>\<open>json.Number\<close> literals are checked against the number grammar when marshalled.\<close>

definition is_digit :: "char \<Rightarrow> bool" where
  "is_digit c \<longleftrightarrow> c \<in> set digits"

definition valid_exponent :: "string \<Rightarrow> bool" where
  "valid_exponent s =
     (case s of
        [] \<Rightarrow> True
      | c # r \<Rightarrow> (c = CHR ''e'' \<or> c = CHR ''E'') \<and>
          (let t = (case r of d # q \<Rightarrow> if d = CHR ''+'' \<or> d = CHR ''-'' then q else r | [] \<Rightarrow> r)
           in t \<noteq> [] \<and> list_all is_digit t))"

definition valid_fraction :: "string \<Rightarrow> bool" where
  "valid_fraction s =
     (case s of
        c # d # r \<Rightarrow> if c = CHR ''.'' then is_digit d \<and> valid_exponent (dropWhile is_digit r)
                     else valid_exponent s
      | _ \<Rightarrow> valid_exponent s)"

definition isValidNumber :: "string \<Rightarrow> bool" where
  "isValidNumber s =
     (let t = (case s of c # r \<Rightarrow> if c = CHR ''-'' then r else s | [] \<Rightarrow> s)
      in case t of
           [] \<Rightarrow> False
         | c # r \<Rightarrow>
             if c = CHR ''0'' then valid_fraction r
             else is_digit c \<and> valid_fraction (dropWhile is_digit r))"

fun bytes_le :: "string \<Rightarrow> string \<Rightarrow> bool" where
  "bytes_le [] t = True"
| "bytes_le (a # s) [] = False"
| "bytes_le (a # s) (b # t) = (byte a < byte b \<or> a = b \<and> bytes_le s t)"

fun insert_entry :: "string \<times> string \<Rightarrow> (string \<times> string) list \<Rightarrow> (string \<times> string) list" where
  "insert_entry x [] = [x]"
| "insert_entry x (y # ys) =
     (if bytes_le (fst x) (fst y) then x # y # ys else y # insert_entry x ys)"

fun sort_entries :: "(string \<times> string) list \<Rightarrow> (string \<times> string) list" where
  "sort_entries [] = []"
| "sort_entries (x # xs) = insert_entry x (sort_entries xs)"

fun join :: "string list \<Rightarrow> string" where
  "join [] = []"
| "join [x] = x"
| "join (x # xs) = x @ '','' @ join xs"

definition json_object :: "(string \<times> string) list \<Rightarrow> string" where
  "json_object es =
     ''{'' @ join (map (\<lambda>(k, v). json_string k @ '':'' @ v) (sort_entries es)) @ ''}''"

fun json_marshal :: "goval \<Rightarrow> string option"
  and json_entries :: "(string \<times> goval) list \<Rightarrow> (string \<times> string) list option"
  and json_items :: "goval list \<Rightarrow> string list option"
where
  "json_marshal GNil = Some ''null''"
| "json_marshal (GString s) = Some (json_string s)"
| "json_marshal (GNumber n) =
     (if n = [] then Some ''0'' else if isValidNumber n then Some n else None)"
| "json_marshal (GBool b) = Some (if b then ''true'' else ''false'')"
| "json_marshal (GInt i) = Some (show_int i)"
| "json_marshal (GFloat f) = f"
| "json_marshal (GMap kvs) = map_option json_object (json_entries kvs)"
| "json_marshal (GList vs) = map_option (\<lambda>ts. ''['' @ join ts @ '']'') (json_items vs)"
| "json_marshal v = None"
| "json_entries [] = Some []"
| "json_entries ((k, v) # rest) =
     Option.bind (json_marshal v) (\<lambda>t. map_option (\<lambda>ts. (k, t) # ts) (json_entries rest))"
| "json_items [] = Some []"
| "json_items (v # vs) =
     Option.bind (json_marshal v) (\<lambda>t. map_option (\<lambda>ts. t # ts) (json_items vs))"

section \<open>Sanitized details and events\<close>

definition SanitizeDetails ::
  "(string \<times> goval) list \<Rightarrow> scrub_error + ((string \<times> goval) list \<times> string)" where
  "SanitizeDetails details =
     (if details = [] then Inr ([], ''{}'')
      else bindE (ScrubValue (GMap details)) (\<lambda>scrubbed.
        case scrubbed of
          GMap scrubbedMap \<Rightarrow>
            (case json_marshal (GMap scrubbedMap) of
               None \<Rightarrow> Inl ErrMarshalDetails
             | Some text \<Rightarrow> Inr (scrubbedMap, text))
        | _ \<Rightarrow> Inl ErrRootNotMap))"

text \<open>Times are UTC in the model, so the normalisation of the timestamp is the identity.\<close>

definition SanitizeAuditEvent :: "AuditEvent \<Rightarrow> scrub_error + (AuditEvent \<times> string)" where
  "SanitizeAuditEvent event =
     (let sanitized = event\<lparr>e_Actor := ScrubString (e_Actor event)\<rparr>
      in bindE (SanitizeDetails (e_Details sanitized)) (\<lambda>(scrubbedDetails, detailsJSON).
           Inr (sanitized\<lparr>e_Details := scrubbedDetails\<rparr>, detailsJSON)))"

section \<open>Redaction markers\<close>

lemma replace_all_Cons_cases:
  obtains (emit) "replace_all r (pv, c # s) = c # replace_all r (Some c, s)"
  | (match) u e where "replace_all r (pv, c # s) = u @ literal r @ replace_all r e"
proof (cases "match_at r (pv, c # s)")
  case None
  then show ?thesis by (intro emit) simp
next
  case (Some ge)
  then obtain g e where "match_at r (pv, c # s) = Some (g, e)" by (cases ge) auto
  then show ?thesis using emit match by (cases "length (snd e) < length (c # s)") auto
qed

lemma replace_all_marked:
  assumes "CHR ''['' \<in> set (literal r)"
  shows "replace_all r (pv, s) = s \<or> CHR ''['' \<in> set (replace_all r (pv, s))"
proof (induction s arbitrary: pv)
  case (Cons c s)
  show ?case
    using Cons.IH [of "Some c"] assms by (cases rule: replace_all_Cons_cases [of r pv c s]) auto
qed simp

lemma replace_all_keeps_mark:
  assumes "CHR ''['' \<in> set (literal r)" and "CHR ''['' \<in> set s"
  shows "CHR ''['' \<in> set (replace_all r (pv, s))"
  using assms(2)
proof (induction s arbitrary: pv)
  case (Cons c s)
  then show ?case
    using assms(1) by (cases rule: replace_all_Cons_cases [of r pv c s]) auto
qed simp

lemmas rule_defs =
  bearerRegex_def envAssignmentRegex_def githubTokenRegex_def openAIRegex_def awsKeyRegex_def

lemma rules_marked:
  "CHR ''['' \<in> set (literal bearerRegex)" "CHR ''['' \<in> set (literal envAssignmentRegex)"
  "CHR ''['' \<in> set (literal githubTokenRegex)" "CHR ''['' \<in> set (literal openAIRegex)"
  "CHR ''['' \<in> set (literal awsKeyRegex)"
  by (simp_all add: rule_defs RedactedMarker_def)

subsection \<open>Text that no rule touches\<close>

text \<open>
  \<open>requires Q p\<close>: every text that \<open>p\<close> matches has a byte with \<open>Q\<close>. A string without such a
  byte is left alone; this is also how long plain texts are evaluated.
\<close>

primrec requires :: "(char \<Rightarrow> bool) \<Rightarrow> pattern \<Rightarrow> bool" where
  "requires Q Eps = False"
| "requires Q Boundary = False"
| "requires Q (One p alts) \<longleftrightarrow> alts = [] \<and> (\<forall>d. p d \<longrightarrow> Q d)"
| "requires Q (Many p alts) = False"
| "requires Q (Seq a b) \<longleftrightarrow> requires Q a \<or> requires Q b"
| "requires Q (Alt a b) \<longleftrightarrow> requires Q a \<and> requires Q b"

lemma take_one_subset: "take_one p alts s = Some (c, s') \<Longrightarrow> set s' \<subseteq> set s"
  by (cases s) (auto split: if_splits option.splits dest: in_set_dropD)

lemma many_subset: "e \<in> set (many p alts pos) \<Longrightarrow> set (snd e) \<subseteq> set (snd pos)"
proof (induction p alts pos rule: many.induct)
  case (1 p alts pos)
  then show ?case
    by (subst (asm) (2) many.simps) (fastforce split: option.splits dest: take_one_subset)
qed

lemma matches_subset: "e \<in> set (matches p pos) \<Longrightarrow> set (snd e) \<subseteq> set (snd pos)"
proof (induction p arbitrary: e pos)
  case (One p alts)
  then show ?case by (cases "take_one p alts (snd pos)") (auto dest!: take_one_subset)
next
  case (Many p alts)
  then show ?case using many_subset by fastforce
next
  case (Seq a b)
  then show ?case by simp blast
next
  case (Alt a b)
  then show ?case by simp blast
qed (auto split: if_splits)

lemma requires_byte: "requires Q p \<Longrightarrow> e \<in> set (matches p pos) \<Longrightarrow> \<exists>c\<in>set (snd pos). Q c"
proof (induction p arbitrary: e pos)
  case (One p alts)
  then show ?case by (cases "snd pos") (auto split: if_splits)
next
  case (Seq a b)
  then show ?case using matches_subset by simp blast
qed auto

lemma replace_all_plain:
  assumes "requires Q (group1 r) \<or> requires Q (after1 r)"
  shows "list_all (\<lambda>c. \<not> Q c) s \<Longrightarrow> replace_all r (pv, s) = s"
proof (induction s arbitrary: pv)
  case (Cons c s)
  have "matches (after1 r) g = []" if "g \<in> set (matches (group1 r) (pv, c # s))" for g
  proof (rule ccontr)
    assume "matches (after1 r) g \<noteq> []"
    then obtain e where "e \<in> set (matches (after1 r) g)" by (cases "matches (after1 r) g") auto
    with assms requires_byte [OF _ that] requires_byte [of Q "after1 r" e g] matches_subset [OF that]
    have "\<exists>d\<in>set (c # s). Q d" unfolding snd_conv by blast
    with Cons.prems show False by (auto simp: list_all_iff)
  qed
  then have "concat (map (\<lambda>g. map (Pair g) (matches (after1 r) g)) (matches (group1 r) (pv, c # s))) = []"
    by simp
  then have "match_at r (pv, c # s) = None" by (simp only: match_at_def list.case if_cancel)
  with Cons show ?case by simp
qed simp

text \<open>The bytes that each rule cannot match without.\<close>

definition replace_if :: "(char \<Rightarrow> bool) list \<Rightarrow> scrub_rule \<Rightarrow> string \<Rightarrow> string" where
  "replace_if Qs r s = (if list_ex (\<lambda>Q. list_all (\<lambda>c. \<not> Q c) s) Qs then s else ReplaceAllString r s)"

lemma replace_if_eq:
  assumes "\<And>Q. Q \<in> set Qs \<Longrightarrow> requires Q (group1 r) \<or> requires Q (after1 r)"
  shows "replace_if Qs r s = ReplaceAllString r s"
proof (cases "list_ex (\<lambda>Q. list_all (\<lambda>c. \<not> Q c) s) Qs")
  case True
  then obtain Q where Q: "Q \<in> set Qs" "list_all (\<lambda>c. \<not> Q c) s" by (auto simp: list_ex_iff)
  have "replace_all r (None, s) = s" using assms [OF Q(1)] Q(2) by (rule replace_all_plain)
  then show ?thesis by (simp add: replace_if_def ReplaceAllString_def)
qed (simp add: replace_if_def)

lemma replace_if_rules:
  "replace_if [regex_space] bearerRegex = ReplaceAllString bearerRegex"
  "replace_if [\<lambda>c. c = CHR ''=''] envAssignmentRegex = ReplaceAllString envAssignmentRegex"
  "replace_if [\<lambda>c. c = CHR ''h'', \<lambda>c. c = CHR ''_''] githubTokenRegex = ReplaceAllString githubTokenRegex"
  "replace_if [\<lambda>c. c = CHR ''k'', \<lambda>c. c = CHR ''-''] openAIRegex = ReplaceAllString openAIRegex"
  "replace_if [\<lambda>c. c = CHR ''K'', \<lambda>c. c = CHR ''I''] awsKeyRegex = ReplaceAllString awsKeyRegex"
  by (rule ext, rule replace_if_eq, auto simp: rule_defs lit_def)+

lemma ScrubString_code [code]:
  "ScrubString s =
     replace_if [\<lambda>c. c = CHR ''K'', \<lambda>c. c = CHR ''I''] awsKeyRegex
       (replace_if [\<lambda>c. c = CHR ''k'', \<lambda>c. c = CHR ''-''] openAIRegex
         (replace_if [\<lambda>c. c = CHR ''h'', \<lambda>c. c = CHR ''_''] githubTokenRegex
           (replace_if [\<lambda>c. c = CHR ''=''] envAssignmentRegex
             (replace_if [regex_space] bearerRegex s))))"
  unfolding replace_if_rules by (simp add: ScrubString_def ReplaceAllString_def)

lemma lower_char_code [code]:
  "lower_char (Char b0 b1 b2 b3 b4 b5 b6 b7) =
     (if \<not> b7 \<and> b6 \<and> \<not> b5 \<and> (b0 \<or> b1 \<or> b2 \<or> b3 \<or> b4) \<and> \<not> (b4 \<and> b3 \<and> (b2 \<or> b1 \<and> b0))
      then Char b0 b1 b2 b3 b4 True b6 b7 else Char b0 b1 b2 b3 b4 b5 b6 b7)"
  by (cases b0; cases b1; cases b2; cases b3; cases b4; cases b5; cases b6; cases b7)
    (simp_all add: lower_char_def)

text \<open>Printable ASCII without quote, backslash and the HTML characters is copied.\<close>

fun json_plain :: "char \<Rightarrow> bool" where
  "json_plain (Char b0 b1 b2 b3 b4 b5 b6 b7) \<longleftrightarrow>
     \<not> b7 \<and> (b5 \<or> b6) \<and>
     Char b0 b1 b2 b3 b4 b5 b6 b7 \<notin> set [CHR 0x5C, CHR 0x22, CHR ''<'', CHR ''>'', CHR ''&'']"

lemma json_plain_escape: "json_plain c \<Longrightarrow> byte c < 128 \<and> escape_ascii c = [c]"
proof (cases c)
  case (Char b0 b1 b2 b3 b4 b5 b6 b7)
  assume "json_plain c"
  then show ?thesis
    unfolding Char
    by (cases b0; cases b1; cases b2; cases b3; cases b4; cases b5; cases b6; cases b7)
      (simp_all add: byte_def escape_ascii_def)
qed

lemma json_chars_code [code]:
  "json_chars [] = []"
  "json_chars (c # s) =
     (if json_plain c then c # json_chars s
      else if byte c < 128 then escape_ascii c @ json_chars s
      else if rune_length (c # s) = 0 then CHR 0x5C # ''ufffd'' @ json_chars s
      else if take 3 (c # s) = [CHR 0xE2, CHR 0x80, CHR 0xA8] then CHR 0x5C # ''u2028'' @ json_chars (drop 2 s)
      else if take 3 (c # s) = [CHR 0xE2, CHR 0x80, CHR 0xA9] then CHR 0x5C # ''u2029'' @ json_chars (drop 2 s)
      else take (rune_length (c # s)) (c # s) @ json_chars (drop (rune_length (c # s)) (c # s)))"
  using json_plain_escape [of c] by auto

lemma ReplaceAllString_marked:
  assumes "CHR ''['' \<in> set (literal r)" and "s = t \<or> CHR ''['' \<in> set s"
  shows "ReplaceAllString r s = t \<or> CHR ''['' \<in> set (ReplaceAllString r s)"
  using replace_all_marked [OF assms(1), of None s] replace_all_keeps_mark [OF assms(1), of s None]
    assms(2)
  by (auto simp: ReplaceAllString_def)

lemma ScrubString_marked: "ScrubString s = s \<or> CHR ''['' \<in> set (ScrubString s)"
  unfolding ScrubString_def Let_def
  by (simp add: ReplaceAllString_marked rules_marked)

lemma drop_prefix_keeps:
  assumes "HasPrefix s w" and "c \<notin> set w" and "c \<in> set s"
  shows "c \<in> set (drop (length w) s)"
proof -
  have "set s = set (take (length w) s) \<union> set (drop (length w) s)"
    by (metis append_take_drop_id set_append)
  with assms show ?thesis by auto
qed

lemma strip_front_keeps:
  assumes "c \<in> set s" and "\<And>w. w \<in> set ws \<Longrightarrow> c \<notin> set w"
  shows "c \<in> set (strip_front ws s)"
  using assms(1)
proof (induction "length s" arbitrary: s rule: less_induct)
  case less
  show ?case
  proof (cases "find (\<lambda>w. w \<noteq> [] \<and> HasPrefix s w) ws")
    case None
    then show ?thesis using less.prems by (subst strip_front.simps) simp
  next
    case (Some w)
    then have w: "w \<in> set ws" "w \<noteq> []" "take (length w) s = w"
      by (auto dest: find_SomeD)
    then have "c \<in> set (drop (length w) s)"
      using less.prems assms(2) by (intro drop_prefix_keeps) auto
    moreover have "length (drop (length w) s) < length s"
      using w less.prems by (cases s) auto
    ultimately have "c \<in> set (strip_front ws (drop (length w) s))"
      by (intro less.hyps) auto
    with Some show ?thesis by (subst strip_front.simps) simp
  qed
qed

lemma TrimSpace_keeps: "CHR ''['' \<in> set s \<Longrightarrow> CHR ''['' \<in> set (TrimSpace s)"
proof -
  assume "CHR ''['' \<in> set s"
  then have "CHR ''['' \<in> set (strip_front space_runes s)"
    by (rule strip_front_keeps) (auto simp: space_runes_def)
  then have "CHR ''['' \<in> set (rev (strip_front space_runes s))" by simp
  then have "CHR ''['' \<in> set (strip_front (map rev space_runes) (rev (strip_front space_runes s)))"
    by (rule strip_front_keeps) (auto simp: space_runes_def)
  then show ?thesis by (simp add: TrimSpace_def)
qed

lemma ToLower_keeps: "CHR ''['' \<in> set s \<Longrightarrow> CHR ''['' \<in> set (ToLower s)"
proof (induction s rule: ToLower.induct)
  case (2 c s)
  show ?case
  proof (cases "CHR ''['' = c")
    case True
    have "lower_char (CHR ''['') = CHR ''[''" by code_simp
    with True have "ToLower (c # s) = CHR ''['' # ToLower s" by auto
    then show ?thesis by simp
  next
    case False
    with "2.prems" have s: "CHR ''['' \<in> set s" by simp
    have "CHR ''['' \<in> set (drop 2 s)" if "HasPrefix s [CHR 0x84, CHR 0xAA]"
      using drop_prefix_keeps [OF that _ s] by (simp add: numeral_2_eq_2)
    moreover have "CHR ''['' \<in> set (drop 1 s)" if "HasPrefix s [CHR 0xB0]"
      using drop_prefix_keeps [OF that _ s] by simp
    ultimately show ?thesis using "2.IH" s by simp
  qed
qed simp

lemma normalizeKey_keeps: "CHR ''['' \<in> set k \<Longrightarrow> CHR ''['' \<in> set (normalizeKey k)"
proof -
  assume "CHR ''['' \<in> set k"
  then have "CHR ''['' \<in> set (ToLower (TrimSpace k))" by (intro ToLower_keeps TrimSpace_keeps)
  then have "(if CHR ''['' = CHR ''-'' then CHR ''_'' else CHR ''['') \<in> set (normalizeKey k)"
    unfolding normalizeKey_def replace_char_def set_map by (rule imageI)
  then show ?thesis by simp
qed

lemma marked_not_sensitive: "CHR ''['' \<in> set k \<Longrightarrow> \<not> IsSensitiveKey k"
  using normalizeKey_keeps [of k] by (auto simp: IsSensitiveKey_def sensitiveKeys_def)

lemma ScrubString_not_sensitive: "\<not> IsSensitiveKey k \<Longrightarrow> \<not> IsSensitiveKey (ScrubString k)"
  using ScrubString_marked [of k] marked_not_sensitive by auto

section \<open>Scrubbed values\<close>

text \<open>
  The promise of the scrubber: only plain JSON values remain, map keys are distinct, and a
  sensitive key carries nothing but the redaction marker, at every depth.
\<close>

fun scrubbed :: "goval \<Rightarrow> bool" where
  "scrubbed GNil = True"
| "scrubbed (GString s) = True"
| "scrubbed (GNumber n) = True"
| "scrubbed (GBool b) = True"
| "scrubbed (GInt i) = True"
| "scrubbed (GFloat f) = True"
| "scrubbed (GMap kvs) \<longleftrightarrow> distinct (map fst kvs) \<and>
     (\<forall>kv\<in>set kvs. (IsSensitiveKey (fst kv) \<longrightarrow> snd kv = GString RedactedMarker) \<and> scrubbed (snd kv))"
| "scrubbed (GList vs) \<longleftrightarrow> (\<forall>v\<in>set vs. scrubbed v)"
| "scrubbed v = False"

lemma scrub_sound:
  "ScrubValue v = Inr v' \<Longrightarrow> scrubbed v'"
  "scrub_entries res kvs = Inr res' \<Longrightarrow> scrubbed (GMap res) \<Longrightarrow> scrubbed (GMap res')"
  "scrub_items vs = Inr vs' \<Longrightarrow> scrubbed (GList vs')"
proof (induction v and res kvs and vs arbitrary: v' and res' and vs'
    rule: ScrubValue_scrub_entries_scrub_items.induct)
  case (18 res k item rest)
  define outKey where "outKey = (if IsSensitiveKey k then k else ScrubString k)"
  have fresh: "outKey \<notin> fst ` set res"
    using "18.prems"(1) by (auto simp: outKey_def Let_def split: if_splits)
  show ?case
  proof (cases "IsSensitiveKey k")
    case True
    then have "scrub_entries (res @ [(outKey, GString RedactedMarker)]) rest = Inr res'"
      using "18.prems"(1) fresh by (simp add: outKey_def)
    moreover have "scrubbed (GMap (res @ [(outKey, GString RedactedMarker)]))"
      using "18.prems"(2) fresh by auto
    ultimately show ?thesis
      using True fresh "18.IH"(1) by (simp add: outKey_def)
  next
    case False
    then obtain s where s: "ScrubValue item = Inr s"
      and rest: "scrub_entries (res @ [(outKey, s)]) rest = Inr res'"
      using "18.prems"(1) fresh by (auto simp: outKey_def result_simps)
    have "scrubbed s"
      using False fresh s "18.IH"(2) by (simp add: outKey_def)
    moreover have "\<not> IsSensitiveKey outKey"
      using False ScrubString_not_sensitive by (simp add: outKey_def)
    ultimately have "scrubbed (GMap (res @ [(outKey, s)]))"
      using "18.prems"(2) fresh by auto
    then show ?thesis
      using False fresh s rest "18.IH"(3) by (simp add: outKey_def)
  qed
qed (auto simp: result_simps split: if_splits)

lemma SanitizeDetails_cases:
  assumes "SanitizeDetails ds = Inr (ds', text)"
  obtains (empty) "ds = []" "ds' = []" "text = ''{}''"
  | (scrub) "ScrubValue (GMap ds) = Inr (GMap ds')" "json_marshal (GMap ds') = Some text"
proof (cases "ds = []")
  case True
  with assms show ?thesis by (intro empty) (auto simp: SanitizeDetails_def)
next
  case False
  then obtain v where v: "ScrubValue (GMap ds) = Inr v"
    using assms by (auto simp: SanitizeDetails_def result_simps simp del: ScrubValue.simps)
  with False assms show ?thesis
    by (intro scrub) (cases v; auto simp: SanitizeDetails_def split: option.splits
        simp del: ScrubValue.simps json_marshal.simps)+
qed

lemma SanitizeDetails_scrubbed:
  "SanitizeDetails ds = Inr (ds', text) \<Longrightarrow> scrubbed (GMap ds')"
  by (erule SanitizeDetails_cases) (simp, blast dest: scrub_sound(1))

lemma SanitizeAuditEvent_identity:
  assumes "SanitizeAuditEvent e = Inr (e', text)"
  shows "e_EventID e' = e_EventID e" "e_EventType e' = e_EventType e"
    "e_Timestamp e' = e_Timestamp e" "e_TaskID e' = e_TaskID e"
    "e_ContractID e' = e_ContractID e" "e_AttemptID e' = e_AttemptID e"
    "e_PairID e' = e_PairID e" "e_Actor e' = ScrubString (e_Actor e)"
  using assms by (auto simp: SanitizeAuditEvent_def result_simps)

section \<open>What the audit log never contains\<close>

text \<open>
  C31: when the details of an audit event are accepted, only plain JSON values are left in them,
  their keys are distinct at every depth, and every sensitive key, at every depth, carries the
  redaction marker and nothing else; the text that is stored is the JSON of these scrubbed values.
\<close>

theorem sanitized_details_redacted:
  assumes "SanitizeDetails ds = Inr (ds', js)"
  shows "scrubbed (GMap ds') \<and> (ds \<noteq> [] \<longrightarrow> json_marshal (GMap ds') = Some js)"
proof
  show "scrubbed (GMap ds')" by (rule SanitizeDetails_scrubbed [OF assms])
  show "ds \<noteq> [] \<longrightarrow> json_marshal (GMap ds') = Some js"
    using assms by (cases rule: SanitizeDetails_cases) simp_all
qed

theorem sanitized_details_redacted_witness:
  "scrubbed (GMap [(''actor'', GString ''ops''), (''Api-Key'', GString RedactedMarker)])"
proof -
  have "SanitizeDetails [(''actor'', GString ''ops''), (''Api-Key'', GInt 7)] =
      Inr ([(''actor'', GString ''ops''), (''Api-Key'', GString RedactedMarker)],
        the (json_marshal (GMap [(''actor'', GString ''ops''), (''Api-Key'', GString RedactedMarker)])))"
    by code_simp
  then show ?thesis by (rule sanitized_details_redacted [THEN conjunct1])
qed

end
