(* ===== verification/Store_Errors.thy ===== *)
theory Store_Errors
  imports Workflow Scrubber
begin

text \<open>
  The errors of \<open>internal/store/errors.go\<close>. An error value is known by the sentinel that
  \<open>errors.Is\<close> finds in it; the formatted text around the sentinel is not modelled. Errors
  without a sentinel are \<open>StoreError\<close> with the fixed part of their message, and \<open>SqlError\<close>
  is a driver error that the code passes on.
\<close>

datatype sql_error =
    SqlUnique | SqlForeignKey | SqlCheck | SqlAbort | SqlNoRows | SqlScanNull

datatype store_error =
    ErrProjectNotFound | ErrPairNotFound | ErrTaskNotFound | ErrContractNotFound
  | ErrAttemptNotFound | ErrTaskNotReady | ErrContractNotOwned | ErrContractImmutable
  | ErrStateConflict | ErrInconsistentPersistedState | ErrDuplicateKey
  | ErrForeignKeyViolation | ErrUnsupportedSchemaVersion | ErrWorkerSessionNotFound
  | ErrOperationNotFound | ErrInvalidOperationTransition | ErrAttemptLineageMismatch
  | ErrQuarantinedExecution | ErrAtomicDispatchRequired | ErrInvalidInitialTaskState
  | ErrReportPathMismatch | ErrStaleContractRevision | ErrInvalidContractLineage
  | ErrPairBusy | ErrReadyContractRequired | ErrContractInsertState | ErrAuditChainInvalid
  | ErrInvalidAuditLineage | ErrInvalidLimit | ErrAuditEventNotFound
  | ErrBoundDispatchRequired
  | ErrCanonicalTransition transition_error
  | ErrSanitize scrub_error
  | SqlError sql_error
  | StoreError string

text \<open>\<open>mapLifecycleWriteError\<close>, and the mapping of the plain inserts.\<close>

definition mapLifecycleWriteError :: "sql_error \<Rightarrow> store_error" where
  "mapLifecycleWriteError e =
     (case e of
        SqlForeignKey \<Rightarrow> ErrForeignKeyViolation
      | SqlUnique \<Rightarrow> ErrDuplicateKey
      | _ \<Rightarrow> SqlError e)"

fun map_error :: "('e \<Rightarrow> 'f) \<Rightarrow> 'e + 'a \<Rightarrow> 'f + 'a" where
  "map_error f (Inl e) = Inl (f e)"
| "map_error f (Inr x) = Inr x"

lemma map_error_eq_Inr [result_simps]: "map_error f m = Inr x \<longleftrightarrow> m = Inr x"
  by (cases m) auto

lemma map_error_eq_Inl [result_simps]: "map_error f m = Inl e \<longleftrightarrow> (\<exists>d. m = Inl d \<and> e = f d)"
  by (cases m) auto

end
