(* ===== verification/Report_Path.thy ===== *)
theory Report_Path
  imports Store_Errors
begin

text \<open>
  The report path policy of \<open>internal/store/report_path.go\<close>: which identities may be used as
  one path segment, and the canonical path of the report of an attempt. The lemmas show that
  an accepted identity is a single harmless path component and that the canonical path
  determines the task and the attempt.
\<close>

datatype segment_error =
    SegmentEmpty
  | SegmentWhitespace
  | SegmentTrailing
  | SegmentDots
  | SegmentTraversal
  | SegmentControl char
  | SegmentReserved char
  | SegmentDevice string

definition reserved_chars :: string where
  "reserved_chars = [CHR ''<'', CHR ''>'', CHR '':'', CHR 0x22, CHR ''/'', CHR 0x5C, CHR ''|'',
     CHR ''?'', CHR ''*'']"

definition device_names :: "string list" where
  "device_names =
     [''CON'', ''PRN'', ''AUX'', ''NUL'',
      ''COM1'', ''COM2'', ''COM3'', ''COM4'', ''COM5'', ''COM6'', ''COM7'', ''COM8'', ''COM9'',
      ''LPT1'', ''LPT2'', ''LPT3'', ''LPT4'', ''LPT5'', ''LPT6'', ''LPT7'', ''LPT8'', ''LPT9'']"

text \<open>The byte loop: the first control or reserved character is the error.\<close>

fun scan_bytes :: "string \<Rightarrow> segment_error option" where
  "scan_bytes [] = None"
| "scan_bytes (b # bs) =
     (if byte b \<le> 31 \<or> byte b = 127 then Some (SegmentControl b)
      else if b \<in> set reserved_chars then Some (SegmentReserved b)
      else scan_bytes bs)"

definition validateIdentitySegment :: "string \<Rightarrow> segment_error + unit" where
  "validateIdentitySegment val =
     (if val = [] then Inl SegmentEmpty
      else if TrimSpace val \<noteq> val then Inl SegmentWhitespace
      else if HasSuffix val '' '' \<or> HasSuffix val ''.'' then Inl SegmentTrailing
      else if val = ''.'' \<or> val = ''..'' then Inl SegmentDots
      else if Contains val ''..'' then Inl SegmentTraversal
      else case scan_bytes val of
        Some e \<Rightarrow> Inl e
      | None \<Rightarrow>
          let base = takeWhile (\<lambda>c. c \<noteq> CHR ''.'') val
          in if ToUpper base \<in> set device_names then Inl (SegmentDevice base) else Inr ())"

definition CanonicalExpectedReportPath :: "string \<Rightarrow> string \<Rightarrow> store_error + string" where
  "CanonicalExpectedReportPath taskID attemptID =
     (case validateIdentitySegment taskID of
        Inl _ \<Rightarrow> Inl ErrReportPathMismatch
      | Inr _ \<Rightarrow>
         (case validateIdentitySegment attemptID of
            Inl _ \<Rightarrow> Inl ErrReportPathMismatch
          | Inr _ \<Rightarrow> Inr (''.supervisor/reports/'' @ taskID @ ''/'' @ attemptID @ ''.json'')))"

section \<open>Accepted segments\<close>

lemma scan_bytes_None:
  "scan_bytes s = None \<longleftrightarrow> (\<forall>b\<in>set s. 31 < byte b \<and> byte b \<noteq> 127 \<and> b \<notin> set reserved_chars)"
  by (induction s) auto

lemma segment_ok_iff:
  "validateIdentitySegment s = Inr u \<longleftrightarrow>
     s \<noteq> [] \<and> TrimSpace s = s \<and> \<not> HasSuffix s '' '' \<and> \<not> HasSuffix s ''.'' \<and>
     \<not> Contains s ''..'' \<and>
     (\<forall>b\<in>set s. 31 < byte b \<and> byte b \<noteq> 127 \<and> b \<notin> set reserved_chars) \<and>
     ToUpper (takeWhile (\<lambda>c. c \<noteq> CHR ''.'') s) \<notin> set device_names"
proof -
  have "s = ''.'' \<Longrightarrow> HasSuffix s ''.''" and "s = ''..'' \<Longrightarrow> HasSuffix s ''.''"
    by (simp_all add: HasSuffix_def)
  moreover have "scan_bytes s = None \<longleftrightarrow>
      (\<forall>b\<in>set s. 31 < byte b \<and> byte b \<noteq> 127 \<and> b \<notin> set reserved_chars)"
    by (rule scan_bytes_None)
  ultimately show ?thesis
    by (auto simp: validateIdentitySegment_def Let_def split: option.splits)
qed

lemma segment_no_slash:
  "validateIdentitySegment s = Inr u \<Longrightarrow> CHR ''/'' \<notin> set s \<and> CHR 0x5C \<notin> set s"
  by (auto simp: segment_ok_iff reserved_chars_def)

lemma segment_not_parent: "validateIdentitySegment s = Inr u \<Longrightarrow> s \<noteq> ''..''"
  by (auto simp: segment_ok_iff)

section \<open>The canonical path\<close>

lemma CanonicalExpectedReportPath_ok:
  "CanonicalExpectedReportPath t a = Inr p \<longleftrightarrow>
     validateIdentitySegment t = Inr () \<and> validateIdentitySegment a = Inr () \<and>
     p = ''.supervisor/reports/'' @ t @ ''/'' @ a @ ''.json''"
  by (auto simp: CanonicalExpectedReportPath_def split: sum.splits)

lemma split_first:
  assumes "d \<notin> set a"
  shows "split_at_char d (a @ d # s) = a # split_at_char d s"
  using assms by (induction a) auto

lemma split_single: "d \<notin> set a \<Longrightarrow> split_at_char d a = [a]"
  by (induction a) auto

lemma report_path_components:
  assumes "CanonicalExpectedReportPath t a = Inr p"
  shows "split_at_char (CHR ''/'') p = [''.supervisor'', ''reports'', t, a @ ''.json'']"
proof -
  from assms have p: "p = ''.supervisor/reports/'' @ t @ ''/'' @ a @ ''.json''"
    and t: "CHR ''/'' \<notin> set t" and a: "CHR ''/'' \<notin> set a"
    by (auto simp: CanonicalExpectedReportPath_ok dest: segment_no_slash)
  let ?d = "CHR ''/''"
  have eq: "p = ''.supervisor'' @ ?d # (''reports'' @ ?d # (t @ ?d # (a @ ''.json'')))"
    by (simp add: p)
  have "split_at_char ?d (a @ ''.json'') = [a @ ''.json'']"
    by (rule split_single) (use a in simp)
  then have "split_at_char ?d (t @ ?d # (a @ ''.json'')) = [t, a @ ''.json'']"
    using split_first [OF t, of "a @ ''.json''"] by simp
  then show ?thesis
    unfolding eq by simp
qed

text \<open>
  C35: the canonical report path is one file two levels below \<open>.supervisor/reports\<close>: it splits
  into exactly the four components that the policy names, none of them the parent directory, and
  two attempts have the same path only if they are the same attempt of the same task.
\<close>

theorem report_path_confined_and_injective:
  assumes "CanonicalExpectedReportPath t a = Inr p" and "CanonicalExpectedReportPath u b = Inr q"
  shows "split_at_char (CHR ''/'') p = [''.supervisor'', ''reports'', t, a @ ''.json''] \<and>
    ''..'' \<notin> set (split_at_char (CHR ''/'') p) \<and> (p = q \<longrightarrow> t = u \<and> a = b)"
proof -
  have p: "split_at_char (CHR ''/'') p = [''.supervisor'', ''reports'', t, a @ ''.json'']"
    and q: "split_at_char (CHR ''/'') q = [''.supervisor'', ''reports'', u, b @ ''.json'']"
    by (rule report_path_components [OF assms(1)], rule report_path_components [OF assms(2)])
  have "t \<noteq> ''..''"
    using assms(1) by (auto simp: CanonicalExpectedReportPath_ok dest: segment_not_parent)
  moreover have "a @ ''.json'' \<noteq> ''..''" by (auto simp: append_eq_Cons_conv)
  ultimately have "''..'' \<notin> set (split_at_char (CHR ''/'') p)" unfolding p by auto
  moreover have "p = q \<longrightarrow> t = u \<and> a = b" using p q by auto
  ultimately show ?thesis using p by blast
qed

theorem report_path_confined_and_injective_witness:
  "split_at_char (CHR ''/'') ''.supervisor/reports/task-1/attempt-1.json'' =
     [''.supervisor'', ''reports'', ''task-1'', ''attempt-1.json'']"
proof -
  have p: "CanonicalExpectedReportPath ''task-1'' ''attempt-1'' =
      Inr ''.supervisor/reports/task-1/attempt-1.json''"
    by code_simp
  show ?thesis using report_path_confined_and_injective [OF p p] by simp
qed

end
