(* ===== verification/Database.thy ===== *)
theory Database
  imports Store_Errors
begin

text \<open>
  The SQLite schema of \<open>internal/store/migrations.go\<close> at version 5: one list of rows per table
  and, per table, the \<open>INSERT\<close> with the CHECK, UNIQUE and FOREIGN KEY constraints and the
  triggers of the schema. Constraints are tested in SQLite's order: triggers, CHECK, UNIQUE,
  FOREIGN KEY. Transactions are opened with \<open>_txlock=immediate\<close>, so they are serialised, and a
  transaction that returns an error is rolled back: an operation is a function from the
  database to an error or the committed database.
\<close>

section \<open>Rows and tables\<close>

text \<open>
  Time columns hold the time that \<open>formatTime\<close> writes and \<open>parseTime\<close> reads back, except the
  timestamp of an audit event, which is kept as the text that enters the hash. The blank
  strings of \<open>repo_url\<close> and \<open>active_task_id\<close> stand for NULL. The payload of a contract is
  the contract value whose JSON the column holds.
\<close>

record contract_row =
  cr_contract_id :: string
  cr_task_id :: string
  cr_revision_number :: int
  cr_supersedes_contract_id :: "string option"
  cr_base_sha :: string
  cr_payload :: TaskContract
  cr_is_immutable :: bool

record audit_row =
  ar_sequence :: int
  ar_event_id :: string
  ar_event_type :: string
  ar_timestamp :: string
  ar_pair_id :: "string option"
  ar_task_id :: "string option"
  ar_contract_id :: "string option"
  ar_attempt_id :: "string option"
  ar_actor :: string
  ar_details_json :: string
  ar_prev_hash :: string
  ar_event_hash :: string

record db =
  projects :: "Project list"
  pairs :: "Pair list"
  tasks :: "Task list"
  task_contracts :: "contract_row list"
  task_attempts :: "TaskAttempt list"
  audit_events :: "audit_row list"
  last_sequence :: int
  last_hash :: string
  worker_sessions :: "WorkerSession list"
  pair_provisioning_operations :: "PairProvisioningOperation list"
  dispatch_operations :: "DispatchOperation list"
  stop_operations :: "StopOperation list"
  restore_authorizations :: "RestoreAuthorization list"
  pair_restore_operations :: "PairRestoreOperation list"
  attempt_execution_budgets :: "ExecutionBudget list"

definition GenesisAuditHash :: string where
  "GenesisAuditHash = replicate 64 (CHR ''0'')"

text \<open>The database that \<open>migrate\<close> leaves when it is opened for the first time.\<close>

definition empty_db :: db where
  "empty_db =
     \<lparr>projects = [], pairs = [], tasks = [], task_contracts = [], task_attempts = [],
      audit_events = [], last_sequence = 0, last_hash = GenesisAuditHash,
      worker_sessions = [], pair_provisioning_operations = [], dispatch_operations = [],
      stop_operations = [], restore_authorizations = [], pair_restore_operations = [], attempt_execution_budgets = []\<rparr>"

text \<open>
  What a call takes from its host: the clock, the entropy of the event ids it draws (none when
  the random source fails), the SHA-256 digest, SQLite's \<open>json_extract\<close> of one top-level
  member of a JSON text (none is NULL), and the decoder of package \<open>encoding/json\<close> at the
  struct of a stop acceptance: the attempt id with the accepted decision, none when the decoder
  returns an error.
\<close>

datatype sql_value = SqlText string | SqlInteger int | SqlReal string

record stopAcceptance =
  sa_Principal :: string
  sa_Scope :: string
  sa_Reason :: string
  sa_Class :: string
  sa_SessionID :: string
  sa_Generation :: string
  sa_RestoreID :: string
  sa_OldResolution :: string
  sa_Evidence :: "string list"

record host =
  h_now :: time
  h_entropy :: "nat \<Rightarrow> string option"
  h_sha256 :: "string \<Rightarrow> string"
  h_json_extract :: "string \<Rightarrow> string \<Rightarrow> sql_value option"
  h_unmarshal_acceptance :: "string \<Rightarrow> (string \<times> stopAcceptance) option"

text \<open>
  Comparisons with an extracted member. A bound parameter has no affinity, so only a text equals
  it; a text column lends its affinity, so a number is compared by its text.
\<close>

fun text_affinity :: "sql_value \<Rightarrow> string" where
  "text_affinity (SqlText t) = t"
| "text_affinity (SqlInteger i) = show_int i"
| "text_affinity (SqlReal r) = r"

definition json_is :: "host \<Rightarrow> audit_row \<Rightarrow> string \<Rightarrow> string \<Rightarrow> bool" where
  "json_is h e k v \<longleftrightarrow> h_json_extract h (ar_details_json e) k = Some (SqlText v)"

definition json_column :: "host \<Rightarrow> audit_row \<Rightarrow> string \<Rightarrow> string option" where
  "json_column h e k = map_option text_affinity (h_json_extract h (ar_details_json e) k)"

definition now_if_zero :: "host \<Rightarrow> time \<Rightarrow> time" where
  "now_if_zero h t = (if IsZero t then h_now h else t)"

section \<open>Queries\<close>

definition task_of :: "db \<Rightarrow> string \<Rightarrow> Task option" where
  "task_of s tid = find (\<lambda>t. t_TaskID t = tid) (tasks s)"

definition contract_of :: "db \<Rightarrow> string \<Rightarrow> contract_row option" where
  "contract_of s cid = find (\<lambda>c. cr_contract_id c = cid) (task_contracts s)"

definition attempt_of :: "db \<Rightarrow> string \<Rightarrow> TaskAttempt option" where
  "attempt_of s aid = find (\<lambda>a. a_AttemptID a = aid) (task_attempts s)"

definition session_of :: "db \<Rightarrow> string \<Rightarrow> WorkerSession option" where
  "session_of s pid = find (\<lambda>w. w_PairID w = pid) (worker_sessions s)"

definition dispatch_of :: "db \<Rightarrow> string \<Rightarrow> DispatchOperation option" where
  "dispatch_of s oid = find (\<lambda>d. d_OperationID d = oid) (dispatch_operations s)"

definition stop_of :: "db \<Rightarrow> string \<Rightarrow> StopOperation option" where
  "stop_of s oid = find (\<lambda>st. st_OperationID st = oid) (stop_operations s)"

text \<open>\<open>SELECT 1 FROM t WHERE key = ?\<close>.\<close>

definition has_project :: "db \<Rightarrow> string \<Rightarrow> bool" where
  "has_project s i \<longleftrightarrow> list_ex (\<lambda>p. p_ProjectID p = i) (projects s)"

definition has_pair :: "db \<Rightarrow> string \<Rightarrow> bool" where
  "has_pair s i \<longleftrightarrow> list_ex (\<lambda>p. pr_PairID p = i) (pairs s)"

definition has_task :: "db \<Rightarrow> string \<Rightarrow> bool" where
  "has_task s i \<longleftrightarrow> list_ex (\<lambda>t. t_TaskID t = i) (tasks s)"

definition has_contract :: "db \<Rightarrow> string \<Rightarrow> bool" where
  "has_contract s i \<longleftrightarrow> list_ex (\<lambda>c. cr_contract_id c = i) (task_contracts s)"

definition has_attempt :: "db \<Rightarrow> string \<Rightarrow> bool" where
  "has_attempt s i \<longleftrightarrow> list_ex (\<lambda>a. a_AttemptID a = i) (task_attempts s)"

text \<open>The unresolved-operation guards that many transactions test for a pair.\<close>

definition unresolved_restore :: "db \<Rightarrow> string \<Rightarrow> bool" where
  "unresolved_restore s pid \<longleftrightarrow>
     list_ex (\<lambda>r. ro_PairID r = pid \<and> ro_ResolutionState r \<noteq> RestoreResolved)
       (pair_restore_operations s)"

definition unresolved_stage :: "PairProvisioningStage \<Rightarrow> bool" where
  "unresolved_stage st \<longleftrightarrow> st = ProvisionRequested \<or> st = ProvisionFailed"

definition unresolved_provisioning :: "db \<Rightarrow> string \<Rightarrow> bool" where
  "unresolved_provisioning s pid \<longleftrightarrow>
     list_ex (\<lambda>p. pv_PairID p = pid \<and> unresolved_stage (pv_Stage p))
       (pair_provisioning_operations s)"

definition pending_resolution :: "StopResolutionState \<Rightarrow> bool" where
  "pending_resolution r \<longleftrightarrow>
     r = StopResolutionInFlight \<or> r = StopResolutionCallOutcomeUnknown \<or>
     r = StopResolutionConfirmationTimeout \<or> r = StopResolutionReissueRequiresHuman"

definition pending_stop :: "db \<Rightarrow> string \<Rightarrow> bool" where
  "pending_stop s pid \<longleftrightarrow>
     list_ex (\<lambda>st. st_PairID st = pid \<and> pending_resolution (st_ResolutionState st))
       (stop_operations s)"

definition active_lane :: "TaskState \<Rightarrow> bool" where
  "active_lane st \<longleftrightarrow> st = StateDispatched \<or> st = StateRunning \<or> st = StateReviewing"

text \<open>\<open>checkPairQuery\<close>: another task of the pair is in an active-lane state.\<close>

definition pair_busy :: "db \<Rightarrow> string \<Rightarrow> string \<Rightarrow> bool" where
  "pair_busy s pid tid \<longleftrightarrow>
     list_ex (\<lambda>t. t_PairID t = pid \<and> t_TaskID t \<noteq> tid \<and> active_lane (t_State t)) (tasks s)"

section \<open>Inserts\<close>

fun valid_status :: "WorkerSessionStatus \<Rightarrow> bool" where
  "valid_status (OtherSessionStatus x) = False"
| "valid_status x = True"

fun valid_quarantine :: "QuarantineState \<Rightarrow> bool" where
  "valid_quarantine (OtherQuarantine x) = False"
| "valid_quarantine x = True"

fun valid_provisioning_stage :: "PairProvisioningStage \<Rightarrow> bool" where
  "valid_provisioning_stage (OtherProvisioningStage x) = False"
| "valid_provisioning_stage x = True"

fun valid_dispatch_stage :: "DispatchStage \<Rightarrow> bool" where
  "valid_dispatch_stage (OtherDispatchStage x) = False"
| "valid_dispatch_stage x = True"

fun valid_stop_purpose :: "StopPurpose \<Rightarrow> bool" where
  "valid_stop_purpose (OtherStopPurpose x) = False"
| "valid_stop_purpose x = True"

fun valid_stop_stage :: "StopStage \<Rightarrow> bool" where
  "valid_stop_stage (OtherStopStage x) = False"
| "valid_stop_stage x = True"

definition null_or :: "('a \<Rightarrow> bool) \<Rightarrow> 'a option \<Rightarrow> bool" where
  "null_or P x = (case x of None \<Rightarrow> True | Some v \<Rightarrow> P v)"

definition insert_project :: "Project \<Rightarrow> db \<Rightarrow> sql_error + db" where
  "insert_project p s =
     (if has_project s (p_ProjectID p) then Inl SqlUnique
      else Inr (s\<lparr>projects := projects s @ [p]\<rparr>))"

definition insert_pair :: "Pair \<Rightarrow> db \<Rightarrow> sql_error + db" where
  "insert_pair p s =
     (if has_pair s (pr_PairID p) \<or> list_ex (\<lambda>q. pr_ProjectID q = pr_ProjectID p) (pairs s)
      then Inl SqlUnique
      else if \<not> has_project s (pr_ProjectID p) then Inl SqlForeignKey
      else Inr (s\<lparr>pairs := pairs s @ [p]\<rparr>))"

definition insert_task :: "Task \<Rightarrow> db \<Rightarrow> sql_error + db" where
  "insert_task t s =
     (if \<not> IsValid (t_State t) \<or> t_CurrentAttempt t < 0 then Inl SqlCheck
      else if has_task s (t_TaskID t) then Inl SqlUnique
      else if \<not> has_pair s (t_PairID t) then Inl SqlForeignKey
      else Inr (s\<lparr>tasks := tasks s @ [t]\<rparr>))"

definition insert_contract :: "contract_row \<Rightarrow> db \<Rightarrow> sql_error + db" where
  "insert_contract c s =
     (if cr_revision_number c < 1 then Inl SqlCheck
      else if has_contract s (cr_contract_id c)
        \<or> list_ex (\<lambda>d. cr_task_id d = cr_task_id c \<and> cr_revision_number d = cr_revision_number c)
            (task_contracts s)
        \<or> (cr_supersedes_contract_id c \<noteq> None \<and>
            list_ex (\<lambda>d. cr_supersedes_contract_id d = cr_supersedes_contract_id c) (task_contracts s))
      then Inl SqlUnique
      else if \<not> has_task s (cr_task_id c)
        \<or> \<not> null_or (\<lambda>i. i = cr_contract_id c \<or> has_contract s i) (cr_supersedes_contract_id c)
      then Inl SqlForeignKey
      else Inr (s\<lparr>task_contracts := task_contracts s @ [c]\<rparr>))"

definition insert_attempt :: "TaskAttempt \<Rightarrow> db \<Rightarrow> sql_error + db" where
  "insert_attempt a s =
     (if \<not> 0 < a_AttemptNumber a \<or> \<not> valid_quarantine (a_QuarantineState a) then Inl SqlCheck
      else if has_attempt s (a_AttemptID a)
        \<or> list_ex (\<lambda>b. a_TaskID b = a_TaskID a \<and> a_AttemptNumber b = a_AttemptNumber a) (task_attempts s)
      then Inl SqlUnique
      else if \<not> has_task s (a_TaskID a)
        \<or> \<not> list_ex (\<lambda>c. cr_contract_id c = a_ContractID a \<and> cr_task_id c = a_TaskID a) (task_contracts s)
      then Inl SqlForeignKey
      else Inr (s\<lparr>task_attempts := task_attempts s @ [a]\<rparr>))"

text \<open>The trigger \<open>trg_audit_events_prevent_replace\<close> fires before the UNIQUE constraints.\<close>

definition insert_audit_event :: "audit_row \<Rightarrow> db \<Rightarrow> sql_error + db" where
  "insert_audit_event r s =
     (if list_ex (\<lambda>q. ar_sequence q = ar_sequence r \<or> ar_event_id q = ar_event_id r) (audit_events s)
      then Inl SqlAbort
      else if list_ex (\<lambda>q. ar_event_hash q = ar_event_hash r) (audit_events s) then Inl SqlUnique
      else Inr (s\<lparr>audit_events := audit_events s @ [r]\<rparr>))"

definition insert_session :: "WorkerSession \<Rightarrow> db \<Rightarrow> sql_error + db" where
  "insert_session w s =
     (if \<not> valid_status (w_Status w) \<or> \<not> valid_quarantine (w_QuarantineState w) then Inl SqlCheck
      else if list_ex (\<lambda>v. w_PairID v = w_PairID w \<or> w_SessionID v = w_SessionID w) (worker_sessions s)
      then Inl SqlUnique
      else if \<not> has_pair s (w_PairID w) then Inl SqlForeignKey
      else Inr (s\<lparr>worker_sessions := worker_sessions s @ [w]\<rparr>))"

definition insert_provisioning :: "PairProvisioningOperation \<Rightarrow> db \<Rightarrow> sql_error + db" where
  "insert_provisioning p s =
     (if \<not> valid_provisioning_stage (pv_Stage p) then Inl SqlCheck
      else if list_ex (\<lambda>q. pv_OperationID q = pv_OperationID p) (pair_provisioning_operations s)
        \<or> (unresolved_stage (pv_Stage p) \<and> unresolved_provisioning s (pv_PairID p))
      then Inl SqlUnique
      else if \<not> has_pair s (pv_PairID p) then Inl SqlForeignKey
      else Inr (s\<lparr>pair_provisioning_operations := pair_provisioning_operations s @ [p]\<rparr>))"

definition insert_dispatch :: "DispatchOperation \<Rightarrow> db \<Rightarrow> sql_error + db" where
  "insert_dispatch d s =
     (if \<not> valid_dispatch_stage (d_Stage d) then Inl SqlCheck
      else if list_ex (\<lambda>e. d_OperationID e = d_OperationID d \<or> d_AttemptID e = d_AttemptID d)
          (dispatch_operations s)
      then Inl SqlUnique
      else if \<not> has_attempt s (d_AttemptID d) \<or> \<not> has_pair s (d_PairID d) \<or> \<not> has_task s (d_TaskID d)
      then Inl SqlForeignKey
      else Inr (s\<lparr>dispatch_operations := dispatch_operations s @ [d]\<rparr>))"

definition insert_stop :: "StopOperation \<Rightarrow> db \<Rightarrow> sql_error + db" where
  "insert_stop st s =
     (if \<not> valid_stop_purpose (st_Purpose st) \<or> \<not> valid_stop_stage (st_Stage st)
        \<or> \<not> null_or (\<lambda>x. x = ''TIMEOUT'') (st_InitiatingFailureReason st)
      then Inl SqlCheck
      else if list_ex (\<lambda>q. st_OperationID q = st_OperationID st
          \<or> (st_RestoreOperationID st \<noteq> None \<and> st_RestoreOperationID q = st_RestoreOperationID st)
          \<or> (st_Purpose st = RunningAttemptStop \<and> st_AttemptID st \<noteq> None \<and>
             st_Purpose q = RunningAttemptStop \<and> st_AttemptID q = st_AttemptID st))
          (stop_operations s)
      then Inl SqlUnique
      else if \<not> has_pair s (st_PairID st) \<or> \<not> null_or (has_task s) (st_TaskID st)
        \<or> \<not> null_or (has_contract s) (st_ContractID st) \<or> \<not> null_or (has_attempt s) (st_AttemptID st)
        \<or> \<not> null_or (\<lambda>i. list_ex (\<lambda>r. ro_OperationID r = i) (pair_restore_operations s))
              (st_RestoreOperationID st)
      then Inl SqlForeignKey
      else Inr (s\<lparr>stop_operations := stop_operations s @ [st\<lparr>st_RestorePrincipal := None\<rparr>]\<rparr>))"

text \<open>SQL's \<open>trim\<close> strips blanks only.\<close>

definition sql_blank :: "string \<Rightarrow> bool" where
  "sql_blank x \<longleftrightarrow> list_all (\<lambda>c. c = CHR '' '') x"

definition budget_lineage :: "ExecutionBudget \<Rightarrow> db \<Rightarrow> bool" where
  "budget_lineage b s \<longleftrightarrow>
     list_ex (\<lambda>d. d_OperationID d = b_DispatchOperationID b \<and> d_AttemptID d = b_AttemptID b \<and>
       list_ex (\<lambda>a. a_AttemptID a = d_AttemptID d \<and> a_EndedAt a = None \<and>
         list_ex (\<lambda>t. t_TaskID t = a_TaskID a \<and> t_CurrentAttempt t = a_AttemptNumber a \<and>
           ((b_BindingBasis b = ''SEND_CONFIRMATION_ATOMIC'' \<and> t_State t = StateDispatched \<and>
               d_Stage d = SendRequested \<and> d_ConfirmedAt d = None) \<or>
            (b_BindingBasis b = ''LEGACY_OPERATOR_VERIFIED'' \<and>
               (t_State t = StateDispatched \<or> t_State t = StateRunning) \<and>
               d_Stage d = SendConfirmed \<and> d_ConfirmedAt d = Some (b_OriginAt b))))
           (tasks s)) (task_attempts s)) (dispatch_operations s)"

definition insert_budget :: "ExecutionBudget \<Rightarrow> db \<Rightarrow> sql_error + db" where
  "insert_budget b s =
     (if \<not> budget_lineage b s then Inl SqlAbort
      else if \<not> 0 < b_Duration b \<or> sql_blank (b_PolicyRef b)
        \<or> \<not> ((b_BindingBasis b = ''SEND_CONFIRMATION_ATOMIC'' \<and>
               b_AuthorizedPrincipal b = None \<and> b_EvidenceRef b = None) \<or>
             (b_BindingBasis b = ''LEGACY_OPERATOR_VERIFIED'' \<and>
               b_AuthorizedPrincipal b \<noteq> None \<and> b_EvidenceRef b \<noteq> None \<and>
               null_or (\<lambda>x. \<not> sql_blank x) (b_AuthorizedPrincipal b) \<and>
               null_or (\<lambda>x. \<not> sql_blank x) (b_EvidenceRef b)))
      then Inl SqlCheck
      else if list_ex (\<lambda>c. b_AttemptID c = b_AttemptID b \<or>
          b_DispatchOperationID c = b_DispatchOperationID b) (attempt_execution_budgets s)
      then Inl SqlUnique
      else if \<not> has_attempt s (b_AttemptID b)
        \<or> \<not> list_ex (\<lambda>d. d_OperationID d = b_DispatchOperationID b) (dispatch_operations s)
      then Inl SqlForeignKey
      else Inr (s\<lparr>attempt_execution_budgets := attempt_execution_budgets s @ [b]\<rparr>))"

text \<open>The CHECK constraints of the restore tables.\<close>

definition restore_authorization_checks :: "RestoreAuthorization \<Rightarrow> bool" where
  "restore_authorization_checks a \<longleftrightarrow>
     (ra_RiskScope a = ''POSSIBLE_PROMPT_REPLAY'' \<or>
      ra_RiskScope a = ''PROMPT_REPLAY_AND_UNRESOLVED_EXECUTION'') \<and>
     (ra_ConsumedAt a = None \<and> ra_ConsumedByOperationID a = None \<or>
      ra_ConsumedAt a \<noteq> None \<and> ra_ConsumedByOperationID a = Some (ra_OperationID a))"

definition insert_restore_authorization :: "RestoreAuthorization \<Rightarrow> db \<Rightarrow> sql_error + db" where
  "insert_restore_authorization a s =
     (if \<not> restore_authorization_checks a then Inl SqlCheck
      else if list_ex (\<lambda>q. ra_AuthorizationID q = ra_AuthorizationID a \<or>
          ra_OperationID q = ra_OperationID a \<or>
          ra_AuthorizationEventID q = ra_AuthorizationEventID a \<or>
          (ra_ConsumedByOperationID a \<noteq> None \<and> ra_ConsumedByOperationID q = ra_ConsumedByOperationID a))
          (restore_authorizations s)
      then Inl SqlUnique
      else if \<not> has_pair s (ra_PairID a)
        \<or> \<not> list_ex (\<lambda>r. ar_event_id r = ra_AuthorizationEventID a) (audit_events s)
      then Inl SqlForeignKey
      else Inr (s\<lparr>restore_authorizations := restore_authorizations s @ [a]\<rparr>))"

definition restore_operation_checks :: "PairRestoreOperation \<Rightarrow> bool" where
  "restore_operation_checks r \<longleftrightarrow>
     null_or (\<lambda>m. m = ''native'' \<or> m = ''saved_prompt'' \<or> m = ''fresh'') (ro_RestoreMode r) \<and>
     0 \<le> ro_Version r \<and>
     (ro_Stage r = ''RESTORE_CONFIRMED'' \<and> ro_HTTP200At r \<noteq> None \<and> ro_ObservedGeneration r \<noteq> None \<and>
        ro_RestoreMode r \<noteq> None \<or>
      ro_Stage r = ''RESTORE_REQUESTED'' \<and> ro_HTTP200At r = None \<and> ro_ObservedGeneration r = None \<and>
        ro_RestoreMode r = None) \<and>
     (ro_ResolutionState r = RestoreResolved \<and> ro_ResolvedAt r \<noteq> None \<and> ro_ResolutionBasis r \<noteq> None \<and>
        ro_ResolutionEventID r \<noteq> None \<or>
      ro_ResolutionState r \<noteq> RestoreResolved \<and> ro_ResolvedAt r = None \<and> ro_ResolutionBasis r = None \<and>
        ro_ResolutionEventID r = None) \<and>
     (ro_ResolutionBasis r = Some RestoreHTTP200Confirmed \<longrightarrow> ro_Stage r = ''RESTORE_CONFIRMED'') \<and>
     (ro_ResolutionState r = RestoreRecoveryClaimed \<or> ro_ResolutionState r = RestoreCleanupClaimed \<longrightarrow>
        ro_RecoveryPrincipal r \<noteq> None \<and> ro_RecoveryClaimedAt r \<noteq> None)"

definition insert_restore_operation :: "PairRestoreOperation \<Rightarrow> db \<Rightarrow> sql_error + db" where
  "insert_restore_operation r s =
     (if \<not> restore_operation_checks r then Inl SqlCheck
      else if list_ex (\<lambda>q. ro_OperationID q = ro_OperationID r \<or> ro_AuthorizationID q = ro_AuthorizationID r \<or>
          (ro_ResolutionEventID r \<noteq> None \<and> ro_ResolutionEventID q = ro_ResolutionEventID r))
          (pair_restore_operations s)
        \<or> (ro_ResolutionState r \<noteq> RestoreResolved \<and> unresolved_restore s (ro_PairID r))
      then Inl SqlUnique
      else if \<not> has_pair s (ro_PairID r)
        \<or> \<not> list_ex (\<lambda>a. ra_AuthorizationID a = ro_AuthorizationID r \<and> ra_OperationID a = ro_OperationID r \<and>
            ra_PairID a = ro_PairID r \<and> ra_SessionID a = ro_SessionID r \<and>
            ra_ExpectedGeneration a = ro_ExpectedGeneration r) (restore_authorizations s)
        \<or> \<not> null_or (\<lambda>i. list_ex (\<lambda>e. ar_event_id e = i) (audit_events s)) (ro_ResolutionEventID r)
      then Inl SqlForeignKey
      else Inr (s\<lparr>pair_restore_operations := pair_restore_operations s @ [r]\<rparr>))"

section \<open>Updates\<close>

text \<open>
  An \<open>UPDATE\<close> returns the number of affected rows with the new database. The updates of
  \<open>task_contracts\<close> and \<open>dispatch_operations\<close> run under triggers.
\<close>

definition update_tasks :: "(Task \<Rightarrow> bool) \<Rightarrow> (Task \<Rightarrow> Task) \<Rightarrow> db \<Rightarrow> nat \<times> db" where
  "update_tasks P f s =
     (rows_affected P (tasks s), s\<lparr>tasks := update_rows P f (tasks s)\<rparr>)"

definition update_attempts :: "(TaskAttempt \<Rightarrow> bool) \<Rightarrow> (TaskAttempt \<Rightarrow> TaskAttempt) \<Rightarrow> db \<Rightarrow> nat \<times> db" where
  "update_attempts P f s =
     (rows_affected P (task_attempts s), s\<lparr>task_attempts := update_rows P f (task_attempts s)\<rparr>)"

definition update_sessions :: "(WorkerSession \<Rightarrow> bool) \<Rightarrow> (WorkerSession \<Rightarrow> WorkerSession) \<Rightarrow> db \<Rightarrow> nat \<times> db" where
  "update_sessions P f s =
     (rows_affected P (worker_sessions s), s\<lparr>worker_sessions := update_rows P f (worker_sessions s)\<rparr>)"

definition update_provisioning ::
  "(PairProvisioningOperation \<Rightarrow> bool) \<Rightarrow> (PairProvisioningOperation \<Rightarrow> PairProvisioningOperation) \<Rightarrow>
     db \<Rightarrow> nat \<times> db" where
  "update_provisioning P f s =
     (rows_affected P (pair_provisioning_operations s),
      s\<lparr>pair_provisioning_operations := update_rows P f (pair_provisioning_operations s)\<rparr>)"

definition update_stops :: "(StopOperation \<Rightarrow> bool) \<Rightarrow> (StopOperation \<Rightarrow> StopOperation) \<Rightarrow> db \<Rightarrow> nat \<times> db" where
  "update_stops P f s =
     (rows_affected P (stop_operations s), s\<lparr>stop_operations := update_rows P f (stop_operations s)\<rparr>)"

definition freeze_contract :: "string \<Rightarrow> db \<Rightarrow> sql_error + db" where
  "freeze_contract cid s =
     (let P = (\<lambda>c. cr_contract_id c = cid \<and> \<not> cr_is_immutable c)
      in if list_ex (\<lambda>c. P c \<and> cr_is_immutable c) (task_contracts s) then Inl SqlAbort
         else Inr (s\<lparr>task_contracts := update_rows P (\<lambda>c. c\<lparr>cr_is_immutable := True\<rparr>) (task_contracts s)\<rparr>))"

definition dispatch_update_allowed :: "db \<Rightarrow> DispatchOperation \<Rightarrow> DispatchOperation \<Rightarrow> bool" where
  "dispatch_update_allowed s old new \<longleftrightarrow>
     (d_Stage new = SendConfirmed \<longrightarrow>
        d_ConfirmedAt new \<noteq> None \<and>
        list_ex (\<lambda>b. b_DispatchOperationID b = d_OperationID new \<and> b_AttemptID b = d_AttemptID new \<and>
          d_ConfirmedAt new = Some (b_OriginAt b)) (attempt_execution_budgets s)) \<and>
     (d_Stage old = SendConfirmed \<longrightarrow>
        d_Stage new = SendConfirmed \<and> d_ConfirmedAt new = d_ConfirmedAt old)"

text \<open>The statements that set \<open>stage\<close> or \<open>confirmed_at\<close> fire the two dispatch triggers.\<close>

definition update_dispatch_stage ::
  "(DispatchOperation \<Rightarrow> bool) \<Rightarrow> (DispatchOperation \<Rightarrow> DispatchOperation) \<Rightarrow> db \<Rightarrow>
     sql_error + (nat \<times> db)" where
  "update_dispatch_stage P f s =
     (if list_ex (\<lambda>d. P d \<and> \<not> dispatch_update_allowed s d (f d)) (dispatch_operations s)
      then Inl SqlAbort
      else Inr (rows_affected P (dispatch_operations s),
                s\<lparr>dispatch_operations := update_rows P f (dispatch_operations s)\<rparr>))"

text \<open>The triggers \<open>trg_restore_auth_immutable\<close> and \<open>trg_restore_op_forward_only\<close>.\<close>

definition authorization_update_allowed :: "RestoreAuthorization \<Rightarrow> RestoreAuthorization \<Rightarrow> bool" where
  "authorization_update_allowed old new \<longleftrightarrow>
     old\<lparr>ra_ConsumedAt := None, ra_ConsumedByOperationID := None\<rparr> =
       new\<lparr>ra_ConsumedAt := None, ra_ConsumedByOperationID := None\<rparr> \<and>
     (ra_ConsumedAt old \<noteq> None \<longrightarrow>
        ra_ConsumedAt new = ra_ConsumedAt old \<and>
        ra_ConsumedByOperationID new = ra_ConsumedByOperationID old)"

definition update_restore_authorizations ::
  "(RestoreAuthorization \<Rightarrow> bool) \<Rightarrow> (RestoreAuthorization \<Rightarrow> RestoreAuthorization) \<Rightarrow> db \<Rightarrow>
     sql_error + (nat \<times> db)" where
  "update_restore_authorizations P f s =
     (if list_ex (\<lambda>a. P a \<and> \<not> authorization_update_allowed a (f a)) (restore_authorizations s)
      then Inl SqlAbort
      else if list_ex (\<lambda>a. P a \<and> \<not> restore_authorization_checks (f a)) (restore_authorizations s)
      then Inl SqlCheck
      else Inr (rows_affected P (restore_authorizations s),
                s\<lparr>restore_authorizations := update_rows P f (restore_authorizations s)\<rparr>))"

definition restore_resolution_forward :: "RestoreResolutionState \<Rightarrow> RestoreResolutionState \<Rightarrow> bool" where
  "restore_resolution_forward old new \<longleftrightarrow>
     new = old \<or>
     (old = RestoreInFlight \<and> (new = RestoreOutcomeUnknown \<or> new = RestoreRecoveryClaimed)) \<or>
     (old = RestoreOutcomeUnknown \<and> new = RestoreRecoveryClaimed) \<or>
     (old = RestoreRecoveryClaimed \<and> (new = RestoreCleanupClaimed \<or> new = RestoreResolved)) \<or>
     (old = RestoreCleanupClaimed \<and> new = RestoreResolved)"

definition restore_update_allowed :: "PairRestoreOperation \<Rightarrow> PairRestoreOperation \<Rightarrow> bool" where
  "restore_update_allowed old new \<longleftrightarrow>
     ro_OperationID new = ro_OperationID old \<and> ro_AuthorizationID new = ro_AuthorizationID old \<and>
     ro_PairID new = ro_PairID old \<and> ro_SessionID new = ro_SessionID old \<and>
     ro_ExpectedGeneration new = ro_ExpectedGeneration old \<and> ro_RequestedAt new = ro_RequestedAt old \<and>
     ro_Version new = ro_Version old + 1 \<and>
     (ro_Stage old = ''RESTORE_CONFIRMED'' \<longrightarrow>
        ro_Stage new = ''RESTORE_CONFIRMED'' \<and> ro_HTTP200At new = ro_HTTP200At old \<and>
        ro_ObservedGeneration new = ro_ObservedGeneration old \<and> ro_RestoreMode new = ro_RestoreMode old) \<and>
     (ro_Stage old = ''RESTORE_REQUESTED'' \<and> ro_Stage new = ''RESTORE_CONFIRMED'' \<longrightarrow>
        ro_ResolutionState old = RestoreInFlight) \<and>
     restore_resolution_forward (ro_ResolutionState old) (ro_ResolutionState new) \<and>
     ro_ResolutionState old \<noteq> RestoreResolved"

definition update_restore_operations ::
  "(PairRestoreOperation \<Rightarrow> bool) \<Rightarrow> (PairRestoreOperation \<Rightarrow> PairRestoreOperation) \<Rightarrow> db \<Rightarrow>
     sql_error + (nat \<times> db)" where
  "update_restore_operations P f s =
     (if list_ex (\<lambda>r. P r \<and> \<not> restore_update_allowed r (f r)) (pair_restore_operations s)
      then Inl SqlAbort
      else if list_ex (\<lambda>r. P r \<and> \<not> restore_operation_checks (f r)) (pair_restore_operations s)
      then Inl SqlCheck
      else Inr (rows_affected P (pair_restore_operations s),
                s\<lparr>pair_restore_operations := update_rows P f (pair_restore_operations s)\<rparr>))"

definition update_dispatch_resolution ::
  "(DispatchOperation \<Rightarrow> bool) \<Rightarrow> (DispatchOperation \<Rightarrow> DispatchOperation) \<Rightarrow> db \<Rightarrow> nat \<times> db" where
  "update_dispatch_resolution P f s =
     (rows_affected P (dispatch_operations s),
      s\<lparr>dispatch_operations := update_rows P f (dispatch_operations s)\<rparr>)"

end
