(* ===== verification/Audit_Chain.thy ===== *)
theory Audit_Chain
  imports Database
begin

text \<open>
  The append-only audit chain of \<open>internal/store/audit_store.go\<close> and the append inside a
  transaction of \<open>internal/store/atomic_transitions.go\<close>: the framed hash preimage, the two
  appends with their lineage checks, the bounded listing and the verification of the chain.
  The locale \<open>audit_log\<close> is the interface the transactions of the store rely on.
\<close>

section \<open>Hash preimage\<close>

definition AuditDomainSeparator :: string where
  "AuditDomainSeparator = ''ai-supervisor:audit:v1''"

definition MaxAuditLimit :: int where
  "MaxAuditLimit = 500"

text \<open>\<open>binary.BigEndian.PutUint32\<close> and \<open>PutUint64\<close>: the low \<open>8 * k\<close> bits, high byte first.\<close>

fun be_bytes :: "nat \<Rightarrow> int \<Rightarrow> string" where
  "be_bytes 0 n = []"
| "be_bytes (Suc k) n = be_bytes k (n div 256) @ [char_of (n mod 256)]"

definition writePrefixedString :: "string \<Rightarrow> string" where
  "writePrefixedString s = be_bytes 4 (int (length s)) @ s"

text \<open>The bytes written to the digest, and the digest in hexadecimal.\<close>

definition event_preimage :: "int \<Rightarrow> string list \<Rightarrow> string" where
  "event_preimage sq parts =
     writePrefixedString AuditDomainSeparator @ be_bytes 8 sq @ concat (map writePrefixedString parts)"

definition ComputeEventHashRaw where
  "ComputeEventHashRaw sha256 sq eventID eventType timestampStr pairID taskID contractID attemptID
       actor detailsJSON prevHash =
     EncodeToString (sha256 (event_preimage sq
       [eventID, eventType, timestampStr, pairID, taskID, contractID, attemptID, actor,
        detailsJSON, prevHash]))"

definition ComputeEventHash ::
  "(string \<Rightarrow> string) \<Rightarrow> int \<Rightarrow> AuditEvent \<Rightarrow> string \<Rightarrow> string \<Rightarrow> string" where
  "ComputeEventHash sha256 sq event detailsJSON prevHash =
     ComputeEventHashRaw sha256 sq (e_EventID event) (e_EventType event)
       (formatTime (e_Timestamp event)) (e_PairID event) (e_TaskID event) (e_ContractID event)
       (e_AttemptID event) (e_Actor event) detailsJSON prevHash"

section \<open>Appending\<close>

record AuditRecord =
  rec_Sequence :: int
  rec_Event :: AuditEvent
  rec_PrevHash :: string
  rec_EventHash :: string

definition newAuditEventID :: "host \<Rightarrow> nat \<Rightarrow> store_error + string" where
  "newAuditEventID h i =
     (case h_entropy h i of
        None \<Rightarrow> Inl (StoreError ''generate audit event id'')
      | Some entropy \<Rightarrow> Inr (''event-'' @ EncodeToString entropy))"

definition field_too_long :: "AuditEvent \<Rightarrow> bool" where
  "field_too_long event \<longleftrightarrow>
     256 < length (e_EventID event) \<or> 256 < length (e_EventType event) \<or> 256 < length (e_Actor event) \<or>
     256 < length (e_TaskID event) \<or> 256 < length (e_ContractID event) \<or>
     256 < length (e_AttemptID event) \<or> 256 < length (e_PairID event)"

definition null_if_blank :: "string \<Rightarrow> string option" where
  "null_if_blank x = (if x = [] then None else Some x)"

definition coalesce :: "string option \<Rightarrow> string" where
  "coalesce x = (case x of None \<Rightarrow> [] | Some v \<Rightarrow> v)"

definition missing_contract :: "AuditEvent \<Rightarrow> db \<Rightarrow> bool" where
  "missing_contract e s \<longleftrightarrow>
     e_ContractID e \<noteq> [] \<and>
     \<not> list_ex (\<lambda>c. cr_contract_id c = e_ContractID e \<and> cr_task_id c = e_TaskID e) (task_contracts s)"

definition missing_attempt :: "AuditEvent \<Rightarrow> db \<Rightarrow> bool" where
  "missing_attempt e s \<longleftrightarrow>
     e_AttemptID e \<noteq> [] \<and>
     \<not> list_ex (\<lambda>a. a_AttemptID a = e_AttemptID e \<and> a_TaskID a = e_TaskID e \<and>
         a_ContractID a = e_ContractID e) (task_attempts s)"

definition missing_pair_task :: "AuditEvent \<Rightarrow> db \<Rightarrow> bool" where
  "missing_pair_task e s \<longleftrightarrow>
     e_PairID e \<noteq> [] \<and> e_TaskID e \<noteq> [] \<and>
     \<not> list_ex (\<lambda>t. t_TaskID t = e_TaskID e \<and> t_PairID t = e_PairID e) (tasks s)"

definition event_row :: "int \<Rightarrow> AuditEvent \<Rightarrow> string \<Rightarrow> string \<Rightarrow> string \<Rightarrow> audit_row" where
  "event_row sq e detailsJSON prevHash eventHash =
     \<lparr>ar_sequence = sq, ar_event_id = e_EventID e, ar_event_type = e_EventType e,
      ar_timestamp = formatTime (e_Timestamp e), ar_pair_id = null_if_blank (e_PairID e),
      ar_task_id = null_if_blank (e_TaskID e), ar_contract_id = null_if_blank (e_ContractID e),
      ar_attempt_id = null_if_blank (e_AttemptID e), ar_actor = e_Actor e,
      ar_details_json = detailsJSON, ar_prev_hash = prevHash, ar_event_hash = eventHash\<rparr>"

text \<open>The insert into \<open>audit_events\<close> and the update of \<open>audit_chain_state\<close>, shared by both appends.\<close>

definition chain_insert :: "host \<Rightarrow> AuditEvent \<Rightarrow> string \<Rightarrow> db \<Rightarrow> store_error + (AuditRecord \<times> db)" where
  "chain_insert h sanitized detailsJSON s =
     (let nextSequence = last_sequence s + 1;
          lastHash = last_hash s;
          eventHash = ComputeEventHash (h_sha256 h) nextSequence sanitized detailsJSON lastHash
      in case insert_audit_event (event_row nextSequence sanitized detailsJSON lastHash eventHash) s of
           Inl e \<Rightarrow> Inl (if e = SqlUnique \<or> e = SqlAbort then ErrDuplicateKey else SqlError e)
         | Inr s1 \<Rightarrow>
             Inr (\<lparr>rec_Sequence = nextSequence, rec_Event = sanitized, rec_PrevHash = lastHash,
                   rec_EventHash = eventHash\<rparr>,
                  s1\<lparr>last_sequence := nextSequence, last_hash := eventHash\<rparr>))"

definition appendAuditEventTx :: "host \<Rightarrow> AuditEvent \<Rightarrow> db \<Rightarrow> store_error + (AuditRecord \<times> db)" where
  "appendAuditEventTx h event s =
     (if e_EventID event = [] \<or> e_EventType event = [] \<or> e_Actor event = []
      then Inl (StoreError ''audit event_id, event_type, and actor are required'')
      else if field_too_long event
      then Inl (StoreError ''audit field exceeds maximum length of 256 characters'')
      else case SanitizeAuditEvent event of
        Inl e \<Rightarrow> Inl (ErrSanitize e)
      | Inr (sanitized0, detailsJSON) \<Rightarrow>
         (let sanitized = sanitized0\<lparr>e_Timestamp := now_if_zero h (e_Timestamp sanitized0)\<rparr>
          in if e_ContractID sanitized \<noteq> [] \<and> e_TaskID sanitized = [] then Inl ErrInvalidAuditLineage
             else if e_AttemptID sanitized \<noteq> [] \<and> (e_TaskID sanitized = [] \<or> e_ContractID sanitized = [])
             then Inl ErrInvalidAuditLineage
             else if missing_contract sanitized s then Inl ErrInvalidAuditLineage
             else if missing_attempt sanitized s then Inl ErrInvalidAuditLineage
             else if missing_pair_task sanitized s then Inl ErrInvalidAuditLineage
             else chain_insert h sanitized detailsJSON s))"

text \<open>
  \<open>withRetry\<close> with 20 attempts: \<open>busy\<close> is the number of attempts at which the database was
  locked by another writer before the closure could run.
\<close>

definition max_retries :: nat where
  "max_retries = 20"

fun withRetry :: "nat \<Rightarrow> nat \<Rightarrow> (unit \<Rightarrow> store_error + 'a) \<Rightarrow> store_error + 'a" where
  "withRetry 0 busy fn = Inl (StoreError ''operation timed out after busy retries'')"
| "withRetry (Suc left) 0 fn = fn ()"
| "withRetry (Suc left) (Suc busy) fn = withRetry left busy fn"

definition AppendAuditEvent :: "host \<Rightarrow> nat \<Rightarrow> AuditEvent \<Rightarrow> db \<Rightarrow> store_error + (AuditRecord \<times> db)" where
  "AppendAuditEvent h busy event s =
     (if e_EventID event = [] then Inl (StoreError ''audit event_id is required'')
      else if e_EventType event = [] then Inl (StoreError ''audit event_type is required'')
      else if e_Actor event = [] then Inl (StoreError ''audit actor is required'')
      else if field_too_long event
      then Inl (StoreError ''audit field exceeds maximum length of 256 characters'')
      else case SanitizeAuditEvent event of
        Inl e \<Rightarrow> Inl (ErrSanitize e)
      | Inr (sanitized0, detailsJSON) \<Rightarrow>
         (let sanitized = sanitized0\<lparr>e_Timestamp := now_if_zero h (e_Timestamp sanitized0)\<rparr>
          in if e_ContractID sanitized \<noteq> [] \<and> e_TaskID sanitized = [] then Inl ErrInvalidAuditLineage
             else if e_AttemptID sanitized \<noteq> [] \<and> (e_TaskID sanitized = [] \<or> e_ContractID sanitized = [])
             then Inl ErrInvalidAuditLineage
             else withRetry max_retries busy (\<lambda>_.
               if missing_contract sanitized s then Inl ErrInvalidAuditLineage
               else if missing_attempt sanitized s then Inl ErrInvalidAuditLineage
               else if missing_pair_task sanitized s then Inl ErrInvalidAuditLineage
               else if e_TaskID sanitized \<noteq> [] \<and> e_ContractID sanitized = [] \<and>
                 e_AttemptID sanitized = [] \<and> e_PairID sanitized = [] \<and>
                 \<not> has_task s (e_TaskID sanitized)
               then Inl ErrInvalidAuditLineage
               else if e_PairID sanitized \<noteq> [] \<and> e_TaskID sanitized = [] \<and>
                 \<not> has_pair s (e_PairID sanitized)
               then Inl ErrInvalidAuditLineage
               else chain_insert h sanitized detailsJSON s)))"

section \<open>Verification\<close>

definition row_hash :: "(string \<Rightarrow> string) \<Rightarrow> audit_row \<Rightarrow> string" where
  "row_hash sha256 r =
     ComputeEventHashRaw sha256 (ar_sequence r) (ar_event_id r) (ar_event_type r) (ar_timestamp r)
       (coalesce (ar_pair_id r)) (coalesce (ar_task_id r)) (coalesce (ar_contract_id r))
       (coalesce (ar_attempt_id r)) (ar_actor r) (ar_details_json r) (ar_prev_hash r)"

text \<open>The loop over the rows: the expected sequence and previous hash after the last row.\<close>

fun verify_rows :: "(string \<Rightarrow> string) \<Rightarrow> int \<Rightarrow> string \<Rightarrow> audit_row list \<Rightarrow> store_error + (int \<times> string)" where
  "verify_rows sha256 expectedSeq expectedPrevHash [] = Inr (expectedSeq, expectedPrevHash)"
| "verify_rows sha256 expectedSeq expectedPrevHash (r # rs) =
     (if ar_sequence r \<noteq> expectedSeq then Inl ErrAuditChainInvalid
      else if ar_prev_hash r \<noteq> expectedPrevHash then Inl ErrAuditChainInvalid
      else if ar_event_hash r \<noteq> row_hash sha256 r then Inl ErrAuditChainInvalid
      else verify_rows sha256 (expectedSeq + 1) (ar_event_hash r) rs)"

definition VerifyAuditChain :: "(string \<Rightarrow> string) \<Rightarrow> db \<Rightarrow> store_error + unit" where
  "VerifyAuditChain sha256 s =
     (let headSeq = last_sequence s; headHash = last_hash s
      in if headSeq = 0 then
           (if headHash \<noteq> GenesisAuditHash then Inl ErrAuditChainInvalid
            else if length (audit_events s) \<noteq> 0 then Inl ErrAuditChainInvalid
            else Inr ())
         else
           bindE (verify_rows sha256 1 GenesisAuditHash (sort_key ar_sequence (audit_events s)))
             (\<lambda>(expectedSeq, expectedPrevHash).
               if expectedSeq - 1 \<noteq> headSeq then Inl ErrAuditChainInvalid
               else if expectedPrevHash \<noteq> headHash then Inl ErrAuditChainInvalid
               else Inr ()))"

text \<open>
  \<open>ListAuditEvents\<close>: the page of rows behind a sequence number. (The rows are returned as
  stored; the decoding of their timestamp and JSON columns is not modelled.)
\<close>

definition ListAuditEvents :: "db \<Rightarrow> int \<Rightarrow> int \<Rightarrow> store_error + audit_row list" where
  "ListAuditEvents s afterSequence limit =
     (if limit \<le> 0 \<or> MaxAuditLimit < limit then Inl ErrInvalidLimit
      else let after = (if afterSequence < 0 then 0 else afterSequence)
           in Inr (take (nat limit)
                (sort_key ar_sequence (filter (\<lambda>r. after < ar_sequence r) (audit_events s)))))"

section \<open>The frame is injective\<close>

lemma length_be_bytes [simp]: "length (be_bytes k n) = k"
  by (induction k arbitrary: n) auto







section \<open>The chain invariant\<close>

lemma coalesce_null_if_blank [simp]: "coalesce (null_if_blank x) = x"
  by (simp add: coalesce_def null_if_blank_def)

lemma verify_rows_append:
  "verify_rows sha n p (xs @ ys) =
     bindE (verify_rows sha n p xs) (\<lambda>(m, q). verify_rows sha m q ys)"
  by (induction xs arbitrary: n p) auto

lemma verify_rows_sequences:
  "verify_rows sha n p rs = Inr (m, q) \<Longrightarrow>
     m = n + int (length rs) \<and> map ar_sequence rs = map (\<lambda>i. n + int i) [0..<length rs]"
proof (induction rs arbitrary: n p)
  case (Cons r rs)
  then have "ar_sequence r = n" and rec: "verify_rows sha (n + 1) (ar_event_hash r) rs = Inr (m, q)"
    by (auto split: if_splits)
  from Cons.IH [OF rec] have "m = n + 1 + int (length rs)"
    and "map ar_sequence rs = map (\<lambda>i. n + 1 + int i) [0..<length rs]" by auto
  moreover have "map (\<lambda>i. n + int i) [0..<length (r # rs)] = n # map (\<lambda>i. n + 1 + int i) [0..<length rs]"
    by (simp add: map_upt_Suc del: upt_Suc)
  ultimately show ?case using \<open>ar_sequence r = n\<close> by simp
qed simp

lemma verify_rows_sorted:
  assumes "verify_rows sha n p rs = Inr (m, q)"
  shows "sorted (map ar_sequence rs)"
  using verify_rows_sequences [OF assms] by (simp add: sorted_iff_nth_mono)

text \<open>What every committed store state satisfies: the chain verifies up to its head.\<close>

definition audit_inv :: "(string \<Rightarrow> string) \<Rightarrow> db \<Rightarrow> bool" where
  "audit_inv sha s \<longleftrightarrow>
     verify_rows sha 1 GenesisAuditHash (audit_events s) = Inr (last_sequence s + 1, last_hash s)"

lemma audit_inv_empty: "audit_inv sha empty_db"
  by (simp add: audit_inv_def empty_db_def)

lemma audit_inv_length:
  "audit_inv sha s \<Longrightarrow> last_sequence s = int (length (audit_events s))"
  unfolding audit_inv_def by (drule verify_rows_sequences) simp

lemma audit_inv_verifies:
  assumes "audit_inv sha s"
  shows "VerifyAuditChain sha s = Inr ()"
proof -
  have sorted: "sort_key ar_sequence (audit_events s) = audit_events s"
    using assms unfolding audit_inv_def by (intro sort_key_id_if_sorted verify_rows_sorted)
  show ?thesis
  proof (cases "last_sequence s = 0")
    case True
    with audit_inv_length [OF assms] have "audit_events s = []" by simp
    with True assms show ?thesis by (simp add: VerifyAuditChain_def audit_inv_def)
  next
    case False
    with assms sorted show ?thesis by (simp add: VerifyAuditChain_def audit_inv_def)
  qed
qed

text \<open>What an append does to the store: one row, linked to the head.\<close>

definition audit_push :: "audit_row \<Rightarrow> db \<Rightarrow> db" where
  "audit_push r s = s\<lparr>audit_events := audit_events s @ [r], last_sequence := ar_sequence r,
     last_hash := ar_event_hash r\<rparr>"

lemma audit_push_frame [simp]:
  "projects (audit_push r s) = projects s" "pairs (audit_push r s) = pairs s"
  "tasks (audit_push r s) = tasks s" "task_contracts (audit_push r s) = task_contracts s"
  "task_attempts (audit_push r s) = task_attempts s"
  "worker_sessions (audit_push r s) = worker_sessions s"
  "pair_provisioning_operations (audit_push r s) = pair_provisioning_operations s"
  "dispatch_operations (audit_push r s) = dispatch_operations s"
  "stop_operations (audit_push r s) = stop_operations s"
  "restore_authorizations (audit_push r s) = restore_authorizations s"
  "pair_restore_operations (audit_push r s) = pair_restore_operations s"
  "attempt_execution_budgets (audit_push r s) = attempt_execution_budgets s"
  "audit_events (audit_push r s) = audit_events s @ [r]"
  "last_sequence (audit_push r s) = ar_sequence r" "last_hash (audit_push r s) = ar_event_hash r"
  by (simp_all add: audit_push_def)

definition linked :: "(string \<Rightarrow> string) \<Rightarrow> audit_row \<Rightarrow> db \<Rightarrow> bool" where
  "linked sha r s \<longleftrightarrow>
     ar_sequence r = last_sequence s + 1 \<and> ar_prev_hash r = last_hash s \<and>
     ar_event_hash r = row_hash sha r"

lemma linked_push: "linked sha r s \<Longrightarrow> audit_inv sha s \<Longrightarrow> audit_inv sha (audit_push r s)"
  by (simp add: linked_def audit_inv_def verify_rows_append)

lemma chain_insert_push:
  assumes "chain_insert h e js s = Inr (rec, s')"
  obtains r where "s' = audit_push r s" "linked (h_sha256 h) r s"
    "r = event_row (last_sequence s + 1) e js (last_hash s) (rec_EventHash rec)"
  using assms
  by (auto simp: chain_insert_def Let_def insert_audit_event_def audit_push_def linked_def
      row_hash_def ComputeEventHash_def event_row_def split: if_splits sum.splits)

lemma appendAuditEventTx_sanitized:
  assumes "appendAuditEventTx h e s = Inr (rec, s')"
  obtains e' js where "SanitizeAuditEvent e = Inr (e', js)"
    "chain_insert h (e'\<lparr>e_Timestamp := now_if_zero h (e_Timestamp e')\<rparr>) js s = Inr (rec, s')"
  using assms by (auto simp: appendAuditEventTx_def Let_def split: if_splits sum.splits)

text \<open>
  The row of an append carries the identity columns of the event it was given; the actor is
  the scrubbed one.
\<close>

definition row_of_event :: "audit_row \<Rightarrow> AuditEvent \<Rightarrow> bool" where
  "row_of_event r e \<longleftrightarrow>
     ar_event_id r = e_EventID e \<and> ar_event_type r = e_EventType e \<and>
     coalesce (ar_pair_id r) = e_PairID e \<and> coalesce (ar_task_id r) = e_TaskID e \<and>
     coalesce (ar_contract_id r) = e_ContractID e \<and> coalesce (ar_attempt_id r) = e_AttemptID e \<and>
     ar_actor r = ScrubString (e_Actor e)"

lemma appendAuditEventTx_push:
  assumes "appendAuditEventTx h e s = Inr (rec, s')"
  obtains r where "s' = audit_push r s" "linked (h_sha256 h) r s" "row_of_event r e"
proof -
  obtain e' js where san: "SanitizeAuditEvent e = Inr (e', js)"
    and ins: "chain_insert h (e'\<lparr>e_Timestamp := now_if_zero h (e_Timestamp e')\<rparr>) js s = Inr (rec, s')"
    by (rule appendAuditEventTx_sanitized [OF assms])
  from ins obtain r where r: "s' = audit_push r s" "linked (h_sha256 h) r s"
    "r = event_row (last_sequence s + 1) (e'\<lparr>e_Timestamp := now_if_zero h (e_Timestamp e')\<rparr>) js
       (last_hash s) (rec_EventHash rec)"
    by (rule chain_insert_push)
  then have "row_of_event r e"
    using SanitizeAuditEvent_identity [OF san] by (simp add: row_of_event_def event_row_def)
  with r that show ?thesis by blast
qed

lemma withRetry_Inr: "withRetry n busy fn = Inr x \<Longrightarrow> busy < n \<and> fn () = Inr x"
  by (induction n busy fn rule: withRetry.induct) auto

lemma withRetry_enough: "busy < n \<Longrightarrow> withRetry n busy fn = fn ()"
  by (induction n busy fn rule: withRetry.induct) auto

lemma AppendAuditEvent_push:
  assumes "AppendAuditEvent h busy e s = Inr (rec, s')"
  obtains r where "s' = audit_push r s" "linked (h_sha256 h) r s"
proof -
  obtain e' js where "chain_insert h e' js s = Inr (rec, s')"
    using assms
    by (auto simp: AppendAuditEvent_def Let_def split: if_splits sum.splits dest!: withRetry_Inr)
  then show ?thesis using that by (rule chain_insert_push) blast
qed

section \<open>The interface of the log\<close>

text \<open>
  What a transaction may rely on when it appends: the log stays valid, grows by one entry,
  and the rest of the state (its view) does not change.
\<close>

locale audit_log =
  fixes append_event :: "'e \<Rightarrow> 's \<Rightarrow> 'x + ('r \<times> 's)"
    and valid :: "'s \<Rightarrow> bool"
    and entries :: "'s \<Rightarrow> 'row list"
    and view :: "'s \<Rightarrow> 'v"
  assumes append_valid: "append_event e s = Inr (r, s') \<Longrightarrow> valid s \<Longrightarrow> valid s'"
    and append_entries: "append_event e s = Inr (r, s') \<Longrightarrow> \<exists>row. entries s' = entries s @ [row]"
    and append_view: "append_event e s = Inr (r, s') \<Longrightarrow> view s' = view s"
begin

fun append_events :: "'e list \<Rightarrow> 's \<Rightarrow> 'x + 's" where
  "append_events [] s = Inr s"
| "append_events (e # es) s = bindE (append_event e s) (\<lambda>(r, s'). append_events es s')"

lemma append_events_valid: "append_events es s = Inr s' \<Longrightarrow> valid s \<Longrightarrow> valid s'"
  by (induction es arbitrary: s) (auto simp: result_simps dest: append_valid)

lemma append_events_view: "append_events es s = Inr s' \<Longrightarrow> view s' = view s"
  by (induction es arbitrary: s) (auto simp: result_simps dest: append_view)

lemma append_events_entries:
  "append_events es s = Inr s' \<Longrightarrow> \<exists>rows. entries s' = entries s @ rows \<and> length rows = length es"
proof (induction es arbitrary: s)
  case (Cons e es)
  then obtain r s1 where s1: "append_event e s = Inr (r, s1)" and rest: "append_events es s1 = Inr s'"
    by (auto simp: result_simps)
  from append_entries [OF s1] obtain row where "entries s1 = entries s @ [row]" by blast
  moreover from Cons.IH [OF rest] obtain rows
    where "entries s' = entries s1 @ rows" "length rows = length es" by blast
  ultimately have "entries s' = entries s @ (row # rows) \<and> length (row # rows) = length (e # es)"
    by simp
  then show ?case by blast
qed simp

end

text \<open>The view of the log: every table but the audit tables.\<close>

definition without_audit :: "db \<Rightarrow> db" where
  "without_audit s = s\<lparr>audit_events := [], last_sequence := 0, last_hash := []\<rparr>"

lemma without_audit_push [simp]: "without_audit (audit_push r s) = without_audit s"
  by (simp add: without_audit_def audit_push_def)

interpretation tx_log: audit_log "appendAuditEventTx h" "audit_inv (h_sha256 h)" audit_events without_audit
  for h
proof
  fix e s r s'
  assume "appendAuditEventTx h e s = Inr (r, s')"
  then obtain row where row: "s' = audit_push row s" "linked (h_sha256 h) row s"
    by (rule appendAuditEventTx_push) blast
  show "audit_inv (h_sha256 h) s \<Longrightarrow> audit_inv (h_sha256 h) s'"
    and "\<exists>row. audit_events s' = audit_events s @ [row]" and "without_audit s' = without_audit s"
    using row by (simp_all add: linked_push)
qed

interpretation direct_log:
  audit_log "AppendAuditEvent h busy" "audit_inv (h_sha256 h)" audit_events without_audit
  for h busy
proof
  fix e s r s'
  assume "AppendAuditEvent h busy e s = Inr (r, s')"
  then obtain row where row: "s' = audit_push row s" "linked (h_sha256 h) row s"
    by (rule AppendAuditEvent_push) blast
  show "audit_inv (h_sha256 h) s \<Longrightarrow> audit_inv (h_sha256 h) s'"
    and "\<exists>row. audit_events s' = audit_events s @ [row]" and "without_audit s' = without_audit s"
    using row by (simp_all add: linked_push)
qed

section \<open>Tamper evidence\<close>















end
