(* ===== verification/Store_Writes.thy ===== *)
theory Store_Writes
  imports Report_Path Audit_Chain
begin

text \<open>
  What the statements of the store's transactions may do to the database. The relation
  \<open>store_write\<close> has one rule per kind of statement (inserts under the schema constraints,
  compare-and-set updates, an append to the audit chain) with the guard the code establishes
  before it. Every transaction of the component theories is shown to be a sequence of such
  writes; what all of them keep (\<open>store_inv\<close>) and how rows may change over time (\<open>evolves\<close>)
  is proved here once, by cases on the writes.
\<close>

section \<open>Statement results\<close>

text \<open>\<open>if n != 1 { return err }\<close>, \<open>operationCASResult\<close>, and an append that keeps the state only.\<close>

definition cas1 :: "store_error \<Rightarrow> nat \<times> db \<Rightarrow> store_error + db" where
  "cas1 e r = (if fst r = 1 then Inr (snd r) else Inl e)"

definition operationCASResult :: "nat \<times> db \<Rightarrow> store_error + db" where
  "operationCASResult r = (if fst r = 0 then Inl ErrStateConflict else Inr (snd r))"

definition audit_tx :: "host \<Rightarrow> AuditEvent \<Rightarrow> db \<Rightarrow> store_error + db" where
  "audit_tx h e s = bindE (appendAuditEventTx h e s) (\<lambda>(r, s'). Inr s')"

lemma cas1_eq_Inr [result_simps]: "cas1 e r = Inr s' \<longleftrightarrow> fst r = 1 \<and> s' = snd r"
  by (auto simp: cas1_def)

lemma operationCASResult_eq_Inr [result_simps]:
  "operationCASResult r = Inr s' \<longleftrightarrow> fst r \<noteq> 0 \<and> s' = snd r"
  by (auto simp: operationCASResult_def)

lemma audit_tx_push:
  assumes "audit_tx h e s = Inr s'"
  obtains r where "s' = audit_push r s" "linked (h_sha256 h) r s" "row_of_event r e"
  using assms by (auto simp: audit_tx_def result_simps elim!: appendAuditEventTx_push)

section \<open>Rows over time\<close>

text \<open>
  Rows are never deleted and keep their position: a later state of a table extends the rows of
  an earlier one, each related to its earlier version by the order of its table.
\<close>

locale row_order =
  fixes ord :: "'r \<Rightarrow> 'r \<Rightarrow> bool"
  assumes ord_refl: "ord r r"
    and ord_trans: "ord p q \<Longrightarrow> ord q r \<Longrightarrow> ord p r"
begin

definition grows :: "'r list \<Rightarrow> 'r list \<Rightarrow> bool" where
  "grows xs ys \<longleftrightarrow> length xs \<le> length ys \<and> (\<forall>i<length xs. ord (xs ! i) (ys ! i))"

lemma grows_refl [simp]: "grows xs xs"
  by (simp add: grows_def ord_refl)

lemma grows_trans: "grows xs ys \<Longrightarrow> grows ys zs \<Longrightarrow> grows xs zs"
  unfolding grows_def by (meson le_trans less_le_trans ord_trans)

lemma grows_append [simp]: "grows xs (xs @ ys)"
  by (simp add: grows_def nth_append ord_refl)

lemma grows_update: "(\<And>r. r \<in> set xs \<Longrightarrow> P r \<Longrightarrow> ord r (f r)) \<Longrightarrow> grows xs (update_rows P f xs)"
  by (auto simp: grows_def update_rows_def ord_refl)

lemma grows_mem:
  assumes "grows xs ys" and "x \<in> set xs"
  obtains y where "y \<in> set ys" "ord x y"
proof -
  from assms(2) obtain i where "i < length xs" "x = xs ! i" by (auto simp: in_set_conv_nth)
  with assms(1) have "ys ! i \<in> set ys \<and> ord x (ys ! i)" by (auto simp: grows_def)
  with that show ?thesis by blast
qed

end

definition task_evolves :: "Task \<Rightarrow> Task \<Rightarrow> bool" where
  "task_evolves t u \<longleftrightarrow>
     t_TaskID u = t_TaskID t \<and> t_PairID u = t_PairID t \<and> t_PhaseID u = t_PhaseID t \<and>
     t_CreatedAt u = t_CreatedAt t \<and> workflow_reach (t_State t) (t_State u) \<and>
     t_CurrentAttempt t \<le> t_CurrentAttempt u"

definition contract_evolves :: "contract_row \<Rightarrow> contract_row \<Rightarrow> bool" where
  "contract_evolves c d \<longleftrightarrow> d = c \<or> (\<not> cr_is_immutable c \<and> d = c\<lparr>cr_is_immutable := True\<rparr>)"

text \<open>
  An attempt keeps its identity and its execution snapshot, and once closed its closing time.
\<close>

definition attempt_evolves :: "TaskAttempt \<Rightarrow> TaskAttempt \<Rightarrow> bool" where
  "attempt_evolves a b \<longleftrightarrow>
     a_AttemptID b = a_AttemptID a \<and> a_AttemptNumber b = a_AttemptNumber a \<and>
     a_TaskID b = a_TaskID a \<and> a_ContractID b = a_ContractID a \<and>
     a_ExpectedReportPath b = a_ExpectedReportPath a \<and> a_StartedAt b = a_StartedAt a \<and>
     a_SessionID b = a_SessionID a \<and> a_TerminalGeneration b = a_TerminalGeneration a \<and>
     (a_EndedAt a \<noteq> None \<longrightarrow> a_EndedAt b = a_EndedAt a)"

definition session_evolves :: "WorkerSession \<Rightarrow> WorkerSession \<Rightarrow> bool" where
  "session_evolves v w \<longleftrightarrow>
     w_PairID w = w_PairID v \<and> w_SessionID w = w_SessionID v \<and> w_RuntimeType w = w_RuntimeType v \<and>
     w_WorkerAgentID w = w_WorkerAgentID v \<and> w_CreatedAt w = w_CreatedAt v"

fun provisioning_rank :: "PairProvisioningStage \<Rightarrow> nat" where
  "provisioning_rank ProvisionRequested = 0"
| "provisioning_rank ProvisionResolved = 2"
| "provisioning_rank _ = 1"

definition provisioning_evolves ::
  "PairProvisioningOperation \<Rightarrow> PairProvisioningOperation \<Rightarrow> bool" where
  "provisioning_evolves p q \<longleftrightarrow>
     pv_OperationID q = pv_OperationID p \<and> pv_PairID q = pv_PairID p \<and>
     pv_ClientToken q = pv_ClientToken p \<and> pv_RequestedAt q = pv_RequestedAt p \<and>
     (pv_Stage q = pv_Stage p \<or> provisioning_rank (pv_Stage p) < provisioning_rank (pv_Stage q))"

fun dispatch_rank :: "DispatchStage \<Rightarrow> nat" where
  "dispatch_rank DispatchBound = 0"
| "dispatch_rank SendRequested = 1"
| "dispatch_rank _ = 2"

text \<open>A confirmed dispatch keeps its confirmation, and a resolution is never replaced.\<close>

definition dispatch_evolves :: "DispatchOperation \<Rightarrow> DispatchOperation \<Rightarrow> bool" where
  "dispatch_evolves d e \<longleftrightarrow>
     d_OperationID e = d_OperationID d \<and> d_AttemptID e = d_AttemptID d \<and> d_PairID e = d_PairID d \<and>
     d_TaskID e = d_TaskID d \<and> d_SessionID e = d_SessionID d \<and>
     d_TerminalGeneration e = d_TerminalGeneration d \<and> d_RequestedAt e = d_RequestedAt d \<and>
     (d_Stage e = d_Stage d \<or> dispatch_rank (d_Stage d) < dispatch_rank (d_Stage e)) \<and>
     (d_Stage d = SendConfirmed \<longrightarrow> d_Stage e = SendConfirmed \<and> d_ConfirmedAt e = d_ConfirmedAt d) \<and>
     (d_ResolutionState d \<noteq> None \<longrightarrow>
        d_ResolutionState e = d_ResolutionState d \<and> d_Stage e = d_Stage d)"

text \<open>
  A stop keeps its identity and its call provenance; it leaves \<open>IN_FLIGHT\<close> for good, and a
  proof of termination is never withdrawn or replaced.
\<close>

definition stop_evolves :: "StopOperation \<Rightarrow> StopOperation \<Rightarrow> bool" where
  "stop_evolves p q \<longleftrightarrow>
     st_OperationID q = st_OperationID p \<and> st_Purpose q = st_Purpose p \<and> st_PairID q = st_PairID p \<and>
     st_TaskID q = st_TaskID p \<and> st_ContractID q = st_ContractID p \<and> st_AttemptID q = st_AttemptID p \<and>
     st_SessionID q = st_SessionID p \<and> st_TerminalGeneration q = st_TerminalGeneration p \<and>
     st_Actor q = st_Actor p \<and> st_RequestedAt q = st_RequestedAt p \<and>
     st_RestoreOperationID q = st_RestoreOperationID p \<and>
     st_InitiatingFailureReason q = st_InitiatingFailureReason p \<and>
     (st_CallCompletedAt p \<noteq> None \<longrightarrow>
        st_CallCompletedAt q = st_CallCompletedAt p \<and>
        st_ConfirmationDeadlineAt q = st_ConfirmationDeadlineAt p) \<and>
     (st_ResolutionState p \<noteq> StopResolutionInFlight \<longrightarrow>
        st_ResolutionState q \<noteq> StopResolutionInFlight \<and> st_Stage q = st_Stage p \<and>
        st_TerminationConfirmedAt q = st_TerminationConfirmedAt p) \<and>
     (st_ResolutionState p = StopResolutionTerminationConfirmed \<longrightarrow>
        st_ResolutionState q = StopResolutionTerminationConfirmed)"

fun restore_rank :: "RestoreResolutionState \<Rightarrow> nat" where
  "restore_rank RestoreInFlight = 0"
| "restore_rank RestoreOutcomeUnknown = 1"
| "restore_rank RestoreRecoveryClaimed = 2"
| "restore_rank RestoreCleanupClaimed = 3"
| "restore_rank RestoreResolved = 4"

definition restore_evolves :: "PairRestoreOperation \<Rightarrow> PairRestoreOperation \<Rightarrow> bool" where
  "restore_evolves p q \<longleftrightarrow>
     ro_OperationID q = ro_OperationID p \<and> ro_AuthorizationID q = ro_AuthorizationID p \<and>
     ro_PairID q = ro_PairID p \<and> ro_SessionID q = ro_SessionID p \<and>
     ro_ExpectedGeneration q = ro_ExpectedGeneration p \<and> ro_RequestedAt q = ro_RequestedAt p \<and>
     ro_Version p \<le> ro_Version q \<and>
     restore_rank (ro_ResolutionState p) \<le> restore_rank (ro_ResolutionState q) \<and>
     (ro_ResolutionState p = RestoreResolved \<longrightarrow> q = p) \<and>
     (ro_Stage p = ''RESTORE_CONFIRMED'' \<longrightarrow>
        ro_Stage q = ''RESTORE_CONFIRMED'' \<and> ro_ObservedGeneration q = ro_ObservedGeneration p)"

definition authorization_evolves :: "RestoreAuthorization \<Rightarrow> RestoreAuthorization \<Rightarrow> bool" where
  "authorization_evolves a b \<longleftrightarrow> b = a \<or> authorization_update_allowed a b"

lemmas evolves_defs =
  task_evolves_def contract_evolves_def attempt_evolves_def session_evolves_def
  provisioning_evolves_def dispatch_evolves_def stop_evolves_def restore_evolves_def
  authorization_evolves_def

interpretation task_rows: row_order task_evolves
  by unfold_locales
    (auto simp: task_evolves_def intro: workflow_reach.reach_refl workflow_reach_trans)

interpretation contract_rows: row_order contract_evolves
  by unfold_locales (auto simp: contract_evolves_def)

interpretation attempt_rows: row_order attempt_evolves
  by unfold_locales (auto simp: attempt_evolves_def)

interpretation session_rows: row_order session_evolves
  by unfold_locales (auto simp: session_evolves_def)

interpretation provisioning_rows: row_order provisioning_evolves
  by unfold_locales (auto simp: provisioning_evolves_def)

interpretation dispatch_rows: row_order dispatch_evolves
  by unfold_locales (auto simp: dispatch_evolves_def)

interpretation stop_rows: row_order stop_evolves
  by unfold_locales (auto simp: stop_evolves_def)

interpretation restore_rows: row_order restore_evolves
  by unfold_locales (auto simp: restore_evolves_def)

interpretation authorization_rows: row_order authorization_evolves
  by unfold_locales (auto simp: authorization_evolves_def authorization_update_allowed_def)

interpretation fixed_rows: row_order "(=)"
  by unfold_locales auto

section \<open>Writes\<close>

text \<open>
  What a new contract row is checked against. The predecessor is looked up by the trimmed
  identity; the column itself holds the identity as given.
\<close>

definition contract_lineage :: "db \<Rightarrow> contract_row \<Rightarrow> bool" where
  "contract_lineage s c \<longleftrightarrow>
     (if cr_revision_number c = 1
      then null_or (\<lambda>i. TrimSpace i = []) (cr_supersedes_contract_id c)
      else list_ex (\<lambda>p. map_option TrimSpace (cr_supersedes_contract_id c) = Some (cr_contract_id p) \<and>
             cr_task_id p = cr_task_id c \<and> cr_revision_number p = cr_revision_number c - 1 \<and>
             cr_base_sha p = cr_base_sha c \<and> cr_is_immutable p) (task_contracts s))"

text \<open>The claim of a ready task by a dispatch: the new state and the next attempt number.\<close>

definition claim_task :: "string \<Rightarrow> time \<Rightarrow> db \<Rightarrow> nat \<times> db" where
  "claim_task tid at s =
     update_tasks (\<lambda>t. t_TaskID t = tid \<and> t_State t = StateReady)
       (\<lambda>t. t\<lparr>t_State := StateDispatched, t_CurrentAttempt := t_CurrentAttempt t + 1,
              t_UpdatedAt := at\<rparr>) s"

text \<open>The arithmetic of an execution budget.\<close>

definition budget_ok :: "ExecutionBudget \<Rightarrow> bool" where
  "budget_ok b \<longleftrightarrow>
     0 \<le> b_OriginAt b \<and> 0 < b_Duration b \<and> b_DeadlineAt b = b_OriginAt b + b_Duration b \<and>
     b_DeadlineAt b < year_10000"

definition dispatch_snapshot :: "DispatchOperation \<Rightarrow> TaskAttempt \<Rightarrow> bool" where
  "dispatch_snapshot d a \<longleftrightarrow>
     a_AttemptID a = d_AttemptID d \<and> a_TaskID a = d_TaskID d \<and>
     a_SessionID a = Some (d_SessionID d) \<and> a_TerminalGeneration a = Some (d_TerminalGeneration d)"

text \<open>
  An attempt may be closed only when its task is no longer executing: the transactions move the
  task out of \<open>DISPATCHED\<close> or \<open>RUNNING\<close> before they close its attempt.
\<close>

definition executing :: "TaskState \<Rightarrow> bool" where
  "executing st \<longleftrightarrow> st = StateDispatched \<or> st = StateRunning"

definition closable :: "db \<Rightarrow> TaskAttempt \<Rightarrow> bool" where
  "closable s a \<longleftrightarrow> (\<forall>t\<in>set (tasks s). t_TaskID t = a_TaskID a \<longrightarrow> \<not> executing (t_State t))"

inductive store_write :: "(string \<Rightarrow> string) \<Rightarrow> db \<Rightarrow> db \<Rightarrow> bool" for sha where
  w_audit: "linked sha r s \<Longrightarrow> store_write sha s (audit_push r s)"
| w_project: "insert_project p s = Inr s' \<Longrightarrow> store_write sha s s'"
| w_pair: "insert_pair p s = Inr s' \<Longrightarrow> store_write sha s s'"
| w_task: "insert_task t s = Inr s' \<Longrightarrow> t_State t = StateDraft \<Longrightarrow> t_CurrentAttempt t = 0 \<Longrightarrow>
    store_write sha s s'"
| w_contract: "insert_contract c s = Inr s' \<Longrightarrow> \<not> cr_is_immutable c \<Longrightarrow> contract_lineage s c \<Longrightarrow>
    store_write sha s s'"
| w_freeze: "freeze_contract cid s = Inr s' \<Longrightarrow> store_write sha s s'"
| w_transition:
    "(\<And>t. t \<in> set (tasks s) \<Longrightarrow> P t \<Longrightarrow> t_TaskID t = tid \<and> CanTransition (t_State t) to \<and>
        (active_lane to \<longrightarrow> active_lane (t_State t) \<or> \<not> pair_busy s (t_PairID t) tid)) \<Longrightarrow>
     to \<noteq> StateDispatched \<Longrightarrow>
     store_write sha s
       (s\<lparr>tasks := update_rows P (\<lambda>t. t\<lparr>t_State := to, t_UpdatedAt := at\<rparr>) (tasks s)\<rparr>)"
| w_begin:
    "t \<in> set (tasks s) \<Longrightarrow> t_State t = StateReady \<Longrightarrow> \<not> pair_busy s (t_PairID t) (t_TaskID t) \<Longrightarrow>
     c \<in> set (task_contracts s) \<Longrightarrow> cr_contract_id c = a_ContractID a \<Longrightarrow>
     cr_task_id c = t_TaskID t \<Longrightarrow> cr_is_immutable c \<Longrightarrow>
     a_TaskID a = t_TaskID t \<Longrightarrow> a_AttemptNumber a = t_CurrentAttempt t + 1 \<Longrightarrow> a_EndedAt a = None \<Longrightarrow>
     insert_attempt a (snd (claim_task (t_TaskID t) at s)) = Inr s' \<Longrightarrow> store_write sha s s'"
| w_attempt:
    "(\<And>a. a \<in> set (task_attempts s) \<Longrightarrow> P a \<Longrightarrow>
        attempt_evolves a (f a) \<and> (a_EndedAt (f a) \<noteq> a_EndedAt a \<longrightarrow> closable s a)) \<Longrightarrow>
     store_write sha s (s\<lparr>task_attempts := update_rows P f (task_attempts s)\<rparr>)"
| w_session_new: "insert_session w s = Inr s' \<Longrightarrow> store_write sha s s'"
| w_session:
    "(\<And>w. w \<in> set (worker_sessions s) \<Longrightarrow> P w \<Longrightarrow> session_evolves w (f w)) \<Longrightarrow>
     store_write sha s (s\<lparr>worker_sessions := update_rows P f (worker_sessions s)\<rparr>)"
| w_provisioning_new: "insert_provisioning p s = Inr s' \<Longrightarrow> store_write sha s s'"
| w_provisioning:
    "(\<And>p. p \<in> set (pair_provisioning_operations s) \<Longrightarrow> P p \<Longrightarrow> provisioning_evolves p (f p) \<and>
        (unresolved_stage (pv_Stage (f p)) \<longrightarrow> unresolved_stage (pv_Stage p))) \<Longrightarrow>
     store_write sha s
       (s\<lparr>pair_provisioning_operations := update_rows P f (pair_provisioning_operations s)\<rparr>)"
| w_dispatch_new:
    "insert_dispatch d s = Inr s' \<Longrightarrow> d_Stage d = DispatchBound \<Longrightarrow>
     a \<in> set (task_attempts s) \<Longrightarrow> dispatch_snapshot d a \<Longrightarrow>
     t \<in> set (tasks s) \<Longrightarrow> t_TaskID t = d_TaskID d \<Longrightarrow> t_PairID t = d_PairID d \<Longrightarrow> store_write sha s s'"
| w_dispatch_stage:
    "update_dispatch_stage P f s = Inr (n, s') \<Longrightarrow>
     (\<And>d. d \<in> set (dispatch_operations s) \<Longrightarrow> P d \<Longrightarrow> dispatch_evolves d (f d)) \<Longrightarrow> store_write sha s s'"
| w_dispatch_resolution:
    "(\<And>d. d \<in> set (dispatch_operations s) \<Longrightarrow> P d \<Longrightarrow> d_ResolutionState d = None) \<Longrightarrow>
     store_write sha s
       (s\<lparr>dispatch_operations :=
          update_rows P (\<lambda>d. d\<lparr>d_ResolutionState := Some r\<rparr>) (dispatch_operations s)\<rparr>)"
| w_budget: "insert_budget b s = Inr s' \<Longrightarrow> budget_ok b \<Longrightarrow> store_write sha s s'"
| w_stop_new: "insert_stop st s = Inr s' \<Longrightarrow> store_write sha s s'"
| w_stop:
    "(\<And>p. p \<in> set (stop_operations s) \<Longrightarrow> P p \<Longrightarrow> stop_evolves p (f p)) \<Longrightarrow>
     store_write sha s (s\<lparr>stop_operations := update_rows P f (stop_operations s)\<rparr>)"
| w_authorization_new: "insert_restore_authorization a s = Inr s' \<Longrightarrow> store_write sha s s'"
| w_authorization: "update_restore_authorizations P f s = Inr (n, s') \<Longrightarrow> store_write sha s s'"
| w_restore_new: "insert_restore_operation r s = Inr s' \<Longrightarrow> store_write sha s s'"
| w_restore: "update_restore_operations P f s = Inr (n, s') \<Longrightarrow> store_write sha s s'"

abbreviation store_writes :: "(string \<Rightarrow> string) \<Rightarrow> db \<Rightarrow> db \<Rightarrow> bool" where
  "store_writes sha \<equiv> (store_write sha)\<^sup>*\<^sup>*"

text \<open>What an accepted insert has passed, and the table it extends.\<close>

named_theorems insert_simps "accepted inserts"

lemma insert_project_Inr [insert_simps]:
  "insert_project p s = Inr s' \<longleftrightarrow>
     (\<forall>q\<in>set (projects s). p_ProjectID q \<noteq> p_ProjectID p) \<and> s' = s\<lparr>projects := projects s @ [p]\<rparr>"
  by (auto simp: insert_project_def has_project_def list_ex_iff)

lemma insert_pair_Inr [insert_simps]:
  "insert_pair p s = Inr s' \<longleftrightarrow>
     (\<forall>q\<in>set (pairs s). pr_PairID q \<noteq> pr_PairID p \<and> pr_ProjectID q \<noteq> pr_ProjectID p) \<and>
     has_project s (pr_ProjectID p) \<and> s' = s\<lparr>pairs := pairs s @ [p]\<rparr>"
  by (auto simp: insert_pair_def has_pair_def list_ex_iff)

lemma insert_task_Inr [insert_simps]:
  "insert_task t s = Inr s' \<longleftrightarrow>
     IsValid (t_State t) \<and> 0 \<le> t_CurrentAttempt t \<and> (\<forall>q\<in>set (tasks s). t_TaskID q \<noteq> t_TaskID t) \<and>
     has_pair s (t_PairID t) \<and> s' = s\<lparr>tasks := tasks s @ [t]\<rparr>"
  by (auto simp: insert_task_def has_task_def list_ex_iff)

lemma insert_contract_Inr [insert_simps]:
  "insert_contract c s = Inr s' \<longleftrightarrow>
     1 \<le> cr_revision_number c \<and>
     (\<forall>d\<in>set (task_contracts s). cr_contract_id d \<noteq> cr_contract_id c \<and>
        (cr_task_id d, cr_revision_number d) \<noteq> (cr_task_id c, cr_revision_number c) \<and>
        (cr_supersedes_contract_id c \<noteq> None \<longrightarrow>
           cr_supersedes_contract_id d \<noteq> cr_supersedes_contract_id c)) \<and>
     has_task s (cr_task_id c) \<and>
     null_or (\<lambda>i. i = cr_contract_id c \<or> has_contract s i) (cr_supersedes_contract_id c) \<and>
     s' = s\<lparr>task_contracts := task_contracts s @ [c]\<rparr>"
  by (auto simp: insert_contract_def has_contract_def list_ex_iff)

lemma insert_attempt_Inr [insert_simps]:
  "insert_attempt a s = Inr s' \<longleftrightarrow>
     0 < a_AttemptNumber a \<and> valid_quarantine (a_QuarantineState a) \<and>
     (\<forall>b\<in>set (task_attempts s). a_AttemptID b \<noteq> a_AttemptID a \<and>
        (a_TaskID b, a_AttemptNumber b) \<noteq> (a_TaskID a, a_AttemptNumber a)) \<and>
     has_task s (a_TaskID a) \<and>
     (\<exists>c\<in>set (task_contracts s). cr_contract_id c = a_ContractID a \<and> cr_task_id c = a_TaskID a) \<and>
     s' = s\<lparr>task_attempts := task_attempts s @ [a]\<rparr>"
  by (auto simp: insert_attempt_def has_attempt_def list_ex_iff)

lemma insert_session_Inr [insert_simps]:
  "insert_session w s = Inr s' \<longleftrightarrow>
     valid_status (w_Status w) \<and> valid_quarantine (w_QuarantineState w) \<and>
     (\<forall>v\<in>set (worker_sessions s). w_PairID v \<noteq> w_PairID w \<and> w_SessionID v \<noteq> w_SessionID w) \<and>
     has_pair s (w_PairID w) \<and> s' = s\<lparr>worker_sessions := worker_sessions s @ [w]\<rparr>"
  by (auto simp: insert_session_def list_ex_iff)

lemma insert_provisioning_Inr [insert_simps]:
  "insert_provisioning p s = Inr s' \<longleftrightarrow>
     valid_provisioning_stage (pv_Stage p) \<and>
     (\<forall>q\<in>set (pair_provisioning_operations s). pv_OperationID q \<noteq> pv_OperationID p) \<and>
     (unresolved_stage (pv_Stage p) \<longrightarrow> \<not> unresolved_provisioning s (pv_PairID p)) \<and>
     has_pair s (pv_PairID p) \<and>
     s' = s\<lparr>pair_provisioning_operations := pair_provisioning_operations s @ [p]\<rparr>"
  by (auto simp: insert_provisioning_def list_ex_iff)

lemma insert_dispatch_Inr [insert_simps]:
  "insert_dispatch d s = Inr s' \<longleftrightarrow>
     valid_dispatch_stage (d_Stage d) \<and>
     (\<forall>e\<in>set (dispatch_operations s). d_OperationID e \<noteq> d_OperationID d \<and> d_AttemptID e \<noteq> d_AttemptID d) \<and>
     has_attempt s (d_AttemptID d) \<and> has_pair s (d_PairID d) \<and> has_task s (d_TaskID d) \<and>
     s' = s\<lparr>dispatch_operations := dispatch_operations s @ [d]\<rparr>"
  by (auto simp: insert_dispatch_def list_ex_iff)

lemma insert_stop_Inr [insert_simps]:
  "insert_stop st s = Inr s' \<longleftrightarrow>
     \<not> (\<exists>e. insert_stop st s = Inl e) \<and>
     s' = s\<lparr>stop_operations := stop_operations s @ [st\<lparr>st_RestorePrincipal := None\<rparr>]\<rparr>"
  by (auto simp: insert_stop_def)

lemma insert_budget_Inr [insert_simps]:
  "insert_budget b s = Inr s' \<longleftrightarrow>
     \<not> (\<exists>e. insert_budget b s = Inl e) \<and>
     s' = s\<lparr>attempt_execution_budgets := attempt_execution_budgets s @ [b]\<rparr>"
  by (auto simp: insert_budget_def)

lemma insert_restore_authorization_Inr [insert_simps]:
  "insert_restore_authorization a s = Inr s' \<longleftrightarrow>
     \<not> (\<exists>e. insert_restore_authorization a s = Inl e) \<and>
     s' = s\<lparr>restore_authorizations := restore_authorizations s @ [a]\<rparr>"
  by (auto simp: insert_restore_authorization_def)

lemma insert_restore_operation_Inr [insert_simps]:
  "insert_restore_operation r s = Inr s' \<longleftrightarrow>
     \<not> (\<exists>e. insert_restore_operation r s = Inl e) \<and>
     s' = s\<lparr>pair_restore_operations := pair_restore_operations s @ [r]\<rparr>"
  by (auto simp: insert_restore_operation_def)

lemma insert_stop_unique:
  "insert_stop st s = Inr s' \<Longrightarrow> q \<in> set (stop_operations s) \<Longrightarrow> st_OperationID q \<noteq> st_OperationID st"
  by (auto simp: insert_stop_def list_ex_iff split: if_splits)

lemma insert_budget_unique:
  "insert_budget b s = Inr s' \<Longrightarrow> c \<in> set (attempt_execution_budgets s) \<Longrightarrow>
     b_AttemptID c \<noteq> b_AttemptID b \<and> b_DispatchOperationID c \<noteq> b_DispatchOperationID b"
  by (auto simp: insert_budget_def list_ex_iff split: if_splits)

lemma insert_authorization_unique:
  "insert_restore_authorization a s = Inr s' \<Longrightarrow> q \<in> set (restore_authorizations s) \<Longrightarrow>
     ra_AuthorizationID q \<noteq> ra_AuthorizationID a \<and> ra_OperationID q \<noteq> ra_OperationID a"
  by (auto simp: insert_restore_authorization_def list_ex_iff split: if_splits)

lemma insert_restore_unique:
  "insert_restore_operation r s = Inr s' \<Longrightarrow> q \<in> set (pair_restore_operations s) \<Longrightarrow>
     ro_OperationID q \<noteq> ro_OperationID r \<and> ro_AuthorizationID q \<noteq> ro_AuthorizationID r"
  by (auto simp: insert_restore_operation_def list_ex_iff split: if_splits)

lemma insert_restore_exclusive:
  "insert_restore_operation r s = Inr s' \<Longrightarrow> ro_ResolutionState r \<noteq> RestoreResolved \<Longrightarrow>
     \<not> unresolved_restore s (ro_PairID r)"
  by (auto simp: insert_restore_operation_def split: if_splits)

lemma freeze_contract_Inr [insert_simps]:
  "freeze_contract cid s = Inr s' \<longleftrightarrow>
     s' = s\<lparr>task_contracts := update_rows (\<lambda>c. cr_contract_id c = cid \<and> \<not> cr_is_immutable c)
       (\<lambda>c. c\<lparr>cr_is_immutable := True\<rparr>) (task_contracts s)\<rparr>"
  by (auto simp: freeze_contract_def Let_def list_ex_iff)

lemma update_dispatch_stage_Inr [insert_simps]:
  "update_dispatch_stage P f s = Inr (n, s') \<longleftrightarrow>
     (\<forall>d\<in>set (dispatch_operations s). P d \<longrightarrow> dispatch_update_allowed s d (f d)) \<and>
     n = rows_affected P (dispatch_operations s) \<and>
     s' = s\<lparr>dispatch_operations := update_rows P f (dispatch_operations s)\<rparr>"
  by (auto simp: update_dispatch_stage_def list_ex_iff)

lemma update_restore_authorizations_Inr [insert_simps]:
  "update_restore_authorizations P f s = Inr (n, s') \<longleftrightarrow>
     (\<forall>a\<in>set (restore_authorizations s). P a \<longrightarrow>
        authorization_update_allowed a (f a) \<and> restore_authorization_checks (f a)) \<and>
     n = rows_affected P (restore_authorizations s) \<and>
     s' = s\<lparr>restore_authorizations := update_rows P f (restore_authorizations s)\<rparr>"
  by (auto simp: update_restore_authorizations_def list_ex_iff)

lemma update_restore_operations_Inr [insert_simps]:
  "update_restore_operations P f s = Inr (n, s') \<longleftrightarrow>
     (\<forall>r\<in>set (pair_restore_operations s). P r \<longrightarrow>
        restore_update_allowed r (f r) \<and> restore_operation_checks (f r)) \<and>
     n = rows_affected P (pair_restore_operations s) \<and>
     s' = s\<lparr>pair_restore_operations := update_rows P f (pair_restore_operations s)\<rparr>"
  by (auto simp: update_restore_operations_def list_ex_iff)

section \<open>Evolution\<close>

text \<open>How a committed state may follow another, table by table.\<close>

definition evolves :: "db \<Rightarrow> db \<Rightarrow> bool" where
  "evolves s s' \<longleftrightarrow>
     fixed_rows.grows (projects s) (projects s') \<and> fixed_rows.grows (pairs s) (pairs s') \<and>
     task_rows.grows (tasks s) (tasks s') \<and>
     contract_rows.grows (task_contracts s) (task_contracts s') \<and>
     attempt_rows.grows (task_attempts s) (task_attempts s') \<and>
     fixed_rows.grows (audit_events s) (audit_events s') \<and>
     session_rows.grows (worker_sessions s) (worker_sessions s') \<and>
     provisioning_rows.grows (pair_provisioning_operations s) (pair_provisioning_operations s') \<and>
     dispatch_rows.grows (dispatch_operations s) (dispatch_operations s') \<and>
     stop_rows.grows (stop_operations s) (stop_operations s') \<and>
     authorization_rows.grows (restore_authorizations s) (restore_authorizations s') \<and>
     restore_rows.grows (pair_restore_operations s) (pair_restore_operations s') \<and>
     fixed_rows.grows (attempt_execution_budgets s) (attempt_execution_budgets s')"

lemma evolves_refl: "evolves s s"
  by (simp add: evolves_def)

lemma evolves_trans: "evolves s t \<Longrightarrow> evolves t u \<Longrightarrow> evolves s u"
  unfolding evolves_def
  by (blast intro: fixed_rows.grows_trans task_rows.grows_trans contract_rows.grows_trans
      attempt_rows.grows_trans session_rows.grows_trans provisioning_rows.grows_trans
      dispatch_rows.grows_trans stop_rows.grows_trans restore_rows.grows_trans
      authorization_rows.grows_trans)

lemma restore_update_evolves: "restore_update_allowed p q \<Longrightarrow> restore_evolves p q"
  by (auto simp: restore_update_allowed_def restore_evolves_def restore_resolution_forward_def)

lemma claim_evolves:
  "task_evolves t (t\<lparr>t_State := StateDispatched, t_CurrentAttempt := t_CurrentAttempt t + 1,
     t_UpdatedAt := at\<rparr>)" if "t_State t = StateReady"
  using that by (auto simp: task_evolves_def into_dispatched intro: workflow_reach_one)

lemma transition_evolves:
  "CanTransition (t_State t) to \<Longrightarrow> task_evolves t (t\<lparr>t_State := to, t_UpdatedAt := at\<rparr>)"
  by (simp add: task_evolves_def workflow_reach_one)

lemmas grows_updates =
  task_rows.grows_update contract_rows.grows_update attempt_rows.grows_update
  session_rows.grows_update provisioning_rows.grows_update dispatch_rows.grows_update
  stop_rows.grows_update restore_rows.grows_update authorization_rows.grows_update

lemma store_write_evolves:
  assumes "store_write sha s s'"
  shows "evolves s s'"
  using assms
proof cases
  case (w_begin t c a at)
  then have s': "s' = s\<lparr>tasks := tasks (snd (claim_task (t_TaskID t) at s)),
      task_attempts := task_attempts s @ [a]\<rparr>"
    by (simp add: insert_simps claim_task_def update_tasks_def)
  have "task_rows.grows (tasks s) (tasks (snd (claim_task (t_TaskID t) at s)))"
    by (auto simp: claim_task_def update_tasks_def intro!: task_rows.grows_update claim_evolves)
  then show ?thesis by (simp add: s' evolves_def)
qed (auto simp: evolves_def insert_simps contract_evolves_def dispatch_evolves_def
    authorization_evolves_def
    intro!: grows_updates transition_evolves restore_update_evolves)

lemma store_writes_evolves: "store_writes sha s s' \<Longrightarrow> evolves s s'"
  by (induction rule: rtranclp_induct) (auto intro: evolves_refl evolves_trans store_write_evolves)

text \<open>Consequences for single rows.\<close>

lemma evolves_audit_prefix:
  assumes "evolves s s'"
  shows "\<exists>rs. audit_events s' = audit_events s @ rs"
proof -
  let ?n = "length (audit_events s)"
  have "fixed_rows.grows (audit_events s) (audit_events s')" using assms by (simp add: evolves_def)
  then have "take ?n (audit_events s') = audit_events s"
    by (auto simp: fixed_rows.grows_def intro!: nth_equalityI)
  then show ?thesis by (metis append_take_drop_id)
qed

lemma evolves_task:
  assumes "evolves s s'" and "t \<in> set (tasks s)"
  obtains u where "u \<in> set (tasks s')" "task_evolves t u"
  using assms by (auto simp: evolves_def elim: task_rows.grows_mem)

lemma evolves_contract:
  assumes "evolves s s'" and "c \<in> set (task_contracts s)"
  obtains d where "d \<in> set (task_contracts s')" "contract_evolves c d"
  using assms by (auto simp: evolves_def elim: contract_rows.grows_mem)

lemma evolves_attempt:
  assumes "evolves s s'" and "a \<in> set (task_attempts s)"
  obtains b where "b \<in> set (task_attempts s')" "attempt_evolves a b"
  using assms by (auto simp: evolves_def elim: attempt_rows.grows_mem)

lemma evolves_dispatch:
  assumes "evolves s s'" and "d \<in> set (dispatch_operations s)"
  obtains e where "e \<in> set (dispatch_operations s')" "dispatch_evolves d e"
  using assms by (auto simp: evolves_def elim: dispatch_rows.grows_mem)

lemma evolves_stop:
  assumes "evolves s s'" and "p \<in> set (stop_operations s)"
  obtains q where "q \<in> set (stop_operations s')" "stop_evolves p q"
  using assms by (auto simp: evolves_def elim: stop_rows.grows_mem)

lemma evolves_budget:
  assumes "evolves s s'" and "b \<in> set (attempt_execution_budgets s)"
  shows "b \<in> set (attempt_execution_budgets s')"
  using assms by (auto simp: evolves_def elim: fixed_rows.grows_mem)

section \<open>Invariants\<close>

text \<open>The unique columns of the schema.\<close>

definition keys_inv :: "db \<Rightarrow> bool" where
  "keys_inv s \<longleftrightarrow>
     keyed p_ProjectID (projects s) \<and> keyed pr_PairID (pairs s) \<and> keyed pr_ProjectID (pairs s) \<and>
     keyed t_TaskID (tasks s) \<and> keyed cr_contract_id (task_contracts s) \<and>
     keyed (\<lambda>c. (cr_task_id c, cr_revision_number c)) (task_contracts s) \<and>
     keyed a_AttemptID (task_attempts s) \<and>
     keyed (\<lambda>a. (a_TaskID a, a_AttemptNumber a)) (task_attempts s) \<and>
     keyed w_PairID (worker_sessions s) \<and> keyed w_SessionID (worker_sessions s) \<and>
     keyed pv_OperationID (pair_provisioning_operations s) \<and>
     keyed d_OperationID (dispatch_operations s) \<and> keyed d_AttemptID (dispatch_operations s) \<and>
     keyed st_OperationID (stop_operations s) \<and>
     keyed b_AttemptID (attempt_execution_budgets s) \<and>
     keyed b_DispatchOperationID (attempt_execution_budgets s) \<and>
     keyed ra_AuthorizationID (restore_authorizations s) \<and>
     keyed ro_OperationID (pair_restore_operations s)"

text \<open>At most one task of a pair is in \<open>DISPATCHED\<close>, \<open>RUNNING\<close> or \<open>REVIEWING\<close>.\<close>

definition lane_inv :: "db \<Rightarrow> bool" where
  "lane_inv s \<longleftrightarrow>
     (\<forall>t\<in>set (tasks s). \<forall>u\<in>set (tasks s).
        t_PairID t = t_PairID u \<and> active_lane (t_State t) \<and> active_lane (t_State u) \<longrightarrow> t = u)"

text \<open>
  The attempts of a task are numbered from 1 to its current attempt, without a gap, each bound
  to a frozen contract of the task.
\<close>

definition attempts_inv :: "db \<Rightarrow> bool" where
  "attempts_inv s \<longleftrightarrow>
     (\<forall>t\<in>set (tasks s). 0 \<le> t_CurrentAttempt t) \<and>
     (\<forall>a\<in>set (task_attempts s). \<exists>t\<in>set (tasks s). t_TaskID t = a_TaskID a \<and>
        1 \<le> a_AttemptNumber a \<and> a_AttemptNumber a \<le> t_CurrentAttempt t) \<and>
     (\<forall>t\<in>set (tasks s). \<forall>n. 1 \<le> n \<and> n \<le> t_CurrentAttempt t \<longrightarrow>
        (\<exists>a\<in>set (task_attempts s). a_TaskID a = t_TaskID t \<and> a_AttemptNumber a = n))"

text \<open>The current attempt of an executing task is open.\<close>

definition open_inv :: "db \<Rightarrow> bool" where
  "open_inv s \<longleftrightarrow>
     (\<forall>t\<in>set (tasks s). executing (t_State t) \<longrightarrow>
        (\<exists>a\<in>set (task_attempts s). a_TaskID a = t_TaskID t \<and> a_AttemptNumber a = t_CurrentAttempt t \<and>
           a_EndedAt a = None))"

definition frozen_inv :: "db \<Rightarrow> bool" where
  "frozen_inv s \<longleftrightarrow>
     (\<forall>a\<in>set (task_attempts s). \<exists>c\<in>set (task_contracts s).
        cr_contract_id c = a_ContractID a \<and> cr_task_id c = a_TaskID a \<and> cr_is_immutable c)"

text \<open>Revisions are numbered without a gap, on one base, each behind a frozen predecessor.\<close>

definition lineage_inv :: "db \<Rightarrow> bool" where
  "lineage_inv s \<longleftrightarrow>
     (\<forall>c\<in>set (task_contracts s). 1 \<le> cr_revision_number c \<and> contract_lineage s c)"

text \<open>A dispatch carries the session snapshot of its attempt and the pair of its task.\<close>

definition dispatch_inv :: "db \<Rightarrow> bool" where
  "dispatch_inv s \<longleftrightarrow>
     (\<forall>d\<in>set (dispatch_operations s).
        (\<exists>a\<in>set (task_attempts s). dispatch_snapshot d a) \<and>
        (\<exists>t\<in>set (tasks s). t_TaskID t = d_TaskID d \<and> t_PairID t = d_PairID d))"

text \<open>A confirmed dispatch has the execution budget that starts at its confirmation.\<close>

definition confirmed_inv :: "db \<Rightarrow> bool" where
  "confirmed_inv s \<longleftrightarrow>
     (\<forall>d\<in>set (dispatch_operations s). d_Stage d = SendConfirmed \<longrightarrow>
        (\<exists>b\<in>set (attempt_execution_budgets s). b_DispatchOperationID b = d_OperationID d \<and>
           b_AttemptID b = d_AttemptID d \<and> d_ConfirmedAt d = Some (b_OriginAt b)))"

definition budgets_inv :: "db \<Rightarrow> bool" where
  "budgets_inv s \<longleftrightarrow> (\<forall>b\<in>set (attempt_execution_budgets s). budget_ok b)"

text \<open>A pair has at most one unresolved provisioning and at most one unresolved restore.\<close>

definition exclusive_inv :: "db \<Rightarrow> bool" where
  "exclusive_inv s \<longleftrightarrow>
     (\<forall>p\<in>set (pair_provisioning_operations s). \<forall>q\<in>set (pair_provisioning_operations s).
        pv_PairID p = pv_PairID q \<and> unresolved_stage (pv_Stage p) \<and> unresolved_stage (pv_Stage q) \<longrightarrow>
        pv_OperationID p = pv_OperationID q) \<and>
     (\<forall>p\<in>set (pair_restore_operations s). \<forall>q\<in>set (pair_restore_operations s).
        ro_PairID p = ro_PairID q \<and> ro_ResolutionState p \<noteq> RestoreResolved \<and>
        ro_ResolutionState q \<noteq> RestoreResolved \<longrightarrow> ro_OperationID p = ro_OperationID q)"

definition store_inv :: "(string \<Rightarrow> string) \<Rightarrow> db \<Rightarrow> bool" where
  "store_inv sha s \<longleftrightarrow>
     audit_inv sha s \<and> keys_inv s \<and> lane_inv s \<and> attempts_inv s \<and> open_inv s \<and> frozen_inv s \<and>
     lineage_inv s \<and> dispatch_inv s \<and> confirmed_inv s \<and> budgets_inv s \<and> exclusive_inv s"

lemmas inv_defs =
  keys_inv_def lane_inv_def attempts_inv_def open_inv_def frozen_inv_def lineage_inv_def dispatch_inv_def
  confirmed_inv_def budgets_inv_def exclusive_inv_def

lemma store_inv_empty: "store_inv sha empty_db"
  by (simp add: store_inv_def inv_defs audit_inv_empty) (simp add: empty_db_def)

subsection \<open>Each write keeps each invariant\<close>

lemma write_audit_inv: "store_write sha s s' \<Longrightarrow> audit_inv sha s \<Longrightarrow> audit_inv sha s'"
proof (induction rule: store_write.induct)
  case (w_audit r s)
  then show ?case by (rule linked_push)
qed (auto simp: audit_inv_def insert_simps claim_task_def update_tasks_def)

lemma keyed_same: "map key ys = map key xs \<Longrightarrow> keyed key ys = keyed key xs"
  by (simp add: keyed_def)

lemma authorization_same_id:
  assumes "authorization_update_allowed a b"
  shows "ra_AuthorizationID b = ra_AuthorizationID a"
proof -
  let ?open = "\<lambda>x. x\<lparr>ra_ConsumedAt := None, ra_ConsumedByOperationID := None\<rparr>"
  have "?open a = ?open b" using assms by (simp add: authorization_update_allowed_def)
  then have "ra_AuthorizationID (?open a) = ra_AuthorizationID (?open b)" by (rule arg_cong)
  then show ?thesis by simp
qed

lemmas keyed_rules = keyed_snoc keyed_update_rows

lemma write_keys_inv: "store_write sha s s' \<Longrightarrow> keys_inv s \<Longrightarrow> keys_inv s'"
proof (induction rule: store_write.induct)
  case (w_stop_new st s s')
  then show ?case
    using insert_stop_unique [OF w_stop_new(1)] by (simp add: keys_inv_def insert_simps keyed_snoc)
next
  case (w_budget b s s')
  then show ?case
    using insert_budget_unique [OF w_budget(1)] by (simp add: keys_inv_def insert_simps keyed_snoc)
next
  case (w_authorization_new a s s')
  then show ?case
    using insert_authorization_unique [OF w_authorization_new(1)]
    by (simp add: keys_inv_def insert_simps keyed_snoc)
next
  case (w_restore_new r s s')
  then show ?case
    using insert_restore_unique [OF w_restore_new(1)]
    by (simp add: keys_inv_def insert_simps keyed_snoc)
next
  case (w_authorization P f s n s')
  then show ?case
    by (simp add: keys_inv_def insert_simps keyed_update_rows authorization_same_id)
qed (simp_all add: keys_inv_def insert_simps claim_task_def update_tasks_def keyed_rules
    evolves_defs restore_update_allowed_def)

text \<open>The lane invariant under an update of the row of one task.\<close>

lemma lane_update:
  assumes inv: "\<forall>t\<in>set rs. \<forall>u\<in>set rs.
      t_PairID t = t_PairID u \<and> active_lane (t_State t) \<and> active_lane (t_State u) \<longrightarrow> t = u"
    and key: "keyed t_TaskID rs"
    and upd: "\<And>t. t \<in> set rs \<Longrightarrow> P t \<Longrightarrow> t_TaskID t = tid \<and> t_PairID (f t) = t_PairID t \<and>
      (active_lane (t_State (f t)) \<longrightarrow> active_lane (t_State t) \<or>
         \<not> (\<exists>u\<in>set rs. t_PairID u = t_PairID t \<and> t_TaskID u \<noteq> tid \<and> active_lane (t_State u)))"
    and mem: "t \<in> set (update_rows P f rs)" "u \<in> set (update_rows P f rs)"
    and act: "t_PairID t = t_PairID u" "active_lane (t_State t)" "active_lane (t_State u)"
  shows "t = u"
proof -
  have one: "x = y" if "x \<in> set rs" "y \<in> set rs" "P x" "t_PairID y = t_PairID x"
    "active_lane (t_State (f x))" "active_lane (t_State y)" for x y
    using upd [OF that(1,3)] that inv keyed_uniq [OF key that(1,2)] by metis
  show ?thesis
    using mem(1)
  proof (cases rule: mem_update_rowsE)
    case kept
    from mem(2) show ?thesis
    proof (cases rule: mem_update_rowsE)
      case kept
      with \<open>t \<in> set rs\<close> inv act show ?thesis by blast
    next
      case (changed y)
      with upd one [of y t] \<open>t \<in> set rs\<close> \<open>\<not> P t\<close> act show ?thesis by metis
    qed
  next
    case (changed x)
    note x = changed
    from mem(2) show ?thesis
    proof (cases rule: mem_update_rowsE)
      case kept
      with upd one [of x u] x act show ?thesis by metis
    next
      case (changed y)
      with x upd have "t_TaskID x = t_TaskID y" by metis
      with x changed keyed_uniq [OF key] have "x = y" by metis
      with x changed show ?thesis by simp
    qed
  qed
qed

lemma pair_busy_iff:
  "pair_busy s pid tid \<longleftrightarrow>
     (\<exists>u\<in>set (tasks s). t_PairID u = pid \<and> t_TaskID u \<noteq> tid \<and> active_lane (t_State u))"
  by (auto simp: pair_busy_def list_ex_iff)

lemma inactive_states [simp]: "\<not> active_lane StateDraft" "\<not> active_lane StateReady"
  by (simp_all add: active_lane_def)

lemma lane_invI:
  assumes "lane_inv s" "keys_inv s" "tasks s' = update_rows P f (tasks s)"
    and "\<And>t. t \<in> set (tasks s) \<Longrightarrow> P t \<Longrightarrow> t_TaskID t = tid \<and> t_PairID (f t) = t_PairID t \<and>
      (active_lane (t_State (f t)) \<longrightarrow> active_lane (t_State t) \<or> \<not> pair_busy s (t_PairID t) tid)"
  shows "lane_inv s'"
  unfolding lane_inv_def assms(3)
proof (intro ballI impI, elim conjE)
  fix t u
  assume "t \<in> set (update_rows P f (tasks s))" "u \<in> set (update_rows P f (tasks s))"
    "t_PairID t = t_PairID u" "active_lane (t_State t)" "active_lane (t_State u)"
  then show "t = u"
    by (rule lane_update [rotated 3, where tid = tid])
      (use assms in \<open>auto simp: lane_inv_def keys_inv_def pair_busy_iff\<close>)
qed

lemma write_lane_inv:
  assumes "store_write sha s s'" and "lane_inv s" and "keys_inv s"
  shows "lane_inv s'"
  using assms(1)
proof cases
  case (w_transition P tid to at)
  show ?thesis
  proof (rule lane_invI [OF assms(2,3), where tid = tid])
    show "tasks s' = update_rows P (\<lambda>t. t\<lparr>t_State := to, t_UpdatedAt := at\<rparr>) (tasks s)"
      using w_transition(1) by simp
  qed (use w_transition(2) in simp)
next
  case (w_begin t c a at)
  have ts: "tasks s' = update_rows (\<lambda>x. t_TaskID x = t_TaskID t \<and> t_State x = StateReady)
      (\<lambda>t. t\<lparr>t_State := StateDispatched, t_CurrentAttempt := t_CurrentAttempt t + 1,
         t_UpdatedAt := at\<rparr>) (tasks s)"
    using w_begin by (simp add: insert_simps claim_task_def update_tasks_def)
  have "x = t" if "x \<in> set (tasks s)" "t_TaskID x = t_TaskID t" for x
    using assms(3) that w_begin(1) by (auto simp: keys_inv_def intro: keyed_uniq)
  then show ?thesis
    using w_begin(3) by (intro lane_invI [OF assms(2,3) ts, where tid = "t_TaskID t"]) auto
next
  case (w_task t)
  then show ?thesis using assms(2) by (auto simp: lane_inv_def insert_simps)
qed (use assms(2) in \<open>simp_all add: lane_inv_def insert_simps\<close>)

text \<open>Numbering depends on the identity and number columns only.\<close>

lemma attempts_inv_cong:
  assumes "map (\<lambda>t. (t_TaskID t, t_CurrentAttempt t)) (tasks s') =
      map (\<lambda>t. (t_TaskID t, t_CurrentAttempt t)) (tasks s)"
    and "map (\<lambda>a. (a_TaskID a, a_AttemptNumber a)) (task_attempts s') =
      map (\<lambda>a. (a_TaskID a, a_AttemptNumber a)) (task_attempts s)"
  shows "attempts_inv s' = attempts_inv s"
proof -
  have proj: "attempts_inv x \<longleftrightarrow>
      (let T = set (map (\<lambda>t. (t_TaskID t, t_CurrentAttempt t)) (tasks x));
           A = set (map (\<lambda>a. (a_TaskID a, a_AttemptNumber a)) (task_attempts x))
       in (\<forall>t\<in>T. 0 \<le> snd t) \<and>
          (\<forall>a\<in>A. \<exists>t\<in>T. fst t = fst a \<and> 1 \<le> snd a \<and> snd a \<le> snd t) \<and>
          (\<forall>t\<in>T. \<forall>n. 1 \<le> n \<and> n \<le> snd t \<longrightarrow> (fst t, n) \<in> A))" for x
    unfolding attempts_inv_def Let_def by (force simp: image_iff)
  show ?thesis unfolding proj [of s'] proj [of s] assms ..
qed

lemma write_attempts_inv:
  assumes "store_write sha s s'" and "attempts_inv s" and "keys_inv s"
  shows "attempts_inv s'"
  using assms(1)
proof cases
  case (w_task t)
  then show ?thesis using assms(2) by (fastforce simp: attempts_inv_def insert_simps)
next
  case (w_transition P tid to at)
  then show ?thesis
    using attempts_inv_cong [of s' s] assms(2) by (simp add: map_update_rows_on)
next
  case (w_attempt P f)
  then show ?thesis
    using attempts_inv_cong [of s' s] assms(2) by (simp add: map_update_rows_on attempt_evolves_def)
next
  case (w_begin t c a at)
  let ?P = "\<lambda>x. t_TaskID x = t_TaskID t \<and> t_State x = StateReady"
  have uniq: "x = t" if "x \<in> set (tasks s)" "t_TaskID x = t_TaskID t" for x
    using assms(3) that w_begin(1) by (auto simp: keys_inv_def intro: keyed_uniq)
  have ts: "tasks s' = update_rows ?P (\<lambda>t. t\<lparr>t_State := StateDispatched,
      t_CurrentAttempt := t_CurrentAttempt t + 1, t_UpdatedAt := at\<rparr>) (tasks s)"
    and as: "task_attempts s' = task_attempts s @ [a]"
    using w_begin by (simp_all add: insert_simps claim_task_def update_tasks_def)
  have old: "\<exists>y\<in>set (tasks s'). t_TaskID y = t_TaskID x \<and> t_CurrentAttempt x \<le> t_CurrentAttempt y"
    if "x \<in> set (tasks s)" for x
    using evolves_task [OF store_write_evolves [OF assms(1)] that] by (metis task_evolves_def)
  have new: "(x \<in> set (tasks s) \<and> t_TaskID x \<noteq> t_TaskID t) \<or>
      (t_TaskID x = t_TaskID t \<and> t_CurrentAttempt x = t_CurrentAttempt t + 1)"
    if "x \<in> set (tasks s')" for x
    using that unfolding ts
  proof (cases rule: mem_update_rowsE)
    case kept
    with uniq [of x] w_begin(2) show ?thesis by auto
  next
    case (changed q)
    with uniq [of q] show ?thesis by auto
  qed
  have cur: "\<exists>y\<in>set (tasks s'). t_TaskID y = t_TaskID t \<and> t_CurrentAttempt y = t_CurrentAttempt t + 1"
    unfolding ts
    by (rule bexI [OF _ update_rows_changed [OF w_begin(1)]]) (use w_begin(2) in simp_all)
  have nonneg: "0 \<le> t_CurrentAttempt x" if "x \<in> set (tasks s)" for x
    using assms(2) that by (simp add: attempts_inv_def)
  have numbered: "\<exists>b\<in>set (task_attempts s). a_TaskID b = t_TaskID x \<and> a_AttemptNumber b = n"
    if "x \<in> set (tasks s)" "1 \<le> n" "n \<le> t_CurrentAttempt x" for x n
    using assms(2) that unfolding attempts_inv_def by blast
  show ?thesis
    unfolding attempts_inv_def as
  proof (intro conjI ballI allI impI)
    fix x
    assume "x \<in> set (tasks s')"
    then show "0 \<le> t_CurrentAttempt x" using new nonneg w_begin(1) by fastforce
  next
    fix b
    assume "b \<in> set (task_attempts s @ [a])"
    then consider "b = a" | "b \<in> set (task_attempts s)" by auto
    then show "\<exists>y\<in>set (tasks s'). t_TaskID y = a_TaskID b \<and> 1 \<le> a_AttemptNumber b \<and>
        a_AttemptNumber b \<le> t_CurrentAttempt y"
    proof cases
      case 1
      then show ?thesis using cur nonneg [OF w_begin(1)] w_begin(8,9) by auto
    next
      case 2
      then obtain x where "x \<in> set (tasks s)" "t_TaskID x = a_TaskID b" "1 \<le> a_AttemptNumber b"
        "a_AttemptNumber b \<le> t_CurrentAttempt x"
        using assms(2) unfolding attempts_inv_def by blast
      with old show ?thesis by (metis order_trans)
    qed
  next
    fix x and n :: int
    assume "x \<in> set (tasks s')" and n: "1 \<le> n \<and> n \<le> t_CurrentAttempt x"
    then consider "x \<in> set (tasks s)"
      | "t_TaskID x = t_TaskID t" "n = t_CurrentAttempt t + 1"
      | "t_TaskID x = t_TaskID t" "n \<le> t_CurrentAttempt t"
      using new [of x] by fastforce
    then show "\<exists>b\<in>set (task_attempts s @ [a]). a_TaskID b = t_TaskID x \<and> a_AttemptNumber b = n"
      using n numbered [of x n] numbered [OF w_begin(1), of n] w_begin(8,9) by cases auto
  qed
qed (use assms(2) in \<open>simp_all add: attempts_inv_def insert_simps\<close>)

lemma write_open_inv:
  assumes "store_write sha s s'" and "open_inv s" and "keys_inv s"
  shows "open_inv s'"
  using assms(1)
proof cases
  case (w_begin t c a at)
  have ts: "tasks s' = update_rows (\<lambda>x. t_TaskID x = t_TaskID t \<and> t_State x = StateReady)
      (\<lambda>t. t\<lparr>t_State := StateDispatched, t_CurrentAttempt := t_CurrentAttempt t + 1,
         t_UpdatedAt := at\<rparr>) (tasks s)"
    and as: "task_attempts s' = task_attempts s @ [a]"
    using w_begin by (simp_all add: insert_simps claim_task_def update_tasks_def)
  show ?thesis
    unfolding open_inv_def as
  proof (intro ballI impI)
    fix x
    assume "x \<in> set (tasks s')" and "executing (t_State x)"
    then show "\<exists>b\<in>set (task_attempts s @ [a]). a_TaskID b = t_TaskID x \<and>
        a_AttemptNumber b = t_CurrentAttempt x \<and> a_EndedAt b = None"
      unfolding ts
    proof (cases rule: mem_update_rowsE)
      case kept
      with \<open>executing _\<close> assms(2) show ?thesis unfolding open_inv_def by auto
    next
      case (changed q)
      then have "q = t" using assms(3) w_begin(1) by (auto simp: keys_inv_def intro: keyed_uniq)
      with changed w_begin show ?thesis by simp
    qed
  qed
next
  case (w_transition P tid to at)
  show ?thesis
    unfolding open_inv_def
  proof (intro ballI impI)
    fix x
    assume x: "x \<in> set (tasks s')" "executing (t_State x)"
    then obtain q where "q \<in> set (tasks s)" "t_TaskID q = t_TaskID x"
      "t_CurrentAttempt q = t_CurrentAttempt x" "executing (t_State q)"
      using w_transition
      by (auto simp: set_update_rows executing_def into_running split: if_splits)
    with assms(2) w_transition(1)
    show "\<exists>b\<in>set (task_attempts s'). a_TaskID b = t_TaskID x \<and>
        a_AttemptNumber b = t_CurrentAttempt x \<and> a_EndedAt b = None"
      unfolding open_inv_def by (auto dest!: bspec [of _ _ q])
  qed
next
  case (w_attempt P f)
  show ?thesis
    unfolding open_inv_def
  proof (intro ballI impI)
    fix x
    assume x: "x \<in> set (tasks s')" "executing (t_State x)"
    with w_attempt(1) assms(2) obtain b where b: "b \<in> set (task_attempts s)" "a_TaskID b = t_TaskID x"
      "a_AttemptNumber b = t_CurrentAttempt x" "a_EndedAt b = None"
      unfolding open_inv_def by auto
    have "\<not> closable s b" using x w_attempt(1) b(2) by (auto simp: closable_def)
    with w_attempt(2) [of b] b have "P b \<Longrightarrow> attempt_evolves b (f b) \<and> a_EndedAt (f b) = None" by auto
    with b have "(if P b then f b else b) \<in> set (task_attempts s')"
      "a_TaskID (if P b then f b else b) = t_TaskID x"
      "a_AttemptNumber (if P b then f b else b) = t_CurrentAttempt x"
      "a_EndedAt (if P b then f b else b) = None"
      using w_attempt(1) by (auto simp: set_update_rows attempt_evolves_def)
    then show "\<exists>b\<in>set (task_attempts s'). a_TaskID b = t_TaskID x \<and>
        a_AttemptNumber b = t_CurrentAttempt x \<and> a_EndedAt b = None"
      by blast
  qed
qed (use assms(2) in \<open>auto simp: open_inv_def executing_def insert_simps\<close>)

text \<open>Where a row of the later state comes from.\<close>

lemma write_attempt_origin:
  assumes "store_write sha s s'" and "b \<in> set (task_attempts s')"
  obtains (old) a where "a \<in> set (task_attempts s)" "attempt_evolves a b"
  | (new) c where "c \<in> set (task_contracts s)" "cr_contract_id c = a_ContractID b"
      "cr_task_id c = a_TaskID b" "cr_is_immutable c"
  using assms(1)
proof cases
  case (w_begin t c a at)
  with assms(2) old new attempt_rows.ord_refl show ?thesis
    by (auto simp: insert_simps claim_task_def update_tasks_def)
next
  case (w_attempt P f)
  with assms(2) old attempt_rows.ord_refl show ?thesis by (auto simp: set_update_rows)
qed (use assms(2) old attempt_rows.ord_refl in \<open>auto simp: insert_simps\<close>)

lemma write_contract_origin:
  assumes "store_write sha s s'" and "d \<in> set (task_contracts s')"
  obtains (old) c where "c \<in> set (task_contracts s)" "contract_evolves c d"
  | (new) "1 \<le> cr_revision_number d" "contract_lineage s d"
  using assms(1)
proof cases
  case (w_freeze cid)
  with assms(2) old show ?thesis
    by (fastforce simp: insert_simps set_update_rows contract_evolves_def)
next
  case (w_contract c)
  with assms(2) old new contract_rows.ord_refl show ?thesis by (auto simp: insert_simps)
qed (use assms(2) old contract_rows.ord_refl in
    \<open>auto simp: insert_simps claim_task_def update_tasks_def\<close>)

lemma write_dispatch_origin:
  assumes "store_write sha s s'" and "e \<in> set (dispatch_operations s')"
  obtains (old) d where "d \<in> set (dispatch_operations s)" "dispatch_evolves d e"
  | (new) a t where "d_Stage e = DispatchBound" "a \<in> set (task_attempts s)" "dispatch_snapshot e a"
      "t \<in> set (tasks s)" "t_TaskID t = d_TaskID e" "t_PairID t = d_PairID e"
  using assms(1)
proof cases
  case (w_dispatch_new d a t)
  with assms(2) old new dispatch_rows.ord_refl show ?thesis by (auto simp: insert_simps)
next
  case (w_dispatch_stage P f n)
  with assms(2) old dispatch_rows.ord_refl show ?thesis by (auto simp: insert_simps set_update_rows)
next
  case (w_dispatch_resolution P r)
  then have "e \<in> set (update_rows P (\<lambda>d. d\<lparr>d_ResolutionState := Some r\<rparr>) (dispatch_operations s))"
    using assms(2) by simp
  then show ?thesis
  proof (cases rule: mem_update_rowsE)
    case kept
    with old dispatch_rows.ord_refl show ?thesis by blast
  next
    case (changed d)
    with w_dispatch_resolution(2) [of d] show ?thesis
      by (intro old [of d]) (auto simp: dispatch_evolves_def)
  qed
qed (use assms(2) old dispatch_rows.ord_refl in
    \<open>auto simp: insert_simps claim_task_def update_tasks_def\<close>)

lemma contract_evolves_same:
  "contract_evolves c d \<Longrightarrow>
     cr_contract_id d = cr_contract_id c \<and> cr_task_id d = cr_task_id c \<and>
     cr_revision_number d = cr_revision_number c \<and> cr_base_sha d = cr_base_sha c \<and>
     cr_supersedes_contract_id d = cr_supersedes_contract_id c \<and>
     (cr_is_immutable c \<longrightarrow> cr_is_immutable d)"
  by (auto simp: contract_evolves_def)

lemma contract_lineage_mono:
  assumes "evolves s s'" and "contract_lineage s c"
  shows "contract_lineage s' c"
proof (cases "cr_revision_number c = 1")
  case True
  with assms(2) show ?thesis by (simp add: contract_lineage_def)
next
  case False
  with assms(2) obtain p where p: "p \<in> set (task_contracts s)"
    "map_option TrimSpace (cr_supersedes_contract_id c) = Some (cr_contract_id p)"
    "cr_task_id p = cr_task_id c" "cr_revision_number p = cr_revision_number c - 1"
    "cr_base_sha p = cr_base_sha c" "cr_is_immutable p"
    by (auto simp: contract_lineage_def list_ex_iff)
  obtain q where "q \<in> set (task_contracts s')" "contract_evolves p q"
    using assms(1) p(1) by (rule evolves_contract)
  with p False show ?thesis
    by (auto simp: contract_lineage_def list_ex_iff dest!: contract_evolves_same intro!: bexI [of _ q])
qed

lemma contract_lineage_cong:
  "contract_evolves c d \<Longrightarrow> contract_lineage s d = contract_lineage s c"
  by (auto simp: contract_lineage_def dest: contract_evolves_same)

lemma write_frozen_inv:
  assumes "store_write sha s s'" and "frozen_inv s"
  shows "frozen_inv s'"
  unfolding frozen_inv_def
proof
  fix b
  assume "b \<in> set (task_attempts s')"
  with assms(1) obtain c where c: "c \<in> set (task_contracts s)" "cr_contract_id c = a_ContractID b"
    "cr_task_id c = a_TaskID b" "cr_is_immutable c"
    using assms(2) unfolding frozen_inv_def
    by (cases rule: write_attempt_origin) (metis attempt_evolves_def)+
  with store_write_evolves [OF assms(1)]
  show "\<exists>c\<in>set (task_contracts s'). cr_contract_id c = a_ContractID b \<and>
      cr_task_id c = a_TaskID b \<and> cr_is_immutable c"
    by (metis contract_evolves_same evolves_contract)
qed

lemma write_lineage_inv:
  assumes "store_write sha s s'" and "lineage_inv s"
  shows "lineage_inv s'"
  unfolding lineage_inv_def
proof
  fix d
  assume "d \<in> set (task_contracts s')"
  with assms(1) have "1 \<le> cr_revision_number d \<and> contract_lineage s d"
    using assms(2) unfolding lineage_inv_def
    by (cases rule: write_contract_origin)
      (auto simp: contract_lineage_cong dest: contract_evolves_same)
  then show "1 \<le> cr_revision_number d \<and> contract_lineage s' d"
    using contract_lineage_mono [OF store_write_evolves [OF assms(1)]] by simp
qed

lemma write_dispatch_inv:
  assumes "store_write sha s s'" and "dispatch_inv s"
  shows "dispatch_inv s'"
  unfolding dispatch_inv_def
proof
  fix e
  assume "e \<in> set (dispatch_operations s')"
  with assms(1) obtain a t where "a \<in> set (task_attempts s)" "dispatch_snapshot e a"
    "t \<in> set (tasks s)" "t_TaskID t = d_TaskID e" "t_PairID t = d_PairID e"
  proof (cases rule: write_dispatch_origin)
    case (old d)
    with assms(2) obtain a t where "a \<in> set (task_attempts s)" "dispatch_snapshot d a"
      "t \<in> set (tasks s)" "t_TaskID t = d_TaskID d" "t_PairID t = d_PairID d"
      unfolding dispatch_inv_def by blast
    with old(2) that show ?thesis by (auto simp: dispatch_evolves_def dispatch_snapshot_def)
  qed (use that in blast)
  moreover obtain b where "b \<in> set (task_attempts s')" "attempt_evolves a b"
    using store_write_evolves [OF assms(1)] \<open>a \<in> _\<close> by (rule evolves_attempt)
  moreover obtain u where "u \<in> set (tasks s')" "task_evolves t u"
    using store_write_evolves [OF assms(1)] \<open>t \<in> _\<close> by (rule evolves_task)
  ultimately show "(\<exists>a\<in>set (task_attempts s'). dispatch_snapshot e a) \<and>
      (\<exists>t\<in>set (tasks s'). t_TaskID t = d_TaskID e \<and> t_PairID t = d_PairID e)"
    by (intro conjI bexI [of _ b] bexI [of _ u])
      (auto simp: attempt_evolves_def dispatch_snapshot_def task_evolves_def)
qed

lemma write_budgets_inv: "store_write sha s s' \<Longrightarrow> budgets_inv s \<Longrightarrow> budgets_inv s'"
  by (induction rule: store_write.induct)
    (auto simp: budgets_inv_def insert_simps claim_task_def update_tasks_def)

text \<open>A stage update to \<open>SEND_CONFIRMED\<close> has passed the trigger that asks for the budget.\<close>

lemma write_confirmed_origin:
  assumes "store_write sha s s'" and "e \<in> set (dispatch_operations s')" and "d_Stage e = SendConfirmed"
    and "confirmed_inv s"
  obtains b where "b \<in> set (attempt_execution_budgets s)" "b_DispatchOperationID b = d_OperationID e"
    "b_AttemptID b = d_AttemptID e" "d_ConfirmedAt e = Some (b_OriginAt b)"
  using assms(1)
proof cases
  case (w_dispatch_stage P f n)
  with assms(2-4) that show ?thesis
    by (auto simp: insert_simps set_update_rows dispatch_update_allowed_def confirmed_inv_def
        list_ex_iff split: if_splits)
next
  case (w_dispatch_new d a t)
  with assms(2-4) that show ?thesis by (auto simp: insert_simps confirmed_inv_def)
next
  case (w_dispatch_resolution P r)
  with assms(2-4) that show ?thesis by (auto simp: set_update_rows confirmed_inv_def)
qed (use assms(2-4) that in \<open>auto simp: insert_simps confirmed_inv_def claim_task_def update_tasks_def\<close>)

lemma write_confirmed_inv:
  assumes "store_write sha s s'" and "confirmed_inv s"
  shows "confirmed_inv s'"
  unfolding confirmed_inv_def
  using write_confirmed_origin [OF assms(1) _ _ assms(2)]
    evolves_budget [OF store_write_evolves [OF assms(1)]]
  by metis

lemma unresolved_provisioning_iff:
  "unresolved_provisioning s pid \<longleftrightarrow>
     (\<exists>p\<in>set (pair_provisioning_operations s). pv_PairID p = pid \<and> unresolved_stage (pv_Stage p))"
  by (auto simp: unresolved_provisioning_def list_ex_iff)

lemma unresolved_restore_iff:
  "unresolved_restore s pid \<longleftrightarrow>
     (\<exists>r\<in>set (pair_restore_operations s). ro_PairID r = pid \<and> ro_ResolutionState r \<noteq> RestoreResolved)"
  by (auto simp: unresolved_restore_def list_ex_iff)

text \<open>An exclusive property of rows survives an update that does not introduce it.\<close>

definition exclusive :: "('r \<Rightarrow> 'p) \<Rightarrow> ('r \<Rightarrow> bool) \<Rightarrow> ('r \<Rightarrow> 'k) \<Rightarrow> 'r list \<Rightarrow> bool" where
  "exclusive pair Q key rs \<longleftrightarrow>
     (\<forall>p\<in>set rs. \<forall>q\<in>set rs. pair p = pair q \<and> Q p \<and> Q q \<longrightarrow> key p = key q)"

lemma exclusive_update:
  assumes "exclusive pair Q key rs"
    and "\<And>r. r \<in> set rs \<Longrightarrow> P r \<Longrightarrow> pair (f r) = pair r \<and> key (f r) = key r \<and> (Q (f r) \<longrightarrow> Q r)"
  shows "exclusive pair Q key (update_rows P f rs)"
  unfolding exclusive_def
proof (intro ballI impI)
  have origin: "\<exists>r\<in>set rs. pair r = pair p \<and> key r = key p \<and> Q r"
    if "p \<in> set (update_rows P f rs)" "Q p" for p
    using that(1)
  proof (cases rule: mem_update_rowsE)
    case kept
    with that(2) show ?thesis by blast
  next
    case (changed q)
    with that(2) assms(2) [of q] show ?thesis by auto
  qed
  fix p q
  assume "p \<in> set (update_rows P f rs)" "q \<in> set (update_rows P f rs)"
    "pair p = pair q \<and> Q p \<and> Q q"
  with origin [of p] origin [of q] assms(1) show "key p = key q"
    unfolding exclusive_def by metis
qed

lemma exclusive_snoc:
  assumes "exclusive pair Q key rs" and "Q r \<Longrightarrow> \<not> (\<exists>q\<in>set rs. pair q = pair r \<and> Q q)"
  shows "exclusive pair Q key (rs @ [r])"
  unfolding exclusive_def
proof (intro ballI impI, elim conjE)
  fix p q
  assume "p \<in> set (rs @ [r])" "q \<in> set (rs @ [r])" and pq: "pair p = pair q" "Q p" "Q q"
  then consider "p \<in> set rs" "q \<in> set rs" | "p = r" "q = r" | "p = r" "q \<in> set rs" | "p \<in> set rs" "q = r"
    by auto
  then show "key p = key q"
  proof cases
    case 1
    with assms(1) pq show ?thesis unfolding exclusive_def by blast
  next
    case 2
    then show ?thesis by simp
  next
    case 3
    have "\<not> (\<exists>q\<in>set rs. pair q = pair r \<and> Q q)" using assms(2) pq(2) 3(1) by blast
    moreover have "pair q = pair r" using pq(1) 3(1) by simp
    ultimately show ?thesis using 3(2) pq(3) by blast
  next
    case 4
    have "\<not> (\<exists>q\<in>set rs. pair q = pair r \<and> Q q)" using assms(2) pq(3) 4(2) by blast
    moreover have "pair p = pair r" using pq(1) 4(2) by simp
    ultimately show ?thesis using 4(1) pq(2) by blast
  qed
qed

lemma exclusive_inv_iff:
  "exclusive_inv s \<longleftrightarrow>
     exclusive pv_PairID (\<lambda>p. unresolved_stage (pv_Stage p)) pv_OperationID
       (pair_provisioning_operations s) \<and>
     exclusive ro_PairID (\<lambda>r. ro_ResolutionState r \<noteq> RestoreResolved) ro_OperationID
       (pair_restore_operations s)"
  by (simp add: exclusive_inv_def exclusive_def)

lemma write_exclusive_inv:
  assumes "store_write sha s s'" and "exclusive_inv s"
  shows "exclusive_inv s'"
  using assms(1)
proof cases
  case (w_provisioning_new p)
  have "exclusive pv_PairID (\<lambda>p. unresolved_stage (pv_Stage p)) pv_OperationID
      (pair_provisioning_operations s @ [p])"
    by (rule exclusive_snoc)
      (use assms(2) w_provisioning_new in
        \<open>auto simp: exclusive_inv_iff insert_simps unresolved_provisioning_iff\<close>)
  then show ?thesis using assms(2) w_provisioning_new by (simp add: exclusive_inv_iff insert_simps)
next
  case (w_provisioning P f)
  have "exclusive pv_PairID (\<lambda>p. unresolved_stage (pv_Stage p)) pv_OperationID
      (update_rows P f (pair_provisioning_operations s))"
  proof (rule exclusive_update)
    show "exclusive pv_PairID (\<lambda>p. unresolved_stage (pv_Stage p)) pv_OperationID
        (pair_provisioning_operations s)"
      using assms(2) by (simp add: exclusive_inv_iff)
  qed (use w_provisioning(2) in \<open>simp add: provisioning_evolves_def\<close>)
  then show ?thesis using assms(2) w_provisioning(1) by (simp add: exclusive_inv_iff)
next
  case (w_restore_new r)
  have "exclusive ro_PairID (\<lambda>r. ro_ResolutionState r \<noteq> RestoreResolved) ro_OperationID
      (pair_restore_operations s @ [r])"
    by (rule exclusive_snoc)
      (use assms(2) insert_restore_exclusive [OF w_restore_new] in
        \<open>auto simp: exclusive_inv_iff unresolved_restore_iff\<close>)
  then show ?thesis using assms(2) w_restore_new by (simp add: exclusive_inv_iff insert_simps)
next
  case (w_restore P f n)
  have "exclusive ro_PairID (\<lambda>r. ro_ResolutionState r \<noteq> RestoreResolved) ro_OperationID
      (update_rows P f (pair_restore_operations s))"
  proof (rule exclusive_update)
    show "exclusive ro_PairID (\<lambda>r. ro_ResolutionState r \<noteq> RestoreResolved) ro_OperationID
        (pair_restore_operations s)"
      using assms(2) by (simp add: exclusive_inv_iff)
  qed (use w_restore in \<open>simp add: insert_simps restore_update_allowed_def\<close>)
  then show ?thesis using assms(2) w_restore by (simp add: exclusive_inv_iff insert_simps)
qed (use assms(2) in \<open>simp_all add: exclusive_inv_iff insert_simps claim_task_def update_tasks_def\<close>)

theorem store_write_inv: "store_write sha s s' \<Longrightarrow> store_inv sha s \<Longrightarrow> store_inv sha s'"
  unfolding store_inv_def
  by (intro conjI; elim conjE)
    (blast intro: write_audit_inv write_keys_inv write_lane_inv write_attempts_inv write_open_inv write_frozen_inv
      write_lineage_inv write_dispatch_inv write_confirmed_inv write_budgets_inv write_exclusive_inv)+

lemma store_writes_inv: "store_writes sha s s' \<Longrightarrow> store_inv sha s \<Longrightarrow> store_inv sha s'"
  by (induction rule: rtranclp_induct) (auto intro: store_write_inv)

lemma store_inv_keys: "store_inv sha s \<Longrightarrow> keys_inv s"
  by (simp add: store_inv_def)

section \<open>The contract of a transaction\<close>

text \<open>
  A transaction is a function of its arguments that either fails, leaving the database as it
  was, or returns the committed database. What is promised of each: its effect is a sequence
  of writes. What a client may rely on follows once for all transactions.
\<close>

locale store_operation =
  fixes sha :: "string \<Rightarrow> string"
    and run :: "'a \<Rightarrow> db \<Rightarrow> 'e + db"
  assumes run_writes: "run x s = Inr s' \<Longrightarrow> keys_inv s \<Longrightarrow> store_writes sha s s'"
begin

lemma run_inv: "run x s = Inr s' \<Longrightarrow> store_inv sha s \<Longrightarrow> store_inv sha s'"
  by (blast intro: store_writes_inv run_writes store_inv_keys)

lemma run_evolves: "run x s = Inr s' \<Longrightarrow> keys_inv s \<Longrightarrow> evolves s s'"
  by (blast intro: store_writes_evolves run_writes)

lemma run_chain: "run x s = Inr s' \<Longrightarrow> store_inv sha s \<Longrightarrow> VerifyAuditChain sha s' = Inr ()"
  by (drule (1) run_inv) (simp add: store_inv_def audit_inv_verifies)

text \<open>A sequence of such transactions, failed ones left out.\<close>

fun run_all :: "'a list \<Rightarrow> db \<Rightarrow> db" where
  "run_all [] s = s"
| "run_all (x # xs) s = (case run x s of Inl e \<Rightarrow> run_all xs s | Inr s' \<Rightarrow> run_all xs s')"

lemma run_all_writes: "store_inv sha s \<Longrightarrow> store_writes sha s (run_all xs s)"
proof (induction xs arbitrary: s)
  case (Cons x xs)
  show ?case
  proof (cases "run x s")
    case (Inl e)
    then show ?thesis using Cons by simp
  next
    case (Inr s1)
    then have "store_writes sha s s1" and "store_inv sha s1"
      using Cons.prems by (blast intro: run_writes run_inv store_inv_keys)+
    with Cons.IH [of s1] Inr show ?thesis by (simp add: rtranclp_trans)
  qed
qed simp

lemma run_all_inv: "store_inv sha s \<Longrightarrow> store_inv sha (run_all xs s)"
  by (blast intro: store_writes_inv run_all_writes)

end

text \<open>The writes of the parts of a transaction.\<close>

lemma audit_tx_writes: "audit_tx h e s = Inr s' \<Longrightarrow> store_writes (h_sha256 h) s s'"
  by (blast elim: audit_tx_push intro: store_write.w_audit)

interpretation append_op: store_operation "h_sha256 h" "audit_tx h"
  for h
  by unfold_locales (rule audit_tx_writes)

lemma AppendAuditEvent_writes:
  "AppendAuditEvent h busy e s = Inr (rec, s') \<Longrightarrow> store_writes (h_sha256 h) s s'"
  by (blast elim: AppendAuditEvent_push intro: store_write.w_audit)

section \<open>Transactions step by step\<close>

text \<open>
  A statement that changes the database, followed by the rest of its transaction. It is
  \<open>bindE\<close> at the type of databases; the two names keep reading and writing steps apart.
\<close>

definition andThen :: "store_error + db \<Rightarrow> (db \<Rightarrow> store_error + 'b) \<Rightarrow> store_error + 'b" where
  "andThen m k = bindE m k"

lemma andThen_eq_Inr [result_simps]: "andThen m k = Inr y \<longleftrightarrow> (\<exists>x. m = Inr x \<and> k x = Inr y)"
  by (simp add: andThen_def result_simps)

lemma andThen_eq_Inl [result_simps]:
  "andThen m k = Inl e \<longleftrightarrow> m = Inl e \<or> (\<exists>x. m = Inr x \<and> k x = Inl e)"
  by (simp add: andThen_def result_simps)

lemma andThen_simps [simp]: "andThen (Inl e) k = Inl e" "andThen (Inr s) k = k s"
  by (simp_all add: andThen_def)

text \<open>
  \<open>keeps sha s m\<close>: started in \<open>s\<close>, the rest \<open>m\<close> of a transaction is a sequence of writes. The
  rules follow the program; the collection \<open>keeps_rules\<close> is applied to a whole transaction.
\<close>

definition keeps :: "(string \<Rightarrow> string) \<Rightarrow> db \<Rightarrow> store_error + db \<Rightarrow> bool" where
  "keeps sha s m \<longleftrightarrow> (keys_inv s \<longrightarrow> (\<forall>s'. m = Inr s' \<longrightarrow> store_writes sha s s'))"

named_theorems keeps_rules "verification rules for transactions"

lemma keepsD: "keeps sha s m \<Longrightarrow> m = Inr s' \<Longrightarrow> keys_inv s \<Longrightarrow> store_writes sha s s'"
  by (simp add: keeps_def)

lemma store_writes_keys: "store_writes sha s s' \<Longrightarrow> keys_inv s \<Longrightarrow> keys_inv s'"
  by (induction rule: rtranclp_induct) (auto intro: write_keys_inv)

lemma keeps_Inl [keeps_rules]: "keeps sha s (Inl e)"
  by (simp add: keeps_def)

lemma keeps_Inr [keeps_rules]: "keeps sha s (Inr s)"
  by (simp add: keeps_def)

lemma keeps_if [keeps_rules]:
  "(b \<Longrightarrow> keeps sha s m) \<Longrightarrow> (\<not> b \<Longrightarrow> keeps sha s n) \<Longrightarrow> keeps sha s (if b then m else n)"
  by simp

lemma keeps_option [keeps_rules]:
  "(x = None \<Longrightarrow> keeps sha s m) \<Longrightarrow> (\<And>v. x = Some v \<Longrightarrow> keeps sha s (k v)) \<Longrightarrow>
     keeps sha s (case x of None \<Rightarrow> m | Some v \<Rightarrow> k v)"
  by (cases x) simp_all

lemma keeps_prod [keeps_rules]:
  "(\<And>a b. x = (a, b) \<Longrightarrow> keeps sha s (k a b)) \<Longrightarrow> keeps sha s (case x of (a, b) \<Rightarrow> k a b)"
  by (cases x) simp

lemma keeps_let [keeps_rules]: "keeps sha s (k x) \<Longrightarrow> keeps sha s (let y = x in k y)"
  by (simp add: Let_def)

lemma keeps_bindE [keeps_rules]:
  "(\<And>x. m = Inr x \<Longrightarrow> keeps sha s (k x)) \<Longrightarrow> keeps sha s (bindE m k)"
  by (cases m) (simp_all add: keeps_def)

lemma keeps_andThen [keeps_rules]:
  assumes "keeps sha s m" and "\<And>s1. m = Inr s1 \<Longrightarrow> keys_inv s1 \<Longrightarrow> keeps sha s1 (k s1)"
  shows "keeps sha s (andThen m k)"
  unfolding keeps_def
proof (intro impI allI)
  fix s'
  assume keys: "keys_inv s" and "andThen m k = Inr s'"
  then obtain s1 where s1: "m = Inr s1" "k s1 = Inr s'" by (auto simp: result_simps)
  have w: "store_writes sha s s1" using assms(1) s1(1) keys by (rule keepsD)
  have keys1: "keys_inv s1" using w keys by (rule store_writes_keys)
  have "store_writes sha s1 s'"
    using assms(2) [OF s1(1) keys1] s1(2) keys1 by (rule keepsD)
  with w show "store_writes sha s s'" by (rule rtranclp_trans)
qed

lemma keeps_map_error [keeps_rules]:
  "(\<And>s'. m = Inr s' \<Longrightarrow> store_writes sha s s') \<Longrightarrow> keeps sha s (map_error f m)"
  by (simp add: keeps_def result_simps)

lemma keeps_cas1 [keeps_rules]: "store_writes sha s (snd r) \<Longrightarrow> keeps sha s (cas1 e r)"
  by (simp add: keeps_def result_simps)

lemma keeps_operationCASResult [keeps_rules]:
  "store_writes sha s (snd r) \<Longrightarrow> keeps sha s (operationCASResult r)"
  by (simp add: keeps_def result_simps)

lemma keeps_audit_tx [keeps_rules]: "keeps (h_sha256 h) s (audit_tx h e s)"
  by (simp add: keeps_def audit_tx_writes)

lemma writes_tasks [keeps_rules]:
  assumes "\<And>t. t \<in> set (tasks s) \<Longrightarrow> P t \<Longrightarrow> t_TaskID t = tid \<and> CanTransition (t_State t) to"
    and "\<not> active_lane to"
  shows "store_writes sha s (snd (update_tasks P (\<lambda>t. t\<lparr>t_State := to, t_UpdatedAt := at\<rparr>) s))"
  using assms unfolding update_tasks_def
  by (auto simp: active_lane_def intro!: r_into_rtranclp store_write.w_transition)

lemma writes_attempts [keeps_rules]:
  "(\<And>a. a \<in> set (task_attempts s) \<Longrightarrow> P a \<Longrightarrow> attempt_evolves a (f a)) \<Longrightarrow>
   (\<And>a. a \<in> set (task_attempts s) \<Longrightarrow> P a \<Longrightarrow> a_EndedAt (f a) \<noteq> a_EndedAt a \<Longrightarrow> closable s a) \<Longrightarrow>
     store_writes sha s (snd (update_attempts P f s))"
  by (auto simp: update_attempts_def intro!: r_into_rtranclp store_write.w_attempt)

text \<open>After a compare-and-set that takes a task out of execution its attempts may be closed.\<close>

lemma moved_closable:
  assumes "keys_inv (snd r)" and "fst r \<noteq> 0"
    and r: "r = update_tasks P (\<lambda>t. t\<lparr>t_State := to, t_UpdatedAt := at\<rparr>) s"
    and P: "\<And>t. P t \<Longrightarrow> t_TaskID t = a_TaskID a" and "\<not> executing to"
  shows "closable (snd r) a"
proof -
  have "\<exists>q\<in>set (tasks s). P q"
    using assms(2) unfolding r update_tasks_def fst_conv rows_affected_pos .
  then obtain q where q: "q \<in> set (tasks s)" "P q" by blast
  let ?q = "q\<lparr>t_State := to, t_UpdatedAt := at\<rparr>"
  have mem: "?q \<in> set (tasks (snd r))" using q by (auto simp: r update_tasks_def intro!: update_rows_changed [of q _ P])
  have "t_State t = to" if "t \<in> set (tasks (snd r))" "t_TaskID t = a_TaskID a" for t
  proof -
    have "t = ?q"
      using assms(1) that mem P [OF q(2)] by (auto simp: keys_inv_def intro!: keyed_uniq [of t_TaskID])
    then show ?thesis by simp
  qed
  then show ?thesis using \<open>\<not> executing to\<close> by (auto simp: closable_def)
qed

lemma cas1_closable:
  "cas1 e (update_tasks P (\<lambda>t. t\<lparr>t_State := to, t_UpdatedAt := at\<rparr>) s) = Inr s1 \<Longrightarrow> keys_inv s1 \<Longrightarrow>
     (\<And>t. P t \<Longrightarrow> t_TaskID t = a_TaskID a) \<Longrightarrow> \<not> executing to \<Longrightarrow> closable s1 a"
  using moved_closable [OF _ _ refl, where P = P and to = to and at = at and s = s and a = a]
  by (auto simp: result_simps)

lemma operationCASResult_closable:
  "operationCASResult (update_tasks P (\<lambda>t. t\<lparr>t_State := to, t_UpdatedAt := at\<rparr>) s) = Inr s1 \<Longrightarrow>
     keys_inv s1 \<Longrightarrow> (\<And>t. P t \<Longrightarrow> t_TaskID t = a_TaskID a) \<Longrightarrow> \<not> executing to \<Longrightarrow> closable s1 a"
  using moved_closable [OF _ _ refl, where P = P and to = to and at = at and s = s and a = a]
  by (auto simp: result_simps)

lemma writes_sessions [keeps_rules]:
  "(\<And>w. w \<in> set (worker_sessions s) \<Longrightarrow> P w \<Longrightarrow> session_evolves w (f w)) \<Longrightarrow>
     store_writes sha s (snd (update_sessions P f s))"
  by (auto simp: update_sessions_def intro!: r_into_rtranclp store_write.w_session)

lemma writes_provisioning [keeps_rules]:
  "(\<And>p. p \<in> set (pair_provisioning_operations s) \<Longrightarrow> P p \<Longrightarrow> provisioning_evolves p (f p) \<and>
      (unresolved_stage (pv_Stage (f p)) \<longrightarrow> unresolved_stage (pv_Stage p))) \<Longrightarrow>
     store_writes sha s (snd (update_provisioning P f s))"
  unfolding update_provisioning_def
  by (simp, intro r_into_rtranclp store_write.w_provisioning) blast

lemma writes_stops [keeps_rules]:
  "(\<And>p. p \<in> set (stop_operations s) \<Longrightarrow> P p \<Longrightarrow> stop_evolves p (f p)) \<Longrightarrow>
     store_writes sha s (snd (update_stops P f s))"
  by (auto simp: update_stops_def intro!: r_into_rtranclp store_write.w_stop)

lemma writes_dispatch_resolution [keeps_rules]:
  "(\<And>d. d \<in> set (dispatch_operations s) \<Longrightarrow> P d \<Longrightarrow> d_ResolutionState d = None) \<Longrightarrow>
     store_writes sha s
       (snd (update_dispatch_resolution P (\<lambda>d. d\<lparr>d_ResolutionState := Some r\<rparr>) s))"
  unfolding update_dispatch_resolution_def
  by (simp, intro r_into_rtranclp store_write.w_dispatch_resolution) blast

text \<open>An \<open>UPDATE\<close> under the dispatch triggers, with its row count checked.\<close>

definition dispatch_cas ::
  "store_error \<Rightarrow> (DispatchOperation \<Rightarrow> bool) \<Rightarrow> (DispatchOperation \<Rightarrow> DispatchOperation) \<Rightarrow> db \<Rightarrow>
     store_error + db" where
  "dispatch_cas e P f s =
     (case update_dispatch_stage P f s of Inl x \<Rightarrow> Inl (SqlError x) | Inr r \<Rightarrow> cas1 e r)"

lemma keeps_dispatch_cas [keeps_rules]:
  assumes "\<And>d. d \<in> set (dispatch_operations s) \<Longrightarrow> P d \<Longrightarrow> dispatch_evolves d (f d)"
  shows "keeps sha s (dispatch_cas e P f s)"
  using assms
  by (auto simp: keeps_def dispatch_cas_def result_simps split: sum.splits
      intro!: r_into_rtranclp store_write.w_dispatch_stage)

end
