(* ===== verification/Task_Store.thy ===== *)
theory Task_Store
  imports Store_Writes
begin

text \<open>
  Projects, pairs, tasks and contracts: \<open>project_store.go\<close>, \<open>pair_store.go\<close>, \<open>task_store.go\<close> and
  \<open>contract_store.go\<close> of \<open>internal/store\<close>. The lemmas show that each operation is a sequence of
  store writes and what \<open>TransitionTask\<close> and \<open>InsertTaskContract\<close> accept.
\<close>

section \<open>Projects and pairs\<close>

definition CreateProject :: "host \<Rightarrow> Project \<Rightarrow> db \<Rightarrow> store_error + db" where
  "CreateProject h p s =
     (if TrimSpace (p_ProjectID p) = [] then Inl (StoreError ''project_id must not be empty'')
      else if TrimSpace (p_Name p) = [] then Inl (StoreError ''project name must not be empty'')
      else if TrimSpace (p_RootPath p) = [] then Inl (StoreError ''root_path must not be empty'')
      else map_error (\<lambda>e. if e = SqlUnique then ErrDuplicateKey else SqlError e)
        (insert_project (p\<lparr>p_RepoURL := TrimSpace (p_RepoURL p),
           p_RegisteredAt := now_if_zero h (p_RegisteredAt p)\<rparr>) s))"

definition GetProject :: "db \<Rightarrow> string \<Rightarrow> store_error + Project" where
  "GetProject s projectID =
     require (find (\<lambda>p. p_ProjectID p = projectID) (projects s)) ErrProjectNotFound"

definition CreatePair :: "host \<Rightarrow> Pair \<Rightarrow> db \<Rightarrow> store_error + db" where
  "CreatePair h p s =
     (if TrimSpace (pr_PairID p) = [] then Inl (StoreError ''pair_id must not be empty'')
      else if TrimSpace (pr_ProjectID p) = [] then Inl (StoreError ''project_id must not be empty'')
      else if TrimSpace (pr_CurrentPhaseID p) = [] then Inl (StoreError ''current_phase_id must not be empty'')
      else if TrimSpace (pr_State p) = [] then Inl (StoreError ''state must not be empty'')
      else map_error mapLifecycleWriteError
        (insert_pair (p\<lparr>pr_ActiveTaskID := TrimSpace (pr_ActiveTaskID p),
           pr_CreatedAt := now_if_zero h (pr_CreatedAt p)\<rparr>) s))"

definition GetPair :: "db \<Rightarrow> string \<Rightarrow> store_error + Pair" where
  "GetPair s pairID = require (find (\<lambda>p. pr_PairID p = pairID) (pairs s)) ErrPairNotFound"

section \<open>Tasks\<close>

definition CreateTask :: "host \<Rightarrow> Task \<Rightarrow> db \<Rightarrow> store_error + db" where
  "CreateTask h t s =
     (if TrimSpace (t_TaskID t) = [] then Inl (StoreError ''task_id must not be empty'')
      else if TrimSpace (t_PhaseID t) = [] then Inl (StoreError ''phase_id must not be empty'')
      else if TrimSpace (t_PairID t) = [] then Inl (StoreError ''pair_id must not be empty'')
      else if t_State t \<noteq> StateDraft then Inl ErrInvalidInitialTaskState
      else if t_CurrentAttempt t \<noteq> 0 then Inl ErrInvalidInitialTaskState
      else
        let createdAt = now_if_zero h (t_CreatedAt t);
            updatedAt = (if IsZero (t_UpdatedAt t) then createdAt else t_UpdatedAt t)
        in map_error mapLifecycleWriteError
             (insert_task (t\<lparr>t_CreatedAt := createdAt, t_UpdatedAt := updatedAt\<rparr>) s))"

definition GetTask :: "db \<Rightarrow> string \<Rightarrow> store_error + Task" where
  "GetTask s taskID = require (task_of s taskID) ErrTaskNotFound"

text \<open>\<open>ORDER BY revision_number DESC LIMIT 1\<close>.\<close>

definition latest_contract :: "db \<Rightarrow> string \<Rightarrow> contract_row option" where
  "latest_contract s taskID =
     (case filter (\<lambda>c. cr_task_id c = taskID) (task_contracts s) of
        [] \<Rightarrow> None
      | c # cs \<Rightarrow> Some (fold (\<lambda>d m. if cr_revision_number m < cr_revision_number d then d else m) cs c))"

text \<open>The preconditions of the three edges into \<open>READY\<close>.\<close>

definition ready_entry :: "db \<Rightarrow> string \<Rightarrow> TaskState \<Rightarrow> store_error + unit" where
  "ready_entry s taskID expectedFrom =
     bindE (require (latest_contract s taskID) ErrReadyContractRequired) (\<lambda>c.
       if expectedFrom = StateDraft then ensure (\<not> cr_is_immutable c) ErrReadyContractRequired
       else if expectedFrom = StateRevisionRequired then ensure (\<not> cr_is_immutable c) ErrReadyContractRequired
       else if expectedFrom = StateFailed then ensure (cr_is_immutable c) ErrReadyContractRequired
       else Inl ErrReadyContractRequired)"

definition TransitionTask ::
  "host \<Rightarrow> string \<Rightarrow> TaskState \<Rightarrow> TaskState \<Rightarrow> db \<Rightarrow> store_error + db" where
  "TransitionTask h taskID expectedFrom to s =
     (if expectedFrom = StateReady \<and> to = StateDispatched then Inl ErrAtomicDispatchRequired
      else
        bindE (map_error ErrCanonicalTransition (Transition expectedFrom to)) (\<lambda>_.
        bindE (require (task_of s taskID) ErrTaskNotFound) (\<lambda>t.
        if t_State t \<noteq> expectedFrom then Inl ErrStateConflict
        else
          bindE (if to = StateReady then ready_entry s taskID expectedFrom else Inr ()) (\<lambda>_.
          bindE (ensure (\<not> ((to = StateRunning \<or> to = StateReviewing) \<and>
              pair_busy s (t_PairID t) taskID)) ErrPairBusy) (\<lambda>_.
          let (rows, s') = update_tasks (\<lambda>u. t_TaskID u = taskID \<and> t_State u = expectedFrom)
                (\<lambda>u. u\<lparr>t_State := to, t_UpdatedAt := h_now h\<rparr>) s
          in if rows = 0 then
               (case task_of s' taskID of None \<Rightarrow> Inl ErrTaskNotFound | Some _ \<Rightarrow> Inl ErrStateConflict)
             else Inr s')))))"

section \<open>Contracts\<close>

text \<open>The lineage checks of \<open>InsertTaskContract\<close> on the superseded contract.\<close>

definition superseded_ok :: "db \<Rightarrow> TaskContract \<Rightarrow> string \<Rightarrow> store_error + unit" where
  "superseded_ok s c prevID =
     bindE (require (contract_of s prevID) ErrInvalidContractLineage) (\<lambda>prev.
       if cr_task_id prev \<noteq> c_TaskID c then Inl ErrInvalidContractLineage
       else if cr_revision_number prev \<noteq> c_RevisionNumber c - 1 then Inl ErrInvalidContractLineage
       else if cr_base_sha prev \<noteq> c_BaseSHA c then Inl ErrInvalidContractLineage
       else if \<not> cr_is_immutable prev then Inl ErrInvalidContractLineage
       else Inr ())"

definition InsertTaskContract :: "TaskContract \<Rightarrow> db \<Rightarrow> store_error + db" where
  "InsertTaskContract c s =
     (if TrimSpace (c_ContractID c) = [] then Inl (StoreError ''contract_id must not be empty'')
      else if TrimSpace (c_TaskID c) = [] then Inl (StoreError ''task_id must not be empty'')
      else if c_RevisionNumber c < 1 then Inl (StoreError ''revision_number must be >= 1'')
      else if TrimSpace (c_BaseSHA c) = [] then Inl (StoreError ''base_sha must not be empty'')
      else if c_IsImmutable c then Inl ErrInvalidContractLineage
      else
        bindE (require (task_of s (c_TaskID c)) ErrTaskNotFound) (\<lambda>t.
        bindE
          (if c_RevisionNumber c = 1 then
             if t_State t \<noteq> StateDraft then Inl ErrContractInsertState
             else if \<not> null_or (\<lambda>i. TrimSpace i = []) (c_SupersedesContractID c)
             then Inl ErrInvalidContractLineage
             else Inr ()
           else if t_State t \<noteq> StateRevisionRequired \<and> t_State t \<noteq> StateDraft
           then Inl ErrContractInsertState
           else case c_SupersedesContractID c of
                  None \<Rightarrow> Inl ErrInvalidContractLineage
                | Some i \<Rightarrow> if TrimSpace i = [] then Inl ErrInvalidContractLineage
                            else superseded_ok s c (TrimSpace i)) (\<lambda>_.
        map_error mapLifecycleWriteError
          (insert_contract \<lparr>cr_contract_id = c_ContractID c, cr_task_id = c_TaskID c,
             cr_revision_number = c_RevisionNumber c,
             cr_supersedes_contract_id = c_SupersedesContractID c, cr_base_sha = c_BaseSHA c,
             cr_payload = c, cr_is_immutable = False\<rparr> s))))"

definition GetTaskContract :: "db \<Rightarrow> string \<Rightarrow> store_error + TaskContract" where
  "GetTaskContract s contractID =
     bindE (require (contract_of s contractID) ErrContractNotFound) (\<lambda>c.
       Inr ((cr_payload c)\<lparr>c_IsImmutable := cr_is_immutable c\<rparr>))"

section \<open>The operations are sequences of writes\<close>

lemma CreateProject_writes: "CreateProject h p s = Inr s' \<Longrightarrow> store_writes (h_sha256 h) s s'"
  by (auto simp: CreateProject_def result_simps intro: store_write.w_project split: if_splits)

lemma CreatePair_writes: "CreatePair h p s = Inr s' \<Longrightarrow> store_writes (h_sha256 h) s s'"
  by (auto simp: CreatePair_def result_simps intro: store_write.w_pair split: if_splits)

lemma CreateTask_writes: "CreateTask h t s = Inr s' \<Longrightarrow> store_writes (h_sha256 h) s s'"
  by (auto simp: CreateTask_def result_simps Let_def split: if_splits
      intro!: r_into_rtranclp store_write.w_task)

lemma task_of_Some: "task_of s tid = Some t \<Longrightarrow> t \<in> set (tasks s) \<and> t_TaskID t = tid"
  unfolding task_of_def by (drule find_SomeD)

lemma task_of_unique:
  "keys_inv s \<Longrightarrow> t \<in> set (tasks s) \<Longrightarrow> t_TaskID t = tid \<Longrightarrow> task_of s tid = Some t"
  by (simp add: task_of_def keys_inv_def find_key)

lemma contract_of_Some:
  "contract_of s cid = Some c \<Longrightarrow> c \<in> set (task_contracts s) \<and> cr_contract_id c = cid"
  unfolding contract_of_def by (drule find_SomeD)

text \<open>What an accepted transition has passed, and what it does.\<close>

lemma TransitionTask_ok:
  assumes "TransitionTask h tid from to s = Inr s'"
  obtains t where "task_of s tid = Some t" "t_State t = from" "CanTransition from to"
    "to \<noteq> StateDispatched" "to = StateReady \<longrightarrow> ready_entry s tid from = Inr ()"
    "active_lane to \<longrightarrow> \<not> pair_busy s (t_PairID t) tid"
    "s' = s\<lparr>tasks := update_rows (\<lambda>u. t_TaskID u = tid \<and> t_State u = from)
       (\<lambda>u. u\<lparr>t_State := to, t_UpdatedAt := h_now h\<rparr>) (tasks s)\<rparr>"
proof -
  have guard: "\<not> (from = StateReady \<and> to = StateDispatched)" and can: "CanTransition from to"
    using assms by (auto simp: TransitionTask_def result_simps)
  then have "to \<noteq> StateDispatched" by (auto simp: into_dispatched)
  then show ?thesis
    using assms guard can that
    by (auto simp: TransitionTask_def result_simps update_tasks_def active_lane_def
        split: if_splits option.splits)
qed

lemma keyed_task_rows:
  "keys_inv s \<Longrightarrow> task_of s tid = Some t \<Longrightarrow> u \<in> set (tasks s) \<Longrightarrow> t_TaskID u = tid \<Longrightarrow> u = t"
  by (drule task_of_Some) (auto simp: keys_inv_def intro: keyed_uniq)

lemma TransitionTask_writes:
  assumes "TransitionTask h tid from to s = Inr s'" and "keys_inv s"
  shows "store_writes (h_sha256 h) s s'"
  using assms(1)
proof (rule TransitionTask_ok)
  fix t
  assume t: "task_of s tid = Some t" "t_State t = from" "CanTransition from to" "to \<noteq> StateDispatched"
    "active_lane to \<longrightarrow> \<not> pair_busy s (t_PairID t) tid"
    and s': "s' = s\<lparr>tasks := update_rows (\<lambda>u. t_TaskID u = tid \<and> t_State u = from)
       (\<lambda>u. u\<lparr>t_State := to, t_UpdatedAt := h_now h\<rparr>) (tasks s)\<rparr>"
  show ?thesis
    unfolding s'
    by (intro r_into_rtranclp store_write.w_transition)
      (use t keyed_task_rows [OF assms(2) t(1)] in auto)
qed

lemma superseded_ok_row:
  assumes "superseded_ok s c prevID = Inr ()"
  obtains p where "p \<in> set (task_contracts s)" "cr_contract_id p = prevID" "cr_task_id p = c_TaskID c"
    "cr_revision_number p = c_RevisionNumber c - 1" "cr_base_sha p = c_BaseSHA c" "cr_is_immutable p"
  using assms by (auto simp: superseded_ok_def result_simps dest: contract_of_Some split: if_splits)

lemma InsertTaskContract_ok:
  assumes "InsertTaskContract c s = Inr s'"
  obtains t where "task_of s (c_TaskID c) = Some t" "t_State t = StateDraft \<or> t_State t = StateRevisionRequired"
    "contract_lineage s \<lparr>cr_contract_id = c_ContractID c, cr_task_id = c_TaskID c,
       cr_revision_number = c_RevisionNumber c, cr_supersedes_contract_id = c_SupersedesContractID c,
       cr_base_sha = c_BaseSHA c, cr_payload = c, cr_is_immutable = False\<rparr>"
    "insert_contract \<lparr>cr_contract_id = c_ContractID c, cr_task_id = c_TaskID c,
       cr_revision_number = c_RevisionNumber c, cr_supersedes_contract_id = c_SupersedesContractID c,
       cr_base_sha = c_BaseSHA c, cr_payload = c, cr_is_immutable = False\<rparr> s = Inr s'"
proof (cases "c_RevisionNumber c = 1")
  case True
  with assms that show ?thesis
    by (auto simp: InsertTaskContract_def result_simps contract_lineage_def split: if_splits)
next
  case False
  with assms obtain t i where t: "task_of s (c_TaskID c) = Some t"
      "t_State t = StateDraft \<or> t_State t = StateRevisionRequired"
    and i: "c_SupersedesContractID c = Some i" "superseded_ok s c (TrimSpace i) = Inr ()"
    and ins: "insert_contract \<lparr>cr_contract_id = c_ContractID c, cr_task_id = c_TaskID c,
       cr_revision_number = c_RevisionNumber c, cr_supersedes_contract_id = c_SupersedesContractID c,
       cr_base_sha = c_BaseSHA c, cr_payload = c, cr_is_immutable = False\<rparr> s = Inr s'"
    by (auto simp: InsertTaskContract_def result_simps split: if_splits option.splits)
  from i(2) obtain p where "p \<in> set (task_contracts s)" "cr_contract_id p = TrimSpace i"
    "cr_task_id p = c_TaskID c" "cr_revision_number p = c_RevisionNumber c - 1"
    "cr_base_sha p = c_BaseSHA c" "cr_is_immutable p"
    by (rule superseded_ok_row)
  with False i(1) t ins show ?thesis
    by (intro that) (auto simp: contract_lineage_def list_ex_iff intro!: bexI [of _ p])
qed

lemma InsertTaskContract_writes: "InsertTaskContract c s = Inr s' \<Longrightarrow> store_writes sha s s'"
  by (erule InsertTaskContract_ok) (rule r_into_rtranclp, erule store_write.w_contract, simp_all)

interpretation create_project: store_operation "h_sha256 h" "CreateProject h" for h
  by unfold_locales (rule CreateProject_writes)

interpretation create_pair: store_operation "h_sha256 h" "CreatePair h" for h
  by unfold_locales (rule CreatePair_writes)

interpretation create_task: store_operation "h_sha256 h" "CreateTask h" for h
  by unfold_locales (rule CreateTask_writes)

interpretation transition_task: store_operation "h_sha256 h"
    "\<lambda>(taskID, expectedFrom, to). TransitionTask h taskID expectedFrom to" for h
  by unfold_locales (auto intro: TransitionTask_writes)

interpretation insert_contract_op: store_operation sha InsertTaskContract for sha
  by unfold_locales (rule InsertTaskContract_writes)

end
