(* ===== verification/Dispatch_Store.thy ===== *)
theory Dispatch_Store
  imports Task_Store
begin

text \<open>
  The dispatch of a task attempt: \<open>dispatch.go\<close> and \<open>dispatch_transactions.go\<close> of
  \<open>internal/store\<close>. The binding of an attempt to a contract and a session, the pre-send holds,
  the send intent and its confirmation with the execution budget, the late binding of a budget,
  and the quarantine after an unknown delivery. Each transaction reads and writes in the order
  of the source; the event ids it draws are numbered in the order of the draws.
\<close>

definition mk_event ::
  "string \<Rightarrow> string \<Rightarrow> time \<Rightarrow> string \<times> string \<times> string \<times> string \<Rightarrow> string \<Rightarrow> (string \<times> goval) list \<Rightarrow>
     AuditEvent" where
  "mk_event eventID eventType at lineage actor details =
     (let (pairID, taskID, contractID, attemptID) = lineage
      in \<lparr>e_EventID = eventID, e_EventType = eventType, e_Timestamp = at, e_TaskID = taskID,
          e_ContractID = contractID, e_AttemptID = attemptID, e_PairID = pairID, e_Actor = actor,
          e_Details = details\<rparr>)"

definition null_string :: "string option \<Rightarrow> store_error + string" where
  "null_string x = require x (SqlError SqlScanNull)"

section \<open>Binding\<close>

record DispatchBinding =
  bd_OperationID :: string
  bd_SessionID :: string
  bd_TerminalGeneration :: string

definition GetTaskAttempt :: "db \<Rightarrow> string \<Rightarrow> store_error + TaskAttempt" where
  "GetTaskAttempt s attemptID = require (attempt_of s attemptID) ErrAttemptNotFound"

text \<open>The unbound dispatch is closed.\<close>

definition PrepareDispatch ::
  "string \<Rightarrow> string \<Rightarrow> string \<Rightarrow> string \<Rightarrow> time \<Rightarrow> db \<Rightarrow> store_error + (TaskAttempt \<times> db)" where
  "PrepareDispatch taskID contractID attemptID expectedReportPath startedAt s =
     Inl ErrBoundDispatchRequired"

text \<open>\<open>SELECT MAX(revision_number)\<close> of a task.\<close>

definition latest_revision :: "db \<Rightarrow> string \<Rightarrow> int option" where
  "latest_revision s taskID = map_option cr_revision_number (latest_contract s taskID)"

definition binding_admissible :: "db \<Rightarrow> string \<Rightarrow> string \<Rightarrow> DispatchBinding \<Rightarrow> store_error + unit" where
  "binding_admissible s pairID taskID binding =
     bindE (require (session_of s pairID) ErrWorkerSessionNotFound) (\<lambda>w.
     if w_SessionID w \<noteq> bd_SessionID binding \<or> w_TerminalGeneration w \<noteq> bd_TerminalGeneration binding
     then Inl ErrWorkerSessionNotFound
     else if w_QuarantineState w \<noteq> QuarantineClean then Inl ErrQuarantinedExecution
     else if list_ex (\<lambda>a. a_TaskID a = taskID \<and> a_QuarantineState a \<noteq> QuarantineClean) (task_attempts s)
     then Inl ErrQuarantinedExecution
     else if unresolved_provisioning s pairID then Inl ErrQuarantinedExecution
     else Inr ())"

definition new_attempt ::
  "string \<Rightarrow> int \<Rightarrow> string \<Rightarrow> string \<Rightarrow> string \<Rightarrow> time \<Rightarrow> DispatchBinding option \<Rightarrow> TaskAttempt" where
  "new_attempt attemptID n taskID contractID path now binding =
     \<lparr>a_AttemptID = attemptID, a_AttemptNumber = n, a_TaskID = taskID, a_ContractID = contractID,
      a_ExpectedReportPath = path, a_StartedAt = now, a_EndedAt = None, a_WorkerReportRaw = None,
      a_SessionID = map_option bd_SessionID binding,
      a_TerminalGeneration = map_option bd_TerminalGeneration binding,
      a_RecoveryDisposition = None, a_QuarantineState = QuarantineClean\<rparr>"

definition new_dispatch :: "DispatchBinding \<Rightarrow> string \<Rightarrow> string \<Rightarrow> string \<Rightarrow> time \<Rightarrow> DispatchOperation" where
  "new_dispatch b attemptID pairID taskID now =
     \<lparr>d_OperationID = bd_OperationID b, d_AttemptID = attemptID, d_PairID = pairID, d_TaskID = taskID,
      d_SessionID = bd_SessionID b, d_TerminalGeneration = bd_TerminalGeneration b,
      d_Stage = DispatchBound, d_RequestedAt = now, d_ConfirmedAt = None, d_ResolutionState = None\<rparr>"

text \<open>The freeze of the selected contract; a retry reuses the frozen revision.\<close>

definition freeze_step :: "contract_row \<Rightarrow> db \<Rightarrow> store_error + db" where
  "freeze_step c s =
     (if cr_is_immutable c then Inr s else map_error SqlError (freeze_contract (cr_contract_id c) s))"

definition prepareDispatch ::
  "host \<Rightarrow> string \<Rightarrow> string \<Rightarrow> string \<Rightarrow> string \<Rightarrow> time \<Rightarrow> DispatchBinding option \<Rightarrow> db \<Rightarrow>
     store_error + (TaskAttempt \<times> db)" where
  "prepareDispatch h taskID contractID attemptID expectedReportPath startedAt binding s =
     bindE (CanonicalExpectedReportPath taskID attemptID) (\<lambda>canonicalPath.
     if expectedReportPath \<noteq> canonicalPath then Inl ErrReportPathMismatch
     else let now = now_if_zero h startedAt; (rows, s1) = claim_task taskID now s in
     if rows = 0 then
       (case task_of s1 taskID of None \<Rightarrow> Inl ErrTaskNotFound | Some _ \<Rightarrow> Inl ErrTaskNotReady)
     else
     bindE (require (task_of s1 taskID) (SqlError SqlNoRows)) (\<lambda>t.
     if unresolved_restore s1 (t_PairID t) \<or> unresolved_provisioning s1 (t_PairID t)
     then Inl ErrQuarantinedExecution
     else if pair_busy s1 (t_PairID t) taskID then Inl ErrPairBusy
     else
     bindE (require (contract_of s1 contractID) ErrContractNotFound) (\<lambda>c.
     if cr_task_id c \<noteq> taskID then Inl ErrContractNotOwned
     else
     bindE (require (latest_revision s1 taskID) (SqlError SqlScanNull)) (\<lambda>latestRevision.
     if cr_revision_number c \<noteq> latestRevision then Inl ErrStaleContractRevision
     else
     andThen (freeze_step c s1) (\<lambda>s2.
     bindE (case binding of
              None \<Rightarrow> Inr ()
            | Some b \<Rightarrow> binding_admissible s2 (t_PairID t) taskID b) (\<lambda>_.
     let attempt = new_attempt attemptID (t_CurrentAttempt t) taskID contractID expectedReportPath now binding in
     andThen (map_error mapLifecycleWriteError (insert_attempt attempt s2)) (\<lambda>s3.
     case binding of
       None \<Rightarrow> Inr (attempt, s3)
     | Some b \<Rightarrow>
         andThen (map_error mapLifecycleWriteError
           (insert_dispatch (new_dispatch b attemptID (t_PairID t) taskID now) s3)) (\<lambda>s4.
         bindE (newAuditEventID h 0) (\<lambda>eventID.
         andThen (audit_tx h (mk_event eventID ''TASK_DISPATCH_BOUND'' now
             (t_PairID t, taskID, contractID, attemptID) ''supervisor''
             [(''session_id'', GString (bd_SessionID b)),
              (''terminal_generation'', GString (bd_TerminalGeneration b))]) s4) (\<lambda>s5.
         Inr (attempt, s5)))))))))))"

definition PrepareBoundDispatch ::
  "host \<Rightarrow> string \<Rightarrow> string \<Rightarrow> string \<Rightarrow> string \<Rightarrow> time \<Rightarrow> DispatchBinding \<Rightarrow> db \<Rightarrow>
     store_error + (TaskAttempt \<times> db)" where
  "PrepareBoundDispatch h taskID contractID attemptID expectedReportPath startedAt binding s =
     (if TrimSpace (bd_OperationID binding) = [] \<or> TrimSpace (bd_SessionID binding) = [] \<or>
        TrimSpace (bd_TerminalGeneration binding) = []
      then Inl (StoreError ''dispatch binding operation_id, session_id, and terminal_generation are required'')
      else prepareDispatch h taskID contractID attemptID expectedReportPath startedAt (Some binding) s)"

section \<open>Pre-send holds\<close>

text \<open>\<open>dispatch_operations d JOIN task_attempts a ON a.attempt_id = d.attempt_id\<close>.\<close>

definition dispatch_join :: "db \<Rightarrow> string \<Rightarrow> (DispatchOperation \<times> TaskAttempt) option" where
  "dispatch_join s operationID =
     Option.bind (dispatch_of s operationID) (\<lambda>d.
       map_option (\<lambda>a. (d, a)) (attempt_of s (d_AttemptID d)))"

definition RecordPreSendHold ::
  "host \<Rightarrow> string \<Rightarrow> string \<Rightarrow> string \<Rightarrow> time \<Rightarrow> db \<Rightarrow> store_error + db" where
  "RecordPreSendHold h operationID disposition actor at0 s =
     (if (disposition \<noteq> ''RECOVERY_PENDING'' \<and> disposition \<noteq> ''PRE_SEND_PROTOCOL_UNVERIFIED'') \<or> actor = []
      then Inl (StoreError ''invalid pre-send hold or actor'')
      else let at = now_if_zero h at0 in
      bindE (newAuditEventID h 0) (\<lambda>eventID.
      bindE (require (dispatch_join s operationID) ErrOperationNotFound) (\<lambda>(d, a).
      if d_Stage d \<noteq> DispatchBound then Inl ErrStateConflict
      else if a_RecoveryDisposition a = Some disposition then Inr s
      else if a_RecoveryDisposition a \<noteq> None \<and>
        (a_RecoveryDisposition a = Some ''PRE_SEND_PROTOCOL_UNVERIFIED'' \<or>
         disposition \<noteq> ''PRE_SEND_PROTOCOL_UNVERIFIED'')
      then Inl ErrStateConflict
      else
      andThen (audit_tx h (mk_event eventID ''PRE_SEND_ADMISSIBILITY_REJECTED'' at
          (d_PairID d, d_TaskID d, a_ContractID a, d_AttemptID d) actor
          [(''dispatch_operation_id'', GString operationID),
           (''pre_send_disposition'', GString disposition)]) s) (\<lambda>s1.
      cas1 ErrStateConflict
        (update_attempts (\<lambda>x. a_AttemptID x = d_AttemptID d \<and> a_EndedAt x = None \<and>
           a_RecoveryDisposition x = a_RecoveryDisposition a \<and>
           a_SessionID x = Some (d_SessionID d) \<and>
           a_TerminalGeneration x = Some (d_TerminalGeneration d))
          (\<lambda>x. x\<lparr>a_RecoveryDisposition := Some disposition\<rparr>) s1)))))"

definition RecordPreSendAdmissibilityRejected ::
  "host \<Rightarrow> string \<Rightarrow> string \<Rightarrow> string \<Rightarrow> time \<Rightarrow> db \<Rightarrow> store_error + db" where
  "RecordPreSendAdmissibilityRejected h operationID observedActivity actor at0 s =
     (if observedActivity \<noteq> ''active'' \<and> observedActivity \<noteq> ''blocked'' \<and> observedActivity \<noteq> ''exited''
      then Inl (StoreError ''invalid pre-send inadmissible activity'')
      else if actor = [] then Inl (StoreError ''actor required'')
      else let at = now_if_zero h at0 in
      bindE (newAuditEventID h 0) (\<lambda>eventID.
      bindE (require (dispatch_join s operationID) ErrAttemptLineageMismatch) (\<lambda>(d, a).
      if a_EndedAt a \<noteq> None then Inl ErrAttemptLineageMismatch
      else if d_Stage d \<noteq> DispatchBound then Inl ErrStateConflict
      else audit_tx h (mk_event eventID ''PRE_SEND_ADMISSIBILITY_REJECTED'' at
          (d_PairID d, d_TaskID d, a_ContractID a, d_AttemptID d) actor
          [(''operation_id'', GString operationID),
           (''error_code'', GString ''PRE_SEND_ADMISSIBILITY_REJECTED''),
           (''observed_activity'', GString observedActivity),
           (''task_state'', GString ''DISPATCHED''),
           (''attempt_remains_open'', GBool True)]) s)))"

definition ResolvePreSendHold where
  "ResolvePreSendHold h operationID attemptID expectedDisposition sessionID generation activity
       princ actor at0 s =
     (if attemptID = [] \<or> sessionID = [] \<or> generation = [] \<or> actor = [] \<or>
        (activity \<noteq> ''idle'' \<and> activity \<noteq> ''waiting_input'') \<or>
        (expectedDisposition \<noteq> ''RECOVERY_PENDING'' \<and> princ = [])
      then Inl (StoreError ''pre-send recovery requires verified exact observation'')
      else if expectedDisposition \<noteq> ''RECOVERY_PENDING'' \<and>
        expectedDisposition \<noteq> ''PRE_SEND_PROTOCOL_UNVERIFIED''
      then Inl (StoreError ''invalid pre-send disposition'')
      else let at = now_if_zero h at0 in
      bindE (newAuditEventID h 0) (\<lambda>eventID.
      bindE (require (attempt_of s attemptID) ErrAttemptLineageMismatch) (\<lambda>a.
      bindE (require (task_of s (a_TaskID a)) ErrAttemptLineageMismatch) (\<lambda>t.
      if \<not> list_ex (\<lambda>d. d_AttemptID d = attemptID \<and> d_OperationID d = operationID \<and>
           d_Stage d = DispatchBound \<and> d_TaskID d = a_TaskID a \<and> d_PairID d = t_PairID t \<and>
           a_SessionID a = Some (d_SessionID d) \<and>
           a_TerminalGeneration a = Some (d_TerminalGeneration d)) (dispatch_operations s)
        \<or> a_AttemptNumber a \<noteq> t_CurrentAttempt t \<or> a_EndedAt a \<noteq> None
      then Inl ErrAttemptLineageMismatch
      else if a_RecoveryDisposition a \<noteq> Some expectedDisposition \<or>
        a_SessionID a \<noteq> Some sessionID \<or> a_TerminalGeneration a \<noteq> Some generation
      then Inl ErrStateConflict
      else
      bindE (require (session_of s (t_PairID t)) (SqlError SqlNoRows)) (\<lambda>w.
      if w_SessionID w \<noteq> sessionID \<or> w_TerminalGeneration w \<noteq> generation then Inl ErrStateConflict
      else
      andThen (audit_tx h (mk_event eventID ''PRE_SEND_STATUS_RECOVERED'' at
          (t_PairID t, a_TaskID a, a_ContractID a, attemptID) actor
          [(''expected_disposition'', GString expectedDisposition), (''session_id'', GString sessionID),
           (''terminal_generation'', GString generation), (''activity_state'', GString activity),
           (''authorized_principal'', GString princ)]) s) (\<lambda>s1.
      cas1 ErrStateConflict
        (update_attempts (\<lambda>x. a_AttemptID x = attemptID \<and> a_EndedAt x = None \<and>
           a_RecoveryDisposition x = Some expectedDisposition \<and> a_SessionID x = Some sessionID \<and>
           a_TerminalGeneration x = Some generation)
          (\<lambda>x. x\<lparr>a_RecoveryDisposition := None\<rparr>) s1)))))))"

section \<open>Sending\<close>

text \<open>The pair guard of the send intent.\<close>

definition send_guard :: "db \<Rightarrow> DispatchOperation \<Rightarrow> bool" where
  "send_guard s d \<longleftrightarrow>
     list_ex (\<lambda>w. w_PairID w = d_PairID d \<and> w_SessionID w = d_SessionID d \<and>
       w_TerminalGeneration w = d_TerminalGeneration d \<and> w_QuarantineState w = QuarantineClean)
       (worker_sessions s) \<and>
     \<not> unresolved_restore s (d_PairID d) \<and> \<not> unresolved_provisioning s (d_PairID d) \<and>
     list_ex (\<lambda>a. a_AttemptID a = d_AttemptID d \<and> a_EndedAt a = None \<and>
       a_SessionID a = Some (d_SessionID d) \<and> a_TerminalGeneration a = Some (d_TerminalGeneration d) \<and>
       list_ex (\<lambda>t. t_TaskID t = a_TaskID a \<and> t_PairID t = d_PairID d \<and>
         a_AttemptNumber a = t_CurrentAttempt t \<and> t_State t = StateDispatched) (tasks s))
       (task_attempts s)"

definition RecordSendRequested ::
  "host \<Rightarrow> string \<Rightarrow> string \<Rightarrow> string \<Rightarrow> string \<Rightarrow> bool \<Rightarrow> string \<Rightarrow> time \<Rightarrow> db \<Rightarrow> store_error + db" where
  "RecordSendRequested h operationID observedSessionID observedGeneration activity isTerminated actor at0 s =
     (if actor = [] \<or> observedSessionID = [] \<or> observedGeneration = [] \<or>
        (activity \<noteq> ''idle'' \<and> activity \<noteq> ''waiting_input'') \<or> isTerminated
      then Inl (StoreError ''send intent requires a positive exact idle/waiting pre-send observation'')
      else let at = now_if_zero h at0 in
      bindE (newAuditEventID h 0) (\<lambda>eventID.
      bindE (require (dispatch_join s operationID) ErrOperationNotFound) (\<lambda>(d, a).
      if d_Stage d \<noteq> DispatchBound \<or> a_RecoveryDisposition a \<noteq> None then Inl ErrStateConflict
      else if d_SessionID d \<noteq> observedSessionID \<or> d_TerminalGeneration d \<noteq> observedGeneration
      then Inl ErrAttemptLineageMismatch
      else if \<not> send_guard s d then Inl ErrQuarantinedExecution
      else
      andThen (audit_tx h (mk_event eventID ''DISPATCH_SEND_REQUESTED'' at
          (d_PairID d, d_TaskID d, a_ContractID a, d_AttemptID d) actor
          [(''dispatch_operation_id'', GString operationID), (''stage'', GString ''SEND_REQUESTED''),
           (''session_id'', GString (d_SessionID d)),
           (''terminal_generation'', GString (d_TerminalGeneration d))]) s) (\<lambda>s1.
      dispatch_cas ErrStateConflict
        (\<lambda>x. d_OperationID x = operationID \<and> d_Stage x = DispatchBound \<and> d_ResolutionState x = None)
        (\<lambda>x. x\<lparr>d_Stage := SendRequested\<rparr>) s1))))"

text \<open>
  The confirmation. \<open>policies\<close> is the variadic argument; exactly one policy is accepted.
\<close>

definition RecordSendConfirmed ::
  "host \<Rightarrow> string \<Rightarrow> string \<Rightarrow> bool \<Rightarrow> time \<Rightarrow> ExecutionBudgetPolicy list \<Rightarrow> db \<Rightarrow> store_error + db" where
  "RecordSendConfirmed h operationID actor validatedHTTP200 at0 policies s =
     (if \<not> validatedHTTP200 then Inl (StoreError ''send confirmation requires validated HTTP 200'')
      else if actor = [] then Inl (StoreError ''send confirmation requires actor'')
      else case policies of
        [policy] \<Rightarrow>
          if bp_Duration policy \<le> 0 \<or> TrimSpace (bp_PolicyRef policy) = [] then Inl ErrStateConflict
          else let at = now_if_zero h at0; deadline = at + bp_Duration policy in
          if \<not> at < deadline \<or> at < 0 \<or> year_10000 \<le> deadline then Inl ErrStateConflict
          else
          bindE (newAuditEventID h 0) (\<lambda>eventID.
          bindE (require (dispatch_join s operationID) ErrOperationNotFound) (\<lambda>(d, a).
          bindE (require (task_of s (d_TaskID d)) ErrOperationNotFound) (\<lambda>t.
          bindE (require (session_of s (d_PairID d)) ErrOperationNotFound) (\<lambda>w.
          if d_Stage d \<noteq> SendRequested then Inl ErrStateConflict
          else if t_State t \<noteq> StateDispatched \<or> t_CurrentAttempt t \<noteq> a_AttemptNumber a \<or>
            w_SessionID w \<noteq> d_SessionID d \<or> w_TerminalGeneration w \<noteq> d_TerminalGeneration d
          then Inl ErrAttemptLineageMismatch
          else if a_EndedAt a \<noteq> None then Inl ErrAttemptLineageMismatch
          else
          andThen (map_error SqlError
            (insert_budget \<lparr>b_AttemptID = d_AttemptID d, b_DispatchOperationID = operationID,
               b_OriginAt = at, b_DeadlineAt = deadline, b_Duration = bp_Duration policy,
               b_PolicyRef = bp_PolicyRef policy, b_BindingBasis = ''SEND_CONFIRMATION_ATOMIC'',
               b_AuthorizedPrincipal = None, b_EvidenceRef = None, b_BoundAt = at\<rparr> s)) (\<lambda>s1.
          andThen (audit_tx h (mk_event eventID ''DISPATCH_SEND_CONFIRMED'' at
              (d_PairID d, d_TaskID d, a_ContractID a, d_AttemptID d) actor
              [(''dispatch_operation_id'', GString operationID), (''stage'', GString ''SEND_CONFIRMED''),
               (''http_status'', GInt 200), (''budget_origin_at'', GString (formatTime at)),
               (''execution_deadline_at'', GString (formatTime deadline)),
               (''duration_ns'', GInt (bp_Duration policy)),
               (''policy_ref'', GString (bp_PolicyRef policy))]) s1) (\<lambda>s2.
          dispatch_cas ErrStateConflict
            (\<lambda>x. d_OperationID x = operationID \<and> d_Stage x = SendRequested \<and> d_ResolutionState x = None)
            (\<lambda>x. x\<lparr>d_Stage := SendConfirmed, d_ConfirmedAt := Some at\<rparr>) s2))))))
      | _ \<Rightarrow> Inl ErrStateConflict)"

section \<open>Execution budgets\<close>

definition budget_of :: "db \<Rightarrow> string \<Rightarrow> ExecutionBudget option" where
  "budget_of s attemptID = find (\<lambda>b. b_AttemptID b = attemptID) (attempt_execution_budgets s)"

definition GetExecutionBudget :: "db \<Rightarrow> string \<Rightarrow> store_error + ExecutionBudget" where
  "GetExecutionBudget s attemptID =
     bindE (require (budget_of s attemptID) ErrOperationNotFound) (\<lambda>b.
     bindE (require (dispatch_join s (b_DispatchOperationID b)) ErrOperationNotFound) (\<lambda>(d, a).
     bindE (require (task_of s (a_TaskID a)) ErrOperationNotFound) (\<lambda>t.
     if d_AttemptID d \<noteq> attemptID \<or> t_TaskID t \<noteq> d_TaskID d \<or> t_PairID t \<noteq> d_PairID d
     then Inl ErrOperationNotFound
     else
     bindE (require (d_ConfirmedAt d) (SqlError SqlScanNull)) (\<lambda>confirmedAt.
     bindE (null_string (a_SessionID a)) (\<lambda>snapshotSession.
     bindE (null_string (a_TerminalGeneration a)) (\<lambda>snapshotGeneration.
     if d_Stage d \<noteq> SendConfirmed \<or> confirmedAt \<noteq> b_OriginAt b \<or>
       (t_State t \<noteq> StateDispatched \<and> t_State t \<noteq> StateRunning) \<or>
       \<not> (a_EndedAt a = None \<and> t_CurrentAttempt t = a_AttemptNumber a) \<or>
       snapshotSession \<noteq> d_SessionID d \<or> snapshotGeneration \<noteq> d_TerminalGeneration d \<or>
       b_Duration b \<le> 0 \<or> TrimSpace (b_PolicyRef b) = [] \<or>
       b_OriginAt b + b_Duration b \<noteq> b_DeadlineAt b \<or> \<not> b_OriginAt b < b_DeadlineAt b \<or>
       b_OriginAt b < 0 \<or> year_10000 \<le> b_DeadlineAt b
     then Inl ErrStateConflict
     else Inr b))))))"

text \<open>
  The audit events that prove an earlier legacy binding: \<open>json_extract\<close> on the stored details.
\<close>

definition legacy_bound_events :: "host \<Rightarrow> db \<Rightarrow> string \<Rightarrow> string \<Rightarrow> string \<Rightarrow> string \<Rightarrow> nat" where
  "legacy_bound_events h s attemptID princ evidenceRef operationID =
     rows_affected (\<lambda>r. ar_event_type r = ''EXECUTION_BUDGET_LEGACY_BOUND'' \<and>
       ar_attempt_id r = Some attemptID \<and> ar_actor r = princ \<and>
       json_is h r ''evidence_ref'' evidenceRef \<and>
       json_is h r ''dispatch_operation_id'' operationID)
       (audit_events s)"

definition BindLegacyExecutionBudget ::
  "host \<Rightarrow> string \<Rightarrow> string \<Rightarrow> string \<Rightarrow> string \<Rightarrow> ExecutionBudgetPolicy \<Rightarrow> time \<Rightarrow> db \<Rightarrow> store_error + db" where
  "BindLegacyExecutionBudget h attemptID princ scope evidenceRef policy at s =
     (if princ = [] \<or> scope \<noteq> ''LEGACY_EXECUTION_BUDGET_RECONCILIATION'' \<or>
        TrimSpace evidenceRef = [] \<or> TrimSpace (bp_PolicyRef policy) = [] \<or> bp_Duration policy \<le> 0 \<or>
        IsZero at
      then Inl ErrStateConflict
      else
      bindE (require (attempt_of s attemptID) (SqlError SqlNoRows)) (\<lambda>a.
      bindE (require (task_of s (a_TaskID a)) (SqlError SqlNoRows)) (\<lambda>t.
      bindE (require (find (\<lambda>d. d_AttemptID d = attemptID) (dispatch_operations s)) (SqlError SqlNoRows)) (\<lambda>d.
      bindE (null_string (a_SessionID a)) (\<lambda>sessionID.
      bindE (null_string (a_TerminalGeneration a)) (\<lambda>generation.
      bindE (require (d_ConfirmedAt d) (SqlError SqlScanNull)) (\<lambda>origin.
      if a_EndedAt a \<noteq> None \<or> t_CurrentAttempt t \<noteq> a_AttemptNumber a \<or> d_Stage d \<noteq> SendConfirmed \<or>
        (t_State t \<noteq> StateDispatched \<and> t_State t \<noteq> StateRunning)
      then Inl ErrStateConflict
      else
      bindE (require (session_of s (t_PairID t)) (SqlError SqlNoRows)) (\<lambda>w.
      if sessionID \<noteq> w_SessionID w \<or> generation \<noteq> w_TerminalGeneration w then Inl ErrAttemptLineageMismatch
      else let deadline = origin + bp_Duration policy; operationID = d_OperationID d;
               bound = filter (\<lambda>b. b_AttemptID b = attemptID \<or> b_DispatchOperationID b = operationID)
                 (attempt_execution_budgets s) in
      if \<not> origin < deadline \<or> origin < 0 \<or> year_10000 \<le> deadline then Inl ErrStateConflict
      else if length bound \<noteq> 0 then
        (if length bound \<noteq> 1 then Inl ErrStateConflict
         else case budget_of s attemptID of
           None \<Rightarrow> Inl ErrStateConflict
         | Some b \<Rightarrow>
             if b_DispatchOperationID b \<noteq> operationID \<or> b_OriginAt b \<noteq> origin \<or> b_DeadlineAt b \<noteq> deadline \<or>
               b_Duration b \<noteq> bp_Duration policy \<or> b_PolicyRef b \<noteq> bp_PolicyRef policy \<or>
               b_BindingBasis b \<noteq> ''LEGACY_OPERATOR_VERIFIED'' \<or> b_AuthorizedPrincipal b \<noteq> Some princ \<or>
               b_EvidenceRef b \<noteq> Some evidenceRef
             then Inl ErrStateConflict
             else if legacy_bound_events h s attemptID princ evidenceRef operationID \<noteq> 1
             then Inl ErrStateConflict
             else Inr s)
      else
      andThen (map_error SqlError
        (insert_budget \<lparr>b_AttemptID = attemptID, b_DispatchOperationID = operationID,
           b_OriginAt = origin, b_DeadlineAt = deadline, b_Duration = bp_Duration policy,
           b_PolicyRef = bp_PolicyRef policy, b_BindingBasis = ''LEGACY_OPERATOR_VERIFIED'',
           b_AuthorizedPrincipal = Some princ, b_EvidenceRef = Some evidenceRef, b_BoundAt = at\<rparr> s)) (\<lambda>s1.
      bindE (newAuditEventID h 0) (\<lambda>eventID.
      audit_tx h (mk_event eventID ''EXECUTION_BUDGET_LEGACY_BOUND'' at
          (t_PairID t, t_TaskID t, a_ContractID a, attemptID) princ
          [(''dispatch_operation_id'', GString operationID), (''session_id'', GString sessionID),
           (''terminal_generation'', GString generation), (''origin_at'', GString (formatTime origin)),
           (''deadline_at'', GString (formatTime deadline)), (''duration_ns'', GInt (bp_Duration policy)),
           (''policy_ref'', GString (bp_PolicyRef policy)),
           (''binding_basis'', GString ''LEGACY_OPERATOR_VERIFIED''),
           (''authorized_principal'', GString princ), (''authority_scope'', GString scope),
           (''evidence_ref'', GString evidenceRef)]) s1))))))))))"

section \<open>Unknown delivery\<close>

text \<open>\<open>attempt_number = (SELECT current_attempt FROM tasks WHERE task_id = ?)\<close>.\<close>

definition is_current_number :: "db \<Rightarrow> string \<Rightarrow> int \<Rightarrow> bool" where
  "is_current_number s taskID n \<longleftrightarrow> map_option t_CurrentAttempt (task_of s taskID) = Some n"

definition RecordUnknownDelivery :: "host \<Rightarrow> string \<Rightarrow> string \<Rightarrow> time \<Rightarrow> db \<Rightarrow> store_error + db" where
  "RecordUnknownDelivery h operationID actor at0 s =
     (if actor = [] then Inl (StoreError ''unknown delivery requires actor'')
      else let at = now_if_zero h at0 in
      bindE (newAuditEventID h 0) (\<lambda>eventID.
      bindE (newAuditEventID h 1) (\<lambda>escalationEventID.
      bindE (require (dispatch_join s operationID) ErrOperationNotFound) (\<lambda>(d, a).
      if d_Stage d \<noteq> SendRequested then Inl ErrStateConflict
      else
      bindE (require (task_of s (d_TaskID d)) (SqlError SqlNoRows)) (\<lambda>t.
      if t_State t \<noteq> StateDispatched then Inl ErrStateConflict
      else
      bindE (map_error ErrCanonicalTransition (Transition StateDispatched StateFailed)) (\<lambda>_.
      bindE (map_error ErrCanonicalTransition (Transition StateFailed StateHumanRequired)) (\<lambda>_.
      let lineage = (d_PairID d, d_TaskID d, a_ContractID a, d_AttemptID d) in
      andThen (audit_tx h (mk_event eventID ''TASK_STATE_TRANSITION'' at lineage actor
          [(''dispatch_operation_id'', GString operationID), (''from_state'', GString ''DISPATCHED''),
           (''to_state'', GString ''FAILED''), (''failure_reason'', GString ''UNCERTAIN_DELIVERY_CRASH''),
           (''recovery_disposition'', GString ''UNCERTAIN_DELIVERY_CRASH''),
           (''resolution_state'', GString ''DELIVERY_OUTCOME_UNKNOWN'')]) s) (\<lambda>s1.
      bindE (newAuditEventID h 2) (\<lambda>quarantineEventID.
      andThen (audit_tx h (mk_event quarantineEventID ''UNCERTAIN_DELIVERY_QUARANTINE_IMPOSED'' at lineage actor
          [(''dispatch_operation_id'', GString operationID),
           (''resolution_state'', GString ''DELIVERY_OUTCOME_UNKNOWN''),
           (''session_id'', GString (d_SessionID d)),
           (''terminal_generation'', GString (d_TerminalGeneration d))]) s1) (\<lambda>s2.
      andThen (audit_tx h (mk_event escalationEventID ''TASK_STATE_TRANSITION'' at lineage actor
          [(''dispatch_operation_id'', GString operationID), (''from_state'', GString ''FAILED''),
           (''to_state'', GString ''HUMAN_REQUIRED''),
           (''reason'', GString ''UNCERTAIN_DELIVERY_CRASH'')]) s2) (\<lambda>s3.
      andThen (cas1 ErrStateConflict
        (update_tasks (\<lambda>x. t_TaskID x = d_TaskID d \<and> t_State x = StateDispatched)
          (\<lambda>x. x\<lparr>t_State := StateFailed, t_UpdatedAt := at\<rparr>) s3)) (\<lambda>s4.
      andThen (cas1 ErrStateConflict
        (update_tasks (\<lambda>x. t_TaskID x = d_TaskID d \<and> t_State x = StateFailed)
          (\<lambda>x. x\<lparr>t_State := StateHumanRequired, t_UpdatedAt := at\<rparr>) s4)) (\<lambda>s5.
      andThen (cas1 ErrAttemptLineageMismatch
        (update_attempts (\<lambda>x. a_AttemptID x = d_AttemptID d \<and> a_TaskID x = d_TaskID d \<and>
             a_EndedAt x = None \<and> is_current_number s5 (d_TaskID d) (a_AttemptNumber x))
          (\<lambda>x. x\<lparr>a_EndedAt := Some at, a_RecoveryDisposition := Some ''UNCERTAIN_DELIVERY_CRASH'',
                 a_QuarantineState := QuarantineQuarantined\<rparr>) s5)) (\<lambda>s6.
      andThen (cas1 ErrStateConflict
        (update_dispatch_resolution
          (\<lambda>x. d_OperationID x = operationID \<and> d_Stage x = SendRequested \<and> d_ResolutionState x = None)
          (\<lambda>x. x\<lparr>d_ResolutionState := Some ''DELIVERY_OUTCOME_UNKNOWN''\<rparr>) s6)) (\<lambda>s7.
      cas1 ErrStateConflict
        (update_sessions (\<lambda>x. w_PairID x = d_PairID d \<and> w_SessionID x = d_SessionID d \<and>
             w_TerminalGeneration x = d_TerminalGeneration d)
          (\<lambda>x. x\<lparr>w_QuarantineState := QuarantineQuarantined, w_UpdatedAt := at\<rparr>) s7))))))))))))))))"

section \<open>The transactions are sequences of writes\<close>

lemma RecordPreSendHold_keeps:
  "keeps (h_sha256 h) s (RecordPreSendHold h operationID disposition actor at s)"
  unfolding RecordPreSendHold_def by (intro keeps_rules) (simp_all add: attempt_evolves_def)

lemma RecordPreSendAdmissibilityRejected_keeps:
  "keeps (h_sha256 h) s (RecordPreSendAdmissibilityRejected h operationID activity actor at s)"
  unfolding RecordPreSendAdmissibilityRejected_def by (intro keeps_rules)

lemma ResolvePreSendHold_keeps:
  "keeps (h_sha256 h) s (ResolvePreSendHold h oid aid disp sid gen act princ actor at s)"
  unfolding ResolvePreSendHold_def by (intro keeps_rules) (simp_all add: attempt_evolves_def)

lemma RecordSendRequested_keeps:
  "keeps (h_sha256 h) s (RecordSendRequested h oid sid gen act term actor at s)"
  unfolding RecordSendRequested_def by (intro keeps_rules) (auto simp: dispatch_evolves_def)

lemma writes_budget: "insert_budget b s = Inr s' \<Longrightarrow> budget_ok b \<Longrightarrow> store_writes sha s s'"
  by (intro r_into_rtranclp store_write.w_budget)

lemma RecordSendConfirmed_keeps:
  "keeps (h_sha256 h) s (RecordSendConfirmed h oid actor ok at policies s)"
proof -
  consider "policies = []" | policy where "policies = [policy]" | p q ps where "policies = p # q # ps"
    by (cases policies rule: remdups_adj.cases) auto
  then show ?thesis
  proof cases
    case 2
    then show ?thesis
      unfolding RecordSendConfirmed_def 2
      by (simp only: list.case, intro keeps_rules)
        (auto simp: dispatch_evolves_def budget_ok_def elim!: writes_budget)
  qed (simp_all add: RecordSendConfirmed_def keeps_rules)
qed

lemma BindLegacyExecutionBudget_keeps:
  "keeps (h_sha256 h) s (BindLegacyExecutionBudget h aid princ scope ref policy at s)"
  unfolding BindLegacyExecutionBudget_def
  by (intro keeps_rules) (auto simp: budget_ok_def elim!: writes_budget)

lemma RecordUnknownDelivery_keeps:
  "keeps (h_sha256 h) s (RecordUnknownDelivery h oid actor at s)"
  unfolding RecordUnknownDelivery_def
  by (intro keeps_rules)
    (auto simp: attempt_evolves_def session_evolves_def workflow_defs active_lane_def executing_def
      elim!: cas1_closable)

subsection \<open>The binding transaction\<close>

definition claimed :: "Task \<Rightarrow> time \<Rightarrow> Task" where
  "claimed t at = t\<lparr>t_State := StateDispatched, t_CurrentAttempt := t_CurrentAttempt t + 1, t_UpdatedAt := at\<rparr>"

lemma claim_task_ok:
  assumes "keys_inv s" and "fst (claim_task tid at s) \<noteq> 0"
  obtains t where "task_of s tid = Some t" "t_State t = StateReady"
    "task_of (snd (claim_task tid at s)) tid = Some (claimed t at)"
proof -
  from assms(2) have "\<exists>t\<in>set (tasks s). t_TaskID t = tid \<and> t_State t = StateReady"
    unfolding claim_task_def update_tasks_def fst_conv rows_affected_pos .
  then obtain t where t: "t \<in> set (tasks s)" "t_TaskID t = tid" "t_State t = StateReady" by blast
  then have "task_of s tid = Some t" using assms(1) by (intro task_of_unique)
  moreover from this t have "task_of (snd (claim_task tid at s)) tid = Some (claimed t at)"
    by (simp add: claim_task_def update_tasks_def task_of_def claimed_def
        find_update_rows [where key = t_TaskID])
  ultimately show ?thesis using t(3) that by blast
qed

lemma claim_task_frame [simp]:
  "unresolved_restore (snd (claim_task tid at s)) pid = unresolved_restore s pid"
  "unresolved_provisioning (snd (claim_task tid at s)) pid = unresolved_provisioning s pid"
  "contract_of (snd (claim_task tid at s)) cid = contract_of s cid"
  "latest_revision (snd (claim_task tid at s)) tid = latest_revision s tid"
  "task_contracts (snd (claim_task tid at s)) = task_contracts s"
  "task_attempts (snd (claim_task tid at s)) = task_attempts s"
  "dispatch_operations (snd (claim_task tid at s)) = dispatch_operations s"
  by (simp_all add: claim_task_def update_tasks_def unresolved_restore_def unresolved_provisioning_def
      contract_of_def latest_revision_def latest_contract_def)

lemma pair_busy_claim [simp]: "pair_busy (snd (claim_task tid at s)) pid tid = pair_busy s pid tid"
  unfolding pair_busy_iff claim_task_def update_tasks_def
  by (simp, rule ex_update_rows) auto

text \<open>What an accepted binding has passed, and its effect.\<close>

definition frozen_contracts :: "db \<Rightarrow> string \<Rightarrow> contract_row list" where
  "frozen_contracts s cid =
     update_rows (\<lambda>c. cr_contract_id c = cid \<and> \<not> cr_is_immutable c)
       (\<lambda>c. c\<lparr>cr_is_immutable := True\<rparr>) (task_contracts s)"

definition bound_state ::
  "db \<Rightarrow> Task \<Rightarrow> string \<Rightarrow> TaskAttempt \<Rightarrow> DispatchOperation \<Rightarrow> time \<Rightarrow> db" where
  "bound_state s t cid a d at =
     s\<lparr>tasks := tasks (snd (claim_task (t_TaskID t) at s)), task_contracts := frozen_contracts s cid,
       task_attempts := task_attempts s @ [a], dispatch_operations := dispatch_operations s @ [d]\<rparr>"

lemma freeze_if_needed:
  assumes "keys_inv s" and "contract_of s cid = Some c"
    and "freeze_step c s1 = Inr s2"
    and "task_contracts s1 = task_contracts s"
  shows "s2 = s1\<lparr>task_contracts := frozen_contracts s cid\<rparr>"
proof (cases "cr_is_immutable c")
  case True
  have "\<not> (cr_contract_id x = cid \<and> \<not> cr_is_immutable x)" if "x \<in> set (task_contracts s)" for x
    using contract_of_Some [OF assms(2)] assms(1) that True
    by (auto simp: keys_inv_def dest: keyed_uniq)
  then have "frozen_contracts s cid = task_contracts s"
    unfolding frozen_contracts_def by (rule update_rows_none)
  with True assms(3,4) show ?thesis by (simp add: freeze_step_def)
next
  case False
  with assms(3,4) contract_of_Some [OF assms(2)] show ?thesis
    by (simp add: freeze_step_def result_simps insert_simps frozen_contracts_def)
qed

definition dispatch_admissible ::
  "db \<Rightarrow> string \<Rightarrow> string \<Rightarrow> DispatchBinding \<Rightarrow> Task \<Rightarrow> contract_row \<Rightarrow> WorkerSession \<Rightarrow> bool" where
  "dispatch_admissible s tid cid b t c w \<longleftrightarrow>
     task_of s tid = Some t \<and> t_State t = StateReady \<and>
     \<not> unresolved_restore s (t_PairID t) \<and> \<not> unresolved_provisioning s (t_PairID t) \<and>
     \<not> pair_busy s (t_PairID t) tid \<and>
     contract_of s cid = Some c \<and> cr_task_id c = tid \<and>
     latest_revision s tid = Some (cr_revision_number c) \<and>
     session_of s (t_PairID t) = Some w \<and> w_SessionID w = bd_SessionID b \<and>
     w_TerminalGeneration w = bd_TerminalGeneration b \<and> w_QuarantineState w = QuarantineClean \<and>
     (\<forall>a\<in>set (task_attempts s). a_TaskID a = tid \<longrightarrow> a_QuarantineState a = QuarantineClean)"

lemma prepareDispatch_ok:
  assumes "prepareDispatch h tid cid aid path at (Some b) s = Inr (a, s')" and "keys_inv s"
  obtains t c w r where "CanonicalExpectedReportPath tid aid = Inr path"
    "dispatch_admissible s tid cid b t c w"
    "a = new_attempt aid (t_CurrentAttempt t + 1) tid cid path (now_if_zero h at) (Some b)"
    "insert_attempt a ((snd (claim_task tid (now_if_zero h at) s))\<lparr>task_contracts := frozen_contracts s cid\<rparr>) =
       Inr ((snd (claim_task tid (now_if_zero h at) s))
         \<lparr>task_contracts := frozen_contracts s cid, task_attempts := task_attempts s @ [a]\<rparr>)"
    "insert_dispatch (new_dispatch b aid (t_PairID t) tid (now_if_zero h at))
       ((snd (claim_task tid (now_if_zero h at) s))
         \<lparr>task_contracts := frozen_contracts s cid, task_attempts := task_attempts s @ [a]\<rparr>) =
       Inr (bound_state s t cid a (new_dispatch b aid (t_PairID t) tid (now_if_zero h at)) (now_if_zero h at))"
    "s' = audit_push r (bound_state s t cid a (new_dispatch b aid (t_PairID t) tid (now_if_zero h at))
       (now_if_zero h at))"
    "linked (h_sha256 h) r
       (bound_state s t cid a (new_dispatch b aid (t_PairID t) tid (now_if_zero h at)) (now_if_zero h at))"
proof -
  let ?now = "now_if_zero h at"
  let ?s1 = "snd (claim_task tid ?now s)"
  have path: "CanonicalExpectedReportPath tid aid = Inr path" and rows: "fst (claim_task tid ?now s) \<noteq> 0"
    using assms(1)
    by (auto simp: prepareDispatch_def result_simps Let_def split: prod.splits if_splits option.splits)
  obtain t where t: "task_of s tid = Some t" "t_State t = StateReady"
    "task_of ?s1 tid = Some (claimed t ?now)"
    using claim_task_ok [OF assms(2) rows] .
  have claimed: "t_PairID (claimed t ?now) = t_PairID t"
    "t_CurrentAttempt (claimed t ?now) = t_CurrentAttempt t + 1"
    by (simp_all add: claimed_def)
  obtain c s2 s3 s4 eid where c: "contract_of s cid = Some c" "cr_task_id c = tid"
      "latest_revision s tid = Some (cr_revision_number c)"
    and free: "\<not> unresolved_restore s (t_PairID t)" "\<not> unresolved_provisioning s (t_PairID t)"
      "\<not> pair_busy s (t_PairID t) tid"
    and s2: "freeze_step c ?s1 = Inr s2"
    and adm: "binding_admissible s2 (t_PairID t) tid b = Inr ()"
    and a: "a = new_attempt aid (t_CurrentAttempt t + 1) tid cid path ?now (Some b)"
    and s3: "insert_attempt a s2 = Inr s3"
    and s4: "insert_dispatch (new_dispatch b aid (t_PairID t) tid ?now) s3 = Inr s4"
    and s5: "audit_tx h (mk_event eid ''TASK_DISPATCH_BOUND'' ?now
             (t_PairID t, tid, cid, aid) ''supervisor''
             [(''session_id'', GString (bd_SessionID b)),
              (''terminal_generation'', GString (bd_TerminalGeneration b))]) s4 = Inr s'"
    using assms(1) path rows t(3) claimed
    by (auto simp: prepareDispatch_def result_simps Let_def case_prod_beta split: if_splits)
  have s2_eq: "s2 = ?s1\<lparr>task_contracts := frozen_contracts s cid\<rparr>"
    using freeze_if_needed [OF assms(2) c(1) s2] by simp
  have s3_eq: "s3 = s2\<lparr>task_attempts := task_attempts s @ [a]\<rparr>"
    using s3 by (simp add: s2_eq insert_simps)
  have s4_eq: "s4 = bound_state s t cid a (new_dispatch b aid (t_PairID t) tid ?now) ?now"
    using s4 task_of_Some [OF t(1)]
    by (simp add: s3_eq s2_eq insert_simps bound_state_def claim_task_def update_tasks_def)
  obtain w where "session_of s (t_PairID t) = Some w" "w_SessionID w = bd_SessionID b"
    "w_TerminalGeneration w = bd_TerminalGeneration b" "w_QuarantineState w = QuarantineClean"
    "\<forall>a\<in>set (task_attempts s). a_TaskID a = tid \<longrightarrow> a_QuarantineState a = QuarantineClean"
    using adm
    by (auto simp: binding_admissible_def result_simps s2_eq claim_task_def update_tasks_def
        session_of_def list_ex_iff split: if_splits)
  then have "dispatch_admissible s tid cid b t c w"
    using t c free by (simp add: dispatch_admissible_def)
  moreover obtain r where "s' = audit_push r s4" "linked (h_sha256 h) r s4"
    using s5 by (rule audit_tx_push)
  ultimately show ?thesis
    using that path a s3 s4 unfolding s4_eq s3_eq s2_eq by blast
qed

lemma prepareDispatch_writes:
  assumes "prepareDispatch h tid cid aid path at (Some b) s = Inr (a, s')" and "keys_inv s"
  shows "store_writes (h_sha256 h) s s'"
  using assms
proof (rule prepareDispatch_ok)
  fix t :: Task and c w r
  let ?now = "now_if_zero h at"
  let ?d = "new_dispatch b aid (t_PairID t) tid ?now"
  let ?f = "s\<lparr>task_contracts := frozen_contracts s cid\<rparr>"
  let ?s3 = "(snd (claim_task tid ?now s))
    \<lparr>task_contracts := frozen_contracts s cid, task_attempts := task_attempts s @ [a]\<rparr>"
  assume adm: "dispatch_admissible s tid cid b t c w"
    and a: "a = new_attempt aid (t_CurrentAttempt t + 1) tid cid path ?now (Some b)"
    and ins: "insert_attempt a ((snd (claim_task tid ?now s))\<lparr>task_contracts := frozen_contracts s cid\<rparr>) =
       Inr ?s3"
    and dis: "insert_dispatch ?d ?s3 = Inr (bound_state s t cid a ?d ?now)"
    and s': "s' = audit_push r (bound_state s t cid a ?d ?now)"
    and linked: "linked (h_sha256 h) r (bound_state s t cid a ?d ?now)"
  have t: "t \<in> set (tasks s)" "t_TaskID t = tid" "t_State t = StateReady"
    and c: "c \<in> set (task_contracts s)" "cr_contract_id c = cid" "cr_task_id c = tid"
    using adm by (auto simp: dispatch_admissible_def dest: task_of_Some contract_of_Some)
  have freeze: "store_write (h_sha256 h) s ?f"
    by (rule store_write.w_freeze [of cid]) (simp add: insert_simps frozen_contracts_def)
  have "store_write (h_sha256 h) ?f ?s3"
  proof (rule store_write.w_begin [where c = "c\<lparr>cr_is_immutable := True\<rparr>" and t = t and a = a and at = ?now])
    show "c\<lparr>cr_is_immutable := True\<rparr> \<in> set (task_contracts ?f)"
    proof (cases "cr_is_immutable c")
      case True
      then have same: "c\<lparr>cr_is_immutable := True\<rparr> = c" by (cases c) simp
      show ?thesis
        unfolding same using True c(1) by (simp add: frozen_contracts_def update_rows_kept)
    next
      case False
      with c update_rows_changed [of c "task_contracts s"] show ?thesis
        by (simp add: frozen_contracts_def)
    qed
    show "\<not> pair_busy ?f (t_PairID t) (t_TaskID t)"
      using adm t by (simp add: dispatch_admissible_def pair_busy_def)
    show "insert_attempt a (snd (claim_task (t_TaskID t) ?now ?f)) = Inr ?s3"
    proof -
      have "snd (claim_task tid ?now ?f) =
          (snd (claim_task tid ?now s))\<lparr>task_contracts := frozen_contracts s cid\<rparr>"
        by (simp add: claim_task_def update_tasks_def)
      with ins t(2) show ?thesis by simp
    qed
  qed (use t c a in \<open>simp_all add: new_attempt_def\<close>)
  moreover have "store_write (h_sha256 h) ?s3 (bound_state s t cid a ?d ?now)"
  proof (rule store_write.w_dispatch_new [OF dis, where a = a])
    show "claimed t ?now \<in> set (tasks ?s3)"
      using t update_rows_changed [of t "tasks s" "\<lambda>x. t_TaskID x = tid \<and> t_State x = StateReady"
          "\<lambda>x. claimed x ?now"]
      by (simp add: claim_task_def update_tasks_def claimed_def)
  qed (use t a in \<open>simp_all add: new_dispatch_def new_attempt_def dispatch_snapshot_def claimed_def\<close>)
  moreover have "store_write (h_sha256 h) (bound_state s t cid a ?d ?now) s'"
    unfolding s' using linked by (rule store_write.w_audit)
  ultimately show ?thesis
    using freeze by (meson converse_rtranclp_into_rtranclp r_into_rtranclp)
qed

lemma PrepareBoundDispatch_writes:
  assumes "PrepareBoundDispatch h tid cid aid path at b s = Inr (a, s')" and "keys_inv s"
  shows "store_writes (h_sha256 h) s s'"
  using assms by (auto simp: PrepareBoundDispatch_def intro: prepareDispatch_writes split: if_splits)

interpretation prepare_bound_dispatch: store_operation "h_sha256 h"
    "\<lambda>(taskID, contractID, attemptID, path, startedAt, binding) s.
       map_sum id snd (PrepareBoundDispatch h taskID contractID attemptID path startedAt binding s)" for h
proof unfold_locales
  fix x s s'
  assume "(\<lambda>(taskID, contractID, attemptID, path, startedAt, binding) s.
       map_sum id snd (PrepareBoundDispatch h taskID contractID attemptID path startedAt binding s)) x s = Inr s'"
    and "keys_inv s"
  then show "store_writes (h_sha256 h) s s'"
    by (cases x) (auto simp: map_sum_def intro: PrepareBoundDispatch_writes split: sum.splits)
qed

interpretation pre_send_hold: store_operation "h_sha256 h"
    "\<lambda>(operationID, disposition, actor, at). RecordPreSendHold h operationID disposition actor at" for h
  by unfold_locales (auto intro: keepsD [OF RecordPreSendHold_keeps])

interpretation pre_send_rejected: store_operation "h_sha256 h"
    "\<lambda>(operationID, activity, actor, at). RecordPreSendAdmissibilityRejected h operationID activity actor at" for h
  by unfold_locales (auto intro: keepsD [OF RecordPreSendAdmissibilityRejected_keeps])

interpretation resolve_pre_send_hold: store_operation "h_sha256 h"
    "\<lambda>(oid, aid, disp, sid, gen, act, princ, actor, at).
       ResolvePreSendHold h oid aid disp sid gen act princ actor at" for h
  by unfold_locales (auto intro: keepsD [OF ResolvePreSendHold_keeps])

interpretation send_requested: store_operation "h_sha256 h"
    "\<lambda>(oid, sid, gen, act, term, actor, at). RecordSendRequested h oid sid gen act term actor at" for h
  by unfold_locales (auto intro: keepsD [OF RecordSendRequested_keeps])

interpretation send_confirmed: store_operation "h_sha256 h"
    "\<lambda>(oid, actor, ok, at, policies). RecordSendConfirmed h oid actor ok at policies" for h
  by unfold_locales (auto intro: keepsD [OF RecordSendConfirmed_keeps])

interpretation bind_legacy_budget: store_operation "h_sha256 h"
    "\<lambda>(aid, princ, scope, ref, policy, at). BindLegacyExecutionBudget h aid princ scope ref policy at" for h
  by unfold_locales (auto intro: keepsD [OF BindLegacyExecutionBudget_keeps])

interpretation unknown_delivery: store_operation "h_sha256 h"
    "\<lambda>(oid, actor, at). RecordUnknownDelivery h oid actor at" for h
  by unfold_locales (auto intro: keepsD [OF RecordUnknownDelivery_keeps])

end
