(* ===== verification/Atomic_Transitions.thy ===== *)
theory Atomic_Transitions
  imports Dispatch_Store
begin

text \<open>
  The closing transactions of \<open>internal/store/atomic_transitions.go\<close> and the provisioning of a
  pair's worker session in \<open>provisioning_transactions.go\<close>: a task that fails closes its current
  attempt in the same transaction, and a pair has at most one unresolved provisioning.
\<close>

section \<open>Closing an attempt with its task\<close>

definition currentOpenAttemptLineage :: "db \<Rightarrow> string \<Rightarrow> string \<Rightarrow> store_error + (string \<times> string)" where
  "currentOpenAttemptLineage s taskID attemptID =
     (case task_of s taskID of
        None \<Rightarrow> Inl ErrAttemptLineageMismatch
      | Some t \<Rightarrow>
          (case find (\<lambda>a. a_AttemptID a = attemptID \<and> a_TaskID a = t_TaskID t \<and>
               a_AttemptNumber a = t_CurrentAttempt t \<and> a_EndedAt a = None) (task_attempts s) of
             None \<Rightarrow> Inl ErrAttemptLineageMismatch
           | Some a \<Rightarrow> Inr (t_PairID t, a_ContractID a)))"

text \<open>The statement that closes the current attempt of a task, with its quarantine if required.\<close>

definition close_current_attempt ::
  "string \<Rightarrow> string \<Rightarrow> time \<Rightarrow> string \<Rightarrow> bool \<Rightarrow> db \<Rightarrow> nat \<times> db" where
  "close_current_attempt taskID attemptID at disposition quarantine s =
     update_attempts (\<lambda>a. a_AttemptID a = attemptID \<and> a_TaskID a = taskID \<and> a_EndedAt a = None \<and>
         is_current_number s taskID (a_AttemptNumber a))
       (\<lambda>a. a\<lparr>a_EndedAt := Some at, a_RecoveryDisposition := Some disposition,
              a_QuarantineState := (if quarantine then QuarantineQuarantined else a_QuarantineState a)\<rparr>) s"

definition requiresDoubleQuarantine :: "string \<Rightarrow> bool" where
  "requiresDoubleQuarantine disposition \<longleftrightarrow>
     disposition = ''PRE_SEND_IDENTITY_MISMATCH'' \<or> disposition = ''STALE_EXECUTION_GENERATION'' \<or>
     disposition = ''SESSION_ABSENT''"

definition AtomicTerminalTransition ::
  "host \<Rightarrow> string \<Rightarrow> TaskState \<Rightarrow> TaskState \<Rightarrow> string \<Rightarrow> string \<Rightarrow> string \<Rightarrow> db \<Rightarrow> store_error + db" where
  "AtomicTerminalTransition h taskID expectedCurrentState newState failureReason attemptID disposition s =
     (if newState \<noteq> StateFailed \<or>
        (expectedCurrentState \<noteq> StateRunning \<and> expectedCurrentState \<noteq> StateDispatched)
      then Inl ErrInvalidOperationTransition
      else
      bindE (map_error ErrCanonicalTransition (Transition expectedCurrentState newState)) (\<lambda>_.
      if TrimSpace disposition = [] then Inl (StoreError ''terminal recovery disposition is required'')
      else if TrimSpace failureReason = []
      then Inl (StoreError ''terminal failure reason is required for audit details'')
      else
      bindE (newAuditEventID h 0) (\<lambda>eventID.
      let now = h_now h in
      bindE (currentOpenAttemptLineage s taskID attemptID) (\<lambda>(pairID, contractID).
      andThen (cas1 ErrStateConflict
        (update_tasks (\<lambda>t. t_TaskID t = taskID \<and> t_State t = expectedCurrentState)
          (\<lambda>t. t\<lparr>t_State := newState, t_UpdatedAt := now\<rparr>) s)) (\<lambda>s1.
      andThen (cas1 ErrAttemptLineageMismatch
        (close_current_attempt taskID attemptID now disposition (requiresDoubleQuarantine disposition) s1)) (\<lambda>s2.
      andThen (if requiresDoubleQuarantine disposition
        then cas1 ErrAttemptLineageMismatch
          (update_sessions (\<lambda>w. w_PairID w = pairID \<and>
              list_ex (\<lambda>a. a_AttemptID a = attemptID \<and> a_TaskID a = taskID \<and>
                a_SessionID a = Some (w_SessionID w) \<and>
                a_TerminalGeneration a = Some (w_TerminalGeneration w)) (task_attempts s2))
            (\<lambda>w. w\<lparr>w_QuarantineState := QuarantineQuarantined, w_UpdatedAt := now\<rparr>) s2)
        else Inr s2) (\<lambda>s3.
      audit_tx h (mk_event eventID ''TASK_STATE_TRANSITION'' now
          (pairID, taskID, contractID, attemptID) ''supervisor''
          [(''from_state'', GString (task_state_string expectedCurrentState)),
           (''to_state'', GString (task_state_string newState)),
           (''failure_reason'', GString failureReason),
           (''recovery_disposition'', GString disposition)]) s3)))))))"

definition AtomicAttemptClosureTransition ::
  "host \<Rightarrow> string \<Rightarrow> string \<Rightarrow> string \<Rightarrow> db \<Rightarrow> store_error + db" where
  "AtomicAttemptClosureTransition h taskID attemptID disposition s =
     (if disposition \<noteq> ''AO_BLOCKED_ESCALATED'' then Inl ErrInvalidOperationTransition
      else
      bindE (newAuditEventID h 0) (\<lambda>eventID.
      let now = h_now h in
      bindE (currentOpenAttemptLineage s taskID attemptID) (\<lambda>(pairID, contractID).
      andThen (cas1 ErrStateConflict
        (update_tasks (\<lambda>t. t_TaskID t = taskID \<and> t_State t = StateBlocked)
          (\<lambda>t. t\<lparr>t_State := StateHumanRequired, t_UpdatedAt := now\<rparr>) s)) (\<lambda>s1.
      andThen (cas1 ErrAttemptLineageMismatch
        (close_current_attempt taskID attemptID now ''AO_BLOCKED_ESCALATED'' False s1)) (\<lambda>s2.
      audit_tx h (mk_event eventID ''WORKER_BLOCKED_ESCALATED'' now
          (pairID, taskID, contractID, attemptID) ''supervisor''
          [(''from_state'', GString (task_state_string StateBlocked)),
           (''to_state'', GString (task_state_string StateHumanRequired)),
           (''recovery_disposition'', GString ''AO_BLOCKED_ESCALATED'')]) s2)))))"

section \<open>Provisioning of a pair\<close>

text \<open>
  An open attempt, or a task whose attempt counter has no attempt row, blocks provisioning.
\<close>

definition current_attempt_row :: "db \<Rightarrow> Task \<Rightarrow> bool" where
  "current_attempt_row s t \<longleftrightarrow>
     list_ex (\<lambda>a. a_TaskID a = t_TaskID t \<and> a_AttemptNumber a = t_CurrentAttempt t) (task_attempts s)"

definition task_lineage_blocks :: "db \<Rightarrow> string \<Rightarrow> bool" where
  "task_lineage_blocks s pairID \<longleftrightarrow>
     list_ex (\<lambda>a. list_ex (\<lambda>t. t_TaskID t = a_TaskID a \<and> t_PairID t = pairID) (tasks s) \<and>
       a_EndedAt a = None) (task_attempts s) \<or>
     list_ex (\<lambda>t. t_PairID t = pairID \<and>
       ((0 < t_CurrentAttempt t \<and> \<not> current_attempt_row s t) \<or>
        ((t_State t = StateDispatched \<or> t_State t = StateRunning \<or> t_State t = StateBlocked \<or>
          t_State t = StateReviewing) \<and>
         (t_CurrentAttempt t = 0 \<or> \<not> current_attempt_row s t)))) (tasks s)"

definition pair_quarantined :: "db \<Rightarrow> string \<Rightarrow> bool" where
  "pair_quarantined s pairID \<longleftrightarrow>
     list_ex (\<lambda>w. w_PairID w = pairID \<and> w_QuarantineState w \<noteq> QuarantineClean) (worker_sessions s) \<or>
     list_ex (\<lambda>a. list_ex (\<lambda>t. t_TaskID t = a_TaskID a \<and> t_PairID t = pairID) (tasks s) \<and>
       a_QuarantineState a \<noteq> QuarantineClean) (task_attempts s)"

definition ReservePairProvisioning ::
  "host \<Rightarrow> PairProvisioningOperation \<Rightarrow> string \<Rightarrow> db \<Rightarrow> store_error + db" where
  "ReservePairProvisioning h operation actor s =
     (if pv_OperationID operation = [] \<or> pv_PairID operation = [] \<or> pv_ClientToken operation = [] \<or> actor = []
      then Inl (StoreError ''provisioning reservation is incomplete'')
      else let now = now_if_zero h (pv_RequestedAt operation); pairID = pv_PairID operation in
      bindE (newAuditEventID h 0) (\<lambda>eventID.
      if session_of s pairID \<noteq> None then Inl ErrStateConflict
      else if unresolved_restore s pairID \<or> unresolved_provisioning s pairID \<or> pending_stop s pairID
      then Inl ErrQuarantinedExecution
      else if task_lineage_blocks s pairID then Inl ErrQuarantinedExecution
      else if pair_quarantined s pairID then Inl ErrQuarantinedExecution
      else
      andThen (map_error mapLifecycleWriteError
        (insert_provisioning \<lparr>pv_OperationID = pv_OperationID operation, pv_PairID = pairID,
           pv_Stage = ProvisionRequested, pv_ClientToken = pv_ClientToken operation, pv_SessionID = None,
           pv_RequestedAt = now, pv_CompletedAt = None, pv_ResolvedAt = None, pv_ResolvedBy = None,
           pv_ResolutionNotes = None\<rparr> s)) (\<lambda>s1.
      audit_tx h (mk_event eventID ''PAIR_SESSION_PROVISION_REQUESTED'' now (pairID, [], [], []) actor
        [(''operation_id'', GString (pv_OperationID operation)), (''stage'', GString ''PROVISION_REQUESTED''),
         (''client_token'', GString (pv_ClientToken operation))]) s1)))"

definition requested_provisioning :: "db \<Rightarrow> string \<Rightarrow> PairProvisioningOperation option" where
  "requested_provisioning s operationID =
     find (\<lambda>p. pv_OperationID p = operationID \<and> pv_Stage p = ProvisionRequested)
       (pair_provisioning_operations s)"

definition ConfirmPairProvisioning ::
  "host \<Rightarrow> string \<Rightarrow> WorkerSession \<Rightarrow> string \<Rightarrow> time \<Rightarrow> db \<Rightarrow> store_error + db" where
  "ConfirmPairProvisioning h operationID session0 actor completedAt0 s =
     (if actor = [] \<or> w_PairID session0 = [] \<or> w_SessionID session0 = [] \<or> w_TerminalGeneration session0 = []
      then Inl (StoreError ''provisioning confirmation is incomplete'')
      else let completedAt = now_if_zero h completedAt0 in
      bindE (newAuditEventID h 0) (\<lambda>eventID.
      let session = session0\<lparr>
        w_QuarantineState := (if w_QuarantineState session0 = OtherQuarantine [] then QuarantineClean
                              else w_QuarantineState session0),
        w_CreatedAt := (if IsZero (w_CreatedAt session0) then completedAt else w_CreatedAt session0),
        w_UpdatedAt := completedAt\<rparr> in
      bindE (require (requested_provisioning s operationID) ErrStateConflict) (\<lambda>p.
      let pairID = pv_PairID p in
      if pairID \<noteq> w_PairID session then Inl ErrStateConflict
      else
      andThen (audit_tx h (mk_event eventID ''PAIR_SESSION_PROVISIONED'' completedAt (pairID, [], [], []) actor
          [(''operation_id'', GString operationID), (''stage'', GString ''PROVISION_CONFIRMED''),
           (''session_id'', GString (w_SessionID session)),
           (''terminal_generation'', GString (w_TerminalGeneration session))]) s) (\<lambda>s1.
      andThen (cas1 ErrStateConflict
        (update_provisioning (\<lambda>q. pv_OperationID q = operationID \<and> pv_PairID q = pairID \<and>
             pv_Stage q = ProvisionRequested)
          (\<lambda>q. q\<lparr>pv_Stage := ProvisionConfirmed, pv_SessionID := Some (w_SessionID session),
                 pv_CompletedAt := Some completedAt\<rparr>) s1)) (\<lambda>s2.
      map_error mapLifecycleWriteError (insert_session session s2))))))"

definition FailPairProvisioning ::
  "host \<Rightarrow> string \<Rightarrow> string \<Rightarrow> string \<Rightarrow> time \<Rightarrow> db \<Rightarrow> store_error + db" where
  "FailPairProvisioning h operationID actor reason failedAt0 s =
     (if actor = [] \<or> reason = [] then Inl (StoreError ''provisioning failure requires actor and reason'')
      else let failedAt = now_if_zero h failedAt0 in
      bindE (newAuditEventID h 0) (\<lambda>eventID.
      bindE (require (requested_provisioning s operationID) ErrStateConflict) (\<lambda>p.
      andThen (audit_tx h (mk_event eventID ''PAIR_SESSION_PROVISION_FAILED'' failedAt
          (pv_PairID p, [], [], []) actor
          [(''operation_id'', GString operationID), (''stage'', GString ''PROVISION_FAILED''),
           (''reason'', GString reason)]) s) (\<lambda>s1.
      cas1 ErrStateConflict
        (update_provisioning (\<lambda>q. pv_OperationID q = operationID \<and> pv_Stage q = ProvisionRequested)
          (\<lambda>q. q\<lparr>pv_Stage := ProvisionFailed, pv_CompletedAt := Some failedAt\<rparr>) s1)))))"

section \<open>The transactions are sequences of writes\<close>

lemma writes_close_current_attempt [keeps_rules]:
  "(\<And>a. a_TaskID a = tid \<Longrightarrow> closable s a) \<Longrightarrow>
     store_writes sha s (snd (close_current_attempt tid aid at disposition q s))"
  unfolding close_current_attempt_def
  by (rule writes_attempts) (simp_all add: attempt_evolves_def)

lemma AtomicTerminalTransition_keeps:
  "keeps (h_sha256 h) s (AtomicTerminalTransition h tid old new reason aid disposition s)"
  unfolding AtomicTerminalTransition_def
  by (intro keeps_rules writes_tasks [where tid = tid])
    (auto simp: session_evolves_def workflow_defs active_lane_def executing_def elim!: cas1_closable)

lemma AtomicAttemptClosureTransition_keeps:
  "keeps (h_sha256 h) s (AtomicAttemptClosureTransition h tid aid disposition s)"
  unfolding AtomicAttemptClosureTransition_def
  by (intro keeps_rules)
    (auto simp: workflow_defs active_lane_def executing_def elim!: cas1_closable)

lemma ReservePairProvisioning_keeps:
  "keeps (h_sha256 h) s (ReservePairProvisioning h operation actor s)"
  unfolding ReservePairProvisioning_def
  by (intro keeps_rules) (auto intro: store_write.w_provisioning_new)

lemma ConfirmPairProvisioning_keeps:
  "keeps (h_sha256 h) s (ConfirmPairProvisioning h operationID session actor at s)"
  unfolding ConfirmPairProvisioning_def
  by (intro keeps_rules)
    (auto simp: provisioning_evolves_def unresolved_stage_def intro: store_write.w_session_new)

lemma FailPairProvisioning_keeps:
  "keeps (h_sha256 h) s (FailPairProvisioning h operationID actor reason at s)"
  unfolding FailPairProvisioning_def
  by (intro keeps_rules) (auto simp: provisioning_evolves_def unresolved_stage_def)

interpretation terminal_transition: store_operation "h_sha256 h"
    "\<lambda>(tid, old, new, reason, aid, disposition).
       AtomicTerminalTransition h tid old new reason aid disposition" for h
  by unfold_locales (auto intro: keepsD [OF AtomicTerminalTransition_keeps])

interpretation attempt_closure: store_operation "h_sha256 h"
    "\<lambda>(tid, aid, disposition). AtomicAttemptClosureTransition h tid aid disposition" for h
  by unfold_locales (auto intro: keepsD [OF AtomicAttemptClosureTransition_keeps])

interpretation reserve_provisioning: store_operation "h_sha256 h"
    "\<lambda>(operation, actor). ReservePairProvisioning h operation actor" for h
  by unfold_locales (auto intro: keepsD [OF ReservePairProvisioning_keeps])

interpretation confirm_provisioning: store_operation "h_sha256 h"
    "\<lambda>(operationID, session, actor, at). ConfirmPairProvisioning h operationID session actor at" for h
  by unfold_locales (auto intro: keepsD [OF ConfirmPairProvisioning_keeps])

interpretation fail_provisioning: store_operation "h_sha256 h"
    "\<lambda>(operationID, actor, reason, at). FailPairProvisioning h operationID actor reason at" for h
  by unfold_locales (auto intro: keepsD [OF FailPairProvisioning_keeps])

end
