(* ===== verification/Session_Store.thy ===== *)
theory Session_Store
  imports Atomic_Transitions
begin

text \<open>
  \<open>internal/store/session_lifecycle.go\<close>: the guards on unresolved restores and provisionings,
  the compare-and-set of a worker session, the generic entry points that are closed in favour of
  the atomic transactions, the readers, and the insert of a stop operation after its lineage has
  been checked. Scanning a column that is NULL into a Go string is the error \<open>SqlScanNull\<close>.
\<close>

definition valueOrEmpty :: "string option \<Rightarrow> string" where
  "valueOrEmpty x = (case x of None \<Rightarrow> [] | Some v \<Rightarrow> v)"

section \<open>Guards and closed entry points\<close>

definition rejectUnresolvedRestore :: "db \<Rightarrow> string \<Rightarrow> store_error + unit" where
  "rejectUnresolvedRestore s pairID = ensure (\<not> unresolved_restore s pairID) ErrQuarantinedExecution"

definition rejectUnresolvedProvisioning :: "db \<Rightarrow> string \<Rightarrow> store_error + unit" where
  "rejectUnresolvedProvisioning s pairID =
     ensure (\<not> unresolved_provisioning s pairID) ErrQuarantinedExecution"

definition CreateWorkerSession :: "WorkerSession \<Rightarrow> db \<Rightarrow> store_error + db" where
  "CreateWorkerSession session s = Inl ErrAtomicDispatchRequired"

definition CreatePairProvisioningOperation ::
  "PairProvisioningOperation \<Rightarrow> db \<Rightarrow> store_error + db" where
  "CreatePairProvisioningOperation operation s = Inl ErrAtomicDispatchRequired"

record PairProvisioningStageUpdate =
  pu_SessionID :: "string option"
  pu_CompletedAt :: "time option"
  pu_ResolvedAt :: "time option"
  pu_ResolvedBy :: "string option"
  pu_ResolutionNotes :: "string option"

definition UpdatePairProvisioningOperationStage ::
  "string \<Rightarrow> PairProvisioningStage \<Rightarrow> PairProvisioningStage \<Rightarrow> PairProvisioningStageUpdate \<Rightarrow>
     db \<Rightarrow> store_error + db" where
  "UpdatePairProvisioningOperationStage operationID expected nxt upd s = Inl ErrAtomicDispatchRequired"

definition CreateDispatchOperation :: "DispatchOperation \<Rightarrow> db \<Rightarrow> store_error + db" where
  "CreateDispatchOperation operation s = Inl ErrAtomicDispatchRequired"

record DispatchStageUpdate =
  du_ConfirmedAt :: "time option"
  du_ResolutionState :: "string option"

definition UpdateDispatchOperationStage ::
  "string \<Rightarrow> DispatchStage \<Rightarrow> DispatchStage \<Rightarrow> DispatchStageUpdate \<Rightarrow> db \<Rightarrow> store_error + db" where
  "UpdateDispatchOperationStage operationID expected nxt upd s = Inl ErrAtomicDispatchRequired"

definition validProvisioningTransition :: "PairProvisioningStage \<Rightarrow> PairProvisioningStage \<Rightarrow> bool" where
  "validProvisioningTransition from to \<longleftrightarrow>
     (from = ProvisionRequested \<and> (to = ProvisionConfirmed \<or> to = ProvisionFailed)) \<or>
     (from = ProvisionFailed \<and> to = ProvisionResolved)"

definition validDispatchTransition :: "DispatchStage \<Rightarrow> DispatchStage \<Rightarrow> bool" where
  "validDispatchTransition from to \<longleftrightarrow>
     (from = DispatchBound \<and> to = SendRequested) \<or> (from = SendRequested \<and> to = SendConfirmed)"

definition validStopTransition :: "StopStage \<Rightarrow> StopStage \<Rightarrow> bool" where
  "validStopTransition from to \<longleftrightarrow>
     from = to \<or>
     (from = StopRequested \<and> (to = StopCallSucceeded \<or> to = StopCallFailed \<or> to = StopTargetAbsent)) \<or>
     (from = StopCallSucceeded \<and> (to = StopTerminationConfirmed \<or> to = StopTargetAbsent))"

section \<open>Readers\<close>

definition GetWorkerSessionByPair :: "db \<Rightarrow> string \<Rightarrow> store_error + WorkerSession" where
  "GetWorkerSessionByPair s pairID = require (session_of s pairID) ErrWorkerSessionNotFound"

definition GetWorkerSessionByID :: "db \<Rightarrow> string \<Rightarrow> store_error + WorkerSession" where
  "GetWorkerSessionByID s sessionID =
     require (find (\<lambda>w. w_SessionID w = sessionID) (worker_sessions s)) ErrWorkerSessionNotFound"

definition GetPairProvisioningOperation :: "db \<Rightarrow> string \<Rightarrow> store_error + PairProvisioningOperation" where
  "GetPairProvisioningOperation s operationID =
     require (find (\<lambda>p. pv_OperationID p = operationID) (pair_provisioning_operations s)) ErrOperationNotFound"

definition GetDispatchOperation :: "db \<Rightarrow> string \<Rightarrow> store_error + DispatchOperation" where
  "GetDispatchOperation s operationID = require (dispatch_of s operationID) ErrOperationNotFound"

definition GetStopOperation :: "db \<Rightarrow> string \<Rightarrow> store_error + StopOperation" where
  "GetStopOperation s operationID = require (stop_of s operationID) ErrOperationNotFound"

section \<open>The session compare-and-set\<close>

record WorkerSessionCASUpdate =
  wu_ExpectedStatus :: WorkerSessionStatus
  wu_ExpectedQuarantineState :: QuarantineState
  wu_Status :: WorkerSessionStatus
  wu_QuarantineState :: QuarantineState
  wu_TerminalGeneration :: "string option"
  wu_UpdatedAt :: time

definition UpdateWorkerSessionStatusAndQuarantine ::
  "host \<Rightarrow> string \<Rightarrow> WorkerSessionCASUpdate \<Rightarrow> db \<Rightarrow> store_error + db" where
  "UpdateWorkerSessionStatusAndQuarantine h pairID upd s =
     (if wu_ExpectedQuarantineState upd \<noteq> wu_QuarantineState upd \<or> wu_TerminalGeneration upd \<noteq> None
      then Inl ErrAtomicDispatchRequired
      else let updatedAt = now_if_zero h (wu_UpdatedAt upd);
               P = (\<lambda>w. w_PairID w = pairID \<and> w_Status w = wu_ExpectedStatus upd \<and>
                     w_QuarantineState w = wu_ExpectedQuarantineState upd) in
      bindE (rejectUnresolvedRestore s pairID) (\<lambda>_.
      bindE (rejectUnresolvedProvisioning s pairID) (\<lambda>_.
      if list_ex P (worker_sessions s) \<and>
        \<not> (valid_status (wu_Status upd) \<and> valid_quarantine (wu_QuarantineState upd))
      then Inl (mapLifecycleWriteError SqlCheck)
      else let r = update_sessions P
          (\<lambda>w. w\<lparr>w_Status := wu_Status upd, w_QuarantineState := wu_QuarantineState upd,
                 w_UpdatedAt := updatedAt\<rparr>) s in
      if fst r = 0 then
        (case session_of s pairID of
           None \<Rightarrow> Inl ErrWorkerSessionNotFound
         | Some _ \<Rightarrow> Inl ErrStateConflict)
      else operationCASResult r)))"

section \<open>Inserting a stop operation\<close>

text \<open>The optional lineage of a stop must be one coherent tuple.\<close>

definition stop_attempt_snapshot :: "db \<Rightarrow> StopOperation \<Rightarrow> string \<Rightarrow> string \<Rightarrow> string \<Rightarrow> TaskAttempt option" where
  "stop_attempt_snapshot s operation attemptID taskID contractID =
     find (\<lambda>a. a_AttemptID a = attemptID \<and> a_TaskID a = taskID \<and> a_ContractID a = contractID \<and>
       list_ex (\<lambda>t. t_TaskID t = a_TaskID a \<and> t_PairID t = st_PairID operation) (tasks s)) (task_attempts s)"

definition stop_lineage_check :: "StopOperation \<Rightarrow> db \<Rightarrow> store_error + unit" where
  "stop_lineage_check operation s =
     (case st_AttemptID operation of
        Some attemptID \<Rightarrow>
          (case (st_TaskID operation, st_ContractID operation) of
             (Some taskID, Some contractID) \<Rightarrow>
               bindE (require (stop_attempt_snapshot s operation attemptID taskID contractID)
                 ErrAttemptLineageMismatch) (\<lambda>a.
               ensure (a_SessionID a = Some (st_SessionID operation) \<and>
                   a_TerminalGeneration a = Some (st_TerminalGeneration operation))
                 ErrAttemptLineageMismatch)
           | _ \<Rightarrow> Inl ErrAttemptLineageMismatch)
      | None \<Rightarrow>
          (case st_ContractID operation of
             Some contractID \<Rightarrow>
               (case st_TaskID operation of
                  None \<Rightarrow> Inl ErrAttemptLineageMismatch
                | Some taskID \<Rightarrow>
                    ensure (list_ex (\<lambda>c. cr_contract_id c = contractID \<and> cr_task_id c = taskID \<and>
                        list_ex (\<lambda>t. t_TaskID t = cr_task_id c \<and> t_PairID t = st_PairID operation) (tasks s))
                        (task_contracts s))
                      ErrAttemptLineageMismatch)
           | None \<Rightarrow>
               (case st_TaskID operation of
                  None \<Rightarrow> Inr ()
                | Some taskID \<Rightarrow>
                    ensure (list_ex (\<lambda>t. t_TaskID t = taskID \<and> t_PairID t = st_PairID operation) (tasks s))
                      ErrAttemptLineageMismatch)))"

text \<open>
  The ownership of the pair: with an unresolved restore only its linked cleanup may insert a
  stop. \<open>cleanupObservation\<close> is the variadic argument.
\<close>

definition unresolved_restore_row :: "db \<Rightarrow> string \<Rightarrow> PairRestoreOperation option" where
  "unresolved_restore_row s pairID =
     find (\<lambda>r. ro_PairID r = pairID \<and> ro_ResolutionState r \<noteq> RestoreResolved) (pair_restore_operations s)"

definition validNewGenerationMaintenance ::
  "StopOperation \<Rightarrow> PairRestoreOperation \<Rightarrow> string list \<Rightarrow> bool" where
  "validNewGenerationMaintenance operation r cleanupObservation \<longleftrightarrow>
     st_Purpose operation = PairMaintenance \<and> st_AttemptID operation = None \<and>
     st_TaskID operation = None \<and> st_ContractID operation = None \<and>
     ro_ResolutionState r = RestoreCleanupClaimed \<and> st_SessionID operation = ro_SessionID r \<and>
     (case cleanupObservation of
        [g] \<Rightarrow> g \<noteq> [] \<and> st_TerminalGeneration operation = g
      | _ \<Rightarrow> False) \<and>
     (ro_ObservedGeneration r = None \<or> ro_ObservedGeneration r = Some (st_TerminalGeneration operation))"

definition validOldGenerationCleanup :: "StopOperation \<Rightarrow> PairRestoreOperation \<Rightarrow> bool" where
  "validOldGenerationCleanup operation r \<longleftrightarrow>
     st_Purpose operation = QuarantineCleanup \<and> st_AttemptID operation \<noteq> None \<and>
     ro_ResolutionState r = RestoreCleanupClaimed \<and> st_SessionID operation = ro_SessionID r \<and>
     st_TerminalGeneration operation = ro_ExpectedGeneration r"

definition stop_ownership_check :: "StopOperation \<Rightarrow> string list \<Rightarrow> db \<Rightarrow> store_error + unit" where
  "stop_ownership_check operation cleanupObservation s =
     (case unresolved_restore_row s (st_PairID operation) of
        None \<Rightarrow>
          if st_RestoreOperationID operation \<noteq> None then Inl ErrAttemptLineageMismatch
          else rejectUnresolvedProvisioning s (st_PairID operation)
      | Some r \<Rightarrow>
          bindE (null_string (ro_RecoveryPrincipal r)) (\<lambda>recoveryPrincipal.
          if st_RestoreOperationID operation \<noteq> Some (ro_OperationID r) \<or>
            st_RestorePrincipal operation \<noteq> Some recoveryPrincipal \<or> recoveryPrincipal = [] \<or>
            (\<not> validNewGenerationMaintenance operation r cleanupObservation \<and>
             \<not> validOldGenerationCleanup operation r)
          then Inl ErrQuarantinedExecution
          else if validOldGenerationCleanup operation r
          then ensure (list_ex (\<lambda>a. Some (a_AttemptID a) = st_AttemptID operation \<and> a_EndedAt a \<noteq> None \<and>
              a_QuarantineState a = QuarantineQuarantined) (task_attempts s))
            ErrAttemptLineageMismatch
          else Inr ()))"

definition createStopOperationTx ::
  "host \<Rightarrow> StopOperation \<Rightarrow> string list \<Rightarrow> db \<Rightarrow> store_error + db" where
  "createStopOperationTx h operation cleanupObservation s =
     (if (st_Purpose operation = RunningAttemptStop \<or> st_Purpose operation = QuarantineCleanup) \<and>
        st_AttemptID operation = None
      then Inl ErrAttemptLineageMismatch
      else if st_Purpose operation = PairMaintenance \<and> st_AttemptID operation \<noteq> None
      then Inl ErrAttemptLineageMismatch
      else
      bindE (stop_lineage_check operation s) (\<lambda>_.
      bindE (stop_ownership_check operation cleanupObservation s) (\<lambda>_.
      andThen (map_error mapLifecycleWriteError (insert_stop operation s)) (\<lambda>s1.
      case st_RestoreOperationID operation of
        None \<Rightarrow> Inr s1
      | Some restoreID \<Rightarrow>
          bindE (newAuditEventID h 0) (\<lambda>eventID.
          audit_tx h (mk_event eventID ''STOP_OPERATION_REQUESTED'' (st_RequestedAt operation)
            (st_PairID operation, valueOrEmpty (st_TaskID operation), valueOrEmpty (st_ContractID operation),
             valueOrEmpty (st_AttemptID operation)) (st_Actor operation)
            [(''stop_operation_id'', GString (st_OperationID operation)),
             (''purpose'', GString (stop_purpose_string (st_Purpose operation))),
             (''restore_operation_id'', GString restoreID),
             (''principal'', GString (valueOrEmpty (st_RestorePrincipal operation))),
             (''session_id'', GString (st_SessionID operation)),
             (''target_generation'', GString (st_TerminalGeneration operation))]) s1)))))"

section \<open>The transactions are sequences of writes\<close>

lemma UpdateWorkerSessionStatusAndQuarantine_keeps:
  "keeps sha s (UpdateWorkerSessionStatusAndQuarantine h pairID upd s)"
  unfolding UpdateWorkerSessionStatusAndQuarantine_def
  by (intro keeps_rules) (simp_all add: session_evolves_def)

lemma createStopOperationTx_keeps [keeps_rules]:
  "keeps (h_sha256 h) s (createStopOperationTx h operation obs s)"
  unfolding createStopOperationTx_def
  by (intro keeps_rules) (auto intro: store_write.w_stop_new)

interpretation session_cas: store_operation sha
    "\<lambda>(h, pairID, upd). UpdateWorkerSessionStatusAndQuarantine h pairID upd" for sha
  by unfold_locales (auto intro: keepsD [OF UpdateWorkerSessionStatusAndQuarantine_keeps])

interpretation create_stop_tx: store_operation "h_sha256 h"
    "\<lambda>(operation, obs). createStopOperationTx h operation obs" for h
  by unfold_locales (auto intro: keepsD [OF createStopOperationTx_keeps])

text \<open>What the insert of a stop has established.\<close>

lemma createStopOperationTx_guard:
  assumes "createStopOperationTx h operation obs s = Inr s'"
  shows "unresolved_restore s (st_PairID operation) \<longrightarrow>
      (\<exists>r. unresolved_restore_row s (st_PairID operation) = Some r \<and>
        st_RestoreOperationID operation = Some (ro_OperationID r) \<and>
        st_RestorePrincipal operation = ro_RecoveryPrincipal r \<and>
        ro_ResolutionState r = RestoreCleanupClaimed)"
    and "\<not> unresolved_restore s (st_PairID operation) \<longrightarrow>
      st_RestoreOperationID operation = None \<and> \<not> unresolved_provisioning s (st_PairID operation)"
proof -
  have row: "unresolved_restore s (st_PairID operation) \<longleftrightarrow>
      unresolved_restore_row s (st_PairID operation) \<noteq> None"
    by (auto simp: unresolved_restore_def unresolved_restore_row_def list_ex_iff find_None_iff)
  have own: "stop_ownership_check operation obs s = Inr ()"
    using assms by (auto simp: createStopOperationTx_def result_simps split: if_splits)
  show "unresolved_restore s (st_PairID operation) \<longrightarrow>
      (\<exists>r. unresolved_restore_row s (st_PairID operation) = Some r \<and>
        st_RestoreOperationID operation = Some (ro_OperationID r) \<and>
        st_RestorePrincipal operation = ro_RecoveryPrincipal r \<and>
        ro_ResolutionState r = RestoreCleanupClaimed)"
    unfolding row using own
    by (auto simp: stop_ownership_check_def null_string_def result_simps validNewGenerationMaintenance_def
        validOldGenerationCleanup_def split: if_splits option.splits)
  show "\<not> unresolved_restore s (st_PairID operation) \<longrightarrow>
      st_RestoreOperationID operation = None \<and> \<not> unresolved_provisioning s (st_PairID operation)"
    unfolding row using own
    by (auto simp: stop_ownership_check_def rejectUnresolvedProvisioning_def result_simps split: if_splits)
qed

end
