(* ===== verification/Stop_Store.thy ===== *)
theory Stop_Store
  imports Session_Store
begin

text \<open>
  The stop protocol of \<open>internal/store/stop_transactions.go\<close>: the reservation of a stop under
  double quarantine, the acceptance of the call with its deadline, the terminal outcomes with
  the closure of a live attempt, the precheck of a timeout owner, the classification of an
  abandoned stop, and the compatibility entry point \<open>UpdateStopOperationStage\<close>. The event ids
  a transaction draws are numbered in the order of the draws.
\<close>

section \<open>Shared parts\<close>

text \<open>\<open>details[k] = v\<close> for every pair of \<open>extra\<close>.\<close>

definition merge_details :: "(string \<times> goval) list \<Rightarrow> (string \<times> goval) list \<Rightarrow> (string \<times> goval) list" where
  "merge_details details extra = filter (\<lambda>(k, v). k \<notin> fst ` set extra) details @ extra"

definition appendStopAudit ::
  "host \<Rightarrow> nat \<Rightarrow> StopOperation \<Rightarrow> string \<Rightarrow> time \<Rightarrow> (string \<times> goval) list \<Rightarrow> db \<Rightarrow> store_error + db" where
  "appendStopAudit h k stop kind at extra s =
     bindE (newAuditEventID h k) (\<lambda>eventID.
     let details =
       [(''stop_operation_id'', GString (st_OperationID stop)),
        (''purpose'', GString (stop_purpose_string (st_Purpose stop))),
        (''session_id'', GString (st_SessionID stop)),
        (''target_generation'', GString (st_TerminalGeneration stop))] @
       (case st_InitiatingFailureReason stop of
          None \<Rightarrow> [] | Some r \<Rightarrow> [(''initiating_failure_reason'', GString r)]) @
       [(''restore_operation_id'',
          (case st_RestoreOperationID stop of None \<Rightarrow> GNil | Some r \<Rightarrow> GString r))]
     in audit_tx h (mk_event eventID kind at
          (st_PairID stop, valueOrEmpty (st_TaskID stop), valueOrEmpty (st_ContractID stop),
           valueOrEmpty (st_AttemptID stop)) (st_Actor stop) (merge_details details extra)) s)"

text \<open>The reader inside a transaction leaves two columns out.\<close>

definition getStopOperationTx :: "db \<Rightarrow> string \<Rightarrow> store_error + StopOperation" where
  "getStopOperationTx s operationID =
     require (map_option (\<lambda>p. p\<lparr>st_TerminationConfirmedAt := None, st_ResolvedAt := None\<rparr>)
       (stop_of s operationID)) ErrOperationNotFound"

definition guardStopRestoreOwner :: "db \<Rightarrow> StopOperation \<Rightarrow> store_error + unit" where
  "guardStopRestoreOwner s stop =
     (case unresolved_restore_row s (st_PairID stop) of
        None \<Rightarrow> ensure (st_RestoreOperationID stop = None) ErrStateConflict
      | Some r \<Rightarrow>
          ensure (st_RestoreOperationID stop = Some (ro_OperationID r) \<and>
            ro_ResolutionState r = RestoreCleanupClaimed) ErrQuarantinedExecution)"

section \<open>Reservation\<close>

text \<open>The immutable budget behind a timeout: budget, dispatch, attempt and session.\<close>

definition timeout_budget ::
  "db \<Rightarrow> StopOperation \<Rightarrow> string \<Rightarrow> string \<Rightarrow>
     (ExecutionBudget \<times> DispatchOperation \<times> TaskAttempt \<times> WorkerSession) option" where
  "timeout_budget s stop attemptID taskID =
     Option.bind (budget_of s attemptID) (\<lambda>b.
     Option.bind (find (\<lambda>d. d_OperationID d = b_DispatchOperationID b \<and> d_AttemptID d = b_AttemptID b \<and>
       d_PairID d = st_PairID stop \<and> d_TaskID d = taskID) (dispatch_operations s)) (\<lambda>d.
     Option.bind (attempt_of s (b_AttemptID b)) (\<lambda>a.
     map_option (\<lambda>w. (b, d, a, w)) (session_of s (d_PairID d)))))"

definition attempt_disposition_quiet :: "TaskAttempt \<Rightarrow> bool" where
  "attempt_disposition_quiet a \<longleftrightarrow>
     a_RecoveryDisposition a = None \<or> a_RecoveryDisposition a = Some ''AO_WAITING_INPUT_OBSERVED''"

definition timeout_admissible :: "db \<Rightarrow> StopOperation \<Rightarrow> string \<Rightarrow> string \<Rightarrow> store_error + unit" where
  "timeout_admissible s stop attemptID taskID =
     bindE (require (timeout_budget s stop attemptID taskID) ErrStateConflict) (\<lambda>(b, d, a, w).
     ensure (\<not> (b_Duration b \<le> 0 \<or> TrimSpace (b_PolicyRef b) = [] \<or>
         b_OriginAt b + b_Duration b \<noteq> b_DeadlineAt b \<or> d_Stage d \<noteq> SendConfirmed \<or>
         \<not> (a_QuarantineState a = QuarantineClean \<and> w_QuarantineState w = QuarantineClean \<and>
            attempt_disposition_quiet a \<and> w_SessionID w = st_SessionID stop \<and>
            w_TerminalGeneration w = st_TerminalGeneration stop) \<or>
         d_SessionID d \<noteq> st_SessionID stop \<or> d_TerminalGeneration d \<noteq> st_TerminalGeneration stop \<or>
         st_RequestedAt stop < b_DeadlineAt b)) ErrStateConflict)"

text \<open>What the purpose of a stop requires of its lineage.\<close>

definition stop_purpose_check :: "StopOperation \<Rightarrow> db \<Rightarrow> store_error + unit" where
  "stop_purpose_check stop s =
     (if st_Purpose stop = RunningAttemptStop then
        (case (st_AttemptID stop, st_TaskID stop, st_ContractID stop) of
           (Some attemptID, Some taskID, Some contractID) \<Rightarrow>
             bindE (require (find (\<lambda>t. t_TaskID t = taskID \<and> t_PairID t = st_PairID stop \<and>
                 list_ex (\<lambda>a. a_TaskID a = t_TaskID t \<and> a_AttemptNumber a = t_CurrentAttempt t \<and>
                   a_AttemptID a = attemptID \<and> a_ContractID a = contractID \<and> a_EndedAt a = None)
                   (task_attempts s)) (tasks s)) ErrAttemptLineageMismatch) (\<lambda>t.
             if t_State t \<noteq> StateRunning then Inl ErrStateConflict
             else if st_InitiatingFailureReason stop \<noteq> None then timeout_admissible s stop attemptID taskID
             else Inr ())
         | _ \<Rightarrow> Inl ErrAttemptLineageMismatch)
      else if st_Purpose stop = QuarantineCleanup then
        (case (st_AttemptID stop, st_TaskID stop, st_ContractID stop) of
           (Some attemptID, Some taskID, Some contractID) \<Rightarrow>
             bindE (require (find (\<lambda>t. t_TaskID t = taskID \<and> t_PairID t = st_PairID stop \<and>
                 list_ex (\<lambda>a. a_TaskID a = t_TaskID t \<and> a_AttemptID a = attemptID \<and>
                   a_ContractID a = contractID \<and> a_EndedAt a \<noteq> None \<and>
                   a_QuarantineState a = QuarantineQuarantined) (task_attempts s)) (tasks s))
               ErrAttemptLineageMismatch) (\<lambda>t.
             ensure (t_State t = StateFailed \<or> t_State t = StateHumanRequired) ErrAttemptLineageMismatch)
         | _ \<Rightarrow> Inl ErrAttemptLineageMismatch)
      else if st_Purpose stop \<noteq> PairMaintenance \<or> st_TaskID stop \<noteq> None \<or> st_ContractID stop \<noteq> None \<or>
        st_AttemptID stop \<noteq> None
      then Inl ErrAttemptLineageMismatch
      else Inr ())"

text \<open>The defaults a reservation fills in.\<close>

definition default_stop :: "host \<Rightarrow> StopOperation \<Rightarrow> StopOperation" where
  "default_stop h stop0 = stop0\<lparr>
     st_Stage := (if st_Stage stop0 = OtherStopStage [] then StopRequested else st_Stage stop0),
     st_ResolutionState := (if st_ResolutionState stop0 = OtherStopResolution []
       then StopResolutionInFlight else st_ResolutionState stop0),
     st_RequestedAt := now_if_zero h (st_RequestedAt stop0)\<rparr>"

lemma default_stop_simps [simp]:
  "st_OperationID (default_stop h p) = st_OperationID p" "st_Purpose (default_stop h p) = st_Purpose p"
  "st_PairID (default_stop h p) = st_PairID p" "st_TaskID (default_stop h p) = st_TaskID p"
  "st_ContractID (default_stop h p) = st_ContractID p" "st_AttemptID (default_stop h p) = st_AttemptID p"
  "st_SessionID (default_stop h p) = st_SessionID p"
  "st_TerminalGeneration (default_stop h p) = st_TerminalGeneration p"
  "st_Actor (default_stop h p) = st_Actor p"
  "st_RequestedAt (default_stop h p) = now_if_zero h (st_RequestedAt p)"
  "st_RestoreOperationID (default_stop h p) = st_RestoreOperationID p"
  "st_RestorePrincipal (default_stop h p) = st_RestorePrincipal p"
  "st_InitiatingFailureReason (default_stop h p) = st_InitiatingFailureReason p"
  by (simp_all add: default_stop_def)

definition ReserveStopOperation :: "host \<Rightarrow> StopOperation \<Rightarrow> db \<Rightarrow> store_error + db" where
  "ReserveStopOperation h stop0 s =
     (if st_RestoreOperationID stop0 \<noteq> None \<or> st_RestorePrincipal stop0 \<noteq> None \<or> st_OperationID stop0 = [] \<or>
        st_PairID stop0 = [] \<or> st_SessionID stop0 = [] \<or> st_TerminalGeneration stop0 = [] \<or> st_Actor stop0 = []
      then Inl ErrAttemptLineageMismatch
      else let stop = default_stop h stop0 in
      if st_Stage stop \<noteq> StopRequested \<or> st_ResolutionState stop \<noteq> StopResolutionInFlight
      then Inl ErrInvalidOperationTransition
      else if st_InitiatingFailureReason stop \<noteq> None \<and>
        (st_InitiatingFailureReason stop \<noteq> Some ''TIMEOUT'' \<or> st_Purpose stop \<noteq> RunningAttemptStop)
      then Inl ErrStateConflict
      else
      bindE (require (session_of s (st_PairID stop)) ErrAttemptLineageMismatch) (\<lambda>w.
      if w_SessionID w \<noteq> st_SessionID stop \<or> w_TerminalGeneration w \<noteq> st_TerminalGeneration stop
      then Inl ErrAttemptLineageMismatch
      else if pending_stop s (st_PairID stop) then Inl ErrStateConflict
      else
      bindE (stop_purpose_check stop s) (\<lambda>_.
      andThen (createStopOperationTx h stop [] s) (\<lambda>s1.
      andThen (operationCASResult
        (update_sessions (\<lambda>v. w_PairID v = st_PairID stop \<and> w_SessionID v = st_SessionID stop \<and>
             w_TerminalGeneration v = st_TerminalGeneration stop)
          (\<lambda>v. v\<lparr>w_QuarantineState := QuarantineQuarantined, w_UpdatedAt := st_RequestedAt stop\<rparr>) s1)) (\<lambda>s2.
      andThen (if st_Purpose stop = RunningAttemptStop
        then operationCASResult
          (update_attempts (\<lambda>a. Some (a_AttemptID a) = st_AttemptID stop \<and> Some (a_TaskID a) = st_TaskID stop \<and>
               Some (a_ContractID a) = st_ContractID stop \<and> a_SessionID a = Some (st_SessionID stop) \<and>
               a_TerminalGeneration a = Some (st_TerminalGeneration stop) \<and> a_EndedAt a = None)
            (\<lambda>a. a\<lparr>a_QuarantineState := QuarantineQuarantined\<rparr>) s2)
        else Inr s2) (\<lambda>s3.
      appendStopAudit h 0 stop ''STOP_OPERATION_REQUESTED'' (st_RequestedAt stop) [] s3))))))"

definition CreateStopOperation :: "host \<Rightarrow> StopOperation \<Rightarrow> db \<Rightarrow> store_error + db" where
  "CreateStopOperation h operation s = ReserveStopOperation h operation s"

section \<open>The precheck of a timeout owner\<close>

definition other_pending_stop :: "db \<Rightarrow> string \<Rightarrow> string \<Rightarrow> bool" where
  "other_pending_stop s pairID operationID \<longleftrightarrow>
     list_ex (\<lambda>p. st_PairID p = pairID \<and> st_OperationID p \<noteq> operationID \<and>
       pending_resolution (st_ResolutionState p)) (stop_operations s)"

definition unknown_delivery_on_pair :: "db \<Rightarrow> string \<Rightarrow> bool" where
  "unknown_delivery_on_pair s pairID \<longleftrightarrow>
     list_ex (\<lambda>d. d_PairID d = pairID \<and> d_ResolutionState d = Some ''DELIVERY_OUTCOME_UNKNOWN'')
       (dispatch_operations s)"

definition other_quarantined_attempt :: "db \<Rightarrow> string \<Rightarrow> string \<Rightarrow> bool" where
  "other_quarantined_attempt s pairID attemptID \<longleftrightarrow>
     list_ex (\<lambda>a. a_AttemptID a \<noteq> attemptID \<and> a_QuarantineState a = QuarantineQuarantined \<and>
       list_ex (\<lambda>t. t_TaskID t = a_TaskID a \<and> t_PairID t = pairID) (tasks s)) (task_attempts s)"

definition ValidateTimeoutEffectOwner :: "string \<Rightarrow> db \<Rightarrow> store_error + unit" where
  "ValidateTimeoutEffectOwner operationID s =
     bindE (getStopOperationTx s operationID) (\<lambda>stop.
     if st_InitiatingFailureReason stop \<noteq> Some ''TIMEOUT'' \<or> st_Purpose stop \<noteq> RunningAttemptStop \<or>
       st_Stage stop \<noteq> StopRequested \<or> st_ResolutionState stop \<noteq> StopResolutionInFlight
     then Inl ErrStateConflict
     else
     (case (st_TaskID stop, st_ContractID stop, st_AttemptID stop) of
        (Some taskID, Some contractID, Some attemptID) \<Rightarrow>
          ensure (
            list_ex (\<lambda>t. t_PairID t = st_PairID stop \<and> t_TaskID t = taskID \<and> t_State t = StateRunning \<and>
              list_ex (\<lambda>a. a_TaskID a = t_TaskID t \<and> a_AttemptNumber a = t_CurrentAttempt t \<and>
                a_AttemptID a = attemptID \<and> a_ContractID a = contractID \<and> a_EndedAt a = None \<and>
                attempt_disposition_quiet a \<and> a_QuarantineState a = QuarantineQuarantined \<and>
                a_SessionID a = Some (st_SessionID stop) \<and>
                a_TerminalGeneration a = Some (st_TerminalGeneration stop) \<and>
                list_ex (\<lambda>w. w_PairID w = t_PairID t \<and> w_SessionID w = st_SessionID stop \<and>
                  w_TerminalGeneration w = st_TerminalGeneration stop \<and>
                  w_QuarantineState w = QuarantineQuarantined) (worker_sessions s) \<and>
                list_ex (\<lambda>d. d_AttemptID d = a_AttemptID a \<and> d_Stage d = SendConfirmed \<and>
                  d_ResolutionState d = None) (dispatch_operations s)) (task_attempts s)) (tasks s) \<and>
            \<not> other_pending_stop s (st_PairID stop) operationID \<and>
            \<not> unresolved_restore s (st_PairID stop) \<and> \<not> unresolved_provisioning s (st_PairID stop) \<and>
            \<not> unknown_delivery_on_pair s (st_PairID stop) \<and>
            \<not> other_quarantined_attempt s (st_PairID stop) attemptID) ErrQuarantinedExecution
      | _ \<Rightarrow> Inl ErrStateConflict))"

section \<open>The call and its outcome\<close>

definition CommitStopCallAccepted :: "host \<Rightarrow> string \<Rightarrow> time \<Rightarrow> time \<Rightarrow> db \<Rightarrow> store_error + db" where
  "CommitStopCallAccepted h operationID callAt deadline s =
     (if IsZero callAt \<or> IsZero deadline \<or> \<not> callAt < deadline then Inl ErrStateConflict
      else
      bindE (getStopOperationTx s operationID) (\<lambda>stop.
      bindE (guardStopRestoreOwner s stop) (\<lambda>_.
      if st_Stage stop \<noteq> StopRequested \<or> st_ResolutionState stop \<noteq> StopResolutionInFlight
      then Inl ErrStateConflict
      else
      andThen (operationCASResult
        (update_stops (\<lambda>p. st_OperationID p = operationID \<and> st_Stage p = StopRequested \<and>
             st_ResolutionState p = StopResolutionInFlight \<and> st_CallCompletedAt p = None \<and>
             st_ConfirmationDeadlineAt p = None)
          (\<lambda>p. p\<lparr>st_Stage := StopCallSucceeded, st_CallCompletedAt := Some callAt,
                 st_ConfirmationDeadlineAt := Some deadline\<rparr>) s)) (\<lambda>s1.
      appendStopAudit h 0 stop ''STOP_OPERATION_CALL_SUCCEEDED'' callAt
        [(''call_completed_at'', GString (formatTime callAt)),
         (''confirmation_deadline_at'', GString (formatTime deadline))] s1))))"

record StopTerminalOutcome =
  so_ExpectedStage :: StopStage
  so_Stage :: StopStage
  so_Resolution :: StopResolutionState
  so_At :: time
  so_ObservedSessionID :: string
  so_ObservedGeneration :: string
  so_ObservedIsTerminated :: bool

definition validStopOutcome :: "StopTerminalOutcome \<Rightarrow> bool" where
  "validStopOutcome oc \<longleftrightarrow>
     (case so_Resolution oc of
        StopResolutionTerminationConfirmed \<Rightarrow>
          so_ExpectedStage oc = StopCallSucceeded \<and> so_Stage oc = StopTerminationConfirmed
      | StopResolutionTargetAbsent \<Rightarrow> so_Stage oc = StopTargetAbsent
      | StopResolutionCallFailed \<Rightarrow> so_ExpectedStage oc = StopRequested \<and> so_Stage oc = StopCallFailed
      | StopResolutionConfirmationTimeout \<Rightarrow>
          so_ExpectedStage oc = StopCallSucceeded \<and> so_Stage oc = StopCallSucceeded
      | StopResolutionGenerationMismatch \<Rightarrow> so_Stage oc = so_ExpectedStage oc
      | StopResolutionEffectUnprovenAlreadyTerminated \<Rightarrow>
          so_ExpectedStage oc = StopRequested \<and> so_Stage oc = StopRequested
      | StopResolutionCallOutcomeUnknown \<Rightarrow>
          so_ExpectedStage oc = StopRequested \<and> so_Stage oc = StopRequested
      | _ \<Rightarrow> False)"

definition stopOutcomeAuditType :: "StopTerminalOutcome \<Rightarrow> string" where
  "stopOutcomeAuditType oc =
     (case so_Resolution oc of
        StopResolutionTerminationConfirmed \<Rightarrow> ''STOP_OPERATION_CONFIRMED''
      | StopResolutionTargetAbsent \<Rightarrow> ''STOP_OPERATION_TARGET_ABSENT''
      | StopResolutionCallFailed \<Rightarrow> ''STOP_OPERATION_CALL_FAILED''
      | StopResolutionCallOutcomeUnknown \<Rightarrow> ''STOP_OPERATION_CALL_OUTCOME_UNKNOWN''
      | StopResolutionConfirmationTimeout \<Rightarrow> ''STOP_CONFIRMATION_TIMEOUT''
      | StopResolutionGenerationMismatch \<Rightarrow> ''STOP_OPERATION_RESOLVED''
      | StopResolutionEffectUnprovenAlreadyTerminated \<Rightarrow> ''STOP_OPERATION_RESOLVED''
      | _ \<Rightarrow> [])"

definition stopDisposition :: "StopTerminalOutcome \<Rightarrow> bool \<Rightarrow> string" where
  "stopDisposition oc physical =
     (if physical then ''WORKER_STOPPED''
      else case so_Resolution oc of
        StopResolutionTargetAbsent \<Rightarrow> ''SESSION_ABSENT''
      | StopResolutionConfirmationTimeout \<Rightarrow> ''STOP_CONFIRMATION_TIMEOUT''
      | StopResolutionGenerationMismatch \<Rightarrow> ''STOP_GENERATION_MISMATCH''
      | StopResolutionCallOutcomeUnknown \<Rightarrow> ''STOP_CALL_OUTCOME_UNKNOWN''
      | _ \<Rightarrow> ''WORKER_TERMINATION_UNKNOWN'')"

text \<open>Another risk on the pair keeps the session quarantined after a proven stop.\<close>

definition otherRisk :: "db \<Rightarrow> string \<Rightarrow> string \<Rightarrow> bool" where
  "otherRisk s pairID attemptID \<longleftrightarrow>
     other_quarantined_attempt s pairID attemptID \<or> unresolved_restore s pairID \<or>
     unknown_delivery_on_pair s pairID"

definition closeLiveStopTx ::
  "host \<Rightarrow> StopOperation \<Rightarrow> StopTerminalOutcome \<Rightarrow> bool \<Rightarrow> db \<Rightarrow> store_error + db" where
  "closeLiveStopTx h stop outcome physical s =
     (case (st_TaskID stop, st_ContractID stop, st_AttemptID stop) of
        (Some taskID, Some contractID, Some attemptID) \<Rightarrow>
          bindE (currentOpenAttemptLineage s taskID attemptID) (\<lambda>(pairID, contract).
          if pairID \<noteq> st_PairID stop \<or> contract \<noteq> contractID then Inl ErrAttemptLineageMismatch
          else
          bindE (require (attempt_of s attemptID) (SqlError SqlNoRows)) (\<lambda>a.
          if a_SessionID a \<noteq> Some (st_SessionID stop) \<or>
            a_TerminalGeneration a \<noteq> Some (st_TerminalGeneration stop)
          then Inl ErrAttemptLineageMismatch
          else let disposition = stopDisposition outcome physical; at = so_At outcome in
          andThen (operationCASResult
            (update_tasks (\<lambda>t. t_TaskID t = taskID \<and> t_PairID t = st_PairID stop \<and> t_State t = StateRunning)
              (\<lambda>t. t\<lparr>t_State := StateFailed, t_UpdatedAt := at\<rparr>) s)) (\<lambda>s1.
          andThen (operationCASResult
            (update_attempts (\<lambda>x. a_AttemptID x = attemptID \<and> a_TaskID x = taskID \<and>
                 a_ContractID x = contractID \<and> a_SessionID x = Some (st_SessionID stop) \<and>
                 a_TerminalGeneration x = Some (st_TerminalGeneration stop) \<and> a_EndedAt x = None \<and>
                 is_current_number s1 taskID (a_AttemptNumber x))
              (\<lambda>x. x\<lparr>a_EndedAt := Some at, a_RecoveryDisposition := Some disposition,
                     a_QuarantineState := (if physical then QuarantineClean else QuarantineQuarantined)\<rparr>) s1)) (\<lambda>s2.
          let clean = physical \<and> \<not> otherRisk s2 (st_PairID stop) attemptID in
          andThen (operationCASResult
            (update_sessions (\<lambda>w. w_PairID w = st_PairID stop \<and> w_SessionID w = st_SessionID stop \<and>
                 w_TerminalGeneration w = st_TerminalGeneration stop)
              (\<lambda>w. w\<lparr>w_Status := (if physical then WorkerSessionTerminated else w_Status w),
                     w_QuarantineState := (if clean then QuarantineClean else QuarantineQuarantined),
                     w_UpdatedAt := at\<rparr>) s2)) (\<lambda>s3.
          bindE (newAuditEventID h 1) (\<lambda>eventID.
          andThen (audit_tx h (mk_event eventID ''TASK_STATE_TRANSITION'' at
              (st_PairID stop, taskID, contractID, attemptID) (st_Actor stop)
              [(''from_state'', GString ''RUNNING''), (''to_state'', GString ''FAILED''),
               (''failure_reason'', GString (case st_InitiatingFailureReason stop of
                  None \<Rightarrow> disposition | Some r \<Rightarrow> r)),
               (''recovery_disposition'', GString disposition),
               (''stop_operation_id'', GString (st_OperationID stop))]) s3) (\<lambda>s4.
          if \<not> physical then Inr s4
          else
          andThen (appendStopAudit h 2 stop ''QUARANTINE_RESOLVED_PHYSICAL'' at
              [(''lineage'', GString ''attempt''), (''attempt_id'', GString attemptID)] s4) (\<lambda>s5.
          if \<not> clean then Inr s5
          else appendStopAudit h 3 stop ''QUARANTINE_RESOLVED_PHYSICAL'' at
              [(''lineage'', GString ''worker_session'')] s5))))))))
      | _ \<Rightarrow> Inl ErrAttemptLineageMismatch)"

text \<open>A proven physical termination, and the outcomes that rest on an exact observation.\<close>

definition physical_outcome :: "StopTerminalOutcome \<Rightarrow> bool" where
  "physical_outcome oc \<longleftrightarrow>
     so_Stage oc = StopTerminationConfirmed \<and> so_Resolution oc = StopResolutionTerminationConfirmed"

definition physical_proof :: "StopOperation \<Rightarrow> StopTerminalOutcome \<Rightarrow> bool" where
  "physical_proof stop oc \<longleftrightarrow>
     so_ExpectedStage oc = StopCallSucceeded \<and>
     (case st_CallCompletedAt stop of None \<Rightarrow> False | Some c \<Rightarrow> c \<le> so_At oc) \<and>
     (case st_ConfirmationDeadlineAt stop of None \<Rightarrow> False | Some d \<Rightarrow> so_At oc < d) \<and>
     so_ObservedIsTerminated oc \<and> so_ObservedSessionID oc = st_SessionID stop \<and>
     so_ObservedGeneration oc = st_TerminalGeneration stop"

definition logicalResolution :: "StopTerminalOutcome \<Rightarrow> bool" where
  "logicalResolution oc \<longleftrightarrow>
     so_Resolution oc = StopResolutionGenerationMismatch \<or>
     so_Resolution oc = StopResolutionEffectUnprovenAlreadyTerminated"

definition logical_refuted :: "StopOperation \<Rightarrow> StopTerminalOutcome \<Rightarrow> bool" where
  "logical_refuted stop oc \<longleftrightarrow>
     so_ObservedSessionID oc \<noteq> st_SessionID stop \<or> so_ObservedGeneration oc = [] \<or>
     (so_Resolution oc = StopResolutionGenerationMismatch \<and>
        so_ObservedGeneration oc = st_TerminalGeneration stop) \<or>
     (so_Resolution oc = StopResolutionEffectUnprovenAlreadyTerminated \<and>
        (\<not> so_ObservedIsTerminated oc \<or> so_ObservedGeneration oc \<noteq> st_TerminalGeneration stop))"

definition stop_outcome_details :: "StopOperation \<Rightarrow> StopTerminalOutcome \<Rightarrow> (string \<times> goval) list" where
  "stop_outcome_details stop oc =
     [(''resolution_state'', GString (stop_resolution_string (so_Resolution oc)))] @
     (if logicalResolution oc then
        [(''pair_id'', GString (st_PairID stop)), (''task_id'', GString (valueOrEmpty (st_TaskID stop))),
         (''contract_id'', GString (valueOrEmpty (st_ContractID stop))),
         (''attempt_id'', GString (valueOrEmpty (st_AttemptID stop))),
         (''old_stage'', GString (stop_stage_string (st_Stage stop))),
         (''new_stage'', GString (stop_stage_string (so_Stage oc))),
         (''old_resolution'', GString (stop_resolution_string (st_ResolutionState stop))),
         (''new_resolution'', GString (stop_resolution_string (so_Resolution oc))),
         (''observed_session_id'', GString (so_ObservedSessionID oc)),
         (''observed_generation'', GString (so_ObservedGeneration oc)),
         (''is_terminated'', GBool (so_ObservedIsTerminated oc)), (''actor'', GString (st_Actor stop))]
      else []) @
     (if physical_outcome oc then
        [(''confirmation_deadline_at'',
            GString (case st_ConfirmationDeadlineAt stop of None \<Rightarrow> [] | Some d \<Rightarrow> formatTime d)),
         (''termination_confirmed_at'', GString (formatTime (so_At oc))),
         (''observed_session_id'', GString (so_ObservedSessionID oc)),
         (''observed_generation'', GString (so_ObservedGeneration oc)), (''is_terminated'', GBool True)]
      else [])"

definition CommitStopOutcome :: "host \<Rightarrow> string \<Rightarrow> StopTerminalOutcome \<Rightarrow> db \<Rightarrow> store_error + db" where
  "CommitStopOutcome h operationID outcome s =
     (if IsZero (so_At outcome) then Inl ErrStateConflict
      else
      bindE (getStopOperationTx s operationID) (\<lambda>stop.
      bindE (guardStopRestoreOwner s stop) (\<lambda>_.
      if st_Stage stop \<noteq> so_ExpectedStage outcome \<or> st_ResolutionState stop \<noteq> StopResolutionInFlight \<or>
        \<not> validStopTransition (so_ExpectedStage outcome) (so_Stage outcome)
      then Inl ErrStateConflict
      else if physical_outcome outcome \<and> \<not> physical_proof stop outcome then Inl ErrStateConflict
      else if \<not> physical_outcome outcome \<and>
        (so_Stage outcome = StopTerminationConfirmed \<or>
         so_Resolution outcome = StopResolutionTerminationConfirmed)
      then Inl ErrStateConflict
      else if logicalResolution outcome \<and> logical_refuted stop outcome then Inl ErrStateConflict
      else if \<not> validStopOutcome outcome then Inl ErrInvalidOperationTransition
      else let physical = physical_outcome outcome in
      andThen (operationCASResult
        (update_stops (\<lambda>p. st_OperationID p = operationID \<and> st_Stage p = so_ExpectedStage outcome \<and>
             st_ResolutionState p = StopResolutionInFlight)
          (\<lambda>p. p\<lparr>st_Stage := so_Stage outcome, st_ResolutionState := so_Resolution outcome,
                 st_ResolvedAt := Some (so_At outcome),
                 st_TerminationConfirmedAt := (if physical then Some (so_At outcome) else None)\<rparr>) s)) (\<lambda>s1.
      andThen (if stopOutcomeAuditType outcome = [] then Inr s1
        else appendStopAudit h 0 stop (stopOutcomeAuditType outcome) (so_At outcome)
          (stop_outcome_details stop outcome) s1) (\<lambda>s2.
      if st_Purpose stop = RunningAttemptStop then closeLiveStopTx h stop outcome physical s2
      else
      bindE (require (find (\<lambda>w. w_PairID w = st_PairID stop \<and> w_SessionID w = st_SessionID stop)
        (worker_sessions s2)) (SqlError SqlNoRows)) (\<lambda>w.
      if w_TerminalGeneration w = st_TerminalGeneration stop then
        operationCASResult
          (update_sessions (\<lambda>v. w_PairID v = st_PairID stop \<and> w_SessionID v = st_SessionID stop \<and>
               w_TerminalGeneration v = st_TerminalGeneration stop)
            (\<lambda>v. v\<lparr>w_Status := (if physical then WorkerSessionTerminated else w_Status v),
                   w_QuarantineState := QuarantineQuarantined, w_UpdatedAt := so_At outcome\<rparr>) s2)
      else if st_RestoreOperationID stop = None \<or> st_Purpose stop \<noteq> QuarantineCleanup
      then Inl ErrAttemptLineageMismatch
      else Inr s2))))))"

section \<open>Abandoned stops\<close>

definition ClassifyAbandonedStopAlive where
  "ClassifyAbandonedStopAlive h operationID sessionID generation actor invocation at s =
     (if operationID = [] \<or> sessionID = [] \<or> generation = [] \<or> actor = [] \<or> IsZero at
      then Inl ErrStateConflict
      else
      bindE (getStopOperationTx s operationID) (\<lambda>stop.
      if st_SessionID stop \<noteq> sessionID \<or> st_TerminalGeneration stop \<noteq> generation
      then Inl ErrStateConflict
      else if st_Stage stop = StopRequested \<and> st_ResolutionState stop = StopResolutionReissueRequiresHuman
      then Inr s
      else if st_Stage stop \<noteq> StopRequested \<or> st_ResolutionState stop \<noteq> StopResolutionInFlight
      then Inl ErrStateConflict
      else
      bindE (guardStopRestoreOwner s stop) (\<lambda>_.
      andThen (operationCASResult
        (update_stops (\<lambda>p. st_OperationID p = operationID \<and> st_Stage p = StopRequested \<and>
             st_ResolutionState p = StopResolutionInFlight \<and> st_Purpose p = st_Purpose stop \<and>
             st_PairID p = st_PairID stop \<and> st_SessionID p = st_SessionID stop \<and>
             st_TerminalGeneration p = st_TerminalGeneration stop \<and>
             valueOrEmpty (st_TaskID p) = valueOrEmpty (st_TaskID stop) \<and>
             valueOrEmpty (st_ContractID p) = valueOrEmpty (st_ContractID stop) \<and>
             valueOrEmpty (st_AttemptID p) = valueOrEmpty (st_AttemptID stop) \<and>
             valueOrEmpty (st_RestoreOperationID p) = valueOrEmpty (st_RestoreOperationID stop))
          (\<lambda>p. p\<lparr>st_ResolutionState := StopResolutionReissueRequiresHuman, st_ResolvedAt := Some at\<rparr>) s)) (\<lambda>s1.
      appendStopAudit h 0 stop ''STOP_OPERATION_RESOLVED'' at
        [(''old_stage'', GString ''STOP_REQUESTED''), (''new_stage'', GString ''STOP_REQUESTED''),
         (''old_resolution'', GString ''IN_FLIGHT''),
         (''new_resolution'', GString ''STOP_REISSUE_REQUIRES_HUMAN''),
         (''observed_session_id'', GString sessionID), (''observed_generation'', GString generation),
         (''is_terminated'', GBool False), (''observation_source'', GString ''GetWorkerStatus''),
         (''observation_time'', GString (formatTime at)),
         (''reason'', GString ''AUTOMATIC_REISSUE_PROHIBITED''),
         (''recovery_invocation'', GString invocation), (''actor'', GString actor)] s1))))"

section \<open>The compatibility entry point\<close>

record StopStageUpdate =
  su_ExpectedResolutionState :: StopResolutionState
  su_CallCompletedAt :: "time option"
  su_ConfirmationDeadlineAt :: "time option"
  su_TerminationConfirmedAt :: "time option"
  su_ResolvedAt :: "time option"
  su_ResolutionState :: "StopResolutionState option"
  su_ObservedSessionID :: string
  su_ObservedGeneration :: string
  su_ObservedIsTerminated :: bool

definition UpdateStopOperationStage ::
  "host \<Rightarrow> string \<Rightarrow> StopStage \<Rightarrow> StopStage \<Rightarrow> StopStageUpdate \<Rightarrow> db \<Rightarrow> store_error + db" where
  "UpdateStopOperationStage h operationID expected nxt upd s =
     (if \<not> validStopTransition expected nxt then Inl ErrInvalidOperationTransition
      else if expected = StopRequested \<and> nxt = StopCallSucceeded then
        (case (su_CallCompletedAt upd, su_ConfirmationDeadlineAt upd) of
           (Some callAt, Some deadline) \<Rightarrow>
             if su_ResolvedAt upd \<noteq> None \<or> su_TerminationConfirmedAt upd \<noteq> None \<or>
               (su_ResolutionState upd \<noteq> None \<and> su_ResolutionState upd \<noteq> Some StopResolutionInFlight)
             then Inl ErrStateConflict
             else CommitStopCallAccepted h operationID callAt deadline s
         | _ \<Rightarrow> Inl ErrStateConflict)
      else if expected = StopCallSucceeded \<and> nxt = StopCallSucceeded \<and> su_ResolutionState upd = None then
        (if su_CallCompletedAt upd = None \<or> su_ConfirmationDeadlineAt upd = None \<or>
           su_ResolvedAt upd \<noteq> None \<or> su_TerminationConfirmedAt upd \<noteq> None
         then Inl ErrStateConflict
         else
         bindE (GetStopOperation s operationID) (\<lambda>stop.
         if st_Stage stop \<noteq> StopCallSucceeded \<or> st_ResolutionState stop \<noteq> StopResolutionInFlight \<or>
           st_CallCompletedAt stop \<noteq> su_CallCompletedAt upd \<or>
           st_ConfirmationDeadlineAt stop \<noteq> su_ConfirmationDeadlineAt upd
         then Inl ErrStateConflict
         else Inr s))
      else if su_ResolutionState upd = Some StopResolutionInFlight then Inl ErrStateConflict
      else
      (case su_ResolutionState upd of
         None \<Rightarrow> Inl ErrAtomicDispatchRequired
       | Some resolution \<Rightarrow>
           if (su_ExpectedResolutionState upd \<noteq> OtherStopResolution [] \<and>
               su_ExpectedResolutionState upd \<noteq> StopResolutionInFlight) \<or>
             su_CallCompletedAt upd \<noteq> None \<or> su_ConfirmationDeadlineAt upd \<noteq> None
           then Inl ErrAtomicDispatchRequired
           else let at = (case su_TerminationConfirmedAt upd of
                            Some t \<Rightarrow> t
                          | None \<Rightarrow> (case su_ResolvedAt upd of Some t \<Rightarrow> t | None \<Rightarrow> h_now h)) in
           CommitStopOutcome h operationID
             \<lparr>so_ExpectedStage = expected, so_Stage = nxt, so_Resolution = resolution, so_At = at,
              so_ObservedSessionID = su_ObservedSessionID upd,
              so_ObservedGeneration = su_ObservedGeneration upd,
              so_ObservedIsTerminated = su_ObservedIsTerminated upd\<rparr> s))"

section \<open>The transactions are sequences of writes\<close>

lemma appendStopAudit_keeps [keeps_rules]:
  "keeps (h_sha256 h) s (appendStopAudit h k stop kind at extra s)"
  unfolding appendStopAudit_def Let_def by (intro keeps_rules)

lemma ReserveStopOperation_keeps: "keeps (h_sha256 h) s (ReserveStopOperation h stop s)"
  unfolding ReserveStopOperation_def Let_def
  by (intro keeps_rules) (simp_all add: session_evolves_def attempt_evolves_def)

lemma CommitStopCallAccepted_keeps:
  "keeps (h_sha256 h) s (CommitStopCallAccepted h operationID callAt deadline s)"
  unfolding CommitStopCallAccepted_def
  by (intro keeps_rules) (simp add: stop_evolves_def)

lemma closeLiveStopTx_keeps [keeps_rules]:
  "keeps (h_sha256 h) s (closeLiveStopTx h stop outcome physical s)"
  unfolding closeLiveStopTx_def Let_def
  by (intro keeps_rules writes_tasks [where tid = "the (st_TaskID stop)"])
    (auto simp: session_evolves_def attempt_evolves_def workflow_defs active_lane_def executing_def
      elim!: operationCASResult_closable)

lemma CommitStopOutcome_keeps: "keeps (h_sha256 h) s (CommitStopOutcome h operationID outcome s)"
  unfolding CommitStopOutcome_def Let_def
  by (intro keeps_rules) (simp_all add: stop_evolves_def session_evolves_def)

lemma ClassifyAbandonedStopAlive_keeps:
  "keeps (h_sha256 h) s (ClassifyAbandonedStopAlive h oid sid gen actor invocation at s)"
  unfolding ClassifyAbandonedStopAlive_def
  by (intro keeps_rules) (simp add: stop_evolves_def)

lemma UpdateStopOperationStage_keeps:
  "keeps (h_sha256 h) s (UpdateStopOperationStage h oid expected nxt upd s)"
  unfolding UpdateStopOperationStage_def Let_def
  by (intro keeps_rules CommitStopCallAccepted_keeps CommitStopOutcome_keeps)

interpretation reserve_stop: store_operation "h_sha256 h" "ReserveStopOperation h" for h
  by unfold_locales (auto intro: keepsD [OF ReserveStopOperation_keeps])

interpretation stop_call_accepted: store_operation "h_sha256 h"
    "\<lambda>(operationID, callAt, deadline). CommitStopCallAccepted h operationID callAt deadline" for h
  by unfold_locales (auto intro: keepsD [OF CommitStopCallAccepted_keeps])

interpretation stop_outcome: store_operation "h_sha256 h"
    "\<lambda>(operationID, outcome). CommitStopOutcome h operationID outcome" for h
  by unfold_locales (auto intro: keepsD [OF CommitStopOutcome_keeps])

interpretation abandoned_stop: store_operation "h_sha256 h"
    "\<lambda>(oid, sid, gen, actor, invocation, at).
       ClassifyAbandonedStopAlive h oid sid gen actor invocation at" for h
  by unfold_locales (auto intro: keepsD [OF ClassifyAbandonedStopAlive_keeps])

interpretation stop_stage: store_operation "h_sha256 h"
    "\<lambda>(oid, expected, nxt, upd). UpdateStopOperationStage h oid expected nxt upd" for h
  by unfold_locales (auto intro: keepsD [OF UpdateStopOperationStage_keeps])

end
