(* ===== verification/Recovery_Store.thy ===== *)
theory Recovery_Store
  imports Stop_Store "HOL-Library.List_Lexorder" "HOL-Library.Char_ord"
begin

text \<open>
  \<open>internal/store/recovery_transactions.go\<close>: the snapshot that the recovery sweep works on, the
  transactions that record an outage or an observation of a sent attempt, and the classification
  of interrupted restores and provisionings. \<open>ORDER BY\<close> on a text column compares bytes, which
  is the lexicographic order on strings. A row that \<open>QueryRow\<close> does not find is the plain
  driver error where the code does not map it.
\<close>

fun dispatch_stage_string :: "DispatchStage \<Rightarrow> string" where
  "dispatch_stage_string DispatchBound = ''DISPATCH_BOUND''"
| "dispatch_stage_string SendRequested = ''SEND_REQUESTED''"
| "dispatch_stage_string SendConfirmed = ''SEND_CONFIRMED''"
| "dispatch_stage_string (OtherDispatchStage x) = x"

section \<open>The snapshot\<close>

record RecoveryExecution =
  re_OperationID :: string
  re_PairID :: string
  re_TaskID :: string
  re_ContractID :: string
  re_AttemptID :: string
  re_SessionID :: string
  re_Generation :: string
  re_TaskState :: TaskState
  re_DispatchStage :: DispatchStage
  re_Disposition :: "string option"

record RecoveryStop =
  rs_OperationID :: string
  rs_Stage :: StopStage
  rs_Purpose :: StopPurpose
  rs_SessionID :: string
  rs_Generation :: string

record RecoverySnapshot =
  sn_RestoreIDs :: "string list"
  sn_ProvisionIDs :: "string list"
  sn_StopOwnedAttemptIDs :: "string list"
  sn_Executions :: "RecoveryExecution list"
  sn_StopOperations :: "RecoveryStop list"
  sn_Blocked :: "RecoveryExecution list"

text \<open>
  The current attempt of a task, \<open>a.task_id=t.task_id AND a.attempt_number=t.current_attempt\<close>, and
  the join of a dispatch with its task and the task's current attempt.
\<close>

definition current_attempt_row :: "db \<Rightarrow> Task \<Rightarrow> TaskAttempt option" where
  "current_attempt_row s t =
     find (\<lambda>a. a_TaskID a = t_TaskID t \<and> a_AttemptNumber a = t_CurrentAttempt t) (task_attempts s)"

definition execution_join :: "db \<Rightarrow> DispatchOperation \<Rightarrow> (Task \<times> TaskAttempt) option" where
  "execution_join s d =
     Option.bind (task_of s (d_TaskID d)) (\<lambda>t.
     Option.bind (attempt_of s (d_AttemptID d)) (\<lambda>a.
     if a_TaskID a = t_TaskID t \<and> a_AttemptNumber a = t_CurrentAttempt t then Some (t, a) else None))"

definition execution_row :: "DispatchOperation \<Rightarrow> Task \<Rightarrow> TaskAttempt \<Rightarrow> RecoveryExecution" where
  "execution_row d t a =
     \<lparr>re_OperationID = d_OperationID d, re_PairID = d_PairID d, re_TaskID = d_TaskID d,
      re_ContractID = a_ContractID a, re_AttemptID = d_AttemptID d, re_SessionID = d_SessionID d,
      re_Generation = d_TerminalGeneration d, re_TaskState = t_State t, re_DispatchStage = d_Stage d,
      re_Disposition = a_RecoveryDisposition a\<rparr>"

text \<open>A task whose state claims an execution that the lifecycle rows do not carry.\<close>

definition inconsistent_execution :: "db \<Rightarrow> Task \<Rightarrow> bool" where
  "inconsistent_execution s t \<longleftrightarrow>
     (t_State t = StateDispatched \<or> t_State t = StateRunning \<or> t_State t = StateBlocked) \<and>
     (case current_attempt_row s t of
        None \<Rightarrow> True
      | Some a \<Rightarrow>
          a_EndedAt a \<noteq> None \<or> a_SessionID a = None \<or> a_TerminalGeneration a = None \<or>
          (case find (\<lambda>d. d_AttemptID d = a_AttemptID a \<and> d_TaskID d = t_TaskID t \<and>
              d_PairID d = t_PairID t) (dispatch_operations s) of
             None \<Rightarrow> True
           | Some d \<Rightarrow> (t_State t = StateRunning \<or> t_State t = StateBlocked) \<and> d_Stage d \<noteq> SendConfirmed))"

definition recovery_candidate :: "DispatchOperation \<Rightarrow> Task \<Rightarrow> TaskAttempt \<Rightarrow> bool" where
  "recovery_candidate d t a \<longleftrightarrow>
     a_EndedAt a = None \<and>
     (t_State t = StateDispatched \<and>
        (d_Stage d = DispatchBound \<or> d_Stage d = SendRequested \<and> d_ResolutionState d = None \<or>
         d_Stage d = SendConfirmed) \<or>
      t_State t = StateRunning \<and> d_Stage d = SendConfirmed)"

definition executions_where ::
  "(DispatchOperation \<Rightarrow> Task \<Rightarrow> TaskAttempt \<Rightarrow> bool) \<Rightarrow> db \<Rightarrow> RecoveryExecution list" where
  "executions_where P s =
     sort_key re_OperationID (List.map_filter (\<lambda>d.
       Option.bind (execution_join s d) (\<lambda>(t, a). if P d t a then Some (execution_row d t a) else None))
       (dispatch_operations s))"

definition blocked_row :: "db \<Rightarrow> Task \<Rightarrow> RecoveryExecution option" where
  "blocked_row s t =
     Option.bind (current_attempt_row s t) (\<lambda>a.
     if t_State t = StateBlocked \<and> a_EndedAt a = None
     then Some \<lparr>re_OperationID = [], re_PairID = t_PairID t, re_TaskID = t_TaskID t,
        re_ContractID = a_ContractID a, re_AttemptID = a_AttemptID a,
        re_SessionID = valueOrEmpty (a_SessionID a), re_Generation = valueOrEmpty (a_TerminalGeneration a),
        re_TaskState = t_State t, re_DispatchStage = OtherDispatchStage [],
        re_Disposition = a_RecoveryDisposition a\<rparr>
     else None)"

definition ListRecoverySnapshot :: "db \<Rightarrow> store_error + RecoverySnapshot" where
  "ListRecoverySnapshot s =
     (if list_ex (inconsistent_execution s) (tasks s) then Inl ErrInconsistentPersistedState
      else Inr
        \<lparr>sn_RestoreIDs = sort (map ro_OperationID
           (filter (\<lambda>r. ro_ResolutionState r = RestoreInFlight \<and>
              (ro_Stage r = ''RESTORE_REQUESTED'' \<or> ro_Stage r = ''RESTORE_CONFIRMED''))
             (pair_restore_operations s))),
         sn_ProvisionIDs = sort (map pv_OperationID
           (filter (\<lambda>p. pv_Stage p = ProvisionRequested) (pair_provisioning_operations s))),
         sn_StopOwnedAttemptIDs = sort (remdups (List.map_filter (\<lambda>p.
           Option.bind (st_AttemptID p) (\<lambda>aid.
             if st_Purpose p = RunningAttemptStop \<and>
               list_ex (\<lambda>a. a_AttemptID a = aid \<and> a_EndedAt a = None) (task_attempts s)
             then Some aid else None)) (stop_operations s))),
         sn_Executions = executions_where recovery_candidate s,
         sn_StopOperations = sort_key rs_OperationID (map (\<lambda>p.
             \<lparr>rs_OperationID = st_OperationID p, rs_Stage = st_Stage p, rs_Purpose = st_Purpose p,
              rs_SessionID = st_SessionID p, rs_Generation = st_TerminalGeneration p\<rparr>)
           (filter (\<lambda>p. st_ResolutionState p = StopResolutionInFlight \<and>
              (st_Stage p = StopRequested \<or> st_Stage p = StopCallSucceeded)) (stop_operations s))),
         sn_Blocked = sort_key re_TaskID (List.map_filter (blocked_row s) (tasks s))\<rparr>)"

definition ListOpenConfirmedWithoutBudget :: "db \<Rightarrow> RecoveryExecution list" where
  "ListOpenConfirmedWithoutBudget s =
     sort_key re_OperationID (List.map_filter (\<lambda>d.
       Option.bind (attempt_of s (d_AttemptID d)) (\<lambda>a.
       Option.bind (task_of s (a_TaskID a)) (\<lambda>t.
         if t_CurrentAttempt t = a_AttemptNumber a \<and> a_EndedAt a = None \<and> d_Stage d = SendConfirmed \<and>
           (t_State t = StateDispatched \<or> t_State t = StateRunning) \<and>
           \<not> list_ex (\<lambda>b. b_AttemptID b = a_AttemptID a) (attempt_execution_budgets s)
         then Some (execution_row d t a) else None))) (dispatch_operations s))"

section \<open>Sweep events and outages\<close>

definition RecordRecoverySweepEvent ::
  "host \<Rightarrow> string \<Rightarrow> string \<Rightarrow> string \<Rightarrow> time \<Rightarrow> db \<Rightarrow> store_error + db" where
  "RecordRecoverySweepEvent h invocationID actor event at0 s =
     (if invocationID = [] \<or> actor = [] \<or>
        (event \<noteq> ''STARTUP_RECOVERY_SWEEP_STARTED'' \<and> event \<noteq> ''STARTUP_RECOVERY_SWEEP_COMPLETED'')
      then Inl ErrStateConflict
      else let at = now_if_zero h at0 in
      bindE (newAuditEventID h 0) (\<lambda>eventID.
      audit_tx h (mk_event eventID event at ([], [], [], []) actor
        [(''invocation_id'', GString invocationID), (''classification_only'', GBool True)]) s))"

definition sameRecoveryExecution :: "RecoveryExecution \<Rightarrow> RecoveryExecution \<Rightarrow> bool" where
  "sameRecoveryExecution a b \<longleftrightarrow>
     re_OperationID a = re_OperationID b \<and> re_PairID a = re_PairID b \<and> re_TaskID a = re_TaskID b \<and>
     re_ContractID a = re_ContractID b \<and> re_AttemptID a = re_AttemptID b \<and>
     re_SessionID a = re_SessionID b \<and> re_Generation a = re_Generation b \<and>
     re_TaskState a = re_TaskState b \<and> re_DispatchStage a = re_DispatchStage b \<and>
     re_Disposition a = re_Disposition b"

definition guardStopOwnedExecutionTx :: "db \<Rightarrow> RecoveryExecution \<Rightarrow> store_error + unit" where
  "guardStopOwnedExecutionTx s x =
     ensure (\<not> list_ex (\<lambda>p. st_Purpose p = RunningAttemptStop \<and> st_PairID p = re_PairID x \<and>
         st_TaskID p = Some (re_TaskID x) \<and> st_ContractID p = Some (re_ContractID x) \<and>
         st_AttemptID p = Some (re_AttemptID x) \<and> st_SessionID p = re_SessionID x \<and>
         st_TerminalGeneration p = re_Generation x) (stop_operations s)) ErrStateConflict"

text \<open>The open execution of a dispatch, under a further condition on the dispatch row.\<close>

definition open_execution :: "(DispatchOperation \<Rightarrow> bool) \<Rightarrow> db \<Rightarrow> string \<Rightarrow> RecoveryExecution option" where
  "open_execution Q s operationID =
     Option.bind (dispatch_of s operationID) (\<lambda>d.
     Option.bind (execution_join s d) (\<lambda>(t, a).
       if a_EndedAt a = None \<and> Q d then Some (execution_row d t a) else None))"

definition RecordPostSendOutage ::
  "host \<Rightarrow> RecoveryExecution \<Rightarrow> string \<Rightarrow> string \<Rightarrow> string \<Rightarrow> time \<Rightarrow> db \<Rightarrow> store_error + db" where
  "RecordPostSendOutage h expected actor classification invocation at s =
     (if re_OperationID expected = [] \<or> actor = [] \<or> IsZero at then Inl ErrStateConflict
      else
      bindE (require (open_execution (\<lambda>_. True) s (re_OperationID expected)) (SqlError SqlNoRows)) (\<lambda>current.
      if \<not> sameRecoveryExecution current expected \<or> re_DispatchStage current \<noteq> SendConfirmed \<or>
        (re_TaskState current \<noteq> StateDispatched \<and> re_TaskState current \<noteq> StateRunning)
      then Inl ErrStateConflict
      else
      bindE (guardStopOwnedExecutionTx s current) (\<lambda>_.
      bindE (require (session_of s (re_PairID current)) (SqlError SqlNoRows)) (\<lambda>w.
      if w_SessionID w \<noteq> re_SessionID current \<or> w_TerminalGeneration w \<noteq> re_Generation current
      then Inl ErrAttemptLineageMismatch
      else
      (case re_Disposition current of
         Some disposition \<Rightarrow>
           if disposition = ''RECOVERY_PENDING'' then Inr s else Inl ErrStateConflict
       | None \<Rightarrow>
           andThen (operationCASResult
             (update_attempts (\<lambda>a. a_AttemptID a = re_AttemptID current \<and> a_TaskID a = re_TaskID current \<and>
                  a_ContractID a = re_ContractID current \<and> a_SessionID a = Some (re_SessionID current) \<and>
                  a_TerminalGeneration a = Some (re_Generation current) \<and> a_EndedAt a = None \<and>
                  a_RecoveryDisposition a = None \<and>
                  is_current_number s (re_TaskID current) (a_AttemptNumber a))
               (\<lambda>a. a\<lparr>a_RecoveryDisposition := Some ''RECOVERY_PENDING''\<rparr>) s)) (\<lambda>s1.
           bindE (newAuditEventID h 0) (\<lambda>eventID.
           audit_tx h (mk_event eventID ''POST_SEND_RECOVERY_PENDING'' at
             (re_PairID current, re_TaskID current, re_ContractID current, re_AttemptID current) actor
             [(''dispatch_operation_id'', GString (re_OperationID current)),
              (''dispatch_stage'', GString (dispatch_stage_string (re_DispatchStage current))),
              (''session_id'', GString (re_SessionID current)),
              (''generation'', GString (re_Generation current)),
              (''old_task_state'', GString (task_state_string (re_TaskState current))),
              (''new_task_state'', GString (task_state_string (re_TaskState current))),
              (''old_disposition'', GNil), (''new_disposition'', GString ''RECOVERY_PENDING''),
              (''observation_time'', GString (formatTime at)),
              (''observation_source'', GString ''GetWorkerStatus''),
              (''error_classification'', GString classification),
              (''recovery_invocation'', GString invocation)]) s1)))))))"

section \<open>Observations\<close>

record PostSendObservation =
  po_SessionID :: string
  po_Generation :: string
  po_Activity :: string
  po_Terminated :: bool
  po_Absent :: bool
  po_HandoffAvailable :: bool

text \<open>The decision table of \<open>ObservePostSend\<close>: the closing disposition, if any.\<close>

definition terminalDisposition :: "RecoveryExecution \<Rightarrow> PostSendObservation \<Rightarrow> string option" where
  "terminalDisposition current observed =
     (if po_Absent observed then Some ''SESSION_ABSENT''
      else if po_Generation observed \<noteq> re_Generation current then Some ''STALE_EXECUTION_GENERATION''
      else if po_Terminated observed then Some ''WORKER_TERMINATION_UNKNOWN''
      else if re_TaskState current = StateDispatched \<and> po_Activity observed = ''idle'' \<and>
        \<not> po_HandoffAvailable observed
      then Some ''MISSED_ACTIVE_WINDOW''
      else None)"

definition missed_window :: "RecoveryExecution \<Rightarrow> PostSendObservation \<Rightarrow> bool" where
  "missed_window current observed \<longleftrightarrow>
     re_TaskState current = StateDispatched \<and> po_Activity observed = ''idle'' \<and>
     po_Generation observed = re_Generation current \<and> \<not> po_Absent observed \<and> \<not> po_Terminated observed"

definition known_activity :: "string \<Rightarrow> bool" where
  "known_activity x \<longleftrightarrow> x \<in> set [''waiting_input'', ''blocked'', ''active'', ''idle'', ''exited'']"

definition observed_disposition :: "RecoveryExecution \<Rightarrow> PostSendObservation \<Rightarrow> string option" where
  "observed_disposition current observed =
     (if missed_window current observed then Some ''MISSED_ACTIVE_WINDOW''
      else case terminalDisposition current observed of
        Some d \<Rightarrow> Some d
      | None \<Rightarrow>
          if po_Activity observed = ''waiting_input'' then Some ''AO_WAITING_INPUT_OBSERVED''
          else if po_Activity observed = ''blocked'' then Some ''AO_BLOCKED_DECISION''
          else None)"

definition observed_state :: "RecoveryExecution \<Rightarrow> PostSendObservation \<Rightarrow> TaskState" where
  "observed_state current observed =
     (if terminalDisposition current observed \<noteq> None then StateFailed
      else if re_TaskState current = StateDispatched \<and>
        (po_Activity observed = ''active'' \<or> po_Activity observed = ''waiting_input'' \<or>
         po_Activity observed = ''blocked'' \<or> po_Activity observed = ''idle'' \<and> po_HandoffAvailable observed)
      then StateRunning
      else re_TaskState current)"

definition nil_or_string :: "string option \<Rightarrow> goval" where
  "nil_or_string x = (case x of None \<Rightarrow> GNil | Some v \<Rightarrow> GString v)"

text \<open>The state change of the task with its event.\<close>

definition post_send_move ::
  "host \<Rightarrow> RecoveryExecution \<Rightarrow> TaskState \<Rightarrow> string option \<Rightarrow> string \<Rightarrow> time \<Rightarrow> db \<Rightarrow> store_error + db" where
  "post_send_move h current newState newDisposition actor at s =
     (if newState = re_TaskState current then Inr s
      else
      andThen (operationCASResult
        (update_tasks (\<lambda>t. t_TaskID t = re_TaskID current \<and> t_PairID t = re_PairID current \<and>
             t_State t = re_TaskState current \<and>
             map_option a_AttemptNumber (attempt_of s (re_AttemptID current)) = Some (t_CurrentAttempt t))
          (\<lambda>t. t\<lparr>t_State := newState, t_UpdatedAt := at\<rparr>) s)) (\<lambda>s1.
      bindE (newAuditEventID h 1) (\<lambda>eventID.
      audit_tx h (mk_event eventID ''TASK_STATE_TRANSITION'' at
        (re_PairID current, re_TaskID current, re_ContractID current, re_AttemptID current) actor
        [(''from_state'', GString (task_state_string (re_TaskState current))),
         (''to_state'', GString (task_state_string newState)),
         (''recovery_disposition'', nil_or_string newDisposition),
         (''dispatch_operation_id'', GString (re_OperationID current))]) s1)))"

definition same_open_attempt :: "RecoveryExecution \<Rightarrow> TaskAttempt \<Rightarrow> bool" where
  "same_open_attempt current a \<longleftrightarrow>
     a_AttemptID a = re_AttemptID current \<and> a_TaskID a = re_TaskID current \<and>
     a_ContractID a = re_ContractID current \<and> a_SessionID a = Some (re_SessionID current) \<and>
     a_TerminalGeneration a = Some (re_Generation current) \<and> a_EndedAt a = None \<and>
     a_RecoveryDisposition a = re_Disposition current"

definition quarantining :: "string \<Rightarrow> bool" where
  "quarantining disposition \<longleftrightarrow>
     disposition = ''SESSION_ABSENT'' \<or> disposition = ''STALE_EXECUTION_GENERATION''"

text \<open>The closure of the attempt with the marks on the session.\<close>

definition post_send_close ::
  "RecoveryExecution \<Rightarrow> PostSendObservation \<Rightarrow> string \<Rightarrow> string \<Rightarrow> time \<Rightarrow> db \<Rightarrow> store_error + db" where
  "post_send_close current observed disposition runtimeGeneration at s =
     andThen (operationCASResult
       (update_attempts (same_open_attempt current)
         (\<lambda>a. a\<lparr>a_EndedAt := Some at, a_RecoveryDisposition := Some disposition,
                a_QuarantineState := (if quarantining disposition then QuarantineQuarantined
                  else a_QuarantineState a)\<rparr>) s)) (\<lambda>s1.
     andThen (if quarantining disposition
       then operationCASResult
         (update_sessions (\<lambda>w. w_PairID w = re_PairID current \<and> w_SessionID w = re_SessionID current \<and>
              w_TerminalGeneration w = runtimeGeneration)
           (\<lambda>w. w\<lparr>w_QuarantineState := QuarantineQuarantined, w_UpdatedAt := at\<rparr>) s1)
       else Inr s1) (\<lambda>s2.
     if po_Terminated observed \<and> po_Generation observed = re_Generation current \<and> \<not> po_Absent observed
     then operationCASResult
       (update_sessions (\<lambda>w. w_PairID w = re_PairID current \<and> w_SessionID w = re_SessionID current \<and>
            w_TerminalGeneration w = re_Generation current)
         (\<lambda>w. w\<lparr>w_Status := WorkerSessionTerminated, w_UpdatedAt := at\<rparr>) s2)
     else Inr s2))"

definition ObservePostSend ::
  "host \<Rightarrow> RecoveryExecution \<Rightarrow> PostSendObservation \<Rightarrow> string \<Rightarrow> string \<Rightarrow> time \<Rightarrow> db \<Rightarrow> store_error + db" where
  "ObservePostSend h expected observed actor invocation at s =
     (if actor = [] \<or> IsZero at \<or> re_DispatchStage expected \<noteq> SendConfirmed \<or>
        po_SessionID observed \<noteq> re_SessionID expected
      then Inl ErrStateConflict
      else
      bindE (require (open_execution (\<lambda>d. d_ResolutionState d = None) s (re_OperationID expected))
        (SqlError SqlNoRows)) (\<lambda>current.
      if \<not> sameRecoveryExecution current expected \<or>
        (re_TaskState current \<noteq> StateDispatched \<and> re_TaskState current \<noteq> StateRunning)
      then Inl ErrStateConflict
      else
      bindE (guardStopOwnedExecutionTx s current) (\<lambda>_.
      bindE (require (session_of s (re_PairID current)) (SqlError SqlNoRows)) (\<lambda>w.
      if w_SessionID w \<noteq> re_SessionID current \<or>
        (w_TerminalGeneration w \<noteq> re_Generation current \<and> po_Generation observed = re_Generation current)
      then Inl ErrAttemptLineageMismatch
      else let terminal = terminalDisposition current observed in
      if terminal = None \<and> \<not> known_activity (po_Activity observed) then Inl ErrStateConflict
      else if re_Disposition current \<noteq> None \<and> re_Disposition current \<noteq> Some ''RECOVERY_PENDING'' \<and>
        terminal = None
      then Inr s
      else let newState = observed_state current observed;
               newDisposition = observed_disposition current observed;
               lineage = (re_PairID current, re_TaskID current, re_ContractID current, re_AttemptID current) in
      andThen (if re_Disposition current = Some ''RECOVERY_PENDING''
        then bindE (newAuditEventID h 0) (\<lambda>eventID.
          audit_tx h (mk_event eventID ''POST_SEND_STATUS_RECOVERED'' at lineage actor
            [(''dispatch_operation_id'', GString (re_OperationID current)),
             (''dispatch_stage'', GString (dispatch_stage_string (re_DispatchStage current))),
             (''session_id'', GString (re_SessionID current)),
             (''generation'', GString (re_Generation current)),
             (''old_task_state'', GString (task_state_string (re_TaskState current))),
             (''new_task_state'', GString (task_state_string newState)),
             (''old_disposition'', GString ''RECOVERY_PENDING''),
             (''new_disposition'', nil_or_string newDisposition),
             (''observation_time'', GString (formatTime at)),
             (''observation_source'', GString ''GetWorkerStatus''),
             (''observed_activity'', GString (po_Activity observed)),
             (''recovery_invocation'', GString invocation)]) s)
        else Inr s) (\<lambda>s1.
      andThen (post_send_move h current newState newDisposition actor at s1) (\<lambda>s2.
      andThen (case terminal of
          Some disposition \<Rightarrow> post_send_close current observed disposition (w_TerminalGeneration w) at s2
        | None \<Rightarrow>
            if re_Disposition current = Some ''RECOVERY_PENDING'' \<or> newDisposition \<noteq> None
            then operationCASResult
              (update_attempts (same_open_attempt current)
                (\<lambda>a. a\<lparr>a_RecoveryDisposition := newDisposition\<rparr>) s2)
            else Inr s2) (\<lambda>s3.
      andThen (if po_Activity observed = ''blocked'' \<and> terminal = None
        then bindE (newAuditEventID h 2) (\<lambda>eventID.
          audit_tx h (mk_event eventID ''WORKER_BLOCKED_ON_DECISION'' at lineage actor
            [(''dispatch_operation_id'', GString (re_OperationID current)),
             (''observed_activity'', GString ''blocked'')]) s3)
        else Inr s3) (\<lambda>s4.
      if missed_window current observed
      then bindE (newAuditEventID h 3) (\<lambda>eventID.
        audit_tx h (mk_event eventID ''MISSED_ACTIVE_WINDOW_HANDOFF_DOWNSTREAM'' at lineage actor
          [(''dispatch_operation_id'', GString (re_OperationID current)),
           (''handoff_available'', GBool (po_HandoffAvailable observed)),
           (''recovery_disposition'', GString ''MISSED_ACTIVE_WINDOW'')]) s4)
      else Inr s4)))))))) "

definition RecordRecoveryAbsent ::
  "host \<Rightarrow> RecoveryExecution \<Rightarrow> string \<Rightarrow> time \<Rightarrow> db \<Rightarrow> store_error + db" where
  "RecordRecoveryAbsent h expected actor at s =
     (if re_DispatchStage expected \<noteq> SendConfirmed then Inl ErrStateConflict
      else ObservePostSend h expected
        \<lparr>po_SessionID = re_SessionID expected, po_Generation = [], po_Activity = [], po_Terminated = False,
         po_Absent = True, po_HandoffAvailable = False\<rparr> actor [] at s)"

section \<open>Interrupted restores and provisionings\<close>

text \<open>An \<open>UPDATE\<close> under the restore triggers, with its row count checked.\<close>

definition restore_of :: "db \<Rightarrow> string \<Rightarrow> PairRestoreOperation option" where
  "restore_of s oid = find (\<lambda>r. ro_OperationID r = oid) (pair_restore_operations s)"

definition restore_cas ::
  "(sql_error \<Rightarrow> store_error) \<Rightarrow> (nat \<times> db \<Rightarrow> store_error + db) \<Rightarrow> (PairRestoreOperation \<Rightarrow> bool) \<Rightarrow>
     (PairRestoreOperation \<Rightarrow> PairRestoreOperation) \<Rightarrow> db \<Rightarrow> store_error + db" where
  "restore_cas err check P f s =
     (case update_restore_operations P f s of Inl x \<Rightarrow> Inl (err x) | Inr r \<Rightarrow> check r)"

text \<open>
  \<open>UPDATE task_attempts SET quarantine_state='QUARANTINED'\<close> for the attempts of a pair with a given
  session and generation; the row count is not checked.
\<close>

definition quarantine_lineage :: "string \<Rightarrow> string \<Rightarrow> string \<Rightarrow> db \<Rightarrow> db" where
  "quarantine_lineage sessionID generation pairID s =
     snd (update_attempts (\<lambda>a. a_SessionID a = Some sessionID \<and> a_TerminalGeneration a = Some generation \<and>
         list_ex (\<lambda>t. t_TaskID t = a_TaskID a \<and> t_PairID t = pairID) (tasks s))
       (\<lambda>a. a\<lparr>a_QuarantineState := QuarantineQuarantined\<rparr>) s)"

definition ClassifyInterruptedRestore ::
  "host \<Rightarrow> string \<Rightarrow> string \<Rightarrow> time \<Rightarrow> db \<Rightarrow> store_error + db" where
  "ClassifyInterruptedRestore h operationID actor at0 s =
     (if operationID = [] \<or> actor = [] then Inl ErrStateConflict
      else let at = now_if_zero h at0 in
      bindE (require (restore_of s operationID) ErrOperationNotFound) (\<lambda>r.
      if ro_Stage r = ''RESTORE_CONFIRMED'' \<and> ro_ResolutionState r = RestoreInFlight then Inr s
      else if ro_Stage r = ''RESTORE_REQUESTED'' \<and> ro_ResolutionState r = RestoreOutcomeUnknown then Inr s
      else if ro_Stage r \<noteq> ''RESTORE_REQUESTED'' \<or> ro_ResolutionState r \<noteq> RestoreInFlight
      then Inl ErrStateConflict
      else
      andThen (restore_cas mapLifecycleWriteError operationCASResult
        (\<lambda>q. ro_OperationID q = operationID \<and> ro_PairID q = ro_PairID r \<and> ro_SessionID q = ro_SessionID r \<and>
             ro_ExpectedGeneration q = ro_ExpectedGeneration r \<and> ro_Stage q = ''RESTORE_REQUESTED'' \<and>
             ro_ResolutionState q = RestoreInFlight \<and> ro_Version q = ro_Version r)
        (\<lambda>q. q\<lparr>ro_ResolutionState := RestoreOutcomeUnknown, ro_Version := ro_Version q + 1\<rparr>) s) (\<lambda>s1.
      andThen (operationCASResult
        (update_sessions (\<lambda>w. w_PairID w = ro_PairID r \<and> w_SessionID w = ro_SessionID r \<and>
             w_TerminalGeneration w = ro_ExpectedGeneration r)
          (\<lambda>w. w\<lparr>w_QuarantineState := QuarantineQuarantined, w_UpdatedAt := at\<rparr>) s1)) (\<lambda>s2.
      andThen (Inr (quarantine_lineage (ro_SessionID r) (ro_ExpectedGeneration r) (ro_PairID r) s2)) (\<lambda>s3.
      bindE (newAuditEventID h 0) (\<lambda>eventID.
      audit_tx h (mk_event eventID ''PAIR_RESTORE_OUTCOME_UNKNOWN'' at (ro_PairID r, [], [], []) actor
        [(''operation_id'', GString operationID), (''stage'', GString (ro_Stage r)),
         (''old_resolution'', GString ''IN_FLIGHT''),
         (''new_resolution'', GString ''RESTORE_OUTCOME_UNKNOWN''),
         (''session_id'', GString (ro_SessionID r)),
         (''expected_generation'', GString (ro_ExpectedGeneration r)),
         (''source'', GString ''STARTUP_RECOVERY_SWEEP'')]) s3))))))"

definition FailProvisioningAtStartup ::
  "host \<Rightarrow> string \<Rightarrow> string \<Rightarrow> time \<Rightarrow> db \<Rightarrow> store_error + db" where
  "FailProvisioningAtStartup h operationID actor at0 s =
     (if operationID = [] \<or> actor = [] then Inl ErrStateConflict
      else let at = now_if_zero h at0 in
      bindE (require (find (\<lambda>p. pv_OperationID p = operationID) (pair_provisioning_operations s))
        ErrOperationNotFound) (\<lambda>p.
      if pv_Stage p = ProvisionFailed then Inr s
      else if pv_Stage p \<noteq> ProvisionRequested then Inl ErrStateConflict
      else
      andThen (operationCASResult
        (update_provisioning (\<lambda>q. pv_OperationID q = operationID \<and> pv_PairID q = pv_PairID p \<and>
             pv_Stage q = ProvisionRequested)
          (\<lambda>q. q\<lparr>pv_Stage := ProvisionFailed, pv_CompletedAt := Some at, pv_ResolvedAt := Some at,
                 pv_ResolutionNotes := Some ''STARTUP_RECOVERY_SWEEP''\<rparr>) s)) (\<lambda>s1.
      bindE (newAuditEventID h 0) (\<lambda>eventID.
      audit_tx h (mk_event eventID ''PAIR_SESSION_PROVISION_FAILED'' at (pv_PairID p, [], [], []) actor
        [(''operation_id'', GString operationID), (''stage'', GString ''PROVISION_FAILED''),
         (''reason'', GString ''STARTUP_RECOVERY_SWEEP'')]) s1))))"

section \<open>The transactions are sequences of writes\<close>

lemma keeps_restore_cas [keeps_rules]:
  assumes "\<And>r. check r = operationCASResult r \<or> (\<exists>e. check r = cas1 e r)"
  shows "keeps sha s (restore_cas err check P f s)"
  unfolding keeps_def
proof (intro impI allI)
  fix s'
  assume "restore_cas err check P f s = Inr s'"
  then obtain n s1 where u: "update_restore_operations P f s = Inr (n, s1)" and "check (n, s1) = Inr s'"
    by (auto simp: restore_cas_def split: sum.splits)
  then have "s' = s1" using assms [of "(n, s1)"]
    by (auto simp: operationCASResult_def cas1_def split: if_splits)
  with u show "store_writes sha s s'" by (auto intro: store_write.w_restore)
qed

lemma keeps_quarantine_lineage [keeps_rules]: "keeps sha s (Inr (quarantine_lineage sid gen pid s))"
  unfolding quarantine_lineage_def keeps_def
  by (auto intro!: writes_attempts simp: attempt_evolves_def)

lemma RecordRecoverySweepEvent_keeps:
  "keeps (h_sha256 h) s (RecordRecoverySweepEvent h invk actor event at s)"
  unfolding RecordRecoverySweepEvent_def Let_def by (intro keeps_rules)

lemma RecordPostSendOutage_keeps:
  "keeps (h_sha256 h) s (RecordPostSendOutage h expected actor cls invk at s)"
  unfolding RecordPostSendOutage_def by (intro keeps_rules) (simp_all add: attempt_evolves_def)

text \<open>A sent attempt may start to run or fail; its lane is active before, so no other task is disturbed.\<close>

lemma writes_tasks_active [keeps_rules]:
  assumes "\<And>t. t \<in> set (tasks s) \<Longrightarrow> P t \<Longrightarrow> t_TaskID t = tid \<and> CanTransition (t_State t) to \<and> active_lane (t_State t)"
    and "to \<noteq> StateDispatched"
  shows "store_writes sha s (snd (update_tasks P (\<lambda>t. t\<lparr>t_State := to, t_UpdatedAt := at\<rparr>) s))"
  using assms unfolding update_tasks_def
  by (auto intro!: r_into_rtranclp store_write.w_transition)

lemma audit_tx_closable: "audit_tx h e s = Inr s1 \<Longrightarrow> closable s1 a \<longleftrightarrow> closable s a"
  by (auto elim!: audit_tx_push simp: closable_def)

lemma observed_state_cases:
  assumes "re_TaskState x = StateDispatched \<or> re_TaskState x = StateRunning"
  shows "observed_state x obs = re_TaskState x \<or>
    CanTransition (re_TaskState x) (observed_state x obs) \<and> observed_state x obs \<noteq> StateDispatched"
  using assms by (auto simp: observed_state_def workflow_defs)

lemma post_send_move_keeps [keeps_rules]:
  assumes "re_TaskState x = StateDispatched \<or> re_TaskState x = StateRunning"
    and "new = re_TaskState x \<or> CanTransition (re_TaskState x) new \<and> new \<noteq> StateDispatched"
  shows "keeps (h_sha256 h) s (post_send_move h x new disp actor at s)"
  unfolding post_send_move_def
  by (intro keeps_rules writes_tasks_active [where tid = "re_TaskID x"])
    (use assms in \<open>auto simp: active_lane_def\<close>)

lemma post_send_move_closable:
  assumes "post_send_move h x StateFailed disp actor at s = Inr s2" and "keys_inv s2"
    and "re_TaskState x = StateDispatched \<or> re_TaskState x = StateRunning" and "a_TaskID a = re_TaskID x"
  shows "closable s2 a"
proof -
  obtain s1 e where s1: "operationCASResult
        (update_tasks (\<lambda>t. t_TaskID t = re_TaskID x \<and> t_PairID t = re_PairID x \<and> t_State t = re_TaskState x \<and>
             map_option a_AttemptNumber (attempt_of s (re_AttemptID x)) = Some (t_CurrentAttempt t))
          (\<lambda>t. t\<lparr>t_State := StateFailed, t_UpdatedAt := at\<rparr>) s) = Inr s1"
    and s2: "audit_tx h e s1 = Inr s2"
    using assms(1,3) by (auto simp: post_send_move_def result_simps split: if_splits)
  have "keys_inv s1" using assms(2) s2 by (auto elim!: audit_tx_push simp: keys_inv_def)
  with s1 show ?thesis
    unfolding audit_tx_closable [OF s2]
    by (rule operationCASResult_closable) (use assms(4) in \<open>simp_all add: executing_def\<close>)
qed

lemma post_send_close_keeps:
  assumes "\<And>a. a_TaskID a = re_TaskID x \<Longrightarrow> closable s a"
  shows "keeps sha s (post_send_close x obs disp gen at s)"
  unfolding post_send_close_def
  by (intro keeps_rules)
    (use assms in \<open>auto simp: attempt_evolves_def session_evolves_def same_open_attempt_def\<close>)

lemma ObservePostSend_keeps: "keeps (h_sha256 h) s (ObservePostSend h expected obs actor invk at s)"
  unfolding ObservePostSend_def Let_def
  by (intro keeps_rules post_send_close_keeps observed_state_cases)
    (auto simp: attempt_evolves_def observed_state_def elim!: post_send_move_closable)

lemma RecordRecoveryAbsent_keeps:
  "keeps (h_sha256 h) s (RecordRecoveryAbsent h expected actor at s)"
  unfolding RecordRecoveryAbsent_def by (intro keeps_rules ObservePostSend_keeps)

lemma ClassifyInterruptedRestore_keeps:
  "keeps (h_sha256 h) s (ClassifyInterruptedRestore h oid actor at s)"
  unfolding ClassifyInterruptedRestore_def Let_def
  by (intro keeps_rules) (simp_all add: session_evolves_def)

lemma FailProvisioningAtStartup_keeps:
  "keeps (h_sha256 h) s (FailProvisioningAtStartup h oid actor at s)"
  unfolding FailProvisioningAtStartup_def Let_def
  by (intro keeps_rules) (simp_all add: provisioning_evolves_def unresolved_stage_def)

interpretation sweep_event: store_operation "h_sha256 h"
    "\<lambda>(invk, actor, event, at). RecordRecoverySweepEvent h invk actor event at" for h
  by unfold_locales (auto intro: keepsD [OF RecordRecoverySweepEvent_keeps])

interpretation post_send_outage: store_operation "h_sha256 h"
    "\<lambda>(expected, actor, cls, invk, at). RecordPostSendOutage h expected actor cls invk at" for h
  by unfold_locales (auto intro: keepsD [OF RecordPostSendOutage_keeps])

interpretation observe_post_send: store_operation "h_sha256 h"
    "\<lambda>(expected, obs, actor, invk, at). ObservePostSend h expected obs actor invk at" for h
  by unfold_locales (auto intro: keepsD [OF ObservePostSend_keeps])

interpretation interrupted_restore: store_operation "h_sha256 h"
    "\<lambda>(oid, actor, at). ClassifyInterruptedRestore h oid actor at" for h
  by unfold_locales (auto intro: keepsD [OF ClassifyInterruptedRestore_keeps])

interpretation interrupted_provisioning: store_operation "h_sha256 h"
    "\<lambda>(oid, actor, at). FailProvisioningAtStartup h oid actor at" for h
  by unfold_locales (auto intro: keepsD [OF FailProvisioningAtStartup_keeps])

end
