(* ===== verification/Stop_Risk.thy ===== *)
theory Stop_Risk
  imports Recovery_Store
begin

text \<open>
  The administrative reconciliation of a stop (\<open>AcceptStopAdministrativeRisk\<close> of
  \<open>internal/store/stop_transactions.go\<close>): a one-shot decision of an operator that names every
  execution lineage it accepts the risk of, and the query that finds such an acceptance later.
  A Go map from attempt ids is an association list with distinct keys.
\<close>

datatype ClearanceBasis =
    ClearancePhysical | ClearanceAbsenceAdministrative | ClearanceRiskAdministrative
  | OtherClearanceBasis string

fun clearance_basis_string :: "ClearanceBasis \<Rightarrow> string" where
  "clearance_basis_string ClearancePhysical = ''CLASS_A_PHYSICAL''"
| "clearance_basis_string ClearanceAbsenceAdministrative = ''CLASS_B_ABSENCE_ADMINISTRATIVE''"
| "clearance_basis_string ClearanceRiskAdministrative = ''CLASS_C_RISK_ADMINISTRATIVE''"
| "clearance_basis_string (OtherClearanceBasis x) = x"

record LineageClearance =
  lc_AttemptID :: string
  lc_SessionID :: string
  lc_TerminalGeneration :: string
  lc_Basis :: ClearanceBasis
  lc_StopOperationID :: string
  lc_Evidence :: string

record AdministrativeStopDecision =
  sd_StopOperationID :: string
  sd_PairID :: string
  sd_SessionID :: string
  sd_TerminalGeneration :: string
  sd_Purpose :: StopPurpose
  sd_AttemptID :: string
  sd_RestoreOperationID :: string
  sd_ExpectedStage :: StopStage
  sd_ExpectedResolution :: StopResolutionState
  sd_Principal :: string
  sd_AuthorityScope :: string
  sd_Reason :: string
  sd_EvidenceReferences :: "string list"
  sd_Lineages :: "LineageClearance list"
  sd_At :: time

section \<open>Earlier acceptances\<close>

fun collect_acceptances ::
  "host \<Rightarrow> audit_row list \<Rightarrow> (string \<times> stopAcceptance) list \<Rightarrow>
     store_error + (string \<times> stopAcceptance) list" where
  "collect_acceptances h [] result = Inr result"
| "collect_acceptances h (e # es) result =
     (case h_unmarshal_acceptance h (ar_details_json e) of
        None \<Rightarrow> Inl (StoreError ''json'')
      | Some (attemptID, v) \<Rightarrow>
          if map_of result attemptID \<noteq> None then Inl ErrStateConflict
          else collect_acceptances h es (result @ [(attemptID, v)]))"

definition stopAcceptanceEventsTx ::
  "host \<Rightarrow> db \<Rightarrow> string \<Rightarrow> store_error + (string \<times> stopAcceptance) list" where
  "stopAcceptanceEventsTx h s stopID =
     collect_acceptances h
       (filter (\<lambda>e. ar_event_type e = ''ADMINISTRATIVE_RISK_ACCEPTED'' \<and> json_is h e ''stop_operation_id'' stopID)
         (audit_events s)) []"

definition sameStrings :: "string list \<Rightarrow> string list \<Rightarrow> bool" where
  "sameStrings a b \<longleftrightarrow> length a = length b \<and> list_all (\<lambda>i. a ! i = b ! i) [0..<length a]"

definition acceptedLineageTx where
  "acceptedLineageTx h s stopID pairID princ session generation attempt cls restoreID \<longleftrightarrow>
     rows_affected (\<lambda>e. ar_event_type e = ''ADMINISTRATIVE_RISK_ACCEPTED'' \<and> ar_pair_id e = Some pairID \<and>
       ar_actor e = princ \<and> json_is h e ''stop_operation_id'' stopID \<and> json_is h e ''session_id'' session \<and>
       json_is h e ''terminal_generation'' generation \<and> json_is h e ''attempt_id'' attempt \<and>
       json_is h e ''class'' cls \<and> json_is h e ''restore_operation_id'' restoreID \<and>
       json_is h e ''authority_scope'' ''STOP_ADMINISTRATIVE_RECONCILIATION'') (audit_events s) = 1"

section \<open>The decision\<close>

definition decision_class :: "AdministrativeStopDecision \<Rightarrow> string" where
  "decision_class d =
     (if sd_ExpectedResolution d = StopResolutionTargetAbsent \<and> sd_ExpectedStage d = StopTargetAbsent
      then ''CLASS_B'' else ''CLASS_C'')"

text \<open>A repeated decision must be the recorded one, lineage by lineage.\<close>

definition replay_matches ::
  "AdministrativeStopDecision \<Rightarrow> string \<Rightarrow> (string \<times> stopAcceptance) list \<Rightarrow> bool" where
  "replay_matches d cls prior \<longleftrightarrow>
     length prior = length (sd_Lineages d) \<and> distinct (map lc_AttemptID (sd_Lineages d)) \<and>
     list_all (\<lambda>l. case map_of prior (lc_AttemptID l) of
         None \<Rightarrow> False
       | Some v \<Rightarrow>
           sa_Principal v = sd_Principal d \<and> sa_Scope v = sd_AuthorityScope d \<and> sa_Reason v = sd_Reason d \<and>
           sa_Class v = cls \<and> sa_SessionID v = lc_SessionID l \<and> sa_Generation v = lc_TerminalGeneration l \<and>
           sa_RestoreID v = sd_RestoreOperationID d \<and>
           sa_OldResolution v = stop_resolution_string (sd_ExpectedResolution d) \<and>
           sameStrings (sa_Evidence v) (sd_EvidenceReferences d)) (sd_Lineages d)"

definition lineage_key :: "LineageClearance \<Rightarrow> string" where
  "lineage_key l = (if lc_AttemptID l = [] then ''@session'' else lc_AttemptID l)"

text \<open>The stored lineage of an attempt of the pair: session, generation and quarantine.\<close>

definition pair_attempt :: "db \<Rightarrow> string \<Rightarrow> string \<Rightarrow> TaskAttempt option" where
  "pair_attempt s attemptID pairID =
     find (\<lambda>a. a_AttemptID a = attemptID \<and>
       list_ex (\<lambda>t. t_TaskID t = a_TaskID a \<and> t_PairID t = pairID) (tasks s)) (task_attempts s)"

definition check_lineage ::
  "AdministrativeStopDecision \<Rightarrow> string \<Rightarrow> StopOperation \<Rightarrow> db \<Rightarrow> LineageClearance \<Rightarrow> store_error + unit" where
  "check_lineage d cls stop s l =
     (if cls = ''CLASS_B'' \<and> (lc_SessionID l \<noteq> st_SessionID stop \<or>
        lc_TerminalGeneration l \<noteq> st_TerminalGeneration stop \<or>
        (lc_AttemptID l \<noteq> [] \<and> lc_AttemptID l \<noteq> valueOrEmpty (st_AttemptID stop)))
      then Inl ErrAttemptLineageMismatch
      else if lc_AttemptID l = [] then
        bindE (require (session_of s (sd_PairID d)) (SqlError SqlNoRows)) (\<lambda>w.
        ensure (w_SessionID w = lc_SessionID l \<and> w_TerminalGeneration w = lc_TerminalGeneration l \<and>
          w_QuarantineState w = QuarantineQuarantined) ErrAttemptLineageMismatch)
      else
        bindE (require (pair_attempt s (lc_AttemptID l) (sd_PairID d)) (SqlError SqlNoRows)) (\<lambda>a.
        bindE (null_string (a_SessionID a)) (\<lambda>sid.
        bindE (null_string (a_TerminalGeneration a)) (\<lambda>gen.
        ensure (sid = lc_SessionID l \<and> gen = lc_TerminalGeneration l \<and>
          a_QuarantineState a = QuarantineQuarantined) ErrAttemptLineageMismatch))))"

fun check_lineages ::
  "AdministrativeStopDecision \<Rightarrow> string \<Rightarrow> StopOperation \<Rightarrow> db \<Rightarrow> string list \<Rightarrow> LineageClearance list \<Rightarrow>
     store_error + unit" where
  "check_lineages d cls stop s seen [] = Inr ()"
| "check_lineages d cls stop s seen (l # ls) =
     (if lineage_key l \<in> set seen \<or> lc_SessionID l = [] \<or> lc_TerminalGeneration l = [] \<or>
        lc_SessionID l \<noteq> sd_SessionID d
      then Inl ErrAttemptLineageMismatch
      else bindE (check_lineage d cls stop s l) (\<lambda>_.
        check_lineages d cls stop s (lineage_key l # seen) ls))"

text \<open>The task and contract of an attempt for its event; blank for the session lineage.\<close>

definition attempt_lineage :: "db \<Rightarrow> string \<Rightarrow> store_error + (string \<times> string)" where
  "attempt_lineage s attemptID =
     (if attemptID = [] then Inr ([], [])
      else bindE (require (attempt_of s attemptID) (SqlError SqlNoRows)) (\<lambda>a. Inr (a_TaskID a, a_ContractID a)))"

fun acceptance_events ::
  "host \<Rightarrow> AdministrativeStopDecision \<Rightarrow> string \<Rightarrow> StopResolutionState \<Rightarrow> nat \<Rightarrow> LineageClearance list \<Rightarrow>
     db \<Rightarrow> store_error + db" where
  "acceptance_events h d cls newResolution k [] s = Inr s"
| "acceptance_events h d cls newResolution k (l # ls) s =
     bindE (newAuditEventID h k) (\<lambda>eventID.
     bindE (attempt_lineage s (lc_AttemptID l)) (\<lambda>(taskID, contractID).
     andThen (audit_tx h (mk_event eventID ''ADMINISTRATIVE_RISK_ACCEPTED'' (sd_At d)
         (sd_PairID d, taskID, contractID, lc_AttemptID l) (sd_Principal d)
         [(''stop_operation_id'', GString (sd_StopOperationID d)),
          (''purpose'', GString (stop_purpose_string (sd_Purpose d))),
          (''session_id'', GString (lc_SessionID l)),
          (''terminal_generation'', GString (lc_TerminalGeneration l)),
          (''attempt_id'', GString (lc_AttemptID l)), (''principal'', GString (sd_Principal d)),
          (''authority_scope'', GString (sd_AuthorityScope d)), (''reason'', GString (sd_Reason d)),
          (''evidence_references'', GReflectList (map GString (sd_EvidenceReferences d))),
          (''old_resolution'', GString (stop_resolution_string (sd_ExpectedResolution d))),
          (''new_resolution'', GString (stop_resolution_string newResolution)),
          (''restore_operation_id'', GString (sd_RestoreOperationID d)), (''class'', GString cls)]) s) (\<lambda>s1.
     acceptance_events h d cls newResolution (Suc k) ls s1)))"

definition stop_restore_owner :: "AdministrativeStopDecision \<Rightarrow> StopOperation \<Rightarrow> db \<Rightarrow> store_error + unit" where
  "stop_restore_owner d stop s =
     (case st_RestoreOperationID stop of
        None \<Rightarrow> Inr ()
      | Some restoreID \<Rightarrow>
          bindE (require (find (\<lambda>r. ro_OperationID r = restoreID \<and> ro_PairID r = sd_PairID d)
            (pair_restore_operations s)) (SqlError SqlNoRows)) (\<lambda>r.
          bindE (null_string (ro_RecoveryPrincipal r)) (\<lambda>owner.
          ensure (owner = sd_Principal d \<and> ro_ResolutionState r = RestoreCleanupClaimed) ErrStateConflict)))"

definition same_stop :: "AdministrativeStopDecision \<Rightarrow> StopOperation \<Rightarrow> bool" where
  "same_stop d p \<longleftrightarrow>
     st_OperationID p = sd_StopOperationID d \<and> st_PairID p = sd_PairID d \<and> st_SessionID p = sd_SessionID d \<and>
     st_TerminalGeneration p = sd_TerminalGeneration d \<and> st_Purpose p = sd_Purpose d \<and>
     st_Stage p = sd_ExpectedStage d"

definition AcceptStopAdministrativeRisk ::
  "host \<Rightarrow> AdministrativeStopDecision \<Rightarrow> db \<Rightarrow> store_error + db" where
  "AcceptStopAdministrativeRisk h d s =
     (if sd_StopOperationID d = [] \<or> sd_PairID d = [] \<or> sd_SessionID d = [] \<or> sd_TerminalGeneration d = [] \<or>
        sd_Principal d = [] \<or> sd_AuthorityScope d \<noteq> ''STOP_ADMINISTRATIVE_RECONCILIATION'' \<or>
        sd_Reason d = [] \<or> sd_EvidenceReferences d = [] \<or> sd_Lineages d = [] \<or> IsZero (sd_At d)
      then Inl ErrStateConflict
      else if list_ex (\<lambda>ref. ref = []) (sd_EvidenceReferences d) then Inl ErrStateConflict
      else
      bindE (getStopOperationTx s (sd_StopOperationID d)) (\<lambda>stop.
      if st_PairID stop \<noteq> sd_PairID d \<or> st_SessionID stop \<noteq> sd_SessionID d \<or>
        st_TerminalGeneration stop \<noteq> sd_TerminalGeneration d \<or> st_Purpose stop \<noteq> sd_Purpose d \<or>
        valueOrEmpty (st_AttemptID stop) \<noteq> sd_AttemptID d \<or>
        valueOrEmpty (st_RestoreOperationID stop) \<noteq> sd_RestoreOperationID d \<or>
        st_Stage stop \<noteq> sd_ExpectedStage d
      then Inl ErrAttemptLineageMismatch
      else let cls = decision_class d in
      if cls = ''CLASS_C'' \<and> (sd_ExpectedResolution d = StopResolutionInFlight \<or>
        sd_ExpectedResolution d = StopResolutionTerminationConfirmed \<or>
        sd_ExpectedResolution d = StopResolutionAdministrativeRiskAccepted \<or>
        sd_ExpectedResolution d = StopResolutionTargetAbsent)
      then Inl ErrStateConflict
      else
      bindE (stopAcceptanceEventsTx h s (sd_StopOperationID d)) (\<lambda>prior.
      if prior \<noteq> [] then
        (if \<not> replay_matches d cls prior then Inl ErrStateConflict
         else if cls = ''CLASS_C'' \<and> st_ResolutionState stop \<noteq> StopResolutionAdministrativeRiskAccepted
         then Inl ErrStateConflict
         else if cls = ''CLASS_B'' \<and> st_ResolutionState stop \<noteq> StopResolutionTargetAbsent
         then Inl ErrStateConflict
         else Inr s)
      else
      bindE (guardStopRestoreOwner s stop) (\<lambda>_.
      bindE (stop_restore_owner d stop s) (\<lambda>_.
      if cls = ''CLASS_B'' \<and> (st_ResolutionState stop \<noteq> StopResolutionTargetAbsent \<or>
        sd_ExpectedResolution d \<noteq> st_ResolutionState stop)
      then Inl ErrStateConflict
      else if cls = ''CLASS_B'' \<and>
        \<not> list_ex (\<lambda>e. ar_event_type e = ''STOP_OPERATION_TARGET_ABSENT'' \<and> ar_pair_id e = Some (sd_PairID d) \<and>
            json_is h e ''stop_operation_id'' (sd_StopOperationID d)) (audit_events s)
      then Inl ErrStateConflict
      else
      bindE (check_lineages d cls stop s [] (sd_Lineages d)) (\<lambda>_.
      if st_ResolutionState stop \<noteq> sd_ExpectedResolution d then Inl ErrStateConflict
      else if cls = ''CLASS_C'' then
        andThen (operationCASResult
          (update_stops (\<lambda>p. same_stop d p \<and> st_ResolutionState p = sd_ExpectedResolution d)
            (\<lambda>p. p\<lparr>st_ResolutionState := StopResolutionAdministrativeRiskAccepted,
                   st_ResolvedAt := Some (sd_At d)\<rparr>) s)) (\<lambda>s1.
        acceptance_events h d cls StopResolutionAdministrativeRiskAccepted 0 (sd_Lineages d) s1)
      else
        andThen (operationCASResult
          (update_stops (\<lambda>p. same_stop d p \<and> st_ResolutionState p = StopResolutionTargetAbsent)
            (\<lambda>p. p) s)) (\<lambda>s1.
        acceptance_events h d cls (sd_ExpectedResolution d) 0 (sd_Lineages d) s1)))))))"

section \<open>The transaction is a sequence of writes\<close>

lemma acceptance_events_keeps [keeps_rules]:
  "keeps (h_sha256 h) s (acceptance_events h d cls res k ls s)"
proof (induction ls arbitrary: k s)
  case (Cons l ls)
  show ?case by (simp only: acceptance_events.simps) (intro keeps_rules Cons.IH)
qed (simp add: keeps_Inr)

lemma accepted_evolves:
  "st_ResolutionState p \<noteq> StopResolutionInFlight \<Longrightarrow>
   st_ResolutionState p \<noteq> StopResolutionTerminationConfirmed \<Longrightarrow>
     stop_evolves p (p\<lparr>st_ResolutionState := StopResolutionAdministrativeRiskAccepted, st_ResolvedAt := at\<rparr>)"
  by (simp add: stop_evolves_def)

lemma AcceptStopAdministrativeRisk_keeps:
  "keeps (h_sha256 h) s (AcceptStopAdministrativeRisk h d s)"
  unfolding AcceptStopAdministrativeRisk_def Let_def
  by (intro keeps_rules) (simp add: accepted_evolves, simp add: stop_evolves_def)

interpretation accept_risk: store_operation "h_sha256 h" "AcceptStopAdministrativeRisk h" for h
  by unfold_locales (auto intro: keepsD [OF AcceptStopAdministrativeRisk_keeps])

lemma sameStrings_eq [simp]: "sameStrings a b \<longleftrightarrow> a = b"
  by (auto simp: sameStrings_def list_all_iff intro: nth_equalityI)

end
