(* ===== verification/Restore_Store.thy ===== *)
theory Restore_Store
  imports Stop_Risk
begin

text \<open>
  \<open>internal/store/restore_transactions.go\<close>: the reservation of a restore against a one-shot
  authorization, the confirmation of its HTTP 200, the recovery and cleanup claims, and the two
  ways to resolve it. The restore rows change only under the schema triggers
  (\<open>update_restore_operations\<close>). A resolution event id is the id of the event that the same
  transaction has appended, so its UNIQUE and FOREIGN KEY constraints hold by themselves.
\<close>

section \<open>Shared parts\<close>

fun mapE :: "('a \<Rightarrow> 'e + 'b) \<Rightarrow> 'a list \<Rightarrow> 'e + 'b list" where
  "mapE f [] = Inr []"
| "mapE f (x # xs) = bindE (f x) (\<lambda>y. bindE (mapE f xs) (\<lambda>ys. Inr (y # ys)))"

fun forE :: "('a \<Rightarrow> 'e + unit) \<Rightarrow> 'a list \<Rightarrow> 'e + unit" where
  "forE f [] = Inr ()"
| "forE f (x # xs) = bindE (f x) (\<lambda>_. forE f xs)"

lemma forE_eq_Inr [result_simps]: "forE f xs = Inr u \<longleftrightarrow> (\<forall>x\<in>set xs. f x = Inr ())"
  by (induction xs) (auto simp: result_simps)

lemma mapE_eq_Inr [result_simps]: "mapE f xs = Inr ys \<longleftrightarrow> list_all2 (\<lambda>x y. f x = Inr y) xs ys"
  by (induction xs arbitrary: ys) (auto simp: result_simps list_all2_Cons1)

text \<open>The draws of event ids of a call from the \<open>k\<close>-th on.\<close>

definition draws_from :: "nat \<Rightarrow> host \<Rightarrow> host" where
  "draws_from k h = h\<lparr>h_entropy := (\<lambda>i. h_entropy h (i + k))\<rparr>"

lemma draws_from_sha [simp]: "h_sha256 (draws_from k h) = h_sha256 h"
  by (simp add: draws_from_def)

lemma createStopOperationTx_later_keeps [keeps_rules]:
  "keeps (h_sha256 h) s (createStopOperationTx (draws_from k h) operation obs s)"
  using createStopOperationTx_keeps [of "draws_from k h"] by simp

fun restore_basis_string :: "RestoreResolutionBasis \<Rightarrow> string" where
  "restore_basis_string RestoreHTTP200Confirmed = ''RESTORE_HTTP_200_CONFIRMED''"
| "restore_basis_string PhysicalExecutionResolution = ''PHYSICAL_EXECUTION_RESOLUTION''"
| "restore_basis_string AdministrativeRiskResolution = ''ADMINISTRATIVE_RISK_RESOLUTION''"

text \<open>The quarantined attempts of a pair, \<open>task_attempts a JOIN tasks t\<close>.\<close>

definition of_pair :: "db \<Rightarrow> string \<Rightarrow> TaskAttempt \<Rightarrow> bool" where
  "of_pair s pairID a \<longleftrightarrow> list_ex (\<lambda>t. t_TaskID t = a_TaskID a \<and> t_PairID t = pairID) (tasks s)"

definition quarantined_attempts :: "db \<Rightarrow> string \<Rightarrow> TaskAttempt list" where
  "quarantined_attempts s pairID =
     filter (\<lambda>a. of_pair s pairID a \<and> a_QuarantineState a = QuarantineQuarantined) (task_attempts s)"

definition scan_lineage :: "store_error \<Rightarrow> TaskAttempt \<Rightarrow> store_error + (string \<times> string \<times> string)" where
  "scan_lineage e a =
     bindE (require (a_SessionID a) e) (\<lambda>sid.
     bindE (require (a_TerminalGeneration a) e) (\<lambda>gen. Inr (a_AttemptID a, sid, gen)))"

section \<open>Reservation\<close>

record RestoreReservation =
  rr_AuthorizationID :: string
  rr_OperationID :: string
  rr_PairID :: string
  rr_SessionID :: string
  rr_ExpectedGeneration :: string
  rr_RiskScope :: string
  rr_AuthorizedPrincipal :: string
  rr_Actor :: string
  rr_At :: time

definition restore_blocked :: "db \<Rightarrow> string \<Rightarrow> bool" where
  "restore_blocked s pairID \<longleftrightarrow>
     list_ex (\<lambda>a. of_pair s pairID a \<and> a_EndedAt a = None) (task_attempts s) \<or>
     list_ex (\<lambda>a. of_pair s pairID a \<and> a_QuarantineState a \<noteq> QuarantineClean) (task_attempts s) \<or>
     list_ex (\<lambda>d. d_PairID d = pairID \<and> d_Stage d = SendRequested \<and> d_ResolutionState d = None)
       (dispatch_operations s) \<or>
     list_ex (\<lambda>t. t_PairID t = pairID \<and>
       (0 < t_CurrentAttempt t \<and>
          \<not> list_ex (\<lambda>a. a_TaskID a = t_TaskID t \<and> a_AttemptNumber a = t_CurrentAttempt t) (task_attempts s) \<or>
        (t_State t = StateDispatched \<or> t_State t = StateRunning \<or> t_State t = StateBlocked) \<and>
          \<not> list_ex (\<lambda>a. a_TaskID a = t_TaskID t \<and> a_AttemptNumber a = t_CurrentAttempt t \<and>
              a_EndedAt a = None) (task_attempts s))) (tasks s) \<or>
     unresolved_provisioning s pairID \<or> unresolved_restore s pairID \<or> pending_stop s pairID"

definition new_authorization :: "RestoreReservation \<Rightarrow> string \<Rightarrow> time \<Rightarrow> RestoreAuthorization" where
  "new_authorization rq riskEventID now =
     \<lparr>ra_AuthorizationID = rr_AuthorizationID rq, ra_OperationID = rr_OperationID rq,
      ra_PairID = rr_PairID rq, ra_SessionID = rr_SessionID rq,
      ra_ExpectedGeneration = rr_ExpectedGeneration rq, ra_RiskScope = rr_RiskScope rq,
      ra_AuthorizedPrincipal = rr_AuthorizedPrincipal rq, ra_AuthorizationEventID = riskEventID,
      ra_IssuedAt = now, ra_ConsumedAt = Some now, ra_ConsumedByOperationID = Some (rr_OperationID rq)\<rparr>"

definition new_restore :: "RestoreReservation \<Rightarrow> time \<Rightarrow> PairRestoreOperation" where
  "new_restore rq now =
     \<lparr>ro_OperationID = rr_OperationID rq, ro_AuthorizationID = rr_AuthorizationID rq,
      ro_PairID = rr_PairID rq, ro_SessionID = rr_SessionID rq,
      ro_ExpectedGeneration = rr_ExpectedGeneration rq, ro_ObservedGeneration = None,
      ro_RestoreMode = None, ro_Stage = ''RESTORE_REQUESTED'', ro_ResolutionState = RestoreInFlight,
      ro_ResolutionBasis = None, ro_RecoveryPrincipal = None, ro_RecoveryClaimedAt = None,
      ro_RequestedAt = now, ro_HTTP200At = None, ro_ResolvedAt = None, ro_ResolutionEventID = None,
      ro_Version = 0\<rparr>"

definition ReservePairRestore :: "host \<Rightarrow> RestoreReservation \<Rightarrow> db \<Rightarrow> store_error + db" where
  "ReservePairRestore h rq s =
     (if rr_AuthorizationID rq = [] \<or> rr_OperationID rq = [] \<or> rr_PairID rq = [] \<or> rr_SessionID rq = [] \<or>
        rr_ExpectedGeneration rq = [] \<or> rr_AuthorizedPrincipal rq = [] \<or> rr_Actor rq = []
      then Inl (StoreError ''restore authorization tuple is incomplete'')
      else if rr_RiskScope rq \<noteq> ''POSSIBLE_PROMPT_REPLAY'' \<and>
        rr_RiskScope rq \<noteq> ''PROMPT_REPLAY_AND_UNRESOLVED_EXECUTION''
      then Inl (StoreError ''invalid restore risk scope'')
      else let now = now_if_zero h (rr_At rq) in
      bindE (newAuditEventID h 0) (\<lambda>riskEventID.
      bindE (newAuditEventID h 1) (\<lambda>requestEventID.
      bindE (require (session_of s (rr_PairID rq)) ErrWorkerSessionNotFound) (\<lambda>w.
      if w_SessionID w \<noteq> rr_SessionID rq \<or> w_TerminalGeneration w \<noteq> rr_ExpectedGeneration rq
      then Inl ErrStateConflict
      else if w_QuarantineState w \<noteq> QuarantineClean then Inl ErrQuarantinedExecution
      else if w_Status w \<noteq> WorkerSessionTerminated then Inl ErrStateConflict
      else if restore_blocked s (rr_PairID rq) then Inl ErrQuarantinedExecution
      else
      andThen (cas1 ErrStateConflict
        (update_sessions (\<lambda>v. w_PairID v = rr_PairID rq \<and> w_SessionID v = rr_SessionID rq \<and>
             w_TerminalGeneration v = rr_ExpectedGeneration rq \<and> w_Status v = WorkerSessionTerminated \<and>
             w_QuarantineState v = w_QuarantineState w)
          (\<lambda>v. v\<lparr>w_QuarantineState := QuarantineQuarantined, w_UpdatedAt := now\<rparr>) s)) (\<lambda>s1.
      andThen (Inr (quarantine_lineage (rr_SessionID rq) (rr_ExpectedGeneration rq) (rr_PairID rq) s1)) (\<lambda>s2.
      andThen (audit_tx h (mk_event riskEventID ''PAIR_RESTORE_RISK_ACCEPTED'' now (rr_PairID rq, [], [], [])
          (rr_Actor rq)
          [(''operation_id'', GString (rr_OperationID rq)), (''session_id'', GString (rr_SessionID rq)),
           (''expected_generation'', GString (rr_ExpectedGeneration rq)),
           (''risk_scope'', GString (rr_RiskScope rq)),
           (''authorized_principal'', GString (rr_AuthorizedPrincipal rq))]) s2) (\<lambda>s3.
      andThen (map_error mapLifecycleWriteError
        (insert_restore_authorization (new_authorization rq riskEventID now) s3)) (\<lambda>s4.
      andThen (audit_tx h (mk_event requestEventID ''PAIR_RESTORE_REQUESTED'' now (rr_PairID rq, [], [], [])
          (rr_Actor rq)
          [(''operation_id'', GString (rr_OperationID rq)),
           (''authorization_id'', GString (rr_AuthorizationID rq)),
           (''session_id'', GString (rr_SessionID rq)),
           (''expected_generation'', GString (rr_ExpectedGeneration rq))]) s4) (\<lambda>s5.
      map_error mapLifecycleWriteError (insert_restore_operation (new_restore rq now) s5))))))))))"

definition GetPairRestoreOperation :: "db \<Rightarrow> string \<Rightarrow> store_error + PairRestoreOperation" where
  "GetPairRestoreOperation s operationID = require (restore_of s operationID) ErrOperationNotFound"

section \<open>The outcome of the call\<close>

text \<open>\<open>transitionRestore\<close> with its statement given as condition (on the version read) and effect.\<close>

definition transitionRestore ::
  "host \<Rightarrow> string \<Rightarrow> string \<Rightarrow> string \<Rightarrow> (int \<Rightarrow> PairRestoreOperation \<Rightarrow> bool) \<Rightarrow>
     (PairRestoreOperation \<Rightarrow> PairRestoreOperation) \<Rightarrow> db \<Rightarrow> store_error + db" where
  "transitionRestore h operationID actor eventType P f s =
     bindE (require (restore_of s operationID) ErrOperationNotFound) (\<lambda>r.
     bindE (newAuditEventID h 0) (\<lambda>eventID.
     andThen (audit_tx h (mk_event eventID eventType (h_now h) (ro_PairID r, [], [], []) actor
         [(''operation_id'', GString operationID)]) s) (\<lambda>s1.
     restore_cas SqlError (cas1 ErrStateConflict) (P (ro_Version r)) f s1)))"

definition RecordPairRestoreUnknown :: "host \<Rightarrow> string \<Rightarrow> string \<Rightarrow> db \<Rightarrow> store_error + db" where
  "RecordPairRestoreUnknown h operationID actor s =
     transitionRestore h operationID actor ''PAIR_RESTORE_OUTCOME_UNKNOWN''
       (\<lambda>version r. ro_OperationID r = operationID \<and> ro_ResolutionState r = RestoreInFlight \<and>
          ro_Version r = version)
       (\<lambda>r. r\<lparr>ro_ResolutionState := RestoreOutcomeUnknown, ro_Version := ro_Version r + 1\<rparr>) s"

definition ConfirmPairRestore where
  "ConfirmPairRestore h operationID sessionID oldGeneration newGeneration restoreMode
       (sessionStatus :: WorkerSessionStatus) actor confirmedAt0 s =
     (if sessionID = [] \<or> oldGeneration = [] \<or> newGeneration = [] \<or> restoreMode = [] \<or> actor = [] \<or>
        (sessionStatus \<noteq> WorkerSessionActive \<and> sessionStatus \<noteq> WorkerSessionIdle \<and>
         sessionStatus \<noteq> WorkerSessionTerminated)
      then Inl (StoreError ''incomplete restore confirmation'')
      else if restoreMode \<noteq> ''native'' \<and> restoreMode \<noteq> ''saved_prompt'' \<and> restoreMode \<noteq> ''fresh''
      then Inl (StoreError ''invalid restore mode'')
      else let confirmedAt = now_if_zero h confirmedAt0 in
      bindE (newAuditEventID h 0) (\<lambda>eventID.
      bindE (require (restore_of s operationID) ErrOperationNotFound) (\<lambda>r.
      if ro_ExpectedGeneration r \<noteq> oldGeneration \<or> ro_Stage r \<noteq> ''RESTORE_REQUESTED'' \<or>
        ro_ResolutionState r \<noteq> RestoreInFlight
      then Inl ErrStateConflict
      else
      bindE (require (session_of s (ro_PairID r)) (SqlError SqlNoRows)) (\<lambda>w.
      if w_SessionID w \<noteq> sessionID \<or> w_TerminalGeneration w \<noteq> oldGeneration then Inl ErrStateConflict
      else
      andThen (audit_tx h (mk_event eventID ''PAIR_RESTORE_CONFIRMED'' confirmedAt (ro_PairID r, [], [], []) actor
          [(''operation_id'', GString operationID), (''session_id'', GString sessionID),
           (''old_generation'', GString oldGeneration), (''observed_generation'', GString newGeneration),
           (''restore_mode'', GString restoreMode),
           (''basis'', GString ''RESTORE_HTTP_200_CONFIRMED'')]) s) (\<lambda>s1.
      andThen (restore_cas SqlError (cas1 ErrStateConflict)
        (\<lambda>q. ro_OperationID q = operationID \<and> ro_Version q = ro_Version r \<and>
             ro_Stage q = ''RESTORE_REQUESTED'' \<and> ro_ResolutionState q = RestoreInFlight)
        (\<lambda>q. q\<lparr>ro_Stage := ''RESTORE_CONFIRMED'', ro_ObservedGeneration := Some newGeneration,
               ro_RestoreMode := Some restoreMode, ro_HTTP200At := Some confirmedAt,
               ro_Version := ro_Version q + 1\<rparr>) s1) (\<lambda>s2.
      cas1 ErrStateConflict
        (update_sessions (\<lambda>v. w_PairID v = ro_PairID r \<and> w_SessionID v = sessionID \<and>
             w_TerminalGeneration v = oldGeneration)
          (\<lambda>v. v\<lparr>w_TerminalGeneration := newGeneration, w_Status := sessionStatus,
                 w_QuarantineState := QuarantineQuarantined, w_UpdatedAt := confirmedAt\<rparr>) s2)))))))"

section \<open>Evidence of a proven stop\<close>

definition json_one :: "host \<Rightarrow> audit_row \<Rightarrow> string \<Rightarrow> bool" where
  "json_one h e k \<longleftrightarrow>
     (case h_json_extract h (ar_details_json e) k of
        Some (SqlInteger i) \<Rightarrow> i = 1
      | Some (SqlReal x) \<Rightarrow> x = ''1.0''
      | _ \<Rightarrow> False)"

text \<open>The confirmation event of a stop row, column by column.\<close>

definition confirmation_event :: "host \<Rightarrow> StopOperation \<Rightarrow> audit_row \<Rightarrow> bool" where
  "confirmation_event h p e \<longleftrightarrow>
     ar_event_type e = ''STOP_OPERATION_CONFIRMED'' \<and>
     json_column h e ''stop_operation_id'' = Some (st_OperationID p) \<and>
     json_column h e ''restore_operation_id'' = st_RestoreOperationID p \<and>
     ar_pair_id e = Some (st_PairID p) \<and> ar_task_id e = st_TaskID p \<and>
     ar_contract_id e = st_ContractID p \<and> ar_attempt_id e = st_AttemptID p \<and>
     json_column h e ''session_id'' = Some (st_SessionID p) \<and>
     json_column h e ''target_generation'' = Some (st_TerminalGeneration p) \<and>
     st_ConfirmationDeadlineAt p \<noteq> None \<and>
     json_column h e ''confirmation_deadline_at'' = map_option formatTime (st_ConfirmationDeadlineAt p) \<and>
     st_TerminationConfirmedAt p \<noteq> None \<and>
     json_column h e ''termination_confirmed_at'' = map_option formatTime (st_TerminationConfirmedAt p) \<and>
     json_column h e ''observed_session_id'' = Some (st_SessionID p) \<and>
     json_column h e ''observed_generation'' = Some (st_TerminalGeneration p) \<and>
     json_one h e ''is_terminated''"

definition unconstrained_or :: "string \<Rightarrow> string option \<Rightarrow> bool" where
  "unconstrained_or x column \<longleftrightarrow> x = [] \<or> column = Some x"

definition proven_stop_lineage :: "db \<Rightarrow> StopOperation \<Rightarrow> bool" where
  "proven_stop_lineage s p \<longleftrightarrow>
     (st_Purpose p = PairMaintenance \<and> st_TaskID p = None \<and> st_ContractID p = None \<and> st_AttemptID p = None) \<or>
     ((st_Purpose p = QuarantineCleanup \<or> st_Purpose p = RunningAttemptStop) \<and> st_AttemptID p \<noteq> None \<and>
      list_ex (\<lambda>a. Some (a_AttemptID a) = st_AttemptID p \<and> Some (a_TaskID a) = st_TaskID p \<and>
        Some (a_ContractID a) = st_ContractID p \<and> of_pair s (st_PairID p) a \<and>
        a_SessionID a = Some (st_SessionID p) \<and> a_TerminalGeneration a = Some (st_TerminalGeneration p) \<and>
        a_EndedAt a \<noteq> None \<and> a_QuarantineState a = QuarantineQuarantined) (task_attempts s))"

definition stop_within_deadline :: "StopOperation \<Rightarrow> bool" where
  "stop_within_deadline p \<longleftrightarrow>
     (case (st_TerminationConfirmedAt p, st_ConfirmationDeadlineAt p, st_CallCompletedAt p) of
        (Some confirmedAt, Some deadlineAt, Some callAt) \<Rightarrow> callAt \<le> confirmedAt \<and> confirmedAt < deadlineAt
      | _ \<Rightarrow> False)"

definition positiveD11StopEvidence where
  "positiveD11StopEvidence h s pairID sessionID generation restoreID attemptID stopID \<longleftrightarrow>
     list_ex (\<lambda>p. list_ex (confirmation_event h p) (audit_events s) \<and>
       st_PairID p = pairID \<and> st_SessionID p = sessionID \<and> st_TerminalGeneration p = generation \<and>
       unconstrained_or restoreID (st_RestoreOperationID p) \<and> unconstrained_or attemptID (st_AttemptID p) \<and>
       unconstrained_or stopID (Some (st_OperationID p)) \<and>
       st_Stage p = StopTerminationConfirmed \<and> st_ResolutionState p = StopResolutionTerminationConfirmed \<and>
       st_CallCompletedAt p \<noteq> None \<and> st_ConfirmationDeadlineAt p \<noteq> None \<and>
       st_TerminationConfirmedAt p \<noteq> None \<and> st_ResolvedAt p \<noteq> None \<and>
       proven_stop_lineage s p \<and> stop_within_deadline p) (stop_operations s)"

section \<open>Administrative coverage\<close>

definition administrativeOrPhysicalLineageTx where
  "administrativeOrPhysicalLineageTx h s restoreID pairID princ session generation attempt \<longleftrightarrow>
     positiveD11StopEvidence h s pairID session generation [] attempt [] \<or>
     list_ex (\<lambda>e. ar_event_type e = ''ADMINISTRATIVE_RISK_ACCEPTED'' \<and> ar_pair_id e = Some pairID \<and>
       ar_actor e = princ \<and> json_is h e ''authority_scope'' ''STOP_ADMINISTRATIVE_RECONCILIATION'' \<and>
       json_is h e ''session_id'' session \<and> json_is h e ''terminal_generation'' generation \<and>
       json_is h e ''attempt_id'' attempt \<and> json_is h e ''restore_operation_id'' restoreID \<and>
       list_ex (\<lambda>p. json_column h e ''stop_operation_id'' = Some (st_OperationID p) \<and>
         st_PairID p = pairID \<and> st_SessionID p = session \<and> st_RestoreOperationID p = Some restoreID \<and>
         (json_is h e ''class'' ''CLASS_B'' \<and> st_ResolutionState p = StopResolutionTargetAbsent \<or>
          json_is h e ''class'' ''CLASS_C'' \<and>
            st_ResolutionState p = StopResolutionAdministrativeRiskAccepted)) (stop_operations s))
       (audit_events s)"

definition restoreAdministrativeCoverageTx ::
  "host \<Rightarrow> db \<Rightarrow> string \<Rightarrow> string \<Rightarrow> string \<Rightarrow> store_error + unit" where
  "restoreAdministrativeCoverageTx h s restoreID pairID princ =
     bindE (require (session_of s pairID) (SqlError SqlNoRows)) (\<lambda>w.
     if w_QuarantineState w = QuarantineQuarantined \<and>
       \<not> administrativeOrPhysicalLineageTx h s restoreID pairID princ (w_SessionID w) (w_TerminalGeneration w) []
     then Inl ErrStateConflict
     else
     bindE (mapE (scan_lineage (SqlError SqlScanNull)) (quarantined_attempts s pairID)) (\<lambda>lineages.
     forE (\<lambda>(aid, sid, gen). ensure
       (administrativeOrPhysicalLineageTx h s restoreID pairID princ sid gen aid) ErrStateConflict) lineages))"

section \<open>Resolution\<close>

text \<open>A linked stop that has not come to a terminal resolution.\<close>

definition pending_linked_stop :: "db \<Rightarrow> string \<Rightarrow> bool" where
  "pending_linked_stop s restoreID \<longleftrightarrow>
     list_ex (\<lambda>p. st_RestoreOperationID p = Some restoreID \<and>
       \<not> (st_ResolutionState p = StopResolutionTerminationConfirmed \<or>
          st_ResolutionState p = StopResolutionTargetAbsent \<or>
          st_ResolutionState p = StopResolutionAdministrativeRiskAccepted)) (stop_operations s)"

definition claim_recovery :: "string \<Rightarrow> time \<Rightarrow> PairRestoreOperation \<Rightarrow> PairRestoreOperation" where
  "claim_recovery princ at r =
     r\<lparr>ro_ResolutionState := RestoreRecoveryClaimed, ro_RecoveryPrincipal := Some princ,
       ro_RecoveryClaimedAt := Some at, ro_Version := ro_Version r + 1\<rparr>"

definition resolve_restore ::
  "RestoreResolutionBasis \<Rightarrow> time \<Rightarrow> string \<Rightarrow> PairRestoreOperation \<Rightarrow> PairRestoreOperation" where
  "resolve_restore basis at eventID r =
     r\<lparr>ro_ResolutionState := RestoreResolved, ro_ResolutionBasis := Some basis, ro_ResolvedAt := Some at,
       ro_ResolutionEventID := Some eventID, ro_Version := ro_Version r + 1\<rparr>"

definition ResolveConfirmedRestore where
  "ResolveConfirmedRestore h operationID sessionID observedGeneration activityState princ actor resolvedAt0 s =
     (if sessionID = [] \<or> observedGeneration = [] \<or> princ = [] \<or> actor = [] \<or>
        (activityState \<noteq> ''idle'' \<and> activityState \<noteq> ''waiting_input'')
      then Inl (StoreError ''restore resolution requires exact idle/waiting observation'')
      else let resolvedAt = now_if_zero h resolvedAt0 in
      bindE (newAuditEventID h 0) (\<lambda>eventID.
      bindE (require (restore_of s operationID) ErrOperationNotFound) (\<lambda>r.
      bindE (null_string (ro_ObservedGeneration r)) (\<lambda>opObserved.
      if ro_SessionID r \<noteq> sessionID \<or> opObserved \<noteq> observedGeneration \<or> ro_Stage r \<noteq> ''RESTORE_CONFIRMED''
      then Inl ErrStateConflict
      else let alreadyResolved = (ro_ResolutionState r = RestoreResolved \<and>
             ro_ResolutionBasis r = Some RestoreHTTP200Confirmed \<and> ro_RecoveryPrincipal r = Some princ) in
      if \<not> alreadyResolved \<and> ro_ResolutionState r \<noteq> RestoreInFlight \<and>
        ro_ResolutionState r \<noteq> RestoreRecoveryClaimed
      then Inl ErrStateConflict
      else if \<not> alreadyResolved \<and> ro_ResolutionState r = RestoreRecoveryClaimed \<and>
        ro_RecoveryPrincipal r \<noteq> Some princ
      then Inl ErrStateConflict
      else
      bindE (require (session_of s (ro_PairID r)) (SqlError SqlNoRows)) (\<lambda>w.
      if w_SessionID w \<noteq> sessionID \<or> w_TerminalGeneration w \<noteq> observedGeneration then Inl ErrStateConflict
      else if pending_linked_stop s operationID then Inl ErrStateConflict
      else if alreadyResolved then Inr s
      else let claiming = (ro_ResolutionState r = RestoreInFlight);
               version = (if claiming then ro_Version r + 1 else ro_Version r) in
      andThen (if claiming
        then bindE (newAuditEventID h 1) (\<lambda>claimEventID.
          andThen (audit_tx h (mk_event claimEventID ''PAIR_RESTORE_RECOVERY_CLAIMED'' resolvedAt
              (ro_PairID r, [], [], []) actor
              [(''operation_id'', GString operationID), (''session_id'', GString sessionID),
               (''observed_generation'', GString observedGeneration), (''principal'', GString princ)]) s) (\<lambda>s1.
          restore_cas SqlError (cas1 ErrStateConflict)
            (\<lambda>q. ro_OperationID q = operationID \<and> ro_Stage q = ''RESTORE_CONFIRMED'' \<and>
                 ro_ResolutionState q = RestoreInFlight \<and> ro_Version q = ro_Version r)
            (claim_recovery princ resolvedAt) s1))
        else Inr s) (\<lambda>s2.
      andThen (audit_tx h (mk_event eventID ''PAIR_RESTORE_RESOLVED'' resolvedAt (ro_PairID r, [], [], []) actor
          [(''operation_id'', GString operationID), (''session_id'', GString sessionID),
           (''observed_generation'', GString observedGeneration), (''activity_state'', GString activityState),
           (''basis'', GString ''RESTORE_HTTP_200_CONFIRMED'')]) s2) (\<lambda>s3.
      restore_cas SqlError (cas1 ErrStateConflict)
        (\<lambda>q. ro_OperationID q = operationID \<and> ro_Stage q = ''RESTORE_CONFIRMED'' \<and>
             ro_ResolutionState q = RestoreRecoveryClaimed \<and> ro_Version q = version \<and>
             ro_ObservedGeneration q = Some observedGeneration)
        (resolve_restore RestoreHTTP200Confirmed resolvedAt eventID) s3)))))))"

text \<open>Class A: the linked stop proves the current runtime, and every quarantined attempt has its own proof.\<close>

definition restore_physical_proof :: "host \<Rightarrow> PairRestoreOperation \<Rightarrow> db \<Rightarrow> store_error + unit" where
  "restore_physical_proof h r s =
     bindE (require (find (\<lambda>p. st_RestoreOperationID p = Some (ro_OperationID r) \<and>
         st_PairID p = ro_PairID r \<and> st_SessionID p = ro_SessionID r) (stop_operations s)) ErrStateConflict) (\<lambda>p.
     bindE (require (session_of s (ro_PairID r)) (SqlError SqlNoRows)) (\<lambda>w.
     let runtimeGeneration = st_TerminalGeneration p in
     if w_SessionID w \<noteq> ro_SessionID r \<or>
       (ro_Stage r = ''RESTORE_CONFIRMED'' \<and> w_TerminalGeneration w \<noteq> runtimeGeneration) \<or>
       (ro_Stage r = ''RESTORE_REQUESTED'' \<and> w_TerminalGeneration w \<noteq> ro_ExpectedGeneration r)
     then Inl ErrStateConflict
     else if \<not> positiveD11StopEvidence h s (ro_PairID r) (ro_SessionID r) runtimeGeneration
       (ro_OperationID r) [] []
     then Inl ErrStateConflict
     else
     bindE (mapE (scan_lineage (SqlError SqlScanNull)) (quarantined_attempts s (ro_PairID r))) (\<lambda>lineages.
     forE (\<lambda>(aid, sid, gen). ensure
       (positiveD11StopEvidence h s (ro_PairID r) sid gen [] aid []) ErrStateConflict) lineages)))"

definition ResolveAmbiguousRestore where
  "ResolveAmbiguousRestore h operationID pairID sessionID generation basis evidence princ actor resolvedAt0 s =
     (if operationID = [] \<or> pairID = [] \<or> sessionID = [] \<or> generation = [] \<or>
        (basis \<noteq> PhysicalExecutionResolution \<and> basis \<noteq> AdministrativeRiskResolution) \<or>
        evidence = [] \<or> princ = [] \<or> actor = []
      then Inl (StoreError ''ambiguous restore resolution requires exact tuple, basis, evidence, and verified principal'')
      else let resolvedAt = now_if_zero h resolvedAt0 in
      bindE (newAuditEventID h 0) (\<lambda>claimEvent.
      bindE (newAuditEventID h 1) (\<lambda>resolutionEvent.
      bindE (require (restore_of s operationID) ErrOperationNotFound) (\<lambda>r.
      if ro_PairID r \<noteq> pairID \<or> ro_SessionID r \<noteq> sessionID \<or> ro_ExpectedGeneration r \<noteq> generation
      then Inl ErrAttemptLineageMismatch
      else if pending_linked_stop s operationID then Inl ErrStateConflict
      else
      bindE (if basis = AdministrativeRiskResolution \<and>
          list_ex (\<lambda>p. st_RestoreOperationID p = Some operationID) (stop_operations s)
        then restoreAdministrativeCoverageTx h s operationID pairID princ else Inr ()) (\<lambda>_.
      if ro_ResolutionState r = RestoreResolved \<and> ro_ResolutionBasis r = Some basis \<and>
        ro_RecoveryPrincipal r = Some princ
      then Inr s
      else if ro_ResolutionState r \<noteq> RestoreOutcomeUnknown \<and> ro_ResolutionState r \<noteq> RestoreRecoveryClaimed \<and>
        ro_ResolutionState r \<noteq> RestoreCleanupClaimed
      then Inl ErrStateConflict
      else
      bindE (if basis = PhysicalExecutionResolution then restore_physical_proof h r s else Inr ()) (\<lambda>_.
      let details = [(''operation_id'', GString operationID), (''basis'', GString (restore_basis_string basis)),
            (''principal'', GString princ), (''evidence'', GString evidence)];
          claiming = (ro_ResolutionState r = RestoreOutcomeUnknown);
          source = (if claiming then RestoreRecoveryClaimed else ro_ResolutionState r);
          version = (if claiming then ro_Version r + 1 else ro_Version r) in
      andThen (audit_tx h (mk_event claimEvent ''PAIR_RESTORE_RECOVERY_CLAIMED'' resolvedAt
          (pairID, [], [], []) actor details) s) (\<lambda>s1.
      andThen (if claiming
        then restore_cas SqlError (cas1 ErrStateConflict)
          (\<lambda>q. ro_OperationID q = operationID \<and> ro_ResolutionState q = RestoreOutcomeUnknown \<and>
               ro_Version q = ro_Version r)
          (claim_recovery princ resolvedAt) s1
        else bindE (null_string (ro_RecoveryPrincipal r)) (\<lambda>owner.
          if owner \<noteq> princ then Inl ErrStateConflict else Inr s1)) (\<lambda>s2.
      andThen (audit_tx h (mk_event resolutionEvent ''PAIR_RESTORE_RESOLVED'' resolvedAt
          (pairID, [], [], []) actor details) s2) (\<lambda>s3.
      restore_cas SqlError (cas1 ErrStateConflict)
        (\<lambda>q. ro_OperationID q = operationID \<and> ro_ResolutionState q = source \<and> ro_Version q = version)
        (resolve_restore basis resolvedAt resolutionEvent) s3)))))))))"

section \<open>Claims\<close>

definition ClaimRestoreCleanup where
  "ClaimRestoreCleanup (operationID :: string) (pairID :: string) (sessionID :: string)
       (targetGeneration :: string) (princ :: string) (actor :: string) (claimedAt :: time) (s :: db) =
     (Inl ErrAtomicDispatchRequired :: store_error + db)"

record RestoreCleanupObservation =
  rc_SessionID :: string
  rc_TerminalGeneration :: string
  rc_IsTerminated :: bool

text \<open>The defaults of a linked cleanup stop; no observation is the zero value.\<close>

definition default_cleanup_stop :: "StopOperation \<Rightarrow> string \<Rightarrow> time \<Rightarrow> StopOperation" where
  "default_cleanup_stop stop0 actor claimedAt = stop0\<lparr>
     st_RequestedAt := (if IsZero (st_RequestedAt stop0) then claimedAt else st_RequestedAt stop0),
     st_Actor := (if st_Actor stop0 = [] then actor else st_Actor stop0),
     st_Stage := (if st_Stage stop0 = OtherStopStage [] then StopRequested else st_Stage stop0),
     st_ResolutionState := (if st_ResolutionState stop0 = OtherStopResolution []
       then StopResolutionInFlight else st_ResolutionState stop0)\<rparr>"

definition the_observation :: "RestoreCleanupObservation list \<Rightarrow> RestoreCleanupObservation" where
  "the_observation observations =
     (case observations of
        [] \<Rightarrow> \<lparr>rc_SessionID = [], rc_TerminalGeneration = [], rc_IsTerminated = False\<rparr>
      | x # _ \<Rightarrow> x)"

definition ClaimRestoreCleanupWithStop ::
  "host \<Rightarrow> StopOperation \<Rightarrow> string \<Rightarrow> string \<Rightarrow> time \<Rightarrow> RestoreCleanupObservation list \<Rightarrow> db \<Rightarrow> store_error + db" where
  "ClaimRestoreCleanupWithStop h stop0 princ actor claimedAt0 observations s =
     (case st_RestoreOperationID stop0 of
        None \<Rightarrow> Inl (StoreError ''linked restore cleanup stop tuple is incomplete'')
      | Some restoreID \<Rightarrow>
     if st_OperationID stop0 = [] \<or> restoreID = [] \<or> st_PairID stop0 = [] \<or> st_SessionID stop0 = [] \<or>
       st_TerminalGeneration stop0 = [] \<or> princ = [] \<or> actor = []
     then Inl (StoreError ''linked restore cleanup stop tuple is incomplete'')
     else if st_RestorePrincipal stop0 \<noteq> Some princ then Inl ErrStateConflict
     else let claimedAt = now_if_zero h claimedAt0;
              stop = default_cleanup_stop stop0 actor claimedAt;
              observation = the_observation observations in
     if st_Stage stop \<noteq> StopRequested \<or> st_ResolutionState stop \<noteq> StopResolutionInFlight
     then Inl (StoreError ''linked cleanup must begin at STOP_REQUESTED/IN_FLIGHT'')
     else if 1 < length observations then Inl (StoreError ''exactly one cleanup observation may be supplied'')
     else if st_Purpose stop = PairMaintenance \<and> (rc_SessionID observation \<noteq> st_SessionID stop \<or>
       rc_TerminalGeneration observation \<noteq> st_TerminalGeneration stop \<or> rc_IsTerminated observation)
     then Inl ErrStateConflict
     else
     bindE (newAuditEventID h 0) (\<lambda>claimEventID.
     bindE (require (restore_of s restoreID) ErrOperationNotFound) (\<lambda>r.
     let validObservedGeneration = (st_Purpose stop = PairMaintenance \<and>
           rc_SessionID observation = ro_SessionID r \<and>
           rc_TerminalGeneration observation = st_TerminalGeneration stop) in
     if ro_PairID r \<noteq> st_PairID stop \<or> ro_SessionID r \<noteq> st_SessionID stop \<or>
       ro_ResolutionState r \<noteq> RestoreRecoveryClaimed \<or> ro_RecoveryPrincipal r \<noteq> Some princ \<or>
       (st_TerminalGeneration stop \<noteq> ro_ExpectedGeneration r \<and>
        ro_ObservedGeneration r \<noteq> Some (st_TerminalGeneration stop) \<and> \<not> validObservedGeneration)
     then Inl ErrStateConflict
     else
     bindE (require (session_of s (ro_PairID r)) (SqlError SqlNoRows)) (\<lambda>w.
     if w_SessionID w \<noteq> ro_SessionID r \<or> w_QuarantineState w \<noteq> QuarantineQuarantined \<or>
       w_TerminalGeneration w \<noteq>
         (case ro_ObservedGeneration r of Some g \<Rightarrow> g | None \<Rightarrow> ro_ExpectedGeneration r)
     then Inl ErrStateConflict
     else
     andThen (audit_tx h (mk_event claimEventID ''PAIR_RESTORE_CLEANUP_CLAIMED'' claimedAt
         (ro_PairID r, [], [], []) actor
         [(''operation_id'', GString restoreID), (''session_id'', GString (ro_SessionID r)),
          (''expected_generation'', GString (ro_ExpectedGeneration r)),
          (''target_generation'', GString (st_TerminalGeneration stop)),
          (''observation_session_id'', GString (rc_SessionID observation)),
          (''observation_generation'', GString (rc_TerminalGeneration observation)),
          (''principal'', GString princ)]) s) (\<lambda>s1.
     andThen (restore_cas SqlError (cas1 ErrStateConflict)
       (\<lambda>q. ro_OperationID q = restoreID \<and> ro_PairID q = ro_PairID r \<and> ro_SessionID q = ro_SessionID r \<and>
            ro_ResolutionState q = RestoreRecoveryClaimed \<and> ro_RecoveryPrincipal q = Some princ \<and>
            ro_Version q = ro_Version r)
       (\<lambda>q. q\<lparr>ro_ResolutionState := RestoreCleanupClaimed, ro_Version := ro_Version q + 1\<rparr>) s1) (\<lambda>s2.
     createStopOperationTx (draws_from 1 h) stop [rc_TerminalGeneration observation] s2))))))"

definition ClaimRestoreRecovery where
  "ClaimRestoreRecovery h operationID pairID sessionID generation princ actor claimedAt0 s =
     (if operationID = [] \<or> pairID = [] \<or> sessionID = [] \<or> generation = [] \<or> princ = [] \<or> actor = []
      then Inl (StoreError ''restore recovery claim tuple is incomplete'')
      else let claimedAt = now_if_zero h claimedAt0 in
      bindE (newAuditEventID h 0) (\<lambda>eventID.
      bindE (require (restore_of s operationID) ErrOperationNotFound) (\<lambda>r.
      let allowed = (ro_ResolutionState r = RestoreOutcomeUnknown \<or>
            (ro_ResolutionState r = RestoreInFlight \<and> ro_Stage r = ''RESTORE_CONFIRMED''));
          genMatches = (generation = ro_ExpectedGeneration r \<or> ro_ObservedGeneration r = Some generation) in
      if ro_PairID r \<noteq> pairID \<or> ro_SessionID r \<noteq> sessionID \<or> \<not> allowed \<or> \<not> genMatches
      then Inl ErrStateConflict
      else
      andThen (audit_tx h (mk_event eventID ''PAIR_RESTORE_RECOVERY_CLAIMED'' claimedAt (pairID, [], [], []) actor
          [(''operation_id'', GString operationID), (''session_id'', GString sessionID),
           (''generation'', GString generation), (''principal'', GString princ)]) s) (\<lambda>s1.
      restore_cas SqlError (cas1 ErrStateConflict)
        (\<lambda>q. ro_OperationID q = operationID \<and> ro_PairID q = pairID \<and> ro_SessionID q = sessionID \<and>
             ro_ResolutionState q = ro_ResolutionState r \<and> ro_Version q = ro_Version r)
        (claim_recovery princ claimedAt) s1))))"

section \<open>The transactions are sequences of writes\<close>

lemma ReservePairRestore_keeps: "keeps (h_sha256 h) s (ReservePairRestore h rq s)"
  unfolding ReservePairRestore_def Let_def
  by (intro keeps_rules)
    (auto simp: session_evolves_def intro: store_write.w_authorization_new store_write.w_restore_new)

lemma transitionRestore_keeps [keeps_rules]:
  "keeps (h_sha256 h) s (transitionRestore h oid actor kind P f s)"
  unfolding transitionRestore_def by (intro keeps_rules) blast

lemma RecordPairRestoreUnknown_keeps: "keeps (h_sha256 h) s (RecordPairRestoreUnknown h oid actor s)"
  unfolding RecordPairRestoreUnknown_def by (rule transitionRestore_keeps)

lemma ConfirmPairRestore_keeps:
  "keeps (h_sha256 h) s (ConfirmPairRestore h oid sid old new mode st actor at s)"
  unfolding ConfirmPairRestore_def Let_def
  by (intro keeps_rules) (auto simp: session_evolves_def)

lemma ResolveConfirmedRestore_keeps:
  "keeps (h_sha256 h) s (ResolveConfirmedRestore h oid sid gen act princ actor at s)"
  unfolding ResolveConfirmedRestore_def Let_def by (intro keeps_rules) blast+

lemma ResolveAmbiguousRestore_keeps:
  "keeps (h_sha256 h) s (ResolveAmbiguousRestore h oid pid sid gen basis evidence princ actor at s)"
  unfolding ResolveAmbiguousRestore_def Let_def by (intro keeps_rules) blast+

lemma ClaimRestoreCleanupWithStop_keeps:
  "keeps (h_sha256 h) s (ClaimRestoreCleanupWithStop h stop princ actor at obs s)"
  unfolding ClaimRestoreCleanupWithStop_def Let_def by (intro keeps_rules) blast+

lemma ClaimRestoreRecovery_keeps:
  "keeps (h_sha256 h) s (ClaimRestoreRecovery h oid pid sid gen princ actor at s)"
  unfolding ClaimRestoreRecovery_def Let_def by (intro keeps_rules) blast+

interpretation reserve_restore: store_operation "h_sha256 h" "ReservePairRestore h" for h
  by unfold_locales (auto intro: keepsD [OF ReservePairRestore_keeps])

interpretation confirm_restore: store_operation "h_sha256 h"
    "\<lambda>(oid, sid, old, new, mode, st, actor, at). ConfirmPairRestore h oid sid old new mode st actor at" for h
  by unfold_locales (auto intro: keepsD [OF ConfirmPairRestore_keeps])

interpretation resolve_confirmed: store_operation "h_sha256 h"
    "\<lambda>(oid, sid, gen, act, princ, actor, at). ResolveConfirmedRestore h oid sid gen act princ actor at" for h
  by unfold_locales (auto intro: keepsD [OF ResolveConfirmedRestore_keeps])

interpretation resolve_ambiguous: store_operation "h_sha256 h"
    "\<lambda>(oid, pid, sid, gen, basis, evidence, princ, actor, at).
       ResolveAmbiguousRestore h oid pid sid gen basis evidence princ actor at" for h
  by unfold_locales (auto intro: keepsD [OF ResolveAmbiguousRestore_keeps])

interpretation claim_cleanup: store_operation "h_sha256 h"
    "\<lambda>(stop, princ, actor, at, obs). ClaimRestoreCleanupWithStop h stop princ actor at obs" for h
  by unfold_locales (auto intro: keepsD [OF ClaimRestoreCleanupWithStop_keeps])

interpretation claim_restore_recovery: store_operation "h_sha256 h"
    "\<lambda>(oid, pid, sid, gen, princ, actor, at). ClaimRestoreRecovery h oid pid sid gen princ actor at" for h
  by unfold_locales (auto intro: keepsD [OF ClaimRestoreRecovery_keeps])

end
