(* ===== verification/Clearance_Store.thy ===== *)
theory Clearance_Store
  imports Restore_Store
begin

text \<open>
  \<open>internal/store/clearance_transactions.go\<close>: the only transaction that lifts the quarantine of
  a pair by decision. It wants evidence for the worker session and for every quarantined attempt
  of the pair, and every stop of the pair reconciled.
\<close>

record QuarantineClearance =
  qc_PairID :: string
  qc_RestoreOperationID :: string
  qc_Principal :: string
  qc_At :: time
  qc_Session :: LineageClearance
  qc_Attempts :: "LineageClearance list"

section \<open>The stops of the pair\<close>

definition priorLineageClearanceTx where
  "priorLineageClearanceTx h s stopID pairID session generation attemptID \<longleftrightarrow>
     list_ex (\<lambda>e. (ar_event_type e = ''QUARANTINE_RESOLVED_PHYSICAL'' \<or>
         ar_event_type e = ''QUARANTINE_RESOLVED_ADMINISTRATIVE'') \<and>
       ar_pair_id e = Some pairID \<and> valueOrEmpty (ar_attempt_id e) = attemptID \<and>
       json_is h e ''stop_operation_id'' stopID \<and> json_is h e ''session_id'' session \<and>
       json_is h e ''terminal_generation'' generation) (audit_events s)"

text \<open>A stop is reconciled by an absence or by an accepted risk; any other open resolution blocks.\<close>

definition stop_risk_class :: "StopResolutionState \<Rightarrow> string option" where
  "stop_risk_class r =
     (case r of
        StopResolutionTargetAbsent \<Rightarrow> Some ''CLASS_B''
      | StopResolutionAdministrativeRiskAccepted \<Rightarrow> Some ''CLASS_C''
      | _ \<Rightarrow> None)"

definition attempt_matches :: "(string \<times> string \<times> string) list \<Rightarrow> StopOperation \<Rightarrow> string \<Rightarrow> bool" where
  "attempt_matches attempts p attemptID \<longleftrightarrow>
     st_AttemptID p = Some attemptID \<and>
     map_of attempts attemptID = Some (st_SessionID p, st_TerminalGeneration p)"

definition stop_reconciled ::
  "host \<Rightarrow> QuarantineClearance \<Rightarrow> string \<Rightarrow> string \<Rightarrow> (string \<times> string \<times> string) list \<Rightarrow> db \<Rightarrow>
     StopOperation \<Rightarrow> store_error + unit" where
  "stop_reconciled h rq currentSession currentGeneration attempts s p =
     (if st_ResolutionState p = StopResolutionTerminationConfirmed then Inr ()
      else
      bindE (require (stop_risk_class (st_ResolutionState p)) ErrQuarantinedExecution) (\<lambda>cls.
      bindE (ensure (\<not> (st_SessionID p = currentSession \<and> st_TerminalGeneration p = currentGeneration) \<or>
          priorLineageClearanceTx h s (st_OperationID p) (qc_PairID rq) currentSession currentGeneration [] \<or>
          acceptedLineageTx h s (st_OperationID p) (qc_PairID rq) (qc_Principal rq) currentSession
            currentGeneration [] cls (valueOrEmpty (st_RestoreOperationID p))) ErrQuarantinedExecution) (\<lambda>_.
      (case st_AttemptID p of
         None \<Rightarrow> Inr ()
       | Some attemptID \<Rightarrow>
           ensure (\<not> attempt_matches attempts p attemptID \<or>
             priorLineageClearanceTx h s (st_OperationID p) (qc_PairID rq) (st_SessionID p)
               (st_TerminalGeneration p) attemptID \<or>
             acceptedLineageTx h s (st_OperationID p) (qc_PairID rq) (qc_Principal rq) (st_SessionID p)
               (st_TerminalGeneration p) attemptID cls (valueOrEmpty (st_RestoreOperationID p)))
             ErrQuarantinedExecution))))"

text \<open>The last stop of the pair, in insertion order, that targets a lineage; blank when there is none.\<close>

definition latest_stop :: "(StopOperation \<Rightarrow> bool) \<Rightarrow> StopOperation list \<Rightarrow> string" where
  "latest_stop P ps = (case rev (filter P ps) of [] \<Rightarrow> [] | p # _ \<Rightarrow> st_OperationID p)"

definition guardPairStopsForClearance ::
  "host \<Rightarrow> QuarantineClearance \<Rightarrow> string \<Rightarrow> string \<Rightarrow> (string \<times> string \<times> string) list \<Rightarrow> db \<Rightarrow>
     store_error + unit" where
  "guardPairStopsForClearance h rq currentSession currentGeneration attempts s =
     (let risks = filter (\<lambda>p. st_PairID p = qc_PairID rq) (stop_operations s);
          latestSession = latest_stop (\<lambda>p. st_SessionID p = currentSession \<and>
            st_TerminalGeneration p = currentGeneration) risks in
      bindE (forE (stop_reconciled h rq currentSession currentGeneration attempts s) risks) (\<lambda>_.
      if latestSession \<noteq> [] \<and> lc_StopOperationID (qc_Session rq) \<noteq> latestSession then Inl ErrStateConflict
      else
      forE (\<lambda>item. let latest = latest_stop (\<lambda>p. attempt_matches attempts p (lc_AttemptID item)) risks in
        ensure (latest = [] \<or> lc_StopOperationID item = latest) ErrAttemptLineageMismatch) (qc_Attempts rq)))"

section \<open>The evidence of a lineage\<close>

definition clearanceStopRestoreLink :: "db \<Rightarrow> string \<Rightarrow> string \<Rightarrow> store_error + string" where
  "clearanceStopRestoreLink s stopID pairID =
     bindE (require (find (\<lambda>p. st_OperationID p = stopID \<and> st_PairID p = pairID) (stop_operations s))
       (SqlError SqlNoRows)) (\<lambda>p. Inr (valueOrEmpty (st_RestoreOperationID p)))"

definition accepted_for :: "host \<Rightarrow> QuarantineClearance \<Rightarrow> LineageClearance \<Rightarrow> string \<Rightarrow> db \<Rightarrow> store_error + unit" where
  "accepted_for h rq item cls s =
     bindE (clearanceStopRestoreLink s (lc_StopOperationID item) (qc_PairID rq)) (\<lambda>restoreLink.
     ensure (acceptedLineageTx h s (lc_StopOperationID item) (qc_PairID rq) (qc_Principal rq)
       (lc_SessionID item) (lc_TerminalGeneration item) (lc_AttemptID item) cls restoreLink) ErrStateConflict)"

definition verifyClearanceBasis ::
  "host \<Rightarrow> QuarantineClearance \<Rightarrow> LineageClearance \<Rightarrow> db \<Rightarrow> store_error + unit" where
  "verifyClearanceBasis h rq item s =
     (if lc_SessionID item = [] \<or> lc_TerminalGeneration item = [] \<or> lc_Evidence item = []
      then Inl ErrAttemptLineageMismatch
      else case lc_Basis item of
        ClearancePhysical \<Rightarrow>
          if lc_StopOperationID item = [] then Inl ErrStateConflict
          else
          bindE (require (stop_of s (lc_StopOperationID item)) (SqlError SqlNoRows)) (\<lambda>p.
          if st_PairID p \<noteq> qc_PairID rq \<or> st_SessionID p \<noteq> lc_SessionID item \<or>
            st_TerminalGeneration p \<noteq> lc_TerminalGeneration item \<or>
            (lc_AttemptID item \<noteq> [] \<and> valueOrEmpty (st_AttemptID p) \<noteq> lc_AttemptID item)
          then Inl ErrAttemptLineageMismatch
          else ensure (positiveD11StopEvidence h s (qc_PairID rq) (lc_SessionID item)
            (lc_TerminalGeneration item) [] (lc_AttemptID item) (lc_StopOperationID item)) ErrStateConflict)
      | ClearanceAbsenceAdministrative \<Rightarrow>
          if lc_StopOperationID item = [] then Inl ErrStateConflict
          else if \<not> list_ex (\<lambda>p. st_OperationID p = lc_StopOperationID item \<and> st_PairID p = qc_PairID rq \<and>
            st_SessionID p = lc_SessionID item \<and> st_TerminalGeneration p = lc_TerminalGeneration item \<and>
            unconstrained_or (lc_AttemptID item) (st_AttemptID p) \<and> st_Stage p = StopTargetAbsent \<and>
            st_ResolutionState p = StopResolutionTargetAbsent) (stop_operations s)
          then Inl ErrStateConflict
          else accepted_for h rq item ''CLASS_B'' s
      | ClearanceRiskAdministrative \<Rightarrow>
          if lc_StopOperationID item = [] then Inl ErrStateConflict
          else
          bindE (require (find (\<lambda>p. st_OperationID p = lc_StopOperationID item \<and>
            st_PairID p = qc_PairID rq) (stop_operations s)) (SqlError SqlNoRows)) (\<lambda>p.
          if st_ResolutionState p \<noteq> StopResolutionAdministrativeRiskAccepted then Inl ErrStateConflict
          else accepted_for h rq item ''CLASS_C'' s)
      | OtherClearanceBasis _ \<Rightarrow> Inl ErrInvalidOperationTransition)"

section \<open>The clearance\<close>

definition appendClearanceAudit ::
  "host \<Rightarrow> nat \<Rightarrow> QuarantineClearance \<Rightarrow> LineageClearance \<Rightarrow> db \<Rightarrow> store_error + db" where
  "appendClearanceAudit h k rq item s =
     bindE (newAuditEventID h k) (\<lambda>eventID.
     let kind = (if lc_Basis item = ClearancePhysical then ''QUARANTINE_RESOLVED_PHYSICAL''
           else ''QUARANTINE_RESOLVED_ADMINISTRATIVE'');
         details = [(''session_id'', GString (lc_SessionID item)),
           (''terminal_generation'', GString (lc_TerminalGeneration item)),
           (''basis'', GString (clearance_basis_string (lc_Basis item))),
           (''evidence'', GString (lc_Evidence item)), (''principal'', GString (qc_Principal rq)),
           (''restore_operation_id'', GString (qc_RestoreOperationID rq)),
           (''stop_operation_id'', GString (lc_StopOperationID item))] @
           (if lc_Basis item = ClearanceRiskAdministrative
            then [(''resolution_state'', GString ''ADMINISTRATIVE_RISK_ACCEPTED'')] else []) in
     bindE (attempt_lineage s (lc_AttemptID item)) (\<lambda>(task, contract).
     audit_tx h (mk_event eventID kind (qc_At rq) (qc_PairID rq, task, contract, lc_AttemptID item)
       (qc_Principal rq) details) s))"

text \<open>The check of the attempt items; \<open>seen\<close> are the ids checked before.\<close>

fun check_clearances ::
  "host \<Rightarrow> QuarantineClearance \<Rightarrow> (string \<times> string \<times> string) list \<Rightarrow> db \<Rightarrow> string list \<Rightarrow>
     LineageClearance list \<Rightarrow> store_error + unit" where
  "check_clearances h rq expected s seen [] = Inr ()"
| "check_clearances h rq expected s seen (item # items) =
     (if lc_AttemptID item = [] \<or> lc_AttemptID item \<in> set seen \<or> lc_Evidence item = []
      then Inl ErrAttemptLineageMismatch
      else if map_of expected (lc_AttemptID item) \<noteq> Some (lc_SessionID item, lc_TerminalGeneration item)
      then Inl ErrAttemptLineageMismatch
      else bindE (verifyClearanceBasis h rq item s) (\<lambda>_.
        check_clearances h rq expected s (lc_AttemptID item # seen) items))"

fun clear_attempts ::
  "host \<Rightarrow> QuarantineClearance \<Rightarrow> nat \<Rightarrow> LineageClearance list \<Rightarrow> db \<Rightarrow> store_error + db" where
  "clear_attempts h rq k [] s = Inr s"
| "clear_attempts h rq k (item # items) s =
     andThen (operationCASResult
       (update_attempts (\<lambda>a. a_AttemptID a = lc_AttemptID item \<and> a_SessionID a = Some (lc_SessionID item) \<and>
            a_TerminalGeneration a = Some (lc_TerminalGeneration item) \<and>
            a_QuarantineState a = QuarantineQuarantined \<and> a_EndedAt a \<noteq> None)
         (\<lambda>a. a\<lparr>a_QuarantineState := QuarantineClean\<rparr>) s)) (\<lambda>s1.
     andThen (appendClearanceAudit h k rq item s1) (\<lambda>s2.
     clear_attempts h rq (Suc k) items s2))"

definition ClearQuarantineWithEvidence :: "host \<Rightarrow> QuarantineClearance \<Rightarrow> db \<Rightarrow> store_error + db" where
  "ClearQuarantineWithEvidence h rq0 s =
     (if qc_PairID rq0 = [] \<or> qc_Principal rq0 = [] \<or> lc_AttemptID (qc_Session rq0) \<noteq> [] \<or>
        lc_Evidence (qc_Session rq0) = []
      then Inl ErrStateConflict
      else let rq = rq0\<lparr>qc_At := now_if_zero h (qc_At rq0)\<rparr> in
      bindE (rejectUnresolvedRestore s (qc_PairID rq)) (\<lambda>_.
      bindE (if qc_RestoreOperationID rq = [] then Inr ()
        else bindE (require (find (\<lambda>r. ro_OperationID r = qc_RestoreOperationID rq \<and>
            ro_PairID r = qc_PairID rq) (pair_restore_operations s)) (SqlError SqlNoRows)) (\<lambda>r.
          ensure (ro_ResolutionState r = RestoreResolved) ErrStateConflict)) (\<lambda>_.
      bindE (require (session_of s (qc_PairID rq)) (SqlError SqlNoRows)) (\<lambda>w.
      if w_QuarantineState w \<noteq> QuarantineQuarantined \<or> lc_SessionID (qc_Session rq) \<noteq> w_SessionID w \<or>
        lc_TerminalGeneration (qc_Session rq) \<noteq> w_TerminalGeneration w
      then Inl ErrAttemptLineageMismatch
      else
      bindE (mapE (scan_lineage ErrAttemptLineageMismatch) (quarantined_attempts s (qc_PairID rq))) (\<lambda>expected.
      if length expected \<noteq> length (qc_Attempts rq) then Inl ErrAttemptLineageMismatch
      else
      bindE (guardPairStopsForClearance h rq (w_SessionID w) (w_TerminalGeneration w) expected s) (\<lambda>_.
      bindE (check_clearances h rq expected s [] (qc_Attempts rq)) (\<lambda>_.
      bindE (verifyClearanceBasis h rq (qc_Session rq) s) (\<lambda>_.
      andThen (clear_attempts h rq 0 (qc_Attempts rq) s) (\<lambda>s1.
      andThen (operationCASResult
        (update_sessions (\<lambda>v. w_PairID v = qc_PairID rq \<and> w_SessionID v = w_SessionID w \<and>
             w_TerminalGeneration v = w_TerminalGeneration w \<and> w_QuarantineState v = QuarantineQuarantined)
          (\<lambda>v. v\<lparr>w_QuarantineState := QuarantineClean, w_UpdatedAt := qc_At rq\<rparr>) s1)) (\<lambda>s2.
      appendClearanceAudit h (length (qc_Attempts rq)) rq (qc_Session rq) s2))))))))))"

section \<open>The transaction is a sequence of writes\<close>

lemma appendClearanceAudit_keeps [keeps_rules]:
  "keeps (h_sha256 h) s (appendClearanceAudit h k rq item s)"
  unfolding appendClearanceAudit_def Let_def by (intro keeps_rules)

lemma clear_attempts_keeps [keeps_rules]: "keeps (h_sha256 h) s (clear_attempts h rq k items s)"
proof (induction items arbitrary: k s)
  case (Cons item items)
  show ?case
    by (simp only: clear_attempts.simps, intro keeps_rules Cons.IH) (simp_all add: attempt_evolves_def)
qed (simp add: keeps_Inr)

lemma ClearQuarantineWithEvidence_keeps:
  "keeps (h_sha256 h) s (ClearQuarantineWithEvidence h rq s)"
  unfolding ClearQuarantineWithEvidence_def Let_def
  by (intro keeps_rules) (simp add: session_evolves_def)

interpretation clear_quarantine: store_operation "h_sha256 h" "ClearQuarantineWithEvidence h" for h
  by unfold_locales (auto intro: keepsD [OF ClearQuarantineWithEvidence_keeps])

end
