(* ===== verification/Store_Trace.thy ===== *)
theory Store_Trace
  imports Clearance_Store
begin

text \<open>
  The store as a whole. A command is one call of an operation that may change the database;
  \<open>exec\<close> runs it. A call that fails rolls its transaction back, so a history of the store is
  the sequence of its successful calls: \<open>reachable\<close> collects the databases of all histories
  from the freshly migrated one, with any host (clock, entropy) at every call and one digest
  throughout.
\<close>

datatype (plugins only: code) command =
    DoCreateProject Project
  | DoCreatePair Pair
  | DoCreateTask Task
  | DoTransitionTask string TaskState TaskState
  | DoInsertTaskContract TaskContract
  | DoAppendAuditEvent nat AuditEvent
  | DoPrepareBoundDispatch string string string string time DispatchBinding
  | DoRecordPreSendHold string string string time
  | DoRecordPreSendAdmissibilityRejected string string string time
  | DoResolvePreSendHold string string string string string string string string time
  | DoRecordSendRequested string string string string bool string time
  | DoRecordSendConfirmed string string bool time "ExecutionBudgetPolicy list"
  | DoBindLegacyExecutionBudget string string string string ExecutionBudgetPolicy time
  | DoRecordUnknownDelivery string string time
  | DoAtomicTerminalTransition string TaskState TaskState string string string
  | DoAtomicAttemptClosureTransition string string string
  | DoReservePairProvisioning PairProvisioningOperation string
  | DoConfirmPairProvisioning string WorkerSession string time
  | DoFailPairProvisioning string string string time
  | DoUpdateWorkerSession string WorkerSessionCASUpdate
  | DoReserveStopOperation StopOperation
  | DoCommitStopCallAccepted string time time
  | DoCommitStopOutcome string StopTerminalOutcome
  | DoClassifyAbandonedStopAlive string string string string string time
  | DoUpdateStopOperationStage string StopStage StopStage StopStageUpdate
  | DoRecordRecoverySweepEvent string string string time
  | DoRecordPostSendOutage RecoveryExecution string string string time
  | DoObservePostSend RecoveryExecution PostSendObservation string string time
  | DoRecordRecoveryAbsent RecoveryExecution string time
  | DoClassifyInterruptedRestore string string time
  | DoFailProvisioningAtStartup string string time
  | DoAcceptStopAdministrativeRisk AdministrativeStopDecision
  | DoReservePairRestore RestoreReservation
  | DoRecordPairRestoreUnknown string string
  | DoConfirmPairRestore string string string string string WorkerSessionStatus string time
  | DoResolveConfirmedRestore string string string string string string time
  | DoResolveAmbiguousRestore string string string string RestoreResolutionBasis string string string time
  | DoClaimRestoreCleanupWithStop StopOperation string string time "RestoreCleanupObservation list"
  | DoClaimRestoreRecovery string string string string string string time
  | DoClearQuarantineWithEvidence QuarantineClearance

fun exec :: "host \<Rightarrow> command \<Rightarrow> db \<Rightarrow> store_error + db" where
  "exec h (DoCreateProject p) s = CreateProject h p s"
| "exec h (DoCreatePair p) s = CreatePair h p s"
| "exec h (DoCreateTask t) s = CreateTask h t s"
| "exec h (DoTransitionTask tid old new) s = TransitionTask h tid old new s"
| "exec h (DoInsertTaskContract c) s = InsertTaskContract c s"
| "exec h (DoAppendAuditEvent busy e) s = map_sum id snd (AppendAuditEvent h busy e s)"
| "exec h (DoPrepareBoundDispatch tid cid aid path at b) s =
     map_sum id snd (PrepareBoundDispatch h tid cid aid path at b s)"
| "exec h (DoRecordPreSendHold oid disp actor at) s = RecordPreSendHold h oid disp actor at s"
| "exec h (DoRecordPreSendAdmissibilityRejected oid act actor at) s =
     RecordPreSendAdmissibilityRejected h oid act actor at s"
| "exec h (DoResolvePreSendHold oid aid disp sid gen act princ actor at) s =
     ResolvePreSendHold h oid aid disp sid gen act princ actor at s"
| "exec h (DoRecordSendRequested oid sid gen act term actor at) s =
     RecordSendRequested h oid sid gen act term actor at s"
| "exec h (DoRecordSendConfirmed oid actor ok at policies) s = RecordSendConfirmed h oid actor ok at policies s"
| "exec h (DoBindLegacyExecutionBudget aid princ scope ref policy at) s =
     BindLegacyExecutionBudget h aid princ scope ref policy at s"
| "exec h (DoRecordUnknownDelivery oid actor at) s = RecordUnknownDelivery h oid actor at s"
| "exec h (DoAtomicTerminalTransition tid old new reason aid disp) s =
     AtomicTerminalTransition h tid old new reason aid disp s"
| "exec h (DoAtomicAttemptClosureTransition tid aid disp) s = AtomicAttemptClosureTransition h tid aid disp s"
| "exec h (DoReservePairProvisioning p actor) s = ReservePairProvisioning h p actor s"
| "exec h (DoConfirmPairProvisioning oid w actor at) s = ConfirmPairProvisioning h oid w actor at s"
| "exec h (DoFailPairProvisioning oid actor reason at) s = FailPairProvisioning h oid actor reason at s"
| "exec h (DoUpdateWorkerSession pid upd) s = UpdateWorkerSessionStatusAndQuarantine h pid upd s"
| "exec h (DoReserveStopOperation st) s = ReserveStopOperation h st s"
| "exec h (DoCommitStopCallAccepted oid callAt deadline) s = CommitStopCallAccepted h oid callAt deadline s"
| "exec h (DoCommitStopOutcome oid outcome) s = CommitStopOutcome h oid outcome s"
| "exec h (DoClassifyAbandonedStopAlive oid sid gen actor invk at) s =
     ClassifyAbandonedStopAlive h oid sid gen actor invk at s"
| "exec h (DoUpdateStopOperationStage oid expected nxt upd) s =
     UpdateStopOperationStage h oid expected nxt upd s"
| "exec h (DoRecordRecoverySweepEvent invk actor event at) s = RecordRecoverySweepEvent h invk actor event at s"
| "exec h (DoRecordPostSendOutage x actor cls invk at) s = RecordPostSendOutage h x actor cls invk at s"
| "exec h (DoObservePostSend x obs actor invk at) s = ObservePostSend h x obs actor invk at s"
| "exec h (DoRecordRecoveryAbsent x actor at) s = RecordRecoveryAbsent h x actor at s"
| "exec h (DoClassifyInterruptedRestore oid actor at) s = ClassifyInterruptedRestore h oid actor at s"
| "exec h (DoFailProvisioningAtStartup oid actor at) s = FailProvisioningAtStartup h oid actor at s"
| "exec h (DoAcceptStopAdministrativeRisk d) s = AcceptStopAdministrativeRisk h d s"
| "exec h (DoReservePairRestore rq) s = ReservePairRestore h rq s"
| "exec h (DoRecordPairRestoreUnknown oid actor) s = RecordPairRestoreUnknown h oid actor s"
| "exec h (DoConfirmPairRestore oid sid old new mode st actor at) s =
     ConfirmPairRestore h oid sid old new mode st actor at s"
| "exec h (DoResolveConfirmedRestore oid sid gen act princ actor at) s =
     ResolveConfirmedRestore h oid sid gen act princ actor at s"
| "exec h (DoResolveAmbiguousRestore oid pid sid gen basis evidence princ actor at) s =
     ResolveAmbiguousRestore h oid pid sid gen basis evidence princ actor at s"
| "exec h (DoClaimRestoreCleanupWithStop st princ actor at obs) s =
     ClaimRestoreCleanupWithStop h st princ actor at obs s"
| "exec h (DoClaimRestoreRecovery oid pid sid gen princ actor at) s =
     ClaimRestoreRecovery h oid pid sid gen princ actor at s"
| "exec h (DoClearQuarantineWithEvidence rq) s = ClearQuarantineWithEvidence h rq s"

lemmas transaction_keeps =
  RecordPreSendHold_keeps RecordPreSendAdmissibilityRejected_keeps ResolvePreSendHold_keeps
  RecordSendRequested_keeps RecordSendConfirmed_keeps BindLegacyExecutionBudget_keeps
  RecordUnknownDelivery_keeps AtomicTerminalTransition_keeps AtomicAttemptClosureTransition_keeps
  ReservePairProvisioning_keeps ConfirmPairProvisioning_keeps FailPairProvisioning_keeps
  UpdateWorkerSessionStatusAndQuarantine_keeps ReserveStopOperation_keeps CommitStopCallAccepted_keeps
  CommitStopOutcome_keeps ClassifyAbandonedStopAlive_keeps UpdateStopOperationStage_keeps
  RecordRecoverySweepEvent_keeps RecordPostSendOutage_keeps ObservePostSend_keeps
  RecordRecoveryAbsent_keeps ClassifyInterruptedRestore_keeps FailProvisioningAtStartup_keeps
  AcceptStopAdministrativeRisk_keeps ReservePairRestore_keeps RecordPairRestoreUnknown_keeps
  ConfirmPairRestore_keeps ResolveConfirmedRestore_keeps ResolveAmbiguousRestore_keeps
  ClaimRestoreCleanupWithStop_keeps ClaimRestoreRecovery_keeps ClearQuarantineWithEvidence_keeps

lemma exec_writes:
  assumes "exec h c s = Inr s'" and "keys_inv s"
  shows "store_writes (h_sha256 h) s s'"
proof (cases c)
  case (DoAppendAuditEvent busy e)
  with assms show ?thesis by (auto simp: map_sum_def intro: AppendAuditEvent_writes split: sum.splits)
next
  case (DoPrepareBoundDispatch tid cid aid path at b)
  with assms show ?thesis by (auto simp: map_sum_def intro: PrepareBoundDispatch_writes split: sum.splits)
qed (use assms in \<open>auto intro: CreateProject_writes CreatePair_writes CreateTask_writes TransitionTask_writes
      InsertTaskContract_writes keepsD [OF _ _ assms(2)] transaction_keeps\<close>)

interpretation store: store_operation "h_sha256 h" "exec h" for h
  by unfold_locales (rule exec_writes)

section \<open>Histories\<close>

inductive reachable :: "(string \<Rightarrow> string) \<Rightarrow> db \<Rightarrow> bool" for sha where
  fresh: "reachable sha empty_db"
| call: "reachable sha s \<Longrightarrow> h_sha256 h = sha \<Longrightarrow> exec h c s = Inr s' \<Longrightarrow> reachable sha s'"

text \<open>The histories that continue a given one.\<close>

inductive later :: "(string \<Rightarrow> string) \<Rightarrow> db \<Rightarrow> db \<Rightarrow> bool" for sha where
  now: "later sha s s"
| next_call: "later sha s s' \<Longrightarrow> h_sha256 h = sha \<Longrightarrow> exec h c s' = Inr s'' \<Longrightarrow> later sha s s''"

lemma reachable_inv: "reachable sha s \<Longrightarrow> store_inv sha s"
  by (induction rule: reachable.induct) (auto intro: store_inv_empty store.run_inv)

lemma reachable_later: "later sha s s' \<Longrightarrow> reachable sha s \<Longrightarrow> reachable sha s'"
  by (induction rule: later.induct) (auto intro: reachable.call)

lemma later_evolves: "later sha s s' \<Longrightarrow> reachable sha s \<Longrightarrow> evolves s s'"
proof (induction rule: later.induct)
  case (next_call s s' h c s'')
  then have "keys_inv s'"
    by (blast intro: reachable_later reachable_inv store_inv_keys)
  with next_call show ?case by (blast intro: evolves_trans store.run_evolves)
qed (rule evolves_refl)

text \<open>A history as a list of calls: the state it ends in, if every call succeeds.\<close>

fun run :: "(host \<times> command) list \<Rightarrow> db \<Rightarrow> store_error + db" where
  "run [] s = Inr s"
| "run ((h, c) # cs) s = bindE (exec h c s) (run cs)"

lemma run_extends:
  "later sha s0 s \<Longrightarrow> run cs s = Inr s' \<Longrightarrow> list_all (\<lambda>(h, c). h_sha256 h = sha) cs \<Longrightarrow> later sha s0 s'"
proof (induction cs arbitrary: s)
  case (Cons hc cs)
  obtain h c where hc: "hc = (h, c)" by (cases hc)
  obtain s1 where s1: "exec h c s = Inr s1" "run cs s1 = Inr s'"
    using Cons.prems(2) by (auto simp: hc result_simps)
  have "h_sha256 h = sha" and rest: "list_all (\<lambda>(h, c). h_sha256 h = sha) cs"
    using Cons.prems(3) by (simp_all add: hc)
  then have "later sha s0 s1" using Cons.prems(1) s1(1) by (blast intro: later.next_call)
  then show ?case using s1(2) rest by (rule Cons.IH)
qed simp

lemma run_later:
  "run cs s = Inr s' \<Longrightarrow> list_all (\<lambda>(h, c). h_sha256 h = sha) cs \<Longrightarrow> later sha s s'"
  by (rule run_extends [OF later.now])

lemma run_reachable:
  "run cs empty_db = Inr s \<Longrightarrow> list_all (\<lambda>(h, c). h_sha256 h = sha) cs \<Longrightarrow> reachable sha s"
  by (blast intro: reachable_later run_later reachable.fresh)

end
