(* ===== verification/Sample_History.thy ===== *)
theory Sample_History
  imports Store_Trace
begin

text \<open>
  A concrete history of the store, on which the hypotheses of the properties hold: a task is
  created, its pair provisioned, the task bound, sent and confirmed; then it runs and is stopped
  with proof, or fails, or its delivery stays unknown. The digest of this history keeps the
  eight bytes of the sequence number, which is enough for distinct hashes.
\<close>

definition sample_sha :: "string \<Rightarrow> string" where
  "sample_sha x = take 8 (drop 26 x)"

definition sample_host :: "string \<Rightarrow> host" where
  "sample_host seed =
     \<lparr>h_now = 100, h_entropy = (\<lambda>i. Some (show_int (int i) @ seed)), h_sha256 = sample_sha,
      h_json_extract = (\<lambda>_ _. None), h_unmarshal_acceptance = (\<lambda>_. None)\<rparr>"

definition task_contract :: TaskContract where
  "task_contract =
     \<lparr>c_ContractID = ''C'', c_TaskID = ''T'', c_RevisionNumber = 1, c_SupersedesContractID = None,
      c_PhaseID = ''1'', c_Objective = ''o'', c_Requirements = None, c_ArchitectureRefs = None,
      c_BaseSHA = ''b'', c_AllowedScope = None, c_ForbiddenScope = None, c_Constraints = None,
      c_AcceptanceCriteria = None, c_VerificationRequests = None, c_RequiredEvidence = None,
      c_WorkerProfile = ''w'', c_ReportContract = ''r'', c_StopConditions = None, c_IsImmutable = False\<rparr>"

definition sample_task :: "TaskState \<Rightarrow> int \<Rightarrow> time \<Rightarrow> Task" where
  "sample_task st n at =
     \<lparr>t_TaskID = ''T'', t_PhaseID = ''1'', t_PairID = ''Q'', t_State = st, t_CurrentAttempt = n,
      t_CreatedAt = 1, t_UpdatedAt = at\<rparr>"

definition sample_provisioning :: PairProvisioningOperation where
  "sample_provisioning =
     \<lparr>pv_OperationID = ''V'', pv_PairID = ''Q'', pv_Stage = ProvisionRequested, pv_ClientToken = ''c'',
      pv_SessionID = None, pv_RequestedAt = 2, pv_CompletedAt = None, pv_ResolvedAt = None,
      pv_ResolvedBy = None, pv_ResolutionNotes = None\<rparr>"

definition sample_session :: "QuarantineState \<Rightarrow> time \<Rightarrow> WorkerSession" where
  "sample_session q at =
     \<lparr>w_PairID = ''Q'', w_SessionID = ''S'', w_RuntimeType = ''r'', w_WorktreePath = None,
      w_WorkerAgentID = ''w'', w_Status = WorkerSessionIdle, w_TerminalGeneration = ''g'',
      w_QuarantineState = q, w_CreatedAt = 3, w_UpdatedAt = at\<rparr>"

definition sample_binding :: DispatchBinding where
  "sample_binding = \<lparr>bd_OperationID = ''D'', bd_SessionID = ''S'', bd_TerminalGeneration = ''g''\<rparr>"

definition sample_path :: string where
  "sample_path = ''.supervisor/reports/T/A.json''"

definition sample_policy :: ExecutionBudgetPolicy where
  "sample_policy = \<lparr>bp_Duration = 10, bp_PolicyRef = ''p''\<rparr>"

definition sample_stop :: StopOperation where
  "sample_stop =
     \<lparr>st_OperationID = ''X'', st_Purpose = RunningAttemptStop, st_PairID = ''Q'', st_TaskID = Some ''T'',
      st_ContractID = Some ''C'', st_AttemptID = Some ''A'', st_SessionID = ''S'',
      st_TerminalGeneration = ''g'', st_Stage = StopRequested, st_Actor = ''u'', st_RequestedAt = 20,
      st_CallCompletedAt = None, st_ConfirmationDeadlineAt = None, st_TerminationConfirmedAt = None,
      st_ResolvedAt = None, st_ResolutionState = StopResolutionInFlight, st_RestoreOperationID = None,
      st_RestorePrincipal = None, st_InitiatingFailureReason = Some ''TIMEOUT''\<rparr>"

definition sample_outcome :: StopTerminalOutcome where
  "sample_outcome =
     \<lparr>so_ExpectedStage = StopCallSucceeded, so_Stage = StopTerminationConfirmed,
      so_Resolution = StopResolutionTerminationConfirmed, so_At = 25, so_ObservedSessionID = ''S'',
      so_ObservedGeneration = ''g'', so_ObservedIsTerminated = True\<rparr>"

text \<open>Rows of the running state.\<close>

definition sample_attempt :: TaskAttempt where
  "sample_attempt =
     \<lparr>a_AttemptID = ''A'', a_AttemptNumber = 1, a_TaskID = ''T'', a_ContractID = ''C'',
      a_ExpectedReportPath = sample_path, a_StartedAt = 4, a_EndedAt = None, a_WorkerReportRaw = None,
      a_SessionID = Some ''S'', a_TerminalGeneration = Some ''g'', a_RecoveryDisposition = None,
      a_QuarantineState = QuarantineClean\<rparr>"

definition sample_dispatch :: DispatchOperation where
  "sample_dispatch =
     \<lparr>d_OperationID = ''D'', d_AttemptID = ''A'', d_PairID = ''Q'', d_TaskID = ''T'', d_SessionID = ''S'',
      d_TerminalGeneration = ''g'', d_Stage = SendConfirmed, d_RequestedAt = 4, d_ConfirmedAt = Some 6,
      d_ResolutionState = None\<rparr>"

definition sample_contract_row :: contract_row where
  "sample_contract_row =
     \<lparr>cr_contract_id = ''C'', cr_task_id = ''T'', cr_revision_number = 1,
      cr_supersedes_contract_id = None, cr_base_sha = ''b'', cr_payload = task_contract,
      cr_is_immutable = True\<rparr>"

section \<open>Calls\<close>

definition ready_calls :: "(host \<times> command) list" where
  "ready_calls =
     [(sample_host ''a'', DoCreateProject \<lparr>p_ProjectID = ''P'', p_Name = ''n'', p_RootPath = ''/r'',
         p_RepoURL = [], p_RegisteredAt = 1\<rparr>),
      (sample_host ''b'', DoCreatePair \<lparr>pr_PairID = ''Q'', pr_ProjectID = ''P'', pr_CurrentPhaseID = ''1'',
         pr_ActiveTaskID = [], pr_State = ''s'', pr_CreatedAt = 1\<rparr>),
      (sample_host ''c'', DoCreateTask (sample_task StateDraft 0 1)),
      (sample_host ''d'', DoInsertTaskContract task_contract),
      (sample_host ''e'', DoReservePairProvisioning sample_provisioning ''u''),
      (sample_host ''f'', DoConfirmPairProvisioning ''V'' (sample_session QuarantineClean 3) ''u'' 3),
      (sample_host ''g'', DoTransitionTask ''T'' StateDraft StateReady)]"

definition bind_call :: "host \<times> command" where
  "bind_call = (sample_host ''h'', DoPrepareBoundDispatch ''T'' ''C'' ''A'' sample_path 4 sample_binding)"

definition request_call :: "host \<times> command" where
  "request_call = (sample_host ''i'', DoRecordSendRequested ''D'' ''S'' ''g'' ''idle'' False ''u'' 5)"

definition confirm_call :: "host \<times> command" where
  "confirm_call = (sample_host ''j'', DoRecordSendConfirmed ''D'' ''u'' True 6 [sample_policy])"

definition run_call :: "host \<times> command" where
  "run_call = (sample_host ''l'', DoTransitionTask ''T'' StateDispatched StateRunning)"

definition stop_call :: "host \<times> command" where
  "stop_call = (sample_host ''m'', DoReserveStopOperation sample_stop)"

definition accept_call :: "host \<times> command" where
  "accept_call = (sample_host ''n'', DoCommitStopCallAccepted ''X'' 21 30)"

definition outcome_call :: "host \<times> command" where
  "outcome_call = (sample_host ''o'', DoCommitStopOutcome ''X'' sample_outcome)"

definition unknown_call :: "host \<times> command" where
  "unknown_call = (sample_host ''q'', DoRecordUnknownDelivery ''D'' ''u'' 7)"

definition fail_call :: "host \<times> command" where
  "fail_call =
     (sample_host ''r'', DoAtomicTerminalTransition ''T'' StateRunning StateFailed ''lost'' ''A'' ''SESSION_ABSENT'')"

lemmas call_defs = bind_call_def request_call_def confirm_call_def run_call_def stop_call_def
  accept_call_def outcome_call_def unknown_call_def fail_call_def

section \<open>States\<close>

definition after_calls :: "(host \<times> command) list \<Rightarrow> db" where
  "after_calls cs = (case run cs empty_db of Inl e \<Rightarrow> empty_db | Inr s \<Rightarrow> s)"

definition "bound_calls = ready_calls @ [bind_call]"
definition "running_calls = bound_calls @ [request_call, confirm_call, run_call]"
definition "stopped_calls = running_calls @ [stop_call, accept_call, outcome_call]"
definition "unknown_calls = bound_calls @ [request_call, unknown_call]"
definition "failed_calls = running_calls @ [fail_call]"

lemmas calls_defs = bound_calls_def running_calls_def stopped_calls_def unknown_calls_def failed_calls_def

lemma stopped_stop_rows:
  "map_sum id stop_operations (run stopped_calls empty_db) =
     Inr [sample_stop\<lparr>st_Stage := StopTerminationConfirmed, st_CallCompletedAt := Some 21,
        st_ConfirmationDeadlineAt := Some 30, st_TerminationConfirmedAt := Some 25, st_ResolvedAt := Some 25,
        st_ResolutionState := StopResolutionTerminationConfirmed\<rparr>]"
  by code_simp

lemma stopped_succeeds: "\<not> isl (run stopped_calls empty_db)"
  using stopped_stop_rows by (cases "run stopped_calls empty_db") simp_all

definition unknown_dispatch :: DispatchOperation where
  "unknown_dispatch =
     sample_dispatch\<lparr>d_Stage := SendRequested, d_ConfirmedAt := None,
       d_ResolutionState := Some ''DELIVERY_OUTCOME_UNKNOWN''\<rparr>"

lemma unknown_run_rows:
  "map_sum id (\<lambda>s. (worker_sessions s, dispatch_operations s)) (run unknown_calls empty_db) =
     Inr ([sample_session QuarantineQuarantined 7], [unknown_dispatch])"
  by code_simp

lemma unknown_succeeds: "\<not> isl (run unknown_calls empty_db)"
  using unknown_run_rows by (cases "run unknown_calls empty_db") simp_all

lemma failed_succeeds: "\<not> isl (run failed_calls empty_db)"
  by code_simp

lemma run_append: "run (cs @ ds) s = bindE (run cs s) (run ds)"
proof (induction cs arbitrary: s)
  case (Cons hc cs)
  obtain h c where "hc = (h, c)" by (cases hc)
  with Cons show ?case by (cases "exec h c s") simp_all
qed simp

lemma after_calls_prefix:
  assumes "\<not> isl (run (cs @ ds) empty_db)"
  shows "run cs empty_db = Inr (after_calls cs)"
    and "run ds (after_calls cs) = Inr (after_calls (cs @ ds))"
proof -
  obtain s where s: "run (cs @ ds) empty_db = Inr s" using assms by (cases "run (cs @ ds) empty_db") auto
  then obtain s1 where s1: "run cs empty_db = Inr s1" "run ds s1 = Inr s"
    by (auto simp: run_append result_simps)
  then show "run cs empty_db = Inr (after_calls cs)" by (simp add: after_calls_def)
  from s s1 show "run ds (after_calls cs) = Inr (after_calls (cs @ ds))" by (simp add: after_calls_def)
qed

definition host_ok :: "(host \<times> command) list \<Rightarrow> bool" where
  "host_ok cs \<longleftrightarrow> list_all (\<lambda>(h, c). h_sha256 h = sample_sha) cs"

lemma hosts_ok:
  "host_ok ready_calls" "host_ok bound_calls" "host_ok running_calls" "host_ok stopped_calls"
  "host_ok unknown_calls" "host_ok failed_calls"
  by (simp_all add: host_ok_def calls_defs call_defs ready_calls_def sample_host_def)

text \<open>The states of the history, and the calls between them.\<close>

definition ready_db :: db where "ready_db = after_calls ready_calls"
definition bound_db :: db where "bound_db = after_calls bound_calls"
definition requested_db :: db where "requested_db = after_calls (bound_calls @ [request_call])"
definition confirmed_db :: db where "confirmed_db = after_calls (bound_calls @ [request_call, confirm_call])"
definition running_db :: db where "running_db = after_calls running_calls"
definition stopping_db :: db where "stopping_db = after_calls (running_calls @ [stop_call])"
definition accepted_db :: db where "accepted_db = after_calls (running_calls @ [stop_call, accept_call])"
definition stopped_db :: db where "stopped_db = after_calls stopped_calls"
definition unknown_db :: db where "unknown_db = after_calls unknown_calls"
definition failed_db :: db where "failed_db = after_calls failed_calls"

lemmas state_defs = ready_db_def bound_db_def requested_db_def confirmed_db_def running_db_def
  stopping_db_def accepted_db_def stopped_db_def unknown_db_def failed_db_def

lemma stopped_stops:
  "stop_operations stopped_db =
     [sample_stop\<lparr>st_Stage := StopTerminationConfirmed, st_CallCompletedAt := Some 21,
        st_ConfirmationDeadlineAt := Some 30, st_TerminationConfirmedAt := Some 25, st_ResolvedAt := Some 25,
        st_ResolutionState := StopResolutionTerminationConfirmed\<rparr>]"
  using stopped_stop_rows
  by (cases "run stopped_calls empty_db") (simp_all add: stopped_db_def after_calls_def)

lemma unknown_rows:
  "worker_sessions unknown_db = [sample_session QuarantineQuarantined 7]"
  "dispatch_operations unknown_db = [unknown_dispatch]"
  using unknown_run_rows
  by (cases "run unknown_calls empty_db"; simp add: unknown_db_def after_calls_def)+

lemma prefix_run:
  assumes "\<not> isl (run all_calls empty_db)" and "all_calls = cs @ [(h, c)] @ ds"
  shows "exec h c (after_calls cs) = Inr (after_calls (cs @ [(h, c)]))"
    and "run cs empty_db = Inr (after_calls cs)"
proof -
  have "\<not> isl (run ((cs @ [(h, c)]) @ ds) empty_db)" using assms by simp
  then have "run (cs @ [(h, c)]) empty_db = Inr (after_calls (cs @ [(h, c)]))"
    by (rule after_calls_prefix(1))
  then have "\<not> isl (run (cs @ [(h, c)]) empty_db)" by simp
  then have "run [(h, c)] (after_calls cs) = Inr (after_calls (cs @ [(h, c)]))"
    and "run cs empty_db = Inr (after_calls cs)"
    by (rule after_calls_prefix)+
  then show "exec h c (after_calls cs) = Inr (after_calls (cs @ [(h, c)]))"
    and "run cs empty_db = Inr (after_calls cs)" by (simp_all add: result_simps)
qed

lemma exec_bind: "exec (fst bind_call) (snd bind_call) ready_db = Inr bound_db"
  using prefix_run(1) [OF stopped_succeeds, of ready_calls "fst bind_call" "snd bind_call"]
  by (simp add: state_defs calls_defs)

lemma exec_request: "exec (fst request_call) (snd request_call) bound_db = Inr requested_db"
  using prefix_run(1) [OF stopped_succeeds, of bound_calls "fst request_call" "snd request_call"]
  by (simp add: state_defs calls_defs)

lemma exec_confirm: "exec (fst confirm_call) (snd confirm_call) requested_db = Inr confirmed_db"
  using prefix_run(1) [OF stopped_succeeds, of "bound_calls @ [request_call]" "fst confirm_call" "snd confirm_call"]
  by (simp add: state_defs calls_defs)

lemma exec_run: "exec (fst run_call) (snd run_call) confirmed_db = Inr running_db"
  using prefix_run(1) [OF stopped_succeeds, of "bound_calls @ [request_call, confirm_call]" "fst run_call" "snd run_call"]
  by (simp add: state_defs calls_defs)

lemma exec_stop: "exec (fst stop_call) (snd stop_call) running_db = Inr stopping_db"
  using prefix_run(1) [OF stopped_succeeds, of running_calls "fst stop_call" "snd stop_call"]
  by (simp add: state_defs calls_defs)

lemma exec_accept: "exec (fst accept_call) (snd accept_call) stopping_db = Inr accepted_db"
  using prefix_run(1) [OF stopped_succeeds, of "running_calls @ [stop_call]" "fst accept_call" "snd accept_call"]
  by (simp add: state_defs calls_defs)

lemma exec_outcome: "exec (fst outcome_call) (snd outcome_call) accepted_db = Inr stopped_db"
  using prefix_run(1) [OF stopped_succeeds, of "running_calls @ [stop_call, accept_call]" "fst outcome_call" "snd outcome_call"]
  by (simp add: state_defs calls_defs)

lemma exec_unknown: "exec (fst unknown_call) (snd unknown_call) requested_db = Inr unknown_db"
  using prefix_run(1) [OF unknown_succeeds, of "bound_calls @ [request_call]" "fst unknown_call" "snd unknown_call"]
  by (simp add: state_defs calls_defs)

lemma exec_fail: "exec (fst fail_call) (snd fail_call) running_db = Inr failed_db"
  using prefix_run(1) [OF failed_succeeds, of running_calls "fst fail_call" "snd fail_call"]
  by (simp add: state_defs calls_defs)

lemma call_hosts:
  "h_sha256 (fst bind_call) = sample_sha" "h_sha256 (fst request_call) = sample_sha"
  "h_sha256 (fst confirm_call) = sample_sha" "h_sha256 (fst run_call) = sample_sha"
  "h_sha256 (fst stop_call) = sample_sha" "h_sha256 (fst accept_call) = sample_sha"
  "h_sha256 (fst outcome_call) = sample_sha" "h_sha256 (fst unknown_call) = sample_sha"
  "h_sha256 (fst fail_call) = sample_sha"
  by (simp_all add: call_defs sample_host_def)

lemma ready_reachable: "reachable sample_sha ready_db"
proof -
  have "run ready_calls empty_db = Inr ready_db"
    using prefix_run(2) [OF stopped_succeeds, of ready_calls "fst bind_call" "snd bind_call"]
    by (simp add: state_defs calls_defs)
  then show ?thesis using hosts_ok(1) by (auto simp: host_ok_def intro: run_reachable)
qed

lemmas bound_reachable = reachable.call [OF ready_reachable call_hosts(1) exec_bind]
lemmas requested_reachable = reachable.call [OF bound_reachable call_hosts(2) exec_request]
lemmas confirmed_reachable = reachable.call [OF requested_reachable call_hosts(3) exec_confirm]
lemmas running_reachable = reachable.call [OF confirmed_reachable call_hosts(4) exec_run]
lemmas stopping_reachable = reachable.call [OF running_reachable call_hosts(5) exec_stop]
lemmas accepted_reachable = reachable.call [OF stopping_reachable call_hosts(6) exec_accept]
lemmas stopped_reachable = reachable.call [OF accepted_reachable call_hosts(7) exec_outcome]
lemmas unknown_reachable = reachable.call [OF requested_reachable call_hosts(8) exec_unknown]
lemmas failed_reachable = reachable.call [OF running_reachable call_hosts(9) exec_fail]

lemma running_later_stopped: "later sample_sha running_db stopped_db"
  using later.next_call [OF later.next_call [OF later.next_call [OF later.now call_hosts(5) exec_stop]
      call_hosts(6) exec_accept] call_hosts(7) exec_outcome] .

text \<open>The tables of the running state.\<close>

definition tables_of where
  "tables_of s = (tasks s, task_attempts s, dispatch_operations s, task_contracts s, worker_sessions s)"

lemma running_tables:
  "tables_of running_db =
   ([sample_task StateRunning 1 100], [sample_attempt], [sample_dispatch], [sample_contract_row],
    [sample_session QuarantineClean 3])"
  by code_simp

lemma running_rows:
  "tasks running_db = [sample_task StateRunning 1 100]" "task_attempts running_db = [sample_attempt]"
  "dispatch_operations running_db = [sample_dispatch]" "task_contracts running_db = [sample_contract_row]"
  "worker_sessions running_db = [sample_session QuarantineClean 3]"
  using running_tables by (simp_all add: tables_of_def)

end
