(* ===== verification/Restart_Recovery.thy ===== *)
theory Restart_Recovery
  imports Store_Trace "HOL-Library.List_Lexorder" "HOL-Library.Char_ord"
begin

text \<open>
  The restart classification of \<open>internal/store/recovery.go\<close>. Task ids are compared byte by
  byte, as \<open>ORDER BY task_id\<close> does; a result with candidates and an error is a pair.
\<close>

datatype RecoveryClassification =
    ClassificationExternalReconciliationRequired | ClassificationInconsistentPersistedState

record RecoveryCandidate =
  rc_TaskID :: string
  rc_AttemptID :: string
  rc_AttemptNumber :: int
  rc_ContractID :: string
  rc_Classification :: RecoveryClassification

definition classify_task :: "db \<Rightarrow> Task \<Rightarrow> RecoveryCandidate" where
  "classify_task s t =
     (case find (\<lambda>a. a_TaskID a = t_TaskID t \<and> a_AttemptNumber a = t_CurrentAttempt t) (task_attempts s) of
        None \<Rightarrow>
          \<lparr>rc_TaskID = t_TaskID t, rc_AttemptID = [], rc_AttemptNumber = t_CurrentAttempt t, rc_ContractID = [],
           rc_Classification = ClassificationInconsistentPersistedState\<rparr>
      | Some a \<Rightarrow>
          \<lparr>rc_TaskID = t_TaskID t, rc_AttemptID = a_AttemptID a, rc_AttemptNumber = t_CurrentAttempt t,
           rc_ContractID = a_ContractID a,
           rc_Classification =
             (if a_EndedAt a \<noteq> None then ClassificationInconsistentPersistedState
              else ClassificationExternalReconciliationRequired)\<rparr>)"

definition ClassifyRestartRecovery :: "db \<Rightarrow> RecoveryCandidate list \<times> store_error option" where
  "ClassifyRestartRecovery s =
     (let candidates = map (classify_task s)
            (sort_key t_TaskID (filter (\<lambda>t. t_State t = StateDispatched) (tasks s)))
      in (candidates,
          if list_ex (\<lambda>c. rc_Classification c = ClassificationInconsistentPersistedState) candidates
          then Some ErrInconsistentPersistedState else None))"

text \<open>The current attempt of an executing task, as the numbering columns find it.\<close>

lemma executing_attempt:
  assumes "store_inv sha s" and "t \<in> set (tasks s)" and "executing (t_State t)"
  obtains a where "find (\<lambda>a. a_TaskID a = t_TaskID t \<and> a_AttemptNumber a = t_CurrentAttempt t) (task_attempts s) = Some a"
    "a_EndedAt a = None"
proof -
  from assms obtain a where a: "a \<in> set (task_attempts s)" "a_TaskID a = t_TaskID t"
    "a_AttemptNumber a = t_CurrentAttempt t" "a_EndedAt a = None"
    by (auto simp: store_inv_def open_inv_def)
  have "keyed (\<lambda>a. (a_TaskID a, a_AttemptNumber a)) (task_attempts s)"
    using assms(1) by (simp add: store_inv_def keys_inv_def)
  from find_key [OF this a(1), of "(t_TaskID t, t_CurrentAttempt t)"] a
  have "find (\<lambda>a. a_TaskID a = t_TaskID t \<and> a_AttemptNumber a = t_CurrentAttempt t) (task_attempts s) = Some a"
    by simp
  with a(4) that show ?thesis by blast
qed

lemma classify_task_consistent:
  assumes "store_inv sha s" and "t \<in> set (tasks s)" and "t_State t = StateDispatched"
  shows "rc_Classification (classify_task s t) = ClassificationExternalReconciliationRequired \<and>
    rc_TaskID (classify_task s t) = t_TaskID t \<and>
    (\<exists>a\<in>set (task_attempts s). a_AttemptID a = rc_AttemptID (classify_task s t) \<and> a_TaskID a = t_TaskID t \<and>
       a_AttemptNumber a = t_CurrentAttempt t \<and> a_ContractID a = rc_ContractID (classify_task s t) \<and>
       a_EndedAt a = None)"
proof -
  obtain a where a: "find (\<lambda>a. a_TaskID a = t_TaskID t \<and> a_AttemptNumber a = t_CurrentAttempt t)
      (task_attempts s) = Some a" "a_EndedAt a = None"
    using assms by (auto simp: executing_def elim: executing_attempt)
  with find_SomeD [OF a(1)] show ?thesis by (auto simp: classify_task_def)
qed

lemma classify_task_number: "rc_AttemptNumber (classify_task s t) = t_CurrentAttempt t"
  by (simp add: classify_task_def split: option.splits)

lemma map_classify_ids: "map rc_TaskID (map (classify_task s) ts) = map t_TaskID ts"
  by (auto simp: classify_task_def split: option.splits)

end
