(* ===== verification/Store_Guarantees.thy ===== *)
theory Store_Guarantees
  imports Sample_History Restart_Recovery
begin

text \<open>
  What holds in every database the store can reach, and what stays true of its rows in every
  later one: the properties of the store as a whole, from the invariants of the writes.
\<close>

section \<open>Facts of a reachable database\<close>

lemma reachable_invs:
  assumes "reachable sha s"
  shows "audit_inv sha s" "keys_inv s" "lane_inv s" "attempts_inv s" "open_inv s" "frozen_inv s"
    "lineage_inv s" "dispatch_inv s" "confirmed_inv s" "budgets_inv s" "exclusive_inv s"
  using reachable_inv [OF assms] by (simp_all add: store_inv_def)

lemma keyed_at_most_one:
  assumes "keyed key xs" and "\<And>x y. x \<in> set xs \<Longrightarrow> y \<in> set xs \<Longrightarrow> P x \<Longrightarrow> P y \<Longrightarrow> key x = key y"
  shows "length (filter P xs) \<le> 1"
proof (rule ccontr)
  assume "\<not> ?thesis"
  then obtain x y zs where f: "filter P xs = x # y # zs"
    by (cases "filter P xs" rule: remdups_adj.cases) auto
  then have "x \<in> set (filter P xs)" "y \<in> set (filter P xs)" by simp_all
  then have "key x = key y" by (intro assms(2)) simp_all
  moreover have "distinct (map key (filter P xs))" using assms(1) by (simp add: keyed_def distinct_map_filter)
  ultimately show False by (simp add: f)
qed

lemma exclusive_at_most_one:
  assumes "exclusive owner P key xs" and "keyed key xs"
  shows "length (filter (\<lambda>x. owner x = k \<and> P x) xs) \<le> 1"
proof (rule keyed_at_most_one [OF assms(2)])
  fix x y assume "x \<in> set xs" "y \<in> set xs" "owner x = k \<and> P x" "owner y = k \<and> P y"
  moreover from this have "owner x = owner y" by simp
  ultimately show "key x = key y" using assms(1) unfolding exclusive_def by blast
qed

text \<open>A row of a later database with the key of an earlier row is its later version.\<close>

lemma later_task:
  assumes "reachable sha s" and "later sha s s'" and "t \<in> set (tasks s)"
    and "u \<in> set (tasks s')" and "t_TaskID u = t_TaskID t"
  shows "task_evolves t u"
proof -
  obtain v where v: "v \<in> set (tasks s')" "task_evolves t v"
    using later_evolves [OF assms(2,1)] assms(3) by (rule evolves_task)
  have "keyed t_TaskID (tasks s')"
    using reachable_invs(2) [OF reachable_later [OF assms(2,1)]] by (simp add: keys_inv_def)
  then have "u = v" using assms(4,5) v by (auto simp: task_evolves_def intro: keyed_uniq)
  with v show ?thesis by simp
qed

section \<open>The audit log\<close>

text \<open>
  C1: after any sequence of calls of the store the audit log verifies; a later log extends an
  earlier one without changing, removing or reordering a row, and verifies too.
\<close>

theorem history_log_verifies_and_grows:
  assumes "reachable sha s" and "later sha s s'"
  shows "VerifyAuditChain sha s = Inr () \<and> VerifyAuditChain sha s' = Inr () \<and>
    (\<exists>rs. audit_events s' = audit_events s @ rs)"
  using assms reachable_invs(1) reachable_later later_evolves
  by (blast intro: audit_inv_verifies evolves_audit_prefix)

theorem history_log_verifies_and_grows_witness:
  "VerifyAuditChain sample_sha running_db = Inr () \<and> VerifyAuditChain sample_sha stopped_db = Inr () \<and>
   (\<exists>rs. audit_events stopped_db = audit_events running_db @ rs)"
  by (rule history_log_verifies_and_grows [OF running_reachable running_later_stopped])

section \<open>Tasks and attempts\<close>

text \<open>
  C8: two tasks of one pair are never both dispatched, running or in review.
\<close>

theorem single_active_task:
  assumes "reachable sha s" and "t \<in> set (tasks s)" and "u \<in> set (tasks s)"
    and "t_PairID t = t_PairID u" and "active_lane (t_State t)" and "active_lane (t_State u)"
  shows "t = u"
  using assms reachable_invs(3) by (auto simp: lane_inv_def)

theorem single_active_task_witness:
  "hd (tasks running_db) = last (tasks running_db)"
  by (rule single_active_task [OF running_reachable])
    (simp_all add: running_rows sample_task_def active_lane_def)

text \<open>
  C9: the attempts of a task carry the numbers from 1 to the task's current attempt, each once,
  and while the task is dispatched or running the attempt with the current number is open.
\<close>

theorem attempts_numbered_without_gap:
  assumes "reachable sha s" and "t \<in> set (tasks s)"
  shows "(let own = filter (\<lambda>a. a_TaskID a = t_TaskID t) (task_attempts s) in
      distinct (map a_AttemptNumber own) \<and> set (map a_AttemptNumber own) = {1..t_CurrentAttempt t} \<and>
      (executing (t_State t) \<longrightarrow>
         list_ex (\<lambda>a. a_AttemptNumber a = t_CurrentAttempt t \<and> a_EndedAt a = None) own))"
proof -
  let ?own = "filter (\<lambda>a. a_TaskID a = t_TaskID t) (task_attempts s)"
  note invs = reachable_invs [OF assms(1)]
  have "distinct (map (\<lambda>a. (a_TaskID a, a_AttemptNumber a)) ?own)"
    using invs(2) by (auto simp: keys_inv_def keyed_def distinct_map_filter)
  then have d: "distinct (map a_AttemptNumber ?own)"
    by (auto simp: distinct_map inj_on_def)
  have uniq: "u = t" if "u \<in> set (tasks s)" "t_TaskID u = t_TaskID t" for u
    using invs(2) assms(2) that by (auto simp: keys_inv_def intro: keyed_uniq)
  have "a_AttemptNumber a \<in> {1..t_CurrentAttempt t}" if a: "a \<in> set ?own" for a
  proof -
    obtain u where "u \<in> set (tasks s)" "t_TaskID u = a_TaskID a" "1 \<le> a_AttemptNumber a"
      "a_AttemptNumber a \<le> t_CurrentAttempt u"
      using invs(4) a unfolding attempts_inv_def by auto
    with uniq [of u] a show ?thesis by simp
  qed
  moreover have "\<exists>a\<in>set ?own. a_AttemptNumber a = n" if n: "n \<in> {1..t_CurrentAttempt t}" for n
  proof -
    obtain a where "a \<in> set (task_attempts s)" "a_TaskID a = t_TaskID t" "a_AttemptNumber a = n"
      using invs(4) assms(2) n [unfolded atLeastAtMost_iff] unfolding attempts_inv_def by blast
    then show ?thesis by auto
  qed
  ultimately have "set (map a_AttemptNumber ?own) = {1..t_CurrentAttempt t}"
    unfolding set_map by blast
  moreover have "executing (t_State t) \<Longrightarrow>
      list_ex (\<lambda>a. a_AttemptNumber a = t_CurrentAttempt t \<and> a_EndedAt a = None) ?own"
    using invs(5) assms(2) by (auto simp: open_inv_def list_ex_iff)
  ultimately show ?thesis using d by (simp add: Let_def)
qed

theorem attempts_numbered_without_gap_witness:
  "executing (t_State (hd (tasks running_db))) \<and>
   list_ex (\<lambda>a. a_AttemptNumber a = 1 \<and> a_EndedAt a = None)
     (filter (\<lambda>a. a_TaskID a = ''T'') (task_attempts running_db))"
  using attempts_numbered_without_gap [OF running_reachable, of "sample_task StateRunning 1 100"]
  by (simp add: running_rows sample_task_def executing_def Let_def)

text \<open>
  C13: a task keeps its identity and pair for good, its state only moves along the workflow
  table, its attempt counter never decreases, and once approved or cancelled it stays so.
\<close>

theorem task_follows_workflow:
  assumes "reachable sha s" and "later sha s s'" and "t \<in> set (tasks s)"
  shows "\<exists>u\<in>set (tasks s'). t_TaskID u = t_TaskID t \<and> t_PairID u = t_PairID t \<and>
    workflow_reach (t_State t) (t_State u) \<and> t_CurrentAttempt t \<le> t_CurrentAttempt u \<and>
    (IsTerminal (t_State t) \<longrightarrow> t_State u = t_State t)"
proof -
  obtain u where "u \<in> set (tasks s')" "task_evolves t u"
    using later_evolves [OF assms(2,1)] assms(3) by (rule evolves_task)
  then show ?thesis by (auto simp: task_evolves_def dest: workflow_reach_terminal intro!: bexI [of _ u])
qed

theorem task_follows_workflow_witness:
  "list_ex (\<lambda>u. t_TaskID u = ''T'' \<and> workflow_reach StateRunning (t_State u)) (tasks stopped_db)"
  using task_follows_workflow [OF running_reachable running_later_stopped, of "sample_task StateRunning 1 100"]
  by (auto simp: running_rows sample_task_def list_ex_iff)

section \<open>Contracts\<close>

text \<open>
  C10: the attempt of a task runs under one contract for good. The contract row is frozen, belongs
  to the attempt's task and is still there unchanged in every later database, and so are the
  attempt's number, report path, session and terminal generation.
\<close>

theorem attempt_contract_never_changes:
  assumes "reachable sha s" and "later sha s s'" and "a \<in> set (task_attempts s)"
  shows "\<exists>c\<in>set (task_contracts s). c \<in> set (task_contracts s') \<and> cr_is_immutable c \<and>
    cr_task_id c = a_TaskID a \<and> cr_contract_id c = a_ContractID a \<and>
    (\<exists>b\<in>set (task_attempts s'). a_AttemptID b = a_AttemptID a \<and> a_ContractID b = cr_contract_id c \<and>
       a_TaskID b = a_TaskID a \<and> a_AttemptNumber b = a_AttemptNumber a \<and>
       a_ExpectedReportPath b = a_ExpectedReportPath a \<and> a_SessionID b = a_SessionID a \<and>
       a_TerminalGeneration b = a_TerminalGeneration a)"
proof -
  have ev: "evolves s s'" by (rule later_evolves [OF assms(2,1)])
  obtain c where c: "c \<in> set (task_contracts s)" "cr_contract_id c = a_ContractID a"
    "cr_task_id c = a_TaskID a" "cr_is_immutable c"
    using reachable_invs(6) [OF assms(1)] assms(3) by (auto simp: frozen_inv_def)
  obtain d where "d \<in> set (task_contracts s')" "contract_evolves c d"
    using ev c(1) by (rule evolves_contract)
  then have "c \<in> set (task_contracts s')" using c(4) by (simp add: contract_evolves_def)
  moreover obtain b where "b \<in> set (task_attempts s')" "attempt_evolves a b"
    using ev assms(3) by (rule evolves_attempt)
  ultimately show ?thesis using c unfolding attempt_evolves_def by (intro bexI [of _ c] conjI bexI [of _ b]) simp_all
qed

theorem attempt_contract_never_changes_witness:
  "list_ex (\<lambda>c. cr_contract_id c = ''C'' \<and> cr_is_immutable c) (task_contracts stopped_db)"
  using attempt_contract_never_changes [OF running_reachable running_later_stopped, of sample_attempt]
  by (auto simp: running_rows sample_attempt_def list_ex_iff)

text \<open>The predecessors of a contract, down to the first revision.\<close>

lemma contract_predecessors:
  assumes inv: "lineage_inv s" and c: "c \<in> set (task_contracts s)"
    and "1 \<le> n" and "n \<le> cr_revision_number c"
  shows "\<exists>d\<in>set (task_contracts s). cr_task_id d = cr_task_id c \<and> cr_revision_number d = n \<and>
    cr_base_sha d = cr_base_sha c \<and> (n < cr_revision_number c \<longrightarrow> cr_is_immutable d)"
  using assms(3,4)
proof (induction "nat (cr_revision_number c - n)" arbitrary: n)
  case 0
  then have "n = cr_revision_number c" by simp
  then show ?case using c by auto
next
  case (Suc k)
  have "k = nat (cr_revision_number c - (n + 1))" "1 \<le> n + 1" "n + 1 \<le> cr_revision_number c"
    using Suc.hyps(2) Suc.prems by auto
  from Suc.hyps(1) [OF this] obtain d where d: "d \<in> set (task_contracts s)"
    "cr_task_id d = cr_task_id c" "cr_revision_number d = n + 1" "cr_base_sha d = cr_base_sha c"
    by blast
  then have "contract_lineage s d" "cr_revision_number d \<noteq> 1"
    using inv Suc.prems(1) by (auto simp: lineage_inv_def)
  then obtain p where "p \<in> set (task_contracts s)" "cr_task_id p = cr_task_id d"
    "cr_revision_number p = cr_revision_number d - 1" "cr_base_sha p = cr_base_sha d" "cr_is_immutable p"
    by (auto simp: contract_lineage_def list_ex_iff)
  then show ?case using d by (intro bexI [of _ p]) simp_all
qed

text \<open>
  C11: the contracts of a task form one chain. All its revisions share one base commit and no two
  have the same number; below each revision every number down to 1 is present, frozen.
\<close>

theorem contract_history_linear:
  assumes "reachable sha s" and "c \<in> set (task_contracts s)"
  shows "(\<forall>n. 1 \<le> n \<and> n < cr_revision_number c \<longrightarrow>
      (\<exists>d\<in>set (task_contracts s). cr_task_id d = cr_task_id c \<and> cr_revision_number d = n \<and>
         cr_is_immutable d)) \<and>
    (\<forall>d\<in>set (task_contracts s). cr_task_id d = cr_task_id c \<longrightarrow>
       cr_base_sha d = cr_base_sha c \<and> (cr_revision_number d = cr_revision_number c \<longrightarrow> d = c))"
proof (intro conjI allI ballI impI)
  have keyed: "keyed (\<lambda>c. (cr_task_id c, cr_revision_number c)) (task_contracts s)"
    using reachable_invs(2) [OF assms(1)] by (simp add: keys_inv_def)
  note pred = contract_predecessors [OF reachable_invs(7) [OF assms(1)]]
  have first: "1 \<le> cr_revision_number d" if "d \<in> set (task_contracts s)" for d
    using reachable_invs(7) [OF assms(1)] that by (simp add: lineage_inv_def)
  show "\<exists>d\<in>set (task_contracts s). cr_task_id d = cr_task_id c \<and> cr_revision_number d = n \<and>
      cr_is_immutable d" if "1 \<le> n \<and> n < cr_revision_number c" for n
    using pred [OF assms(2), of n] that by auto
  fix d assume d: "d \<in> set (task_contracts s)" "cr_task_id d = cr_task_id c"
  from pred [OF assms(2), of 1] pred [OF d(1), of 1] first [OF assms(2)] first [OF d(1)]
  obtain p q where p: "p \<in> set (task_contracts s)" "cr_task_id p = cr_task_id c"
      "cr_revision_number p = 1" "cr_base_sha p = cr_base_sha c"
    and q: "q \<in> set (task_contracts s)" "cr_task_id q = cr_task_id d" "cr_revision_number q = 1"
      "cr_base_sha q = cr_base_sha d"
    by auto
  have "p = q" using keyed p(1) q(1) p q d by (intro keyed_uniq [OF keyed]) auto
  then show "cr_base_sha d = cr_base_sha c" using p q by simp
  assume "cr_revision_number d = cr_revision_number c"
  then show "d = c" using d assms(2) by (intro keyed_uniq [OF keyed]) auto
qed

theorem contract_history_linear_witness:
  "sample_contract_row \<in> set (task_contracts running_db) \<and>
   list_all (\<lambda>d. cr_task_id d \<noteq> ''T'' \<or> cr_base_sha d = ''b'') (task_contracts running_db)"
  using contract_history_linear [OF running_reachable, of sample_contract_row]
  by (simp add: running_rows list_all_iff sample_contract_row_def)

section \<open>Dispatch, budgets and pair operations\<close>

text \<open>
  C28: a dispatch operation always belongs to an attempt of its task with the session and terminal
  generation it was bound to, and to the pair of that task.
\<close>

theorem dispatch_bound_to_attempt:
  assumes "reachable sha s" and "d \<in> set (dispatch_operations s)"
  shows "(\<exists>a\<in>set (task_attempts s). a_AttemptID a = d_AttemptID d \<and> a_TaskID a = d_TaskID d \<and>
      a_SessionID a = Some (d_SessionID d) \<and> a_TerminalGeneration a = Some (d_TerminalGeneration d)) \<and>
    (\<exists>t\<in>set (tasks s). t_TaskID t = d_TaskID d \<and> t_PairID t = d_PairID d)"
  using reachable_invs(8) [OF assms(1)] assms(2) by (simp add: dispatch_inv_def dispatch_snapshot_def)

theorem dispatch_bound_to_attempt_witness:
  "list_ex (\<lambda>a. a_AttemptID a = ''A'' \<and> a_SessionID a = Some ''S'') (task_attempts running_db)"
  using dispatch_bound_to_attempt [OF running_reachable, of sample_dispatch]
  by (auto simp: running_rows sample_dispatch_def list_ex_iff)



text \<open>
  C29: a pair never has two unresolved provisionings, nor two unresolved restores.
\<close>

theorem pair_operations_exclusive:
  assumes "reachable sha s"
  shows "length (filter (\<lambda>p. pv_PairID p = pid \<and> unresolved_stage (pv_Stage p))
      (pair_provisioning_operations s)) \<le> 1 \<and>
    length (filter (\<lambda>r. ro_PairID r = pid \<and> ro_ResolutionState r \<noteq> RestoreResolved)
      (pair_restore_operations s)) \<le> 1"
proof -
  note invs = reachable_invs [OF assms]
  have "length (filter (\<lambda>p. pv_PairID p = pid \<and> unresolved_stage (pv_Stage p))
      (pair_provisioning_operations s)) \<le> 1"
    using invs(2,11) unfolding keys_inv_def exclusive_inv_iff
    by (elim conjE) (rule exclusive_at_most_one [of pv_PairID _ pv_OperationID])
  moreover have "length (filter (\<lambda>r. ro_PairID r = pid \<and> ro_ResolutionState r \<noteq> RestoreResolved)
      (pair_restore_operations s)) \<le> 1"
    using invs(2,11) unfolding keys_inv_def exclusive_inv_iff
    by (elim conjE) (rule exclusive_at_most_one [of ro_PairID _ ro_OperationID])
  ultimately show ?thesis ..
qed

theorem pair_operations_exclusive_witness:
  "length (filter (\<lambda>p. pv_PairID p = ''Q'' \<and> unresolved_stage (pv_Stage p))
      (pair_provisioning_operations running_db)) \<le> 1"
  using pair_operations_exclusive [OF running_reachable] by blast

text \<open>
  C14: what was proved about a stop is never withdrawn. In every later database the stop has the
  same target and, once set, the same call time and deadline; once its termination is confirmed
  it stays confirmed at the same time.
\<close>

theorem stop_proof_never_withdrawn:
  assumes "reachable sha s" and "later sha s s'" and "p \<in> set (stop_operations s)"
  shows "\<exists>q\<in>set (stop_operations s'). st_OperationID q = st_OperationID p \<and>
    st_PairID q = st_PairID p \<and> st_AttemptID q = st_AttemptID p \<and> st_SessionID q = st_SessionID p \<and>
    st_TerminalGeneration q = st_TerminalGeneration p \<and>
    (st_CallCompletedAt p \<noteq> None \<longrightarrow> st_CallCompletedAt q = st_CallCompletedAt p \<and>
       st_ConfirmationDeadlineAt q = st_ConfirmationDeadlineAt p) \<and>
    (st_ResolutionState p = StopResolutionTerminationConfirmed \<longrightarrow>
       st_ResolutionState q = StopResolutionTerminationConfirmed \<and>
       st_TerminationConfirmedAt q = st_TerminationConfirmedAt p)"
proof -
  obtain q where "q \<in> set (stop_operations s')" "stop_evolves p q"
    using later_evolves [OF assms(2,1)] assms(3) by (rule evolves_stop)
  then show ?thesis unfolding stop_evolves_def by (intro bexI [of _ q]) simp_all
qed

theorem stop_proof_never_withdrawn_witness:
  "list_ex (\<lambda>q. st_OperationID q = ''X'' \<and> st_TerminationConfirmedAt q = Some 25) (stop_operations stopped_db)"
proof -
  have "hd (stop_operations stopped_db) \<in> set (stop_operations stopped_db)" by (simp add: stopped_stops)
  from stop_proof_never_withdrawn [OF stopped_reachable later.now this] show ?thesis
    by (simp add: stopped_stops sample_stop_def)
qed

section \<open>Restart\<close>

text \<open>
  C15: the classification after a restart never fails on a database the store has written: it
  reports every dispatched task once, in the order of the ids, each as one that needs external
  reconciliation, with the id and the contract of its open current attempt.
\<close>

theorem restart_classification_total:
  assumes "reachable sha s"
  shows "snd (ClassifyRestartRecovery s) = None \<and>
    sorted (map rc_TaskID (fst (ClassifyRestartRecovery s))) \<and>
    distinct (map rc_TaskID (fst (ClassifyRestartRecovery s))) \<and>
    set (map rc_TaskID (fst (ClassifyRestartRecovery s))) =
      t_TaskID ` {t \<in> set (tasks s). t_State t = StateDispatched} \<and>
    (\<forall>r\<in>set (fst (ClassifyRestartRecovery s)).
       rc_Classification r = ClassificationExternalReconciliationRequired \<and>
       (\<exists>a\<in>set (task_attempts s). a_AttemptID a = rc_AttemptID r \<and> a_TaskID a = rc_TaskID r \<and>
          a_AttemptNumber a = rc_AttemptNumber r \<and> a_ContractID a = rc_ContractID r \<and> a_EndedAt a = None))"
proof -
  let ?ts = "sort_key t_TaskID (filter (\<lambda>t. t_State t = StateDispatched) (tasks s))"
  let ?rs = "map (classify_task s) ?ts"
  have f: "fst (ClassifyRestartRecovery s) = ?rs" by (simp add: ClassifyRestartRecovery_def Let_def)
  have ids: "map rc_TaskID ?rs = map t_TaskID ?ts" by (rule map_classify_ids)
  have ok: "rc_Classification r = ClassificationExternalReconciliationRequired \<and>
      (\<exists>a\<in>set (task_attempts s). a_AttemptID a = rc_AttemptID r \<and> a_TaskID a = rc_TaskID r \<and>
         a_AttemptNumber a = rc_AttemptNumber r \<and> a_ContractID a = rc_ContractID r \<and> a_EndedAt a = None)"
    if "r \<in> set ?rs" for r
    using that classify_task_consistent [OF reachable_inv [OF assms]] by (auto simp: classify_task_number)
  then have "snd (ClassifyRestartRecovery s) = None"
    by (auto simp: ClassifyRestartRecovery_def Let_def list_ex_iff)
  moreover have "distinct (map t_TaskID (tasks s))"
    using reachable_invs(2) [OF assms] by (simp add: keys_inv_def keyed_def)
  then have "distinct (map t_TaskID ?ts)" by (auto simp: distinct_map intro: inj_on_subset)
  ultimately show ?thesis unfolding f ids using ok by (intro conjI ballI) simp_all
qed

lemma bound_classified: "map rc_AttemptID (fst (ClassifyRestartRecovery bound_db)) = [''A'']"
  by code_simp

theorem restart_classification_total_witness:
  "snd (ClassifyRestartRecovery bound_db) = None \<and>
   map rc_AttemptID (fst (ClassifyRestartRecovery bound_db)) = [''A'']"
  using restart_classification_total [OF bound_reachable] bound_classified by simp

end
