(* ===== verification/Task_Board.thy ===== *)
theory Task_Board
  imports Sample_History
begin

text \<open>
  The abstract specification of the store for a reader who only watches tasks: a board that shows
  the state, the attempt counter and the pair of every task. Tasks appear as drafts, move along
  the workflow table, and are claimed for execution one at a time per pair. Every call of the
  store is, on the board, a sequence of such steps.
\<close>

type_synonym task_view = "TaskState \<times> int \<times> string"
type_synonym board = "string \<rightharpoonup> task_view"

definition lane_free :: "board \<Rightarrow> string \<Rightarrow> string \<Rightarrow> bool" where
  "lane_free b pid tid \<longleftrightarrow> (\<forall>other st n. b other = Some (st, n, pid) \<and> active_lane st \<longrightarrow> other = tid)"

inductive board_step :: "board \<Rightarrow> board \<Rightarrow> bool" where
  appear: "b tid = None \<Longrightarrow> board_step b (b(tid \<mapsto> (StateDraft, 0, pid)))"
| move: "b tid = Some (st, n, pid) \<Longrightarrow> CanTransition st to \<Longrightarrow> to \<noteq> StateDispatched \<Longrightarrow>
    active_lane to \<longrightarrow> active_lane st \<or> lane_free b pid tid \<Longrightarrow> board_step b (b(tid \<mapsto> (to, n, pid)))"
| claim: "b tid = Some (StateReady, n, pid) \<Longrightarrow> lane_free b pid tid \<Longrightarrow>
    board_step b (b(tid \<mapsto> (StateDispatched, n + 1, pid)))"

inductive_cases board_stepE: "board_step b b'"

section \<open>The board of a database\<close>

definition task_card :: "Task \<Rightarrow> task_view" where
  "task_card t = (t_State t, t_CurrentAttempt t, t_PairID t)"

definition cards :: "Task list \<Rightarrow> board" where
  "cards ts = map_of (map (\<lambda>t. (t_TaskID t, task_card t)) ts)"

definition board_of :: "db \<Rightarrow> board" where
  "board_of s = cards (tasks s)"

lemma cards_Nil [simp]: "cards [] = Map.empty"
  by (simp add: cards_def)

lemma cards_Cons [simp]: "cards (t # ts) = (cards ts)(t_TaskID t \<mapsto> task_card t)"
  by (simp add: cards_def)

lemma cards_None: "cards ts tid = None \<longleftrightarrow> (\<forall>t\<in>set ts. t_TaskID t \<noteq> tid)"
  by (auto simp: cards_def map_of_eq_None_iff image_iff)

lemma cards_Some: "cards ts tid = Some x \<Longrightarrow> \<exists>t\<in>set ts. t_TaskID t = tid \<and> x = task_card t"
  by (auto simp: cards_def dest!: map_of_SomeD)

lemma cards_mem: "keyed t_TaskID ts \<Longrightarrow> t \<in> set ts \<Longrightarrow> cards ts (t_TaskID t) = Some (task_card t)"
  by (induction ts) (auto simp: keyed_def image_iff)

lemma cards_snoc: "\<forall>q\<in>set ts. t_TaskID q \<noteq> t_TaskID t \<Longrightarrow> cards (ts @ [t]) = (cards ts)(t_TaskID t \<mapsto> task_card t)"
  by (induction ts) (auto simp: fun_upd_twist)

lemma cards_update:
  assumes "keyed t_TaskID ts" and "\<And>t. t \<in> set ts \<Longrightarrow> P t \<Longrightarrow> t_TaskID t = tid"
    and "\<And>t. t_TaskID (f t) = t_TaskID t"
  shows "cards (update_rows P f ts) =
    (case find P ts of None \<Rightarrow> cards ts | Some t \<Rightarrow> (cards ts)(tid \<mapsto> task_card (f t)))"
  using assms(1,2)
proof (induction ts)
  case (Cons t ts)
  have keyed: "keyed t_TaskID ts" and fresh: "\<forall>u\<in>set ts. t_TaskID u \<noteq> t_TaskID t"
    using Cons.prems(1) by (auto simp: keyed_def image_iff)
  show ?case
  proof (cases "P t")
    case True
    then have "t_TaskID t = tid" using Cons.prems(2) by simp
    moreover have "update_rows P f ts = ts"
      unfolding update_rows_def by (rule map_idI) (use fresh Cons.prems(2) \<open>t_TaskID t = tid\<close> in auto)
    ultimately show ?thesis using True assms(3) by (simp add: update_rows_def)
  next
    case False
    have "tid \<noteq> t_TaskID t" if "find P ts = Some u" for u
      using find_SomeD [OF that] fresh Cons.prems(2) [of u] by auto
    moreover have "cards (update_rows P f ts) =
        (case find P ts of None \<Rightarrow> cards ts | Some t \<Rightarrow> (cards ts)(tid \<mapsto> task_card (f t)))"
      by (rule Cons.IH [OF keyed]) (use Cons.prems(2) in auto)
    ultimately show ?thesis
      using False by (auto simp: update_rows_def fun_upd_twist split: option.splits)
  qed
qed (simp add: update_rows_def)

lemma lane_free_board:
  assumes "\<not> pair_busy s pid tid"
  shows "lane_free (board_of s) pid tid"
  using assms by (auto simp: lane_free_def board_of_def pair_busy_iff task_card_def dest!: cards_Some)

section \<open>Refinement\<close>

lemma write_refines_board:
  assumes "store_write sha s s'" and "keys_inv s"
  shows "board_step\<^sup>=\<^sup>= (board_of s) (board_of s')"
  using assms(1)
proof cases
  case (w_task t)
  then have "board_of s' = (board_of s)(t_TaskID t \<mapsto> (StateDraft, 0, t_PairID t))"
    by (simp add: board_of_def insert_simps cards_snoc task_card_def)
  moreover have "board_of s (t_TaskID t) = None" using w_task by (simp add: board_of_def insert_simps cards_None)
  ultimately show ?thesis by (auto intro: board_step.appear)
next
  case (w_transition P tid to at)
  let ?f = "\<lambda>t. t\<lparr>t_State := to, t_UpdatedAt := at\<rparr>"
  have keyed: "keyed t_TaskID (tasks s)" using assms(2) by (simp add: keys_inv_def)
  have b: "board_of s' = (case find P (tasks s) of None \<Rightarrow> board_of s
      | Some t \<Rightarrow> (board_of s)(tid \<mapsto> task_card (?f t)))"
    unfolding w_transition(1) board_of_def
    using cards_update [OF keyed, of P tid ?f] w_transition(2) by simp
  show ?thesis
  proof (cases "find P (tasks s)")
    case (Some t)
    then have t: "t \<in> set (tasks s)" "P t" by (auto dest: find_SomeD)
    note guard = w_transition(2) [OF t]
    have card: "board_of s tid = Some (t_State t, t_CurrentAttempt t, t_PairID t)"
      using cards_mem [OF keyed t(1)] guard by (simp add: board_of_def task_card_def)
    have "board_step (board_of s) ((board_of s)(tid \<mapsto> (to, t_CurrentAttempt t, t_PairID t)))"
      by (rule board_step.move [where b = "board_of s", OF card]) (use guard w_transition(3) in \<open>auto intro: lane_free_board\<close>)
    then show ?thesis by (simp add: b Some task_card_def)
  qed (simp add: b)
next
  case (w_begin t c a at)
  let ?P = "\<lambda>u. t_TaskID u = t_TaskID t \<and> t_State u = StateReady"
  let ?f = "\<lambda>t. t\<lparr>t_State := StateDispatched, t_CurrentAttempt := t_CurrentAttempt t + 1, t_UpdatedAt := at\<rparr>"
  have keyed: "keyed t_TaskID (tasks s)" using assms(2) by (simp add: keys_inv_def)
  have f: "find ?P (tasks s) = Some t"
  proof (cases "find ?P (tasks s)")
    case None
    then show ?thesis using w_begin(1,2) by (auto simp: find_None_iff)
  next
    case (Some u)
    from find_SomeD [OF Some] have "u = t" using w_begin(1) by (intro keyed_uniq [OF keyed]) auto
    with Some show ?thesis by simp
  qed
  have card: "board_of s (t_TaskID t) = Some (StateReady, t_CurrentAttempt t, t_PairID t)"
    using cards_mem [OF keyed w_begin(1)] w_begin(2) by (simp add: board_of_def task_card_def)
  have "board_of s' = cards (update_rows ?P ?f (tasks s))"
    using w_begin(11) by (simp add: insert_simps board_of_def claim_task_def update_tasks_def)
  also have "\<dots> = (board_of s)(t_TaskID t \<mapsto> (StateDispatched, t_CurrentAttempt t + 1, t_PairID t))"
    using cards_update [OF keyed, of ?P "t_TaskID t" ?f] f by (simp add: board_of_def task_card_def)
  finally show ?thesis
    using board_step.claim [where b = "board_of s", OF card lane_free_board [OF w_begin(3)]] by simp
qed (auto simp: board_of_def insert_simps)

lemma writes_refine_board:
  "store_writes sha s s' \<Longrightarrow> keys_inv s \<Longrightarrow> board_step\<^sup>*\<^sup>* (board_of s) (board_of s')"
proof (induction rule: rtranclp_induct)
  case (step t u)
  have "keys_inv t" using step.hyps(1) step.prems by (rule store_writes_keys)
  with step.hyps(2) have "board_step\<^sup>=\<^sup>= (board_of t) (board_of u)" by (rule write_refines_board)
  with step.IH [OF step.prems] show ?case by auto
qed simp

text \<open>
  C4: the store implements the board. A successful call in a reachable database is, on the board,
  a sequence of its steps: new drafts, moves along the workflow table into a lane that is free,
  and claims that count the attempt.
\<close>

theorem store_refines_board:
  assumes "reachable sha s" and "h_sha256 h = sha" and "exec h c s = Inr s'"
  shows "board_step\<^sup>*\<^sup>* (board_of s) (board_of s')"
  using exec_writes [OF assms(3)] assms(1) by (blast intro: writes_refine_board reachable_inv store_inv_keys)

theorem store_refines_board_witness:
  "board_step\<^sup>*\<^sup>* (board_of ready_db) (board_of bound_db)"
  by (rule store_refines_board [OF ready_reachable call_hosts(1) exec_bind])

end
