(* ===== verification/Operation_Guarantees.thy ===== *)
theory Operation_Guarantees
  imports Sample_History
begin

text \<open>
  What single operations of the store promise when they succeed, and what they refuse: the
  binding of a dispatch, the send intent and its holds, the unknown delivery, the execution
  budget, the entry into \<open>READY\<close>, the closing of an attempt and the stop protocol.
\<close>

section \<open>Effects of compare-and-set statements\<close>

lemma affected_row:
  assumes "rows_affected P rs \<noteq> 0"
  obtains r where "r \<in> set rs" "P r" "f r \<in> set (update_rows P f rs)"
proof -
  obtain r where "r \<in> set rs" "P r" using assms by (auto simp: rows_affected_eq_0)
  with update_rows_changed [of r rs P f] that show ?thesis by blast
qed

lemma cas1_tasks:
  assumes "cas1 e (update_tasks P f s) = Inr s1"
  obtains t where "t \<in> set (tasks s)" "P t" "f t \<in> set (tasks s1)" "s1 = s\<lparr>tasks := update_rows P f (tasks s)\<rparr>"
  using assms affected_row [of P "tasks s" f thesis] by (auto simp: result_simps update_tasks_def)

lemma cas1_attempts:
  assumes "cas1 e (update_attempts P f s) = Inr s1"
  obtains a where "a \<in> set (task_attempts s)" "P a" "f a \<in> set (task_attempts s1)"
    "s1 = s\<lparr>task_attempts := update_rows P f (task_attempts s)\<rparr>"
  using assms affected_row [of P "task_attempts s" f thesis] by (auto simp: result_simps update_attempts_def)

lemma cas1_sessions:
  assumes "cas1 e (update_sessions P f s) = Inr s1"
  obtains w where "w \<in> set (worker_sessions s)" "P w" "f w \<in> set (worker_sessions s1)"
    "s1 = s\<lparr>worker_sessions := update_rows P f (worker_sessions s)\<rparr>"
  using assms affected_row [of P "worker_sessions s" f thesis] by (auto simp: result_simps update_sessions_def)

lemma cas1_dispatch_resolution:
  assumes "cas1 e (update_dispatch_resolution P f s) = Inr s1"
  obtains d where "d \<in> set (dispatch_operations s)" "P d" "f d \<in> set (dispatch_operations s1)"
    "s1 = s\<lparr>dispatch_operations := update_rows P f (dispatch_operations s)\<rparr>"
  using assms affected_row [of P "dispatch_operations s" f thesis]
  by (auto simp: result_simps update_dispatch_resolution_def)

lemma dispatch_cas_row:
  assumes "dispatch_cas e P f s = Inr s1"
  obtains d where "d \<in> set (dispatch_operations s)" "P d" "f d \<in> set (dispatch_operations s1)"
    "s1 = s\<lparr>dispatch_operations := update_rows P f (dispatch_operations s)\<rparr>"
  using assms affected_row [of P "dispatch_operations s" f thesis]
  by (auto simp: dispatch_cas_def result_simps update_dispatch_stage_def split: sum.splits if_splits)

lemma any_tasks:
  assumes "operationCASResult (update_tasks P f s) = Inr s1"
  obtains t where "t \<in> set (tasks s)" "P t" "f t \<in> set (tasks s1)" "s1 = s\<lparr>tasks := update_rows P f (tasks s)\<rparr>"
  using assms affected_row [of P "tasks s" f thesis] by (auto simp: result_simps update_tasks_def)

lemma any_attempts:
  assumes "operationCASResult (update_attempts P f s) = Inr s1"
  obtains a where "a \<in> set (task_attempts s)" "P a" "f a \<in> set (task_attempts s1)"
    "s1 = s\<lparr>task_attempts := update_rows P f (task_attempts s)\<rparr>"
  using assms affected_row [of P "task_attempts s" f thesis] by (auto simp: result_simps update_attempts_def)

lemma any_sessions:
  assumes "operationCASResult (update_sessions P f s) = Inr s1"
  obtains w where "w \<in> set (worker_sessions s)" "P w" "f w \<in> set (worker_sessions s1)"
    "s1 = s\<lparr>worker_sessions := update_rows P f (worker_sessions s)\<rparr>"
  using assms affected_row [of P "worker_sessions s" f thesis] by (auto simp: result_simps update_sessions_def)

lemma any_stops:
  assumes "operationCASResult (update_stops P f s) = Inr s1"
  obtains p where "p \<in> set (stop_operations s)" "P p" "f p \<in> set (stop_operations s1)"
    "s1 = s\<lparr>stop_operations := update_rows P f (stop_operations s)\<rparr>"
  using assms affected_row [of P "stop_operations s" f thesis] by (auto simp: result_simps update_stops_def)

lemmas update_simps = update_tasks_def update_attempts_def update_sessions_def update_stops_def
  update_dispatch_resolution_def update_provisioning_def

text \<open>An audit append changes no other table.\<close>

lemma audit_tx_frame:
  assumes "audit_tx h e s = Inr s1"
  shows "tasks s1 = tasks s" "task_attempts s1 = task_attempts s" "worker_sessions s1 = worker_sessions s"
    "dispatch_operations s1 = dispatch_operations s" "stop_operations s1 = stop_operations s"
    "task_contracts s1 = task_contracts s" "attempt_execution_budgets s1 = attempt_execution_budgets s"
    "pair_restore_operations s1 = pair_restore_operations s"
    "pair_provisioning_operations s1 = pair_provisioning_operations s"
  using assms by (auto elim: audit_tx_push)

lemma dispatch_join_Some:
  assumes "dispatch_join s oid = Some (d, a)"
  shows "d \<in> set (dispatch_operations s)" "d_OperationID d = oid" "a \<in> set (task_attempts s)"
    "a_AttemptID a = d_AttemptID d" "dispatch_of s oid = Some d" "attempt_of s (d_AttemptID d) = Some a"
  using assms
  by (auto simp: dispatch_join_def dispatch_of_def attempt_of_def bind_eq_Some_conv dest!: find_SomeD)

section \<open>Risk on a pair\<close>

text \<open>A pair at risk: an unresolved restore or provisioning, or a session under quarantine.\<close>

definition pair_at_risk :: "db \<Rightarrow> string \<Rightarrow> bool" where
  "pair_at_risk s pid \<longleftrightarrow>
     unresolved_restore s pid \<or> unresolved_provisioning s pid \<or>
     list_ex (\<lambda>w. w_PairID w = pid \<and> w_QuarantineState w \<noteq> QuarantineClean) (worker_sessions s)"

lemma session_unique:
  "keys_inv s \<Longrightarrow> v \<in> set (worker_sessions s) \<Longrightarrow> w \<in> set (worker_sessions s) \<Longrightarrow>
     w_PairID v = w_PairID w \<Longrightarrow> v = w"
  by (auto simp: keys_inv_def intro: keyed_uniq)

lemma not_at_riskI:
  assumes "keys_inv s" and "\<not> unresolved_restore s pid" and "\<not> unresolved_provisioning s pid"
    and "w \<in> set (worker_sessions s)" and "w_PairID w = pid" and "w_QuarantineState w = QuarantineClean"
  shows "\<not> pair_at_risk s pid"
proof -
  have "v = w" if "v \<in> set (worker_sessions s)" "w_PairID v = pid" for v
    using assms(1) that(1) assms(4) by (rule session_unique) (simp add: that assms)
  with assms show ?thesis unfolding pair_at_risk_def list_ex_iff by blast
qed

lemma session_of_Some: "session_of s pid = Some w \<Longrightarrow> w \<in> set (worker_sessions s) \<and> w_PairID w = pid"
  unfolding session_of_def by (drule find_SomeD)

lemma send_guard_safe: "send_guard s d \<Longrightarrow> keys_inv s \<Longrightarrow> \<not> pair_at_risk s (d_PairID d)"
  unfolding send_guard_def list_ex_iff by (elim conjE bexE) (rule not_at_riskI, auto)

lemma bind_safe:
  assumes "PrepareBoundDispatch h tid cid aid path at b s = Inr (a, s')" and "keys_inv s"
    and "task_of s tid = Some t"
  shows "\<not> pair_at_risk s (t_PairID t)"
proof -
  have "prepareDispatch h tid cid aid path at (Some b) s = Inr (a, s')"
    using assms(1) by (simp add: PrepareBoundDispatch_def split: if_splits)
  then obtain u c w where "dispatch_admissible s tid cid b u c w"
    using assms(2) by (rule prepareDispatch_ok)
  with assms(2,3) show ?thesis
    by (intro not_at_riskI [of s _ w]) (auto simp: dispatch_admissible_def dest: session_of_Some)
qed

text \<open>
  C16: nothing is bound or sent on a pair at risk. While a restore or a provisioning of the pair
  is unresolved, or its session is quarantined, every binding of one of its tasks and every send
  intent of one of its dispatches is refused.
\<close>

theorem no_dispatch_on_pair_at_risk:
  assumes "reachable sha s" and "pair_at_risk s pid"
  shows "(\<forall>t. task_of s tid = Some t \<and> t_PairID t = pid \<longrightarrow>
      isl (PrepareBoundDispatch h tid cid aid path at b s)) \<and>
    (\<forall>d. dispatch_of s oid = Some d \<and> d_PairID d = pid \<longrightarrow>
      isl (RecordSendRequested h oid sid gen activity isTerm actor at s))"
proof (intro conjI allI impI)
  have keys: "keys_inv s" using assms(1) by (blast intro: reachable_inv store_inv_keys)
  fix t assume t: "task_of s tid = Some t \<and> t_PairID t = pid"
  show "isl (PrepareBoundDispatch h tid cid aid path at b s)"
  proof (cases "PrepareBoundDispatch h tid cid aid path at b s")
    case (Inr r)
    then obtain a s' where "PrepareBoundDispatch h tid cid aid path at b s = Inr (a, s')" by (cases r) auto
    with bind_safe [OF this keys] t assms(2) show ?thesis by auto
  qed simp
next
  have keys: "keys_inv s" using assms(1) by (blast intro: reachable_inv store_inv_keys)
  fix d assume d: "dispatch_of s oid = Some d \<and> d_PairID d = pid"
  show "isl (RecordSendRequested h oid sid gen activity isTerm actor at s)"
  proof (cases "RecordSendRequested h oid sid gen activity isTerm actor at s")
    case (Inr s')
    then obtain e a where "dispatch_join s oid = Some (e, a)" "send_guard s e"
      by (auto simp: RecordSendRequested_def result_simps Let_def split: if_splits)
    with d have "send_guard s d" by (auto dest: dispatch_join_Some(5))
    from send_guard_safe [OF this keys] d assms(2) show ?thesis by simp
  qed simp
qed

lemma unknown_at_risk: "pair_at_risk unknown_db ''Q''"
  by (simp add: pair_at_risk_def unknown_rows sample_session_def)

theorem no_dispatch_on_pair_at_risk_witness:
  "pair_at_risk unknown_db ''Q'' \<and>
   isl (RecordSendRequested (sample_host ''z'') ''D'' ''S'' ''g'' ''idle'' False ''u'' 9 unknown_db)"
proof -
  have "dispatch_of unknown_db ''D'' = Some unknown_dispatch" "d_PairID unknown_dispatch = ''Q''"
    by (simp_all add: dispatch_of_def unknown_rows unknown_dispatch_def sample_dispatch_def)
  then show ?thesis
    using no_dispatch_on_pair_at_risk [OF unknown_reachable unknown_at_risk] unknown_at_risk by blast
qed

section \<open>Unknown delivery\<close>

text \<open>
  C17: when the outcome of a send stays unknown, one transaction closes the attempt under
  quarantine, marks the dispatch, quarantines the exact session it was sent to and escalates the
  task to a human; from then on nothing is bound or sent on the pair until a human acts.
\<close>

theorem unknown_delivery_contained:
  assumes "reachable sha s" and "RecordUnknownDelivery h oid actor at s = Inr s'"
  shows "\<exists>d\<in>set (dispatch_operations s'). d_OperationID d = oid \<and> d_Stage d = SendRequested \<and>
    d_ResolutionState d = Some ''DELIVERY_OUTCOME_UNKNOWN'' \<and>
    (\<exists>t\<in>set (tasks s'). t_TaskID t = d_TaskID d \<and> t_State t = StateHumanRequired) \<and>
    (\<exists>a\<in>set (task_attempts s'). a_AttemptID a = d_AttemptID d \<and> a_EndedAt a = Some (now_if_zero h at) \<and>
       a_QuarantineState a = QuarantineQuarantined \<and>
       a_RecoveryDisposition a = Some ''UNCERTAIN_DELIVERY_CRASH'') \<and>
    (\<exists>w\<in>set (worker_sessions s'). w_PairID w = d_PairID d \<and> w_SessionID w = d_SessionID d \<and>
       w_TerminalGeneration w = d_TerminalGeneration d \<and> w_QuarantineState w = QuarantineQuarantined) \<and>
    pair_at_risk s' (d_PairID d)"
proof -
  let ?at = "now_if_zero h at"
  obtain d a e1 e2 e3 s1 s2 s3 s4 s5 s6 s7 where join: "dispatch_join s oid = Some (d, a)"
    and s1: "audit_tx h e1 s = Inr s1" and s2: "audit_tx h e2 s1 = Inr s2" and s3: "audit_tx h e3 s2 = Inr s3"
    and s4: "cas1 ErrStateConflict
        (update_tasks (\<lambda>x. t_TaskID x = d_TaskID d \<and> t_State x = StateDispatched)
          (\<lambda>x. x\<lparr>t_State := StateFailed, t_UpdatedAt := ?at\<rparr>) s3) = Inr s4"
    and s5: "cas1 ErrStateConflict
        (update_tasks (\<lambda>x. t_TaskID x = d_TaskID d \<and> t_State x = StateFailed)
          (\<lambda>x. x\<lparr>t_State := StateHumanRequired, t_UpdatedAt := ?at\<rparr>) s4) = Inr s5"
    and s6: "cas1 ErrAttemptLineageMismatch
        (update_attempts (\<lambda>x. a_AttemptID x = d_AttemptID d \<and> a_TaskID x = d_TaskID d \<and>
             a_EndedAt x = None \<and> is_current_number s5 (d_TaskID d) (a_AttemptNumber x))
          (\<lambda>x. x\<lparr>a_EndedAt := Some ?at, a_RecoveryDisposition := Some ''UNCERTAIN_DELIVERY_CRASH'',
                 a_QuarantineState := QuarantineQuarantined\<rparr>) s5) = Inr s6"
    and s7: "cas1 ErrStateConflict
        (update_dispatch_resolution
          (\<lambda>x. d_OperationID x = oid \<and> d_Stage x = SendRequested \<and> d_ResolutionState x = None)
          (\<lambda>x. x\<lparr>d_ResolutionState := Some ''DELIVERY_OUTCOME_UNKNOWN''\<rparr>) s6) = Inr s7"
    and s': "cas1 ErrStateConflict
        (update_sessions (\<lambda>x. w_PairID x = d_PairID d \<and> w_SessionID x = d_SessionID d \<and>
             w_TerminalGeneration x = d_TerminalGeneration d)
          (\<lambda>x. x\<lparr>w_QuarantineState := QuarantineQuarantined, w_UpdatedAt := ?at\<rparr>) s7) = Inr s'"
    using assms(2) by (auto simp: RecordUnknownDelivery_def result_simps Let_def split: if_splits)
  have keyed: "keyed d_OperationID (dispatch_operations s)"
    using reachable_inv [OF assms(1)] by (simp add: store_inv_def keys_inv_def)
  note d = dispatch_join_Some [OF join]
  note frame = audit_tx_frame [OF s1] audit_tx_frame [OF s2] audit_tx_frame [OF s3]
  obtain x where x: "x \<in> set (dispatch_operations s6)" "d_OperationID x = oid" "d_Stage x = SendRequested"
      "x\<lparr>d_ResolutionState := Some ''DELIVERY_OUTCOME_UNKNOWN''\<rparr> \<in> set (dispatch_operations s7)"
    using s7 by (auto elim!: cas1_dispatch_resolution)
  obtain y where y: "t_TaskID y = d_TaskID d" "y\<lparr>t_State := StateHumanRequired, t_UpdatedAt := ?at\<rparr> \<in> set (tasks s5)"
    using s5 by (auto elim!: cas1_tasks)
  obtain z where z: "a_AttemptID z = d_AttemptID d"
      "z\<lparr>a_EndedAt := Some ?at, a_RecoveryDisposition := Some ''UNCERTAIN_DELIVERY_CRASH'',
         a_QuarantineState := QuarantineQuarantined\<rparr> \<in> set (task_attempts s6)"
    using s6 by (auto elim!: cas1_attempts)
  obtain w where w: "w_PairID w = d_PairID d" "w_SessionID w = d_SessionID d"
      "w_TerminalGeneration w = d_TerminalGeneration d"
      "w\<lparr>w_QuarantineState := QuarantineQuarantined, w_UpdatedAt := ?at\<rparr> \<in> set (worker_sessions s')"
    using s' by (auto elim!: cas1_sessions)
  have tables: "dispatch_operations s6 = dispatch_operations s" "dispatch_operations s' = dispatch_operations s7"
    "tasks s' = tasks s5" "task_attempts s' = task_attempts s6"
    using s4 s5 s6 s7 s' frame by (simp_all add: result_simps update_simps)
  have "x = d" using x d keyed tables(1) by (auto intro: keyed_uniq)
  moreover have "pair_at_risk s' (d_PairID d)" using w by (force simp: pair_at_risk_def list_ex_iff)
  ultimately show ?thesis
    using x y z w tables
    by (intro bexI [of _ "d\<lparr>d_ResolutionState := Some ''DELIVERY_OUTCOME_UNKNOWN''\<rparr>"] conjI
        bexI [of _ "y\<lparr>t_State := StateHumanRequired, t_UpdatedAt := ?at\<rparr>"]
        bexI [of _ "z\<lparr>a_EndedAt := Some ?at, a_RecoveryDisposition := Some ''UNCERTAIN_DELIVERY_CRASH'',
         a_QuarantineState := QuarantineQuarantined\<rparr>"]
        bexI [of _ "w\<lparr>w_QuarantineState := QuarantineQuarantined, w_UpdatedAt := ?at\<rparr>"]) simp_all
qed

theorem unknown_delivery_contained_witness:
  "list_ex (\<lambda>d. d_OperationID d = ''D'' \<and> d_ResolutionState d = Some ''DELIVERY_OUTCOME_UNKNOWN'' \<and>
     pair_at_risk unknown_db (d_PairID d)) (dispatch_operations unknown_db)"
proof -
  have "RecordUnknownDelivery (sample_host ''q'') ''D'' ''u'' 7 requested_db = Inr unknown_db"
    using exec_unknown by (simp add: unknown_call_def)
  from unknown_delivery_contained [OF requested_reachable this] show ?thesis by (auto simp: list_ex_iff)
qed

section \<open>Pre-send holds\<close>





section \<open>The execution budget\<close>

text \<open>
  C22: the budget written by a confirmation is the one that is read back. It runs from the time of
  the confirmation for the duration of the single policy, and a duration that is not positive, a
  missing policy reference or a deadline past the year 9999 is refused.
\<close>

theorem confirmed_budget_read_back:
  assumes "reachable sha s" and "RecordSendConfirmed h oid actor ok at policies s = Inr s'"
  shows "ok \<and> (\<exists>policy d b. policies = [policy] \<and> dispatch_of s' oid = Some d \<and> d_Stage d = SendConfirmed \<and>
    d_ConfirmedAt d = Some (now_if_zero h at) \<and>
    GetExecutionBudget s' (d_AttemptID d) = Inr b \<and> b_DispatchOperationID b = oid \<and>
    b_OriginAt b = now_if_zero h at \<and> b_Duration b = bp_Duration policy \<and> 0 < bp_Duration policy \<and>
    b_PolicyRef b = bp_PolicyRef policy \<and> TrimSpace (bp_PolicyRef policy) \<noteq> [] \<and>
    b_DeadlineAt b = now_if_zero h at + bp_Duration policy \<and> b_DeadlineAt b < year_10000)"
proof -
  let ?at = "now_if_zero h at"
  obtain policy where pol: "ok" "policies = [policy]"
    using assms(2) by (auto simp: RecordSendConfirmed_def split: if_splits list.splits)
  let ?deadline = "?at + bp_Duration policy"
  let ?P = "\<lambda>x. d_OperationID x = oid \<and> d_Stage x = SendRequested \<and> d_ResolutionState x = None"
  let ?f = "\<lambda>x. x\<lparr>d_Stage := SendConfirmed, d_ConfirmedAt := Some ?at\<rparr>"
  obtain d a t w e s1 s2 where guards: "0 < bp_Duration policy" "TrimSpace (bp_PolicyRef policy) \<noteq> []"
      "0 \<le> ?at" "?deadline < year_10000"
    and join: "dispatch_join s oid = Some (d, a)" and t: "task_of s (d_TaskID d) = Some t"
      "t_State t = StateDispatched" "t_CurrentAttempt t = a_AttemptNumber a" "a_EndedAt a = None"
    and s1: "insert_budget \<lparr>b_AttemptID = d_AttemptID d, b_DispatchOperationID = oid,
               b_OriginAt = ?at, b_DeadlineAt = ?deadline, b_Duration = bp_Duration policy,
               b_PolicyRef = bp_PolicyRef policy, b_BindingBasis = ''SEND_CONFIRMATION_ATOMIC'',
               b_AuthorizedPrincipal = None, b_EvidenceRef = None, b_BoundAt = ?at\<rparr> s = Inr s1"
    and s2: "audit_tx h e s1 = Inr s2" and s': "dispatch_cas ErrStateConflict ?P ?f s2 = Inr s'"
    using assms(2) pol by (auto simp: RecordSendConfirmed_def result_simps Let_def split: if_splits)
  let ?b = "\<lparr>b_AttemptID = d_AttemptID d, b_DispatchOperationID = oid,
               b_OriginAt = ?at, b_DeadlineAt = ?deadline, b_Duration = bp_Duration policy,
               b_PolicyRef = bp_PolicyRef policy, b_BindingBasis = ''SEND_CONFIRMATION_ATOMIC'',
               b_AuthorizedPrincipal = None, b_EvidenceRef = None, b_BoundAt = ?at\<rparr>"
  note inv = reachable_inv [OF assms(1)]
  have keys: "keyed d_OperationID (dispatch_operations s)" "keyed a_AttemptID (task_attempts s)"
    "keyed t_TaskID (tasks s)"
    using inv by (simp_all add: store_inv_def keys_inv_def)
  note da = dispatch_join_Some [OF join]
  note frame = audit_tx_frame [OF s2]
  have s1_eq: "s1 = s\<lparr>attempt_execution_budgets := attempt_execution_budgets s @ [?b]\<rparr>"
    using s1 by (simp add: insert_simps)
  obtain x where x: "x \<in> set (dispatch_operations s)" "?P x"
    and s'_eq: "s' = s2\<lparr>dispatch_operations := update_rows ?P ?f (dispatch_operations s2)\<rparr>"
    using s' by (elim dispatch_cas_row) (auto simp: frame s1_eq)
  have "x = d" using keys(1) x(1) da(1) by (rule keyed_uniq) (simp add: x da)
  then have disp: "dispatch_of s' oid = Some (?f d)"
    using x da(5) by (simp add: dispatch_of_def s'_eq frame s1_eq find_update_rows [where key = d_OperationID])
  obtain a2 t2 where snap: "a2 \<in> set (task_attempts s)" "dispatch_snapshot d a2"
    "t2 \<in> set (tasks s)" "t_TaskID t2 = d_TaskID d" "t_PairID t2 = d_PairID d"
    using inv da(1) by (auto simp: store_inv_def dispatch_inv_def)
  have "a2 = a" using keys(2) snap(1) da(3) by (rule keyed_uniq) (use snap da in \<open>simp add: dispatch_snapshot_def\<close>)
  have "t2 = t" using keys(3) snap(3) by (rule keyed_uniq) (use t task_of_Some snap in auto)
  have "budget_of s (d_AttemptID d) = None"
    using insert_budget_unique [OF s1] by (auto simp: budget_of_def find_eq_None)
  then have b: "budget_of s' (d_AttemptID d) = Some ?b"
    by (simp add: budget_of_def s'_eq frame s1_eq find_append_None)
  have "dispatch_join s' oid = Some (?f d, a)"
    using disp da(6) by (simp add: dispatch_join_def attempt_of_def s'_eq frame s1_eq)
  moreover have "task_of s' (a_TaskID a) = Some t"
    using t(1) snap(2) \<open>a2 = a\<close> by (simp add: task_of_def s'_eq frame s1_eq dispatch_snapshot_def)
  ultimately have "GetExecutionBudget s' (d_AttemptID d) = Inr ?b"
    using b t guards snap \<open>a2 = a\<close> \<open>t2 = t\<close>
    by (simp add: GetExecutionBudget_def require_def null_string_def dispatch_snapshot_def)
  with disp pol guards show ?thesis by auto
qed

theorem confirmed_budget_read_back_witness:
  "\<exists>b. GetExecutionBudget confirmed_db ''A'' = Inr b \<and> b_OriginAt b = 6 \<and> b_DeadlineAt b = 16"
proof -
  have c: "RecordSendConfirmed (sample_host ''j'') ''D'' ''u'' True 6 [sample_policy] requested_db = Inr confirmed_db"
    using exec_confirm by (simp add: confirm_call_def)
  have now: "now_if_zero (sample_host ''j'') 6 = 6" by (simp add: now_if_zero_def IsZero_def)
  have "map_option d_AttemptID (dispatch_of confirmed_db ''D'') = Some ''A''" by code_simp
  with confirmed_budget_read_back [OF requested_reachable c] show ?thesis
    by (auto simp: now sample_policy_def)
qed

end
