(* ===== verification/Protocol_Guarantees.thy ===== *)
theory Protocol_Guarantees
  imports Operation_Guarantees
begin

text \<open>
  The protocols that span several operations: contracts and the entry into \<open>READY\<close>, the closing
  of an attempt with its task, the provisioning of a session, and the stop of a running attempt
  from its reservation to its outcome.
\<close>

section \<open>Contracts and readiness\<close>

lemma fold_latest:
  "(let m = fold (\<lambda>d m. if cr_revision_number m < cr_revision_number d then d else m) cs c
    in m \<in> set (c # cs) \<and> (\<forall>d\<in>set (c # cs). cr_revision_number d \<le> cr_revision_number m))"
proof (induction cs arbitrary: c)
  case (Cons d cs)
  show ?case
    using Cons [of "if cr_revision_number c < cr_revision_number d then d else c"]
    by (auto simp: Let_def split: if_splits)
qed simp

lemma latest_contract_max:
  assumes "latest_contract s tid = Some c"
  shows "c \<in> set (task_contracts s)" "cr_task_id c = tid"
    "d \<in> set (task_contracts s) \<Longrightarrow> cr_task_id d = tid \<Longrightarrow> cr_revision_number d \<le> cr_revision_number c"
proof -
  obtain x xs where f: "filter (\<lambda>c. cr_task_id c = tid) (task_contracts s) = x # xs"
    and c: "c = fold (\<lambda>d m. if cr_revision_number m < cr_revision_number d then d else m) xs x"
    using assms by (auto simp: latest_contract_def split: list.splits)
  have m: "c \<in> set (x # xs)" "\<forall>d\<in>set (x # xs). cr_revision_number d \<le> cr_revision_number c"
    using fold_latest [of xs x] by (simp_all add: c Let_def)
  have mem: "set (x # xs) = {c \<in> set (task_contracts s). cr_task_id c = tid}"
    using arg_cong [OF f, of set] by simp
  show "c \<in> set (task_contracts s)" "cr_task_id c = tid" using m(1) mem by auto
  show "cr_revision_number d \<le> cr_revision_number c" if "d \<in> set (task_contracts s)" "cr_task_id d = tid"
    using m(2) mem that by auto
qed

text \<open>
  C23: a task becomes ready only with its latest contract in the right condition: an open revision
  when it comes from the draft or from a requested revision, the frozen one when it is retried
  after a failure. No other state leads to \<open>READY\<close>.
\<close>

theorem ready_requires_contract:
  assumes "TransitionTask h tid from StateReady s = Inr s'"
  shows "(from = StateDraft \<or> from = StateRevisionRequired \<or> from = StateFailed) \<and>
    (\<exists>c\<in>set (task_contracts s). cr_task_id c = tid \<and> (cr_is_immutable c \<longleftrightarrow> from = StateFailed) \<and>
       (\<forall>d\<in>set (task_contracts s). cr_task_id d = tid \<longrightarrow> cr_revision_number d \<le> cr_revision_number c)) \<and>
    (\<exists>t\<in>set (tasks s'). t_TaskID t = tid \<and> t_State t = StateReady)"
  using assms
proof (rule TransitionTask_ok)
  fix t
  assume t: "task_of s tid = Some t" "t_State t = from" and "CanTransition from StateReady"
    and entry: "StateReady = StateReady \<longrightarrow> ready_entry s tid from = Inr ()"
    and s': "s' = s\<lparr>tasks := update_rows (\<lambda>u. t_TaskID u = tid \<and> t_State u = from)
       (\<lambda>u. u\<lparr>t_State := StateReady, t_UpdatedAt := h_now h\<rparr>) (tasks s)\<rparr>"
  obtain c where c: "latest_contract s tid = Some c" "cr_is_immutable c \<longleftrightarrow> from = StateFailed"
      "from = StateDraft \<or> from = StateRevisionRequired \<or> from = StateFailed"
    using entry by (auto simp: ready_entry_def result_simps split: if_splits)
  have "t\<lparr>t_State := StateReady, t_UpdatedAt := h_now h\<rparr> \<in> set (tasks s')"
    using task_of_Some [OF t(1)] t(2) by (auto simp: s' intro!: update_rows_changed [of t])
  then have "\<exists>t\<in>set (tasks s'). t_TaskID t = tid \<and> t_State t = StateReady"
    using task_of_Some [OF t(1)] by (intro bexI conjI) simp_all
  with c latest_contract_max [OF c(1)] show ?thesis by blast
qed

lemma ready_step:
  "TransitionTask (sample_host ''g'') ''T'' StateDraft StateReady (after_calls (take 6 ready_calls)) = Inr ready_db"
  using prefix_run(1) [OF stopped_succeeds, of "take 6 ready_calls" "sample_host ''g''" "DoTransitionTask ''T'' StateDraft StateReady"]
  by (simp add: calls_defs ready_calls_def ready_db_def)

theorem ready_requires_contract_witness:
  "list_ex (\<lambda>t. t_TaskID t = ''T'' \<and> t_State t = StateReady) (tasks ready_db)"
  using ready_requires_contract [OF ready_step] by (auto simp: list_ex_iff)





section \<open>Closing an attempt with its task\<close>

text \<open>
  C24: a terminal transition is atomic. The task fails and its current attempt is closed with the
  disposition; when the disposition leaves the worker's identity in doubt, attempt and session are
  quarantined, so that nothing more is dispatched on the pair.
\<close>

theorem terminal_transition_closes_attempt:
  assumes "AtomicTerminalTransition h tid old new reason aid disposition s = Inr s'"
  shows "new = StateFailed \<and> executing old \<and>
    (\<exists>t\<in>set (tasks s). t_TaskID t = tid \<and> t_State t = old) \<and>
    (\<exists>t\<in>set (tasks s'). t_TaskID t = tid \<and> t_State t = StateFailed) \<and>
    (\<exists>a\<in>set (task_attempts s'). a_AttemptID a = aid \<and> a_TaskID a = tid \<and> a_EndedAt a = Some (h_now h) \<and>
       a_RecoveryDisposition a = Some disposition \<and>
       (requiresDoubleQuarantine disposition \<longrightarrow> a_QuarantineState a = QuarantineQuarantined)) \<and>
    (requiresDoubleQuarantine disposition \<longrightarrow>
       (\<exists>t\<in>set (tasks s). t_TaskID t = tid \<and> pair_at_risk s' (t_PairID t)))"
proof -
  let ?q = "requiresDoubleQuarantine disposition"
  obtain pid cid e s1 s2 s3 where guard: "new = StateFailed" "executing old"
    and lineage: "currentOpenAttemptLineage s tid aid = Inr (pid, cid)"
    and s1: "cas1 ErrStateConflict (update_tasks (\<lambda>t. t_TaskID t = tid \<and> t_State t = old)
          (\<lambda>t. t\<lparr>t_State := StateFailed, t_UpdatedAt := h_now h\<rparr>) s) = Inr s1"
    and s2: "cas1 ErrAttemptLineageMismatch (close_current_attempt tid aid (h_now h) disposition ?q s1) = Inr s2"
    and s3: "?q \<Longrightarrow> cas1 ErrAttemptLineageMismatch
          (update_sessions (\<lambda>w. w_PairID w = pid \<and>
              list_ex (\<lambda>a. a_AttemptID a = aid \<and> a_TaskID a = tid \<and>
                a_SessionID a = Some (w_SessionID w) \<and>
                a_TerminalGeneration a = Some (w_TerminalGeneration w)) (task_attempts s2))
            (\<lambda>w. w\<lparr>w_QuarantineState := QuarantineQuarantined, w_UpdatedAt := h_now h\<rparr>) s2) = Inr s3"
      "\<not> ?q \<Longrightarrow> s3 = s2"
    and s': "audit_tx h e s3 = Inr s'"
    using assms
    by (cases ?q) (auto simp: AtomicTerminalTransition_def result_simps Let_def executing_def split: if_splits)
  note frame = audit_tx_frame [OF s']
  obtain t where t: "t \<in> set (tasks s)" "t_TaskID t = tid" "t_State t = old"
      "t\<lparr>t_State := StateFailed, t_UpdatedAt := h_now h\<rparr> \<in> set (tasks s1)"
    using s1 by (auto elim!: cas1_tasks)
  obtain a where a: "a_AttemptID a = aid" "a_TaskID a = tid"
      "a\<lparr>a_EndedAt := Some (h_now h), a_RecoveryDisposition := Some disposition,
         a_QuarantineState := (if ?q then QuarantineQuarantined else a_QuarantineState a)\<rparr> \<in> set (task_attempts s2)"
    using s2 unfolding close_current_attempt_def by (elim cas1_attempts) (elim conjE, assumption)
  have tables: "tasks s' = tasks s1" "task_attempts s' = task_attempts s2" "worker_sessions s' = worker_sessions s3"
  proof -
    have "tasks s2 = tasks s1" using s2 by (simp add: result_simps update_simps close_current_attempt_def)
    moreover have "tasks s3 = tasks s2 \<and> task_attempts s3 = task_attempts s2"
    proof (cases ?q)
      case True
      from s3(1) [OF this] show ?thesis by (simp add: result_simps update_simps)
    qed (simp add: s3(2))
    ultimately show "tasks s' = tasks s1" "task_attempts s' = task_attempts s2"
      "worker_sessions s' = worker_sessions s3" by (simp_all add: frame)
  qed
  have risk: "pair_at_risk s' pid" if ?q
    using s3(1) [OF that] tables(3) by (elim cas1_sessions) (force simp: pair_at_risk_def list_ex_iff)
  obtain u where u: "u \<in> set (tasks s)" "t_TaskID u = tid" "t_PairID u = pid"
    using lineage
    by (auto simp: currentOpenAttemptLineage_def dest: task_of_Some split: option.splits)
  show ?thesis
    using guard t a u risk
    by (intro conjI impI bexI [of _ t] bexI [of _ "t\<lparr>t_State := StateFailed, t_UpdatedAt := h_now h\<rparr>"]
        bexI [of _ "a\<lparr>a_EndedAt := Some (h_now h), a_RecoveryDisposition := Some disposition,
         a_QuarantineState := (if ?q then QuarantineQuarantined else a_QuarantineState a)\<rparr>"] bexI [of _ u])
      (simp_all add: tables)
qed

theorem terminal_transition_closes_attempt_witness:
  "list_ex (\<lambda>a. a_AttemptID a = ''A'' \<and> a_RecoveryDisposition a = Some ''SESSION_ABSENT'')
     (task_attempts failed_db)"
proof -
  have "AtomicTerminalTransition (sample_host ''r'') ''T'' StateRunning StateFailed ''lost'' ''A'' ''SESSION_ABSENT''
      running_db = Inr failed_db"
    using exec_fail by (simp add: fail_call_def)
  from terminal_transition_closes_attempt [OF this] show ?thesis by (auto simp: list_ex_iff)
qed

section \<open>Provisioning\<close>







section \<open>The stop protocol\<close>

text \<open>Inversion of a chain of steps that leaves its statements folded.\<close>

lemmas chain_simps = bindE_eq_Inr andThen_eq_Inr require_eq_Inr ensure_eq_Inr map_error_eq_Inr
  result_if_Inr

lemma ReserveStopOperation_ok:
  assumes "ReserveStopOperation h st s = Inr s'"
  obtains s1 s2 s3 where "st_Stage (default_stop h st) = StopRequested"
    "st_ResolutionState (default_stop h st) = StopResolutionInFlight" "st_RestoreOperationID st = None"
    "st_InitiatingFailureReason st = None \<or> st_InitiatingFailureReason st = Some ''TIMEOUT''"
    "st_InitiatingFailureReason st \<noteq> None \<longrightarrow> st_Purpose st = RunningAttemptStop"
    "\<not> pending_stop s (st_PairID st)" "stop_purpose_check (default_stop h st) s = Inr ()"
    "insert_stop (default_stop h st) s = Inr s1"
    "operationCASResult
        (update_sessions (\<lambda>v. w_PairID v = st_PairID st \<and> w_SessionID v = st_SessionID st \<and>
             w_TerminalGeneration v = st_TerminalGeneration st)
          (\<lambda>v. v\<lparr>w_QuarantineState := QuarantineQuarantined, w_UpdatedAt := now_if_zero h (st_RequestedAt st)\<rparr>) s1) = Inr s2"
    "st_Purpose st = RunningAttemptStop \<longrightarrow>
        operationCASResult
          (update_attempts (\<lambda>a. Some (a_AttemptID a) = st_AttemptID st \<and> Some (a_TaskID a) = st_TaskID st \<and>
               Some (a_ContractID a) = st_ContractID st \<and> a_SessionID a = Some (st_SessionID st) \<and>
               a_TerminalGeneration a = Some (st_TerminalGeneration st) \<and> a_EndedAt a = None)
            (\<lambda>a. a\<lparr>a_QuarantineState := QuarantineQuarantined\<rparr>) s2) = Inr s3"
    "st_Purpose st \<noteq> RunningAttemptStop \<longrightarrow> s3 = s2"
    "appendStopAudit h 0 (default_stop h st) ''STOP_OPERATION_REQUESTED'' (now_if_zero h (st_RequestedAt st)) [] s3 = Inr s'"
proof -
  have none: "st_RestoreOperationID st = None" using assms by (simp add: ReserveStopOperation_def chain_simps)
  from assms show ?thesis
    by (simp add: ReserveStopOperation_def createStopOperationTx_def chain_simps Let_def none)
      (elim exE conjE, rule that, (assumption | rule none | (simp; fail) | (auto; fail))+)
qed

lemma appendStopAudit_frame:
  assumes "appendStopAudit h k stop kind at extra s = Inr s1"
  shows "tasks s1 = tasks s" "task_attempts s1 = task_attempts s" "worker_sessions s1 = worker_sessions s"
    "stop_operations s1 = stop_operations s"
  using assms by (auto simp: appendStopAudit_def chain_simps Let_def dest: audit_tx_frame)


text \<open>
  C19: a reserved stop contains its target. The exact session is quarantined, and with it the open
  attempt when a running attempt is stopped, so nothing more is sent on the pair; and until the
  stop is settled no second stop can be reserved for the pair.
\<close>

theorem reserved_stop_contains_target:
  assumes "ReserveStopOperation h st s = Inr s'"
  shows "\<not> pending_stop s (st_PairID st) \<and> pending_stop s' (st_PairID st) \<and> pair_at_risk s' (st_PairID st) \<and>
    (\<exists>w\<in>set (worker_sessions s'). w_PairID w = st_PairID st \<and> w_SessionID w = st_SessionID st \<and>
       w_TerminalGeneration w = st_TerminalGeneration st \<and> w_QuarantineState w = QuarantineQuarantined) \<and>
    (st_Purpose st = RunningAttemptStop \<longrightarrow>
       (\<exists>a\<in>set (task_attempts s'). Some (a_AttemptID a) = st_AttemptID st \<and> a_EndedAt a = None \<and>
          a_QuarantineState a = QuarantineQuarantined)) \<and>
    (st_PairID st2 = st_PairID st \<longrightarrow> isl (ReserveStopOperation h2 st2 s'))"
  using assms
proof (rule ReserveStopOperation_ok)
  fix s1 s2 s3
  let ?A = "\<lambda>a. Some (a_AttemptID a) = st_AttemptID st \<and> Some (a_TaskID a) = st_TaskID st \<and>
               Some (a_ContractID a) = st_ContractID st \<and> a_SessionID a = Some (st_SessionID st) \<and>
               a_TerminalGeneration a = Some (st_TerminalGeneration st) \<and> a_EndedAt a = None"
  let ?q = "\<lambda>a. a\<lparr>a_QuarantineState := QuarantineQuarantined\<rparr>"
  assume res: "st_ResolutionState (default_stop h st) = StopResolutionInFlight"
    and free: "\<not> pending_stop s (st_PairID st)" and s1: "insert_stop (default_stop h st) s = Inr s1"
    and s2: "operationCASResult
        (update_sessions (\<lambda>v. w_PairID v = st_PairID st \<and> w_SessionID v = st_SessionID st \<and>
             w_TerminalGeneration v = st_TerminalGeneration st)
          (\<lambda>v. v\<lparr>w_QuarantineState := QuarantineQuarantined, w_UpdatedAt := now_if_zero h (st_RequestedAt st)\<rparr>) s1) = Inr s2"
    and s3: "st_Purpose st = RunningAttemptStop \<longrightarrow> operationCASResult (update_attempts ?A ?q s2) = Inr s3"
      "st_Purpose st \<noteq> RunningAttemptStop \<longrightarrow> s3 = s2"
    and s': "appendStopAudit h 0 (default_stop h st) ''STOP_OPERATION_REQUESTED''
        (now_if_zero h (st_RequestedAt st)) [] s3 = Inr s'"
  note frame = appendStopAudit_frame [OF s']
  have s3_eq: "stop_operations s3 = stop_operations s2 \<and> worker_sessions s3 = worker_sessions s2"
    using s3 by (cases "st_Purpose st = RunningAttemptStop") (auto simp: result_simps update_simps)
  obtain w where w: "w_PairID w = st_PairID st" "w_SessionID w = st_SessionID st"
    "w_TerminalGeneration w = st_TerminalGeneration st"
    "w\<lparr>w_QuarantineState := QuarantineQuarantined, w_UpdatedAt := now_if_zero h (st_RequestedAt st)\<rparr> \<in> set (worker_sessions s2)"
    using s2 by (elim any_sessions) (elim conjE, assumption)
  have "stop_operations s2 = stop_operations s1" using s2 by (simp add: result_simps update_simps)
  then have "default_stop h st\<lparr>st_RestorePrincipal := None\<rparr> \<in> set (stop_operations s')"
    using s1 frame s3_eq by (simp add: insert_simps)
  then have pending: "pending_stop s' (st_PairID st)"
    unfolding pending_stop_def list_ex_iff
    by (rule bexI [rotated]) (simp add: res pending_resolution_def)
  have sess: "\<exists>w\<in>set (worker_sessions s'). w_PairID w = st_PairID st \<and> w_SessionID w = st_SessionID st \<and>
       w_TerminalGeneration w = st_TerminalGeneration st \<and> w_QuarantineState w = QuarantineQuarantined"
    using w frame s3_eq
    by (intro bexI [of _ "w\<lparr>w_QuarantineState := QuarantineQuarantined,
          w_UpdatedAt := now_if_zero h (st_RequestedAt st)\<rparr>"]) simp_all
  then have "pair_at_risk s' (st_PairID st)" unfolding pair_at_risk_def list_ex_iff by auto
  moreover have "\<exists>a\<in>set (task_attempts s'). Some (a_AttemptID a) = st_AttemptID st \<and> a_EndedAt a = None \<and>
      a_QuarantineState a = QuarantineQuarantined" if run: "st_Purpose st = RunningAttemptStop"
  proof -
    obtain a where "?A a" "?q a \<in> set (task_attempts s3)"
      using s3(1) [THEN mp, OF run] by (rule any_attempts)
    then show ?thesis using frame by (intro bexI [of _ "?q a"]) simp_all
  qed
  moreover have "isl (ReserveStopOperation h2 st2 s')" if "st_PairID st2 = st_PairID st"
  proof (cases "ReserveStopOperation h2 st2 s'")
    case (Inr x)
    then have "\<not> pending_stop s' (st_PairID st2)" by (rule ReserveStopOperation_ok)
    with pending that show ?thesis by simp
  qed simp
  ultimately show ?thesis using free pending sess by blast
qed

lemma stop_step: "ReserveStopOperation (sample_host ''m'') sample_stop running_db = Inr stopping_db"
  using exec_stop by (simp add: stop_call_def)

theorem reserved_stop_contains_target_witness:
  "pair_at_risk stopping_db ''Q'' \<and> isl (ReserveStopOperation (sample_host ''x'') sample_stop stopping_db)"
  using reserved_stop_contains_target [OF stop_step, of sample_stop] by (simp add: sample_stop_def)

text \<open>
  C20: no stop for a timeout before the deadline. A stop whose reason is a timeout is only reserved
  for the running current attempt of its task, when the execution budget of that attempt has run
  out at the time of the request.
\<close>

theorem timeout_stop_after_deadline:
  assumes "ReserveStopOperation h st s = Inr s'" and "st_InitiatingFailureReason st \<noteq> None"
  shows "st_InitiatingFailureReason st = Some ''TIMEOUT'' \<and>
    (\<exists>aid tid b t. st_AttemptID st = Some aid \<and> st_TaskID st = Some tid \<and> budget_of s aid = Some b \<and>
       b_DeadlineAt b = b_OriginAt b + b_Duration b \<and> b_DeadlineAt b \<le> now_if_zero h (st_RequestedAt st) \<and>
       t \<in> set (tasks s) \<and> t_TaskID t = tid \<and> t_State t = StateRunning)"
  using assms(1)
proof (rule ReserveStopOperation_ok)
  assume reason: "st_InitiatingFailureReason st = None \<or> st_InitiatingFailureReason st = Some ''TIMEOUT''"
    "st_InitiatingFailureReason st \<noteq> None \<longrightarrow> st_Purpose st = RunningAttemptStop"
    and check: "stop_purpose_check (default_stop h st) s = Inr ()"
  then obtain aid tid t where st: "st_AttemptID st = Some aid" "st_TaskID st = Some tid"
      and t: "t \<in> set (tasks s)" "t_TaskID t = tid" "t_State t = StateRunning"
      and adm: "timeout_admissible s (default_stop h st) aid tid = Inr ()"
    using assms(2)
    by (auto simp: stop_purpose_check_def chain_simps dest!: find_SomeD split: option.splits if_splits)
  then obtain b d a w where "timeout_budget s (default_stop h st) aid tid = Some (b, d, a, w)"
    "b_DeadlineAt b = b_OriginAt b + b_Duration b" "\<not> now_if_zero h (st_RequestedAt st) < b_DeadlineAt b"
    by (auto simp: timeout_admissible_def chain_simps)
  moreover from this(1) have "budget_of s aid = Some b"
    by (auto simp: timeout_budget_def bind_eq_Some_conv)
  ultimately show ?thesis using reason assms(2) st t by (simp add: not_less) blast
qed

theorem timeout_stop_after_deadline_witness:
  "\<exists>b. budget_of running_db ''A'' = Some b \<and> b_DeadlineAt b \<le> 20"
proof -
  have r: "st_InitiatingFailureReason sample_stop \<noteq> None" by (simp add: sample_stop_def)
  have "st_AttemptID sample_stop = Some ''A''" "now_if_zero (sample_host ''m'') (st_RequestedAt sample_stop) = 20"
    by (simp_all add: sample_stop_def now_if_zero_def IsZero_def)
  with timeout_stop_after_deadline [OF stop_step r] show ?thesis by auto
qed




end
