(* ===== verification/AO_Client.thy ===== *)
theory AO_Client
  imports Domain
begin

text \<open>
  The adapter to the Agent Orchestrator daemon (\<open>internal/ao\<close>): the error taxonomy, the wire
  types, the one place where a response is accepted (\<open>do_request\<close>), and the calls, which check
  the decoded body field by field before they hand on a normalised value. The HTTP transport is
  a parameter, a function from the request to the reply; so is the JSON decoder, one function per
  wire type, none when the text does not decode. A protocol error keeps its status and the fixed
  part of its reason.
\<close>

section \<open>Errors\<close>

datatype ao_sentinel =
    ErrNilHTTPClient | ErrNonLoopbackURL | ErrDaemonUnavailable | ErrNotFound | ErrSessionNotFound
  | ErrAOProjectNotFound | ErrAgentNotFound | ErrBadRequest | ErrUnexpectedStatus
  | ErrProtocolViolation | ErrRedirectAttempted | ErrPayloadTooLarge | ErrWorkspaceFileDeleted

record APIError_fields =
  ae_StatusCode :: int
  ae_ErrorType :: string
  ae_Code :: string
  ae_Message :: string
  ae_RequestID :: string
  ae_ReportingOwner :: string

text \<open>
  The wrapped cause of a transport error is given by the sentinels that \<open>errors.Is\<close> finds in it;
  an error made by \<open>fmt.Errorf\<close> with \<open>%w\<close> of a sentinel is that sentinel.
\<close>

datatype ao_error =
    APIError APIError_fields
  | ProtocolError int string
  | TransportError "ao_sentinel list"
  | SentinelError ao_sentinel
  | PlainError string

fun api_error_is :: "APIError_fields \<Rightarrow> ao_sentinel \<Rightarrow> bool" where
  "api_error_is e ErrNotFound \<longleftrightarrow> ae_StatusCode e = 404"
| "api_error_is e ErrSessionNotFound \<longleftrightarrow> ae_StatusCode e = 404 \<and> ae_Code e = ''SESSION_NOT_FOUND''"
| "api_error_is e ErrAOProjectNotFound \<longleftrightarrow>
     ae_StatusCode e = 404 \<and> (ae_Code e = ''PROJECT_NOT_FOUND'' \<or> ae_Code e = ''PROJECT_FOLDER_MISSING'')"
| "api_error_is e ErrBadRequest \<longleftrightarrow> ae_StatusCode e = 400"
| "api_error_is e ErrDaemonUnavailable \<longleftrightarrow>
     ae_StatusCode e = 503 \<or> ae_StatusCode e = 502 \<or> ae_StatusCode e = 504"
| "api_error_is e _ \<longleftrightarrow> False"

fun errors_Is :: "ao_error \<Rightarrow> ao_sentinel \<Rightarrow> bool" where
  "errors_Is (APIError e) t \<longleftrightarrow> api_error_is e t"
| "errors_Is (ProtocolError st r) t \<longleftrightarrow> t = ErrProtocolViolation"
| "errors_Is (TransportError cause) t \<longleftrightarrow> t = ErrDaemonUnavailable \<or> t \<in> set cause"
| "errors_Is (SentinelError x) t \<longleftrightarrow> t = x"
| "errors_Is (PlainError m) t \<longleftrightarrow> False"

text \<open>\<open>errors.As\<close> with a \<open>*ProtocolError\<close> and with an \<open>*APIError\<close> target.\<close>

fun as_ProtocolError :: "ao_error \<Rightarrow> int option" where
  "as_ProtocolError (ProtocolError st r) = Some st"
| "as_ProtocolError e = None"

fun as_APIError :: "ao_error \<Rightarrow> APIError_fields option" where
  "as_APIError (APIError e) = Some e"
| "as_APIError e = None"

section \<open>Normalised types\<close>

datatype ActivityState =
    ActivityStateActive | ActivityStateIdle | ActivityStateWaitingInput | ActivityStateBlocked
  | ActivityStateExited | OtherActivity string

fun activity_string :: "ActivityState \<Rightarrow> string" where
  "activity_string ActivityStateActive = ''active''"
| "activity_string ActivityStateIdle = ''idle''"
| "activity_string ActivityStateWaitingInput = ''waiting_input''"
| "activity_string ActivityStateBlocked = ''blocked''"
| "activity_string ActivityStateExited = ''exited''"
| "activity_string (OtherActivity x) = x"

record WorkerStatus =
  ws_ID :: string
  ws_ProjectID :: string
  ws_Status :: string
  ws_DisplayStatus :: string
  ws_IsTerminated :: bool
  ws_State :: ActivityState
  ws_LastActivityAt :: time
  ws_Harness :: string
  ws_Branch :: string
  ws_Model :: string
  ws_TerminalGeneration :: string
  ws_PreviewURL :: string

record CreateWorkerSessionResult =
  cw_Session :: WorkerStatus
  cw_PromptBytes :: int
  cw_SystemPromptBytes :: int

record DispatchTaskResult =
  dr_SessionID :: string
  dr_Message :: string

record StopWorkerResult =
  sr_SessionID :: string
  sr_Freed :: bool

datatype RestoreMode = RestoreModeNative | RestoreModeSavedPrompt | RestoreModeFresh

fun restore_mode_string :: "RestoreMode \<Rightarrow> string" where
  "restore_mode_string RestoreModeNative = ''native''"
| "restore_mode_string RestoreModeSavedPrompt = ''saved_prompt''"
| "restore_mode_string RestoreModeFresh = ''fresh''"

record ResumeWorkerResult =
  rw_SessionID :: string
  rw_RestoreMode :: RestoreMode
  rw_Session :: WorkerStatus

record DaemonProbeResponse =
  dp_Status :: string
  dp_Service :: string
  dp_PID :: int
  dp_ExecutablePath :: string
  dp_WorkingDirectory :: string
  dp_StartupWorkingDirectory :: string
  dp_AppImagePath :: string

record AgentInfo =
  ai_ID :: string
  ai_Label :: string
  ai_AuthStatus :: string
  ai_UsageCount :: int
  ai_LastUsedAt :: "time option"

record AgentInventory =
  iv_Supported :: "AgentInfo list"
  iv_Installed :: "AgentInfo list"
  iv_Authorized :: "AgentInfo list"

record AgentObservation =
  ob_State :: string
  ob_Freshness :: string
  ob_CheckedAt :: "time option"
  ob_AttemptedAt :: "time option"
  ob_ReasonCode :: string
  ob_Reason :: string

record AgentReadinessSnapshot =
  as_ID :: string
  as_Label :: string
  as_Installation :: AgentObservation
  as_Authentication :: AgentObservation
  as_EffectiveReadiness :: string
  as_UsageCount :: int
  as_LastUsedAt :: "time option"

record Project_ao =
  ap_ID :: string
  ap_Name :: string
  ap_Kind :: string
  ap_Path :: string
  ap_Repo :: string
  ap_DefaultBranch :: string
  ap_Agent :: string
  ap_FolderMissing :: bool
  ap_Status :: string
  ap_IsDegraded :: bool
  ap_ResolveError :: string

section \<open>Wire types\<close>

text \<open>
  Decoded bodies. The types of the daemon probe, the agent inventory and the readiness snapshot
  have the fields of their normalised counterparts, which the code copies one by one.
\<close>

record wireSessionView =
  wv_ID :: string
  wv_ProjectID :: string
  wv_Kind :: string
  wv_Harness :: string
  wv_Status :: string
  wv_DisplayStatus :: string
  wv_IsTerminated :: bool
  wv_State :: string
  wv_LastActivityAt :: time
  wv_Branch :: string
  wv_Model :: string
  wv_TerminalGeneration :: string
  wv_PreviewURL :: string

type_synonym wireSessionResponse = "wireSessionView option"

record wireSpawnSessionResponse =
  wn_Session :: "wireSessionView option"
  wn_PromptBytes :: "int option"
  wn_SystemPromptBytes :: "int option"

record wireSendSessionMessageResponse =
  wm_OK :: bool
  wm_SessionID :: string
  wm_Message :: string

record wireKillSessionResponse =
  wk_OK :: bool
  wk_SessionID :: string
  wk_Freed :: bool

record wireRestoreSessionResponse =
  wr_OK :: bool
  wr_SessionID :: string
  wr_RestoreMode :: string
  wr_Session :: "wireSessionView option"

record wireAPIError =
  we_Error :: string
  we_Code :: string
  we_Message :: string
  we_RequestID :: string
  we_ReportingOwner :: string

record wireProjectOK =
  wp_ID :: string
  wp_Name :: string
  wp_Kind :: string
  wp_Path :: string
  wp_Repo :: string
  wp_DefaultBranch :: string
  wp_Agent :: string
  wp_FolderMissing :: bool

record wireProjectDegraded =
  wd_ID :: string
  wd_Name :: string
  wd_Kind :: string
  wd_Path :: string
  wd_ResolveError :: string

text \<open>\<open>wireGetProjectResponse\<close>: the discriminator and the raw text of the project.\<close>

record wireGetProjectResponse =
  wg_Status :: string
  wg_Project :: string

record rawWorkspaceEnvelope =
  ev_SessionID :: "string option"
  ev_Path :: "string option"
  ev_Content :: "string option"
  ev_Binary :: "bool option"
  ev_Deleted :: "bool option"
  ev_ContentTruncated :: "bool option"
  ev_Size :: "int option"
  ev_Status :: "string option"
  ev_WorkspaceVersion :: "string option"
  ev_Diff :: "string option"
  ev_DiffTruncated :: "bool option"
  ev_Editable :: "bool option"
  ev_FileFingerprint :: "string option"
  ev_Additions :: "int option"
  ev_Deletions :: "int option"

text \<open>
  The decoders. \<open>dc_workspace\<close> reads one JSON value and reports whether nothing follows it.
\<close>

record codec =
  dc_session :: "string \<Rightarrow> wireSessionResponse option"
  dc_spawn :: "string \<Rightarrow> wireSpawnSessionResponse option"
  dc_send :: "string \<Rightarrow> wireSendSessionMessageResponse option"
  dc_kill :: "string \<Rightarrow> wireKillSessionResponse option"
  dc_restore :: "string \<Rightarrow> wireRestoreSessionResponse option"
  dc_error :: "string \<Rightarrow> wireAPIError option"
  dc_probe :: "string \<Rightarrow> DaemonProbeResponse option"
  dc_inventory :: "string \<Rightarrow> AgentInventory option"
  dc_readiness :: "string \<Rightarrow> AgentReadinessSnapshot list option"
  dc_register :: "string \<Rightarrow> wireProjectOK option option"
  dc_get_project :: "string \<Rightarrow> wireGetProjectResponse option"
  dc_project_ok :: "string \<Rightarrow> wireProjectOK option"
  dc_project_degraded :: "string \<Rightarrow> wireProjectDegraded option"
  dc_workspace :: "string \<Rightarrow> (rawWorkspaceEnvelope \<times> bool) option"

definition toNormalizedWorkerStatusFromView :: "wireSessionView \<Rightarrow> ActivityState \<Rightarrow> WorkerStatus" where
  "toNormalizedWorkerStatusFromView v state =
     \<lparr>ws_ID = wv_ID v, ws_ProjectID = wv_ProjectID v, ws_Status = wv_Status v,
      ws_DisplayStatus = wv_DisplayStatus v, ws_IsTerminated = wv_IsTerminated v, ws_State = state,
      ws_LastActivityAt = wv_LastActivityAt v, ws_Harness = wv_Harness v, ws_Branch = wv_Branch v,
      ws_Model = wv_Model v, ws_TerminalGeneration = wv_TerminalGeneration v,
      ws_PreviewURL = wv_PreviewURL v\<rparr>"

definition toNormalizedProjectOK :: "wireProjectOK \<Rightarrow> Project_ao" where
  "toNormalizedProjectOK p =
     \<lparr>ap_ID = wp_ID p, ap_Name = wp_Name p, ap_Kind = wp_Kind p, ap_Path = wp_Path p, ap_Repo = wp_Repo p,
      ap_DefaultBranch = wp_DefaultBranch p, ap_Agent = wp_Agent p, ap_FolderMissing = wp_FolderMissing p,
      ap_Status = ''ok'', ap_IsDegraded = False, ap_ResolveError = []\<rparr>"

definition toNormalizedProjectDegraded :: "wireProjectDegraded \<Rightarrow> Project_ao" where
  "toNormalizedProjectDegraded p =
     \<lparr>ap_ID = wd_ID p, ap_Name = wd_Name p, ap_Kind = wd_Kind p, ap_Path = wd_Path p, ap_Repo = [],
      ap_DefaultBranch = [], ap_Agent = [], ap_FolderMissing = False, ap_Status = ''degraded'',
      ap_IsDegraded = True, ap_ResolveError = wd_ResolveError p\<rparr>"

section \<open>Requests and replies\<close>

text \<open>
  \<open>url.PathEscape\<close> and \<open>url.QueryEscape\<close>: unreserved bytes stay, a path segment also keeps
  \<open>$&+=:@\<close>, a query component turns a blank into a plus sign, and every other byte is written
  in upper-case hexadecimal.
\<close>

definition unreserved :: "char \<Rightarrow> bool" where
  "unreserved c \<longleftrightarrow>
     c \<in> set ''ABCDEFGHIJKLMNOPQRSTUVWXYZabcdefghijklmnopqrstuvwxyz0123456789-_.~''"

definition upper_hex :: "nat \<Rightarrow> char" where
  "upper_hex d = ''0123456789ABCDEF'' ! d"

definition percent :: "char \<Rightarrow> string" where
  "percent c = [CHR ''%'', upper_hex (byte c div 16), upper_hex (byte c mod 16)]"

definition PathEscape :: "string \<Rightarrow> string" where
  "PathEscape s = concat (map (\<lambda>c. if unreserved c \<or> c \<in> set ''$&+=:@'' then [c] else percent c) s)"

definition QueryEscape :: "string \<Rightarrow> string" where
  "QueryEscape s =
     concat (map (\<lambda>c. if unreserved c then [c] else if c = CHR '' '' then ''+'' else percent c) s)"

record http_request =
  rq_Method :: string
  rq_Path :: string
  rq_Body :: "(string \<times> goval) list option"

text \<open>A reply is a failure of the transport or a status with a body (none when it cannot be read).\<close>

datatype http_reply = NoReply "ao_sentinel list" | Reply int "string option"

type_synonym transport = "http_request \<Rightarrow> http_reply"

definition maxErrorBodyBytes :: nat where
  "maxErrorBodyBytes = 64 * 1024"

definition decodeError :: "codec \<Rightarrow> int \<Rightarrow> string option \<Rightarrow> ao_error" where
  "decodeError dc status body =
     (case body of
        None \<Rightarrow> ProtocolError status ''failed to read error response''
      | Some b \<Rightarrow>
          (case dc_error dc (take maxErrorBodyBytes b) of
             Some w \<Rightarrow>
               if we_Error w \<noteq> [] \<and> we_Code w \<noteq> [] \<and> we_Message w \<noteq> []
               then APIError \<lparr>ae_StatusCode = status, ae_ErrorType = we_Error w, ae_Code = we_Code w,
                 ae_Message = we_Message w, ae_RequestID = we_RequestID w,
                 ae_ReportingOwner = we_ReportingOwner w\<rparr>
               else ProtocolError status ''malformed or non-conforming AO error envelope''
           | None \<Rightarrow> ProtocolError status ''malformed or non-conforming AO error envelope''))"

text \<open>The check of the status, shared by every call.\<close>

definition check_status :: "codec \<Rightarrow> int \<Rightarrow> http_reply \<Rightarrow> ao_error + (string option)" where
  "check_status dc expected reply =
     (case reply of
        NoReply cause \<Rightarrow> Inl (TransportError cause)
      | Reply status body \<Rightarrow>
          if status \<noteq> expected then
            (if status < 200 \<or> 300 \<le> status then Inl (decodeError dc status body)
             else Inl (ProtocolError status ''unexpected HTTP status''))
          else Inr body)"

definition do_request :: "codec \<Rightarrow> (string \<Rightarrow> 'w option) \<Rightarrow> int \<Rightarrow> http_reply \<Rightarrow> ao_error + 'w" where
  "do_request dc dec expected reply =
     bindE (check_status dc expected reply) (\<lambda>body.
     require (Option.bind body dec) (ProtocolError expected ''malformed JSON response payload''))"

definition http_get :: "string \<Rightarrow> http_request" where
  "http_get path = \<lparr>rq_Method = ''GET'', rq_Path = path, rq_Body = None\<rparr>"

definition http_post :: "string \<Rightarrow> (string \<times> goval) list option \<Rightarrow> http_request" where
  "http_post path body = \<lparr>rq_Method = ''POST'', rq_Path = path, rq_Body = body\<rparr>"

definition getRaw :: "codec \<Rightarrow> transport \<Rightarrow> string \<Rightarrow> int \<Rightarrow> ao_error + string" where
  "getRaw dc http path expected =
     bindE (check_status dc expected (http (http_get path))) (\<lambda>body.
     require body (PlainError ''read raw body failed''))"

section \<open>Sessions\<close>

definition validateCanonicalActivityState :: "string \<Rightarrow> int \<Rightarrow> ao_error + ActivityState" where
  "validateCanonicalActivityState raw status =
     (if raw = ''active'' then Inr ActivityStateActive
      else if raw = ''idle'' then Inr ActivityStateIdle
      else if raw = ''waiting_input'' then Inr ActivityStateWaitingInput
      else if raw = ''blocked'' then Inr ActivityStateBlocked
      else if raw = ''exited'' then Inr ActivityStateExited
      else Inl (ProtocolError status ''unknown activity state''))"

definition session_path :: "string \<Rightarrow> string" where
  "session_path sessionID = ''/api/v1/sessions/'' @ PathEscape sessionID"

definition not_blank :: "string \<Rightarrow> ao_error + unit" where
  "not_blank x = ensure (TrimSpace x \<noteq> []) (SentinelError ErrBadRequest)"

definition GetWorkerStatus :: "codec \<Rightarrow> transport \<Rightarrow> string \<Rightarrow> ao_error + WorkerStatus" where
  "GetWorkerStatus dc http sessionID =
     bindE (not_blank sessionID) (\<lambda>_.
     bindE (do_request dc (dc_session dc) 200 (http (http_get (session_path sessionID)))) (\<lambda>wire.
     bindE (require wire (ProtocolError 200 ''session response is null or missing session object'')) (\<lambda>v.
     if wv_ID v = [] then Inl (ProtocolError 200 ''session response contains empty session ID'')
     else if wv_ID v \<noteq> sessionID
     then Inl (ProtocolError 200 ''returned session ID does not match requested sessionID'')
     else bindE (validateCanonicalActivityState (wv_State v) 200) (\<lambda>state.
       Inr (toNormalizedWorkerStatusFromView v state)))))"

definition toNormalizedCreateWorkerSessionResult ::
  "wireSessionView \<Rightarrow> int \<Rightarrow> int \<Rightarrow> ActivityState \<Rightarrow> CreateWorkerSessionResult" where
  "toNormalizedCreateWorkerSessionResult v promptBytes systemPromptBytes state =
     \<lparr>cw_Session = toNormalizedWorkerStatusFromView v state, cw_PromptBytes = promptBytes,
      cw_SystemPromptBytes = systemPromptBytes\<rparr>"

definition CreateWorkerSession_ao ::
  "codec \<Rightarrow> transport \<Rightarrow> string \<Rightarrow> string \<Rightarrow> ao_error + CreateWorkerSessionResult" where
  "CreateWorkerSession_ao dc http projectID harness =
     bindE (not_blank projectID) (\<lambda>_.
     bindE (not_blank harness) (\<lambda>_.
     bindE (do_request dc (dc_spawn dc) 201 (http (http_post ''/api/v1/sessions''
       (Some [(''projectId'', GString projectID), (''kind'', GString ''worker''),
              (''harness'', GString harness)])))) (\<lambda>resp.
     bindE (require (wn_Session resp)
       (ProtocolError 201 ''spawn response is null or missing session object'')) (\<lambda>v.
     if wv_ID v = [] then Inl (ProtocolError 201 ''spawn response contains empty session ID'')
     else if wv_ProjectID v \<noteq> projectID
     then Inl (ProtocolError 201 ''spawn response project ID does not match requested projectID'')
     else if wv_Kind v \<noteq> ''worker'' then Inl (ProtocolError 201 ''spawn response session kind is not worker'')
     else if wv_Harness v \<noteq> harness
     then Inl (ProtocolError 201 ''spawn response harness does not match requested harness'')
     else bindE (require (wn_PromptBytes resp)
         (ProtocolError 201 ''spawn response missing promptBytes field'')) (\<lambda>promptBytes.
       if promptBytes < 0 then Inl (ProtocolError 201 ''spawn response promptBytes must not be negative'')
       else bindE (require (wn_SystemPromptBytes resp)
           (ProtocolError 201 ''spawn response missing systemPromptBytes field'')) (\<lambda>systemPromptBytes.
         if systemPromptBytes < 0
         then Inl (ProtocolError 201 ''spawn response systemPromptBytes must not be negative'')
         else bindE (validateCanonicalActivityState (wv_State v) 201) (\<lambda>state.
           Inr (toNormalizedCreateWorkerSessionResult v promptBytes systemPromptBytes state))))))))"

text \<open>The identity checks that \<open>/send\<close>, \<open>/kill\<close> and \<open>/restore\<close> share.\<close>

definition same_session :: "bool \<Rightarrow> string \<Rightarrow> string \<Rightarrow> ao_error + unit" where
  "same_session ok got sessionID =
     (if \<not> ok then Inl (ProtocolError 200 ''response ok is false'')
      else if got = [] then Inl (ProtocolError 200 ''response contains empty session ID'')
      else if got \<noteq> sessionID
      then Inl (ProtocolError 200 ''response session ID does not match requested sessionID'')
      else Inr ())"

definition DispatchTaskContract ::
  "codec \<Rightarrow> transport \<Rightarrow> string \<Rightarrow> string \<Rightarrow> ao_error + DispatchTaskResult" where
  "DispatchTaskContract dc http sessionID message =
     bindE (not_blank sessionID) (\<lambda>_.
     if message = [] then Inl (SentinelError ErrBadRequest)
     else
     bindE (do_request dc (dc_send dc) 200 (http (http_post (session_path sessionID @ ''/send'')
       (Some [(''message'', GString message)])))) (\<lambda>resp.
     bindE (same_session (wm_OK resp) (wm_SessionID resp) sessionID) (\<lambda>_.
     Inr \<lparr>dr_SessionID = wm_SessionID resp, dr_Message = wm_Message resp\<rparr>)))"

definition StopWorker :: "codec \<Rightarrow> transport \<Rightarrow> string \<Rightarrow> ao_error + StopWorkerResult" where
  "StopWorker dc http sessionID =
     bindE (not_blank sessionID) (\<lambda>_.
     bindE (do_request dc (dc_kill dc) 200 (http (http_post (session_path sessionID @ ''/kill'') None))) (\<lambda>resp.
     bindE (same_session (wk_OK resp) (wk_SessionID resp) sessionID) (\<lambda>_.
     Inr \<lparr>sr_SessionID = wk_SessionID resp, sr_Freed = wk_Freed resp\<rparr>)))"

definition validate_restore_mode :: "string \<Rightarrow> ao_error + RestoreMode" where
  "validate_restore_mode raw =
     (if raw = ''native'' then Inr RestoreModeNative
      else if raw = ''saved_prompt'' then Inr RestoreModeSavedPrompt
      else if raw = ''fresh'' then Inr RestoreModeFresh
      else Inl (ProtocolError 200 ''unknown restoreMode''))"

definition ResumeWorker :: "codec \<Rightarrow> transport \<Rightarrow> string \<Rightarrow> ao_error + ResumeWorkerResult" where
  "ResumeWorker dc http sessionID =
     bindE (not_blank sessionID) (\<lambda>_.
     bindE (do_request dc (dc_restore dc) 200
       (http (http_post (session_path sessionID @ ''/restore'') None))) (\<lambda>resp.
     bindE (same_session (wr_OK resp) (wr_SessionID resp) sessionID) (\<lambda>_.
     bindE (validate_restore_mode (wr_RestoreMode resp)) (\<lambda>mode.
     bindE (require (wr_Session resp)
       (ProtocolError 200 ''restore response is null or missing nested session object'')) (\<lambda>v.
     if wv_ID v = [] then Inl (ProtocolError 200 ''restore response contains empty nested session ID'')
     else if wv_ID v \<noteq> sessionID
     then Inl (ProtocolError 200 ''restore response nested session ID does not match requested sessionID'')
     else bindE (validateCanonicalActivityState (wv_State v) 200) (\<lambda>state.
       Inr \<lparr>rw_SessionID = wr_SessionID resp, rw_RestoreMode = mode,
            rw_Session = toNormalizedWorkerStatusFromView v state\<rparr>))))))"

section \<open>Probes\<close>

definition DaemonServiceAO :: string where
  "DaemonServiceAO = ''agent-orchestrator-daemon''"

definition check_probe :: "string \<Rightarrow> DaemonProbeResponse \<Rightarrow> ao_error + DaemonProbeResponse" where
  "check_probe expected w =
     (if dp_Status w \<noteq> expected then Inl (ProtocolError 200 ''probe status'')
      else if dp_Service w \<noteq> DaemonServiceAO then Inl (ProtocolError 200 ''probe service'')
      else if dp_PID w \<le> 0 then Inl (ProtocolError 200 ''probe pid'')
      else Inr w)"

definition CheckHealth :: "codec \<Rightarrow> transport \<Rightarrow> ao_error + DaemonProbeResponse" where
  "CheckHealth dc http =
     bindE (do_request dc (dc_probe dc) 200 (http (http_get ''/healthz''))) (check_probe ''ok'')"

definition CheckReadiness :: "codec \<Rightarrow> transport \<Rightarrow> ao_error + DaemonProbeResponse" where
  "CheckReadiness dc http =
     bindE (do_request dc (dc_probe dc) 200 (http (http_get ''/readyz''))) (check_probe ''ready'')"

definition ListAgents :: "codec \<Rightarrow> transport \<Rightarrow> ao_error + AgentInventory" where
  "ListAgents dc http = do_request dc (dc_inventory dc) 200 (http (http_get ''/api/v1/agents''))"

definition GetAgentReadiness :: "codec \<Rightarrow> transport \<Rightarrow> string \<Rightarrow> ao_error + AgentReadinessSnapshot" where
  "GetAgentReadiness dc http agentID =
     bindE (not_blank agentID) (\<lambda>_.
     bindE (do_request dc (dc_readiness dc) 200 (http (http_get ''/api/v1/agents/readiness''))) (\<lambda>agents.
     require (find (\<lambda>a. as_ID a = agentID) agents) (SentinelError ErrAgentNotFound)))"

definition GetAPIContract :: "codec \<Rightarrow> transport \<Rightarrow> ao_error + string" where
  "GetAPIContract dc http = getRaw dc http ''/api/v1/openapi.yaml'' 200"

section \<open>Projects\<close>

definition RegisterProject :: "codec \<Rightarrow> transport \<Rightarrow> string \<Rightarrow> string \<Rightarrow> ao_error + Project_ao" where
  "RegisterProject dc http projectID rootPath =
     bindE (not_blank projectID) (\<lambda>_.
     bindE (not_blank rootPath) (\<lambda>_.
     bindE (do_request dc (dc_register dc) 201 (http (http_post ''/api/v1/projects''
       (Some [(''path'', GString rootPath), (''projectId'', GString projectID)])))) (\<lambda>resp.
     bindE (require resp
       (ProtocolError 201 ''registered project response is null or missing project object'')) (\<lambda>p.
     if wp_ID p = [] then Inl (ProtocolError 201 ''registered project response contains empty project ID'')
     else if wp_ID p \<noteq> projectID
     then Inl (ProtocolError 201 ''registered project ID does not match requested projectID'')
     else Inr (toNormalizedProjectOK p)))))"

definition GetProject_ao :: "codec \<Rightarrow> transport \<Rightarrow> string \<Rightarrow> ao_error + Project_ao" where
  "GetProject_ao dc http projectID =
     bindE (not_blank projectID) (\<lambda>_.
     bindE (do_request dc (dc_get_project dc) 200
       (http (http_get (''/api/v1/projects/'' @ PathEscape projectID)))) (\<lambda>wire.
     if wg_Project wire = [] \<or> wg_Project wire = ''null'' \<or> wg_Project wire = ''{}''
     then Inl (ProtocolError 200 ''project object is null, empty, or missing in response'')
     else if wg_Status wire = ''ok'' then
       bindE (require (dc_project_ok dc (wg_Project wire))
         (ProtocolError 200 ''failed to decode healthy project JSON'')) (\<lambda>p.
       if wp_ID p = [] then Inl (ProtocolError 200 ''healthy project object contains empty project ID'')
       else if wp_ID p \<noteq> projectID
       then Inl (ProtocolError 200 ''healthy project ID does not match requested projectID'')
       else Inr (toNormalizedProjectOK p))
     else if wg_Status wire = ''degraded'' then
       bindE (require (dc_project_degraded dc (wg_Project wire))
         (ProtocolError 200 ''failed to decode degraded project JSON'')) (\<lambda>p.
       if wd_ID p = [] then Inl (ProtocolError 200 ''degraded project object contains empty project ID'')
       else if wd_ID p \<noteq> projectID
       then Inl (ProtocolError 200 ''degraded project ID does not match requested projectID'')
       else if wd_ResolveError p = []
       then Inl (ProtocolError 200 ''degraded project object is missing required resolveError'')
       else Inr (toNormalizedProjectDegraded p))
     else Inl (ProtocolError 200 ''unknown project status discriminator'')))"

section \<open>Workspace files\<close>

record WorkspaceReadOptions =
  wo_MaxWireBytes :: int
  wo_MaxBytes :: int

definition MaxInt64 :: int where
  "MaxInt64 = 2 ^ 63 - 1"

definition complete_envelope :: "rawWorkspaceEnvelope \<Rightarrow> bool" where
  "complete_envelope r \<longleftrightarrow>
     ev_SessionID r \<noteq> None \<and> ev_Path r \<noteq> None \<and> ev_Content r \<noteq> None \<and> ev_Binary r \<noteq> None \<and>
     ev_Deleted r \<noteq> None \<and> ev_ContentTruncated r \<noteq> None \<and> ev_Size r \<noteq> None \<and> ev_Status r \<noteq> None \<and>
     ev_WorkspaceVersion r \<noteq> None \<and> ev_Diff r \<noteq> None \<and> ev_DiffTruncated r \<noteq> None \<and>
     ev_Editable r \<noteq> None \<and> ev_FileFingerprint r \<noteq> None \<and> ev_Additions r \<noteq> None \<and> ev_Deletions r \<noteq> None"

definition GetWorkspaceFile ::
  "codec \<Rightarrow> transport \<Rightarrow> string \<Rightarrow> string \<Rightarrow> WorkspaceReadOptions \<Rightarrow> ao_error + string" where
  "GetWorkspaceFile dc http sessionID filePath opts =
     bindE (not_blank sessionID) (\<lambda>_.
     bindE (not_blank filePath) (\<lambda>_.
     if wo_MaxWireBytes opts \<le> 0 \<or> wo_MaxBytes opts \<le> 0 then Inl (SentinelError ErrBadRequest)
     else if MaxInt64 \<le> wo_MaxWireBytes opts then Inl (SentinelError ErrBadRequest)
     else if MaxInt64 \<le> wo_MaxBytes opts then Inl (SentinelError ErrBadRequest)
     else
     bindE (check_status dc 200 (http (http_get
       (session_path sessionID @ ''/workspace/file?path='' @ QueryEscape filePath)))) (\<lambda>body.
     bindE (require body (TransportError [])) (\<lambda>b.
     let wireBytes = take (nat (wo_MaxWireBytes opts + 1)) b in
     if wo_MaxWireBytes opts < int (length wireBytes) then Inl (SentinelError ErrPayloadTooLarge)
     else
     bindE (require (dc_workspace dc wireBytes)
       (ProtocolError 200 ''malformed JSON response payload'')) (\<lambda>(raw, eof).
     if \<not> eof then Inl (ProtocolError 200 ''unexpected trailing data after JSON envelope'')
     else if \<not> complete_envelope raw
     then Inl (ProtocolError 200 ''missing required field in WorkspaceFileResponse envelope'')
     else if ev_SessionID raw \<noteq> Some sessionID
     then Inl (ProtocolError 200 ''envelope sessionId does not match requested'')
     else if ev_Path raw \<noteq> Some filePath
     then Inl (ProtocolError 200 ''envelope path does not match requested'')
     else if ev_Status raw \<notin> set (map Some [''unmodified'', ''modified'', ''added'', ''deleted''])
     then Inl (ProtocolError 200 ''invalid status value in workspace file envelope'')
     else if ev_Binary raw = Some True
     then Inl (ProtocolError 200 ''binary workspace file is unsupported in text reader'')
     else if ev_ContentTruncated raw = Some True
     then Inl (ProtocolError 200 ''workspace file content truncated by upstream'')
     else if ev_Deleted raw = Some True \<or> ev_Status raw = Some ''deleted''
     then Inl (SentinelError ErrWorkspaceFileDeleted)
     else
     bindE (require (ev_Content raw) (ProtocolError 200 [])) (\<lambda>content.
     if wo_MaxBytes opts < int (length content) then Inl (SentinelError ErrPayloadTooLarge)
     else Inr content))))))"

end
