(* ===== verification/AO_Guarantees.thy ===== *)
theory AO_Guarantees
  imports AO_Client
begin

text \<open>
  What the client of the orchestrator promises the coordinators: the class of its errors, the
  identity of what it returns, and request paths that name one session.
\<close>

section \<open>Escaping\<close>

definition hex_value :: "char \<Rightarrow> nat" where
  "hex_value c = length (takeWhile (\<lambda>x. x \<noteq> c) ''0123456789ABCDEF'')"

fun PathUnescape :: "string \<Rightarrow> string" where
  "PathUnescape (c # s) =
     (if c = CHR ''%'' then
        (case s of a # b # t \<Rightarrow> char_of (16 * hex_value a + hex_value b) # PathUnescape t | _ \<Rightarrow> c # s)
      else c # PathUnescape s)"
| "PathUnescape [] = []"

lemma hex_value_upper_hex: "d < 16 \<Longrightarrow> hex_value (upper_hex d) = d"
  by (auto simp: less_Suc_eq numeral_eq_Suc hex_value_def upper_hex_def)

lemma byte_less: "byte c < 256"
  by (simp add: byte_def)

lemma unescape_percent: "PathUnescape (percent c @ s) = c # PathUnescape s"
proof -
  have "16 * (byte c div 16) + byte c mod 16 = byte c" by simp
  moreover have "byte c div 16 < 16" "byte c mod 16 < 16" using byte_less [of c] by auto
  ultimately show ?thesis by (simp add: percent_def hex_value_upper_hex) (simp add: byte_def)
qed

lemma PathUnescape_PathEscape: "PathUnescape (PathEscape s) = s"
proof (induction s)
  case (Cons c s)
  have "\<not> (unreserved (CHR ''%'') \<or> CHR ''%'' \<in> set ''$&+=:@'')" by (simp add: unreserved_def)
  then show ?case using Cons by (auto simp: PathEscape_def unescape_percent)
qed (simp add: PathEscape_def)

lemma session_path_inj: "session_path s = session_path t \<Longrightarrow> s = t"
  by (metis PathUnescape_PathEscape append_same_eq session_path_def same_append_eq)

lemma upper_hex_not_slash: "d < 16 \<Longrightarrow> upper_hex d \<noteq> CHR ''/''"
  by (auto simp: less_Suc_eq numeral_eq_Suc upper_hex_def)

lemma PathEscape_no_slash: "CHR ''/'' \<notin> set (PathEscape s)"
proof -
  have "CHR ''/'' \<notin> set (percent c)" for c
  proof -
    have "byte c div 16 < 16" "byte c mod 16 < 16" using byte_less [of c] by auto
    from this [THEN upper_hex_not_slash] show ?thesis by (auto simp: percent_def)
  qed
  moreover have "\<not> unreserved (CHR ''/'')" by (simp add: unreserved_def)
  ultimately show ?thesis by (induction s) (auto simp: PathEscape_def)
qed

section \<open>Errors\<close>

text \<open>An error body that decodes to an envelope with its three required members.\<close>

definition conforming_error :: "codec \<Rightarrow> string option \<Rightarrow> bool" where
  "conforming_error dc body =
     (case Option.bind body (\<lambda>b. dc_error dc (take maxErrorBodyBytes b)) of
        None \<Rightarrow> False
      | Some w \<Rightarrow> we_Error w \<noteq> [] \<and> we_Code w \<noteq> [] \<and> we_Message w \<noteq> [])"

lemma decodeError_cases:
  "decodeError dc status body =
     (if conforming_error dc body
      then (case the (dc_error dc (take maxErrorBodyBytes (the body))) of w \<Rightarrow>
        APIError \<lparr>ae_StatusCode = status, ae_ErrorType = we_Error w, ae_Code = we_Code w,
          ae_Message = we_Message w, ae_RequestID = we_RequestID w, ae_ReportingOwner = we_ReportingOwner w\<rparr>)
      else ProtocolError status (if body = None then ''failed to read error response''
        else ''malformed or non-conforming AO error envelope''))"
  by (auto simp: decodeError_def conforming_error_def split: option.splits)

text \<open>
  C39: an observation that is answered with another status than 200 is an error of a definite class. It
  is \<open>ErrNotFound\<close> exactly for a 404 with a conforming envelope, a protocol error with status 404
  exactly for a 404 without one, and an API error exactly for a conforming envelope outside the
  2xx range; so no reply is both an absent session and a protocol error.
\<close>

theorem observation_error_class:
  assumes "TrimSpace sid \<noteq> []" and "http (http_get (session_path sid)) = Reply status body" and "status \<noteq> 200"
  shows "\<exists>e. GetWorkerStatus dc http sid = Inl e \<and>
    (errors_Is e ErrNotFound \<longleftrightarrow> status = 404 \<and> conforming_error dc body) \<and>
    (as_ProtocolError e = Some 404 \<longleftrightarrow> status = 404 \<and> \<not> conforming_error dc body) \<and>
    (as_APIError e \<noteq> None \<longleftrightarrow> (status < 200 \<or> 300 \<le> status) \<and> conforming_error dc body)"
  using assms
  by (auto simp: GetWorkerStatus_def not_blank_def ensure_def do_request_def check_status_def decodeError_cases
      result_simps)

definition sample_codec :: codec where
  "sample_codec =
     \<lparr>dc_session = (\<lambda>_. None), dc_spawn = (\<lambda>_. None), dc_send = (\<lambda>_. None), dc_kill = (\<lambda>_. None),
      dc_restore = (\<lambda>_. None),
      dc_error = (\<lambda>b. if b = ''e'' then Some \<lparr>we_Error = ''not_found'', we_Code = ''SESSION_NOT_FOUND'',
        we_Message = ''m'', we_RequestID = [], we_ReportingOwner = []\<rparr> else None),
      dc_probe = (\<lambda>_. None), dc_inventory = (\<lambda>_. None), dc_readiness = (\<lambda>_. None), dc_register = (\<lambda>_. None),
      dc_get_project = (\<lambda>_. None), dc_project_ok = (\<lambda>_. None), dc_project_degraded = (\<lambda>_. None),
      dc_workspace = (\<lambda>_. None)\<rparr>"

theorem observation_error_class_witness:
  "\<exists>e. GetWorkerStatus sample_codec (\<lambda>_. Reply 404 (Some ''e'')) ''S'' = Inl e \<and> errors_Is e ErrNotFound \<and>
     as_ProtocolError e \<noteq> Some 404"
proof -
  have "TrimSpace ''S'' \<noteq> []" by code_simp
  from observation_error_class [OF this, of "\<lambda>_. Reply 404 (Some ''e'')" 404 "Some ''e''" sample_codec]
  show ?thesis by (auto simp: conforming_error_def sample_codec_def maxErrorBodyBytes_def)
qed

section \<open>Identity\<close>

lemmas call_simps = bindE_eq_Inr require_eq_Inr ensure_eq_Inr result_if_Inr not_blank_def same_session_def

lemma activity_canonical:
  "validateCanonicalActivityState raw status = Inr st \<Longrightarrow> (\<forall>x. st \<noteq> OtherActivity x) \<and> activity_string st = raw"
  by (auto simp: validateCanonicalActivityState_def split: if_splits)

text \<open>
  C40: what the client accepts is of the session that was asked for. A status, a send result, a kill
  result and a restore result carry the requested session id, which is not empty; a status, also the
  one inside a restore result, has one of the five canonical activities; and a created session is of
  the requested project and harness.
\<close>

theorem accepted_replies_name_target:
  "(\<forall>w. GetWorkerStatus dc http sid = Inr w \<longrightarrow>
      ws_ID w = sid \<and> sid \<noteq> [] \<and> (\<forall>x. ws_State w \<noteq> OtherActivity x)) \<and>
   (\<forall>r. DispatchTaskContract dc http sid m = Inr r \<longrightarrow> dr_SessionID r = sid \<and> sid \<noteq> []) \<and>
   (\<forall>r. StopWorker dc http sid = Inr r \<longrightarrow> sr_SessionID r = sid \<and> sid \<noteq> []) \<and>
   (\<forall>r. ResumeWorker dc http sid = Inr r \<longrightarrow>
      rw_SessionID r = sid \<and> ws_ID (rw_Session r) = sid \<and> (\<forall>x. ws_State (rw_Session r) \<noteq> OtherActivity x)) \<and>
   (\<forall>r. CreateWorkerSession_ao dc http pid harness = Inr r \<longrightarrow>
      ws_ID (cw_Session r) \<noteq> [] \<and> ws_ProjectID (cw_Session r) = pid \<and> ws_Harness (cw_Session r) = harness \<and>
      0 \<le> cw_PromptBytes r \<and> 0 \<le> cw_SystemPromptBytes r)"
  by (intro conjI allI impI)
   (auto simp: GetWorkerStatus_def DispatchTaskContract_def StopWorker_def ResumeWorker_def
    CreateWorkerSession_ao_def call_simps toNormalizedWorkerStatusFromView_def
    toNormalizedCreateWorkerSessionResult_def dest!: activity_canonical)

theorem accepted_replies_name_target_witness:
  "\<exists>r. StopWorker (sample_codec\<lparr>dc_kill := \<lambda>_. Some \<lparr>wk_OK = True, wk_SessionID = ''S'', wk_Freed = True\<rparr>\<rparr>)
       (\<lambda>_. Reply 200 (Some [])) ''S'' = Inr r \<and> sr_SessionID r = ''S''"
proof -
  let ?dc = "sample_codec\<lparr>dc_kill := \<lambda>_. Some \<lparr>wk_OK = True, wk_SessionID = ''S'', wk_Freed = True\<rparr>\<rparr>"
  have "\<not> isl (StopWorker ?dc (\<lambda>_. Reply 200 (Some [])) ''S'')" by code_simp
  then obtain r where r: "StopWorker ?dc (\<lambda>_. Reply 200 (Some [])) ''S'' = Inr r"
    by (cases "StopWorker ?dc (\<lambda>_. Reply 200 (Some [])) ''S''") auto
  with accepted_replies_name_target [of ?dc "\<lambda>_. Reply 200 (Some [])" "''S''"] show ?thesis by blast
qed

end
