(* ===== verification/Clearance_Guarantees.thy ===== *)
theory Clearance_Guarantees
  imports Protocol_Guarantees Store_Guarantees
begin

text \<open>
  The clearance of a quarantine: what evidence the store demands before a pair is used again.
\<close>

text \<open>A stop of the pair that backs the clearance of a lineage, by the basis that is claimed.\<close>

definition backed :: "db \<Rightarrow> string \<Rightarrow> LineageClearance \<Rightarrow> bool" where
  "backed s pid item \<longleftrightarrow>
     lc_Evidence item \<noteq> [] \<and>
     list_ex (\<lambda>p. st_PairID p = pid \<and> st_OperationID p = lc_StopOperationID item \<and>
       (case lc_Basis item of
          ClearancePhysical \<Rightarrow>
            st_SessionID p = lc_SessionID item \<and> st_TerminalGeneration p = lc_TerminalGeneration item \<and>
            st_Stage p = StopTerminationConfirmed \<and> st_ResolutionState p = StopResolutionTerminationConfirmed \<and>
            stop_within_deadline p \<and> proven_stop_lineage s p
        | ClearanceAbsenceAdministrative \<Rightarrow>
            st_SessionID p = lc_SessionID item \<and> st_TerminalGeneration p = lc_TerminalGeneration item \<and>
            st_ResolutionState p = StopResolutionTargetAbsent
        | ClearanceRiskAdministrative \<Rightarrow> st_ResolutionState p = StopResolutionAdministrativeRiskAccepted
        | OtherClearanceBasis _ \<Rightarrow> False)) (stop_operations s)"

lemma verifyClearanceBasis_backed:
  "verifyClearanceBasis h rq item s = Inr () \<Longrightarrow> backed s (qc_PairID rq) item"
  by (cases "lc_Basis item")
    (auto simp: verifyClearanceBasis_def backed_def chain_simps positiveD11StopEvidence_def list_ex_iff
      unconstrained_or_def accepted_for_def split: if_splits dest!: find_SomeD)

lemma check_clearances_ok:
  "check_clearances h rq expected s seen items = Inr () \<Longrightarrow>
     distinct (map lc_AttemptID items) \<and> set (map lc_AttemptID items) \<inter> set seen = {} \<and>
     (\<forall>i\<in>set items. map_of expected (lc_AttemptID i) = Some (lc_SessionID i, lc_TerminalGeneration i) \<and>
        verifyClearanceBasis h rq i s = Inr ())"
proof (induction items arbitrary: seen)
  case (Cons i items)
  have here: "lc_AttemptID i \<notin> set seen" "verifyClearanceBasis h rq i s = Inr ()"
      "map_of expected (lc_AttemptID i) = Some (lc_SessionID i, lc_TerminalGeneration i)"
    and rest: "check_clearances h rq expected s (lc_AttemptID i # seen) items = Inr ()"
    using Cons.prems by (auto simp: chain_simps split: if_splits option.splits)
  from here Cons.IH [OF rest] show ?case by auto
qed simp

text \<open>As many different items as quarantined attempts, each for one of them: every attempt has its item.\<close>

lemma items_cover:
  assumes "list_all2 (\<lambda>a y. scan_lineage e a = Inr y) qs expected" and "distinct (map a_AttemptID qs)"
    and "length expected = length items" and "distinct (map lc_AttemptID items)"
    and "\<forall>i\<in>set items. map_of expected (lc_AttemptID i) = Some (lc_SessionID i, lc_TerminalGeneration i)"
    and "a \<in> set qs"
  shows "\<exists>i\<in>set items. lc_AttemptID i = a_AttemptID a \<and> a_SessionID a = Some (lc_SessionID i) \<and>
    a_TerminalGeneration a = Some (lc_TerminalGeneration i)"
proof -
  have scan: "scan_lineage e a = Inr y \<longleftrightarrow> fst y = a_AttemptID a \<and> a_SessionID a = Some (fst (snd y)) \<and>
      a_TerminalGeneration a = Some (snd (snd y))" for a y
    by (cases y) (auto simp: scan_lineage_def chain_simps)
  have keys: "map fst expected = map a_AttemptID qs"
    using assms(1) by (induction rule: list_all2_induct) (auto simp: scan)
  have "set (map lc_AttemptID items) \<subseteq> set (map fst expected)"
    using assms(5) by (force dest: map_of_SomeD)
  moreover have "card (set (map lc_AttemptID items)) = card (set (map fst expected))"
    using assms(2,3,4) keys by (metis distinct_card length_map)
  ultimately have "set (map lc_AttemptID items) = set (map fst expected)" by (simp add: card_subset_eq)
  then obtain i where i: "i \<in> set items" "lc_AttemptID i = a_AttemptID a" using assms(6) keys by force
  obtain y where y: "y \<in> set expected" "scan_lineage e a = Inr y"
    using assms(1,6) by (induction rule: list_all2_induct) auto
  have "map_of expected (a_AttemptID a) = Some (snd y)"
    using y assms(2) keys by (metis map_of_is_SomeI prod.collapse scan)
  with i y assms(5) show ?thesis by (force simp: scan)
qed

lemma ClearQuarantineWithEvidence_ok:
  assumes "ClearQuarantineWithEvidence h rq s = Inr s'" and "rq' = rq\<lparr>qc_At := now_if_zero h (qc_At rq)\<rparr>"
  shows "\<exists>(w :: WorkerSession) expected. rejectUnresolvedRestore s (qc_PairID rq) = Inr () \<and>
    list_all2 (\<lambda>a y. scan_lineage ErrAttemptLineageMismatch a = Inr y)
      (quarantined_attempts s (qc_PairID rq)) expected \<and>
    length expected = length (qc_Attempts rq) \<and>
    guardPairStopsForClearance h rq' (w_SessionID w) (w_TerminalGeneration w) expected s = Inr () \<and>
    check_clearances h rq' expected s [] (qc_Attempts rq) = Inr () \<and>
    verifyClearanceBasis h rq' (qc_Session rq) s = Inr ()"
proof -
  have same: "qc_PairID rq' = qc_PairID rq" "qc_Attempts rq' = qc_Attempts rq" "qc_Session rq' = qc_Session rq"
    by (simp_all add: assms(2))
  from assms(1) show ?thesis
    by (simp add: ClearQuarantineWithEvidence_def Let_def chain_simps mapE_eq_Inr same flip: assms(2))
      blast
qed

text \<open>
  C7: a pair leaves its quarantine only with evidence for all of it. When a clearance succeeds, no
  restore of the pair is unresolved; every quarantined attempt of the pair has an item with its exact
  session and generation, and that item and the one of the session are backed by a stop of the
  pair: confirmed inside its window for a physical basis, absent or with an accepted risk for an
  administrative one; and no stop of the pair is in flight or of unknown outcome.
\<close>

theorem clearance_needs_evidence:
  assumes "reachable sha s" and "ClearQuarantineWithEvidence h rq s = Inr s'"
  shows "\<not> unresolved_restore s (qc_PairID rq) \<and> backed s (qc_PairID rq) (qc_Session rq) \<and>
    (\<forall>a\<in>set (quarantined_attempts s (qc_PairID rq)). \<exists>i\<in>set (qc_Attempts rq).
       lc_AttemptID i = a_AttemptID a \<and> a_SessionID a = Some (lc_SessionID i) \<and>
       a_TerminalGeneration a = Some (lc_TerminalGeneration i) \<and> backed s (qc_PairID rq) i) \<and>
    (\<forall>p\<in>set (stop_operations s). st_PairID p = qc_PairID rq \<longrightarrow>
       st_ResolutionState p = StopResolutionTerminationConfirmed \<or> st_ResolutionState p = StopResolutionTargetAbsent \<or>
       st_ResolutionState p = StopResolutionAdministrativeRiskAccepted)"
proof -
  define rq' where "rq' = rq\<lparr>qc_At := now_if_zero h (qc_At rq)\<rparr>"
  have pair: "qc_PairID rq' = qc_PairID rq" by (simp add: rq'_def)
  obtain w :: WorkerSession and expected where
    restore: "rejectUnresolvedRestore s (qc_PairID rq) = Inr ()"
    and expected: "list_all2 (\<lambda>a y. scan_lineage ErrAttemptLineageMismatch a = Inr y)
      (quarantined_attempts s (qc_PairID rq)) expected" "length expected = length (qc_Attempts rq)"
    and guard: "guardPairStopsForClearance h rq' (w_SessionID w) (w_TerminalGeneration w) expected s = Inr ()"
    and items: "check_clearances h rq' expected s [] (qc_Attempts rq) = Inr ()"
    and session: "verifyClearanceBasis h rq' (qc_Session rq) s = Inr ()"
    using ClearQuarantineWithEvidence_ok [OF assms(2) rq'_def] by blast
  have "distinct (map a_AttemptID (quarantined_attempts s (qc_PairID rq)))"
    using reachable_invs(2) [OF assms(1)]
    by (auto simp: quarantined_attempts_def keys_inv_def keyed_def intro: distinct_map_filter)
  note cover = items_cover [OF expected(1) this expected(2)]
  have stops: "st_ResolutionState p = StopResolutionTerminationConfirmed \<or>
      st_ResolutionState p = StopResolutionTargetAbsent \<or>
      st_ResolutionState p = StopResolutionAdministrativeRiskAccepted"
    if "p \<in> set (stop_operations s)" "st_PairID p = qc_PairID rq" for p
  proof -
    have "stop_reconciled h rq' (w_SessionID w) (w_TerminalGeneration w) expected s p = Inr ()"
      using guard that by (auto simp: guardPairStopsForClearance_def Let_def chain_simps forE_eq_Inr pair)
    then show ?thesis
      by (auto simp: stop_reconciled_def stop_risk_class_def chain_simps split: if_splits StopResolutionState.splits)
  qed
  have "\<not> unresolved_restore s (qc_PairID rq)"
    using restore by (simp add: rejectUnresolvedRestore_def chain_simps)
  moreover have "backed s (qc_PairID rq) (qc_Session rq)" using verifyClearanceBasis_backed [OF session] by (simp add: pair)
  moreover have "\<exists>i\<in>set (qc_Attempts rq).
       lc_AttemptID i = a_AttemptID a \<and> a_SessionID a = Some (lc_SessionID i) \<and>
       a_TerminalGeneration a = Some (lc_TerminalGeneration i) \<and> backed s (qc_PairID rq) i"
    if "a \<in> set (quarantined_attempts s (qc_PairID rq))" for a
    using cover [OF _ _ that] check_clearances_ok [OF items] verifyClearanceBasis_backed [of h rq' _ s] pair by fastforce
  ultimately show ?thesis using stops by blast
qed

section \<open>A clearance on the sample history\<close>

definition cleanup_stop :: StopOperation where
  "cleanup_stop = sample_stop\<lparr>st_OperationID := ''Y'', st_Purpose := QuarantineCleanup,
     st_InitiatingFailureReason := None\<rparr>"

definition cleanup_json :: "string \<Rightarrow> string \<Rightarrow> sql_value option" where
  "cleanup_json d k = map_of [(''session_id'', SqlText ''S''), (''terminal_generation'', SqlText ''g''),
     (''stop_operation_id'', SqlText ''Y''), (''target_generation'', SqlText ''g''),
     (''confirmation_deadline_at'', SqlText (formatTime 30)), (''termination_confirmed_at'', SqlText (formatTime 25)),
     (''observed_session_id'', SqlText ''S''), (''observed_generation'', SqlText ''g''),
     (''is_terminated'', SqlInteger 1)] k"

definition cleanup_host :: host where
  "cleanup_host = (sample_host ''xs'')\<lparr>h_json_extract := cleanup_json\<rparr>"

definition cleanup_item :: "string \<Rightarrow> LineageClearance" where
  "cleanup_item a = \<lparr>lc_AttemptID = a, lc_SessionID = ''S'', lc_TerminalGeneration = ''g'',
     lc_Basis = ClearancePhysical, lc_StopOperationID = ''Y'', lc_Evidence = ''e''\<rparr>"

definition cleanup_request :: QuarantineClearance where
  "cleanup_request = \<lparr>qc_PairID = ''Q'', qc_RestoreOperationID = [], qc_Principal = ''u'', qc_At = 40,
     qc_Session = cleanup_item [], qc_Attempts = [cleanup_item ''A'']\<rparr>"

definition cleanup_calls :: "(host \<times> command) list" where
  "cleanup_calls =
     [(sample_host ''xp'', DoReserveStopOperation cleanup_stop),
      (sample_host ''xq'', DoCommitStopCallAccepted ''Y'' 21 30),
      (sample_host ''xr'', DoCommitStopOutcome ''Y'' sample_outcome)]"

lemma cleanup_succeeds:
  "case run cleanup_calls unknown_db of
     Inl e \<Rightarrow> False
   | Inr s \<Rightarrow> \<not> isl (ClearQuarantineWithEvidence cleanup_host cleanup_request s)"
  by code_simp

theorem clearance_needs_evidence_witness:
  "\<exists>s s'. reachable sample_sha s \<and> ClearQuarantineWithEvidence cleanup_host cleanup_request s = Inr s' \<and>
     backed s ''Q'' (cleanup_item [])"
proof -
  obtain s where s: "run cleanup_calls unknown_db = Inr s"
    and ok: "\<not> isl (ClearQuarantineWithEvidence cleanup_host cleanup_request s)"
    using cleanup_succeeds by (auto split: sum.splits)
  from ok obtain s' where s': "ClearQuarantineWithEvidence cleanup_host cleanup_request s = Inr s'"
    by (cases "ClearQuarantineWithEvidence cleanup_host cleanup_request s") auto
  have "list_all (\<lambda>(h, c). h_sha256 h = sample_sha) cleanup_calls"
    by (simp add: cleanup_calls_def sample_host_def)
  then have "reachable sample_sha s" using run_later [OF s] unknown_reachable by (blast intro: reachable_later)
  moreover from clearance_needs_evidence [OF this s'] have "backed s ''Q'' (cleanup_item [])"
    by (simp add: cleanup_request_def)
  ultimately show ?thesis using s' by blast
qed

end
