(* ===== verification/Effects.thy ===== *)
theory Effects
  imports Store_Trace AO_Client
begin

text \<open>
  The coordinators talk to the store and to the outside world in turns. A call of a coordinator
  is a program: a tree whose nodes are one store transaction, one read of the store, one reading
  of the clock, or one question to the orchestrator, the operator boundary or the handoff, with a
  continuation for every answer. Between any two of its steps other processes may commit
  transactions of their own; a transaction of the program may be refused, may fail in the driver
  without effect, or may commit although the driver reports an error. The orchestrator answers
  whatever it likes.
\<close>

section \<open>Programs\<close>

datatype effect =
    Created string string
  | Sent string string
  | Killed string
  | Restored string

text \<open>
  Error values by what \<open>errors.Is\<close> and \<open>errors.As\<close> find in them: \<open>Wrapped\<close> is \<open>fmt.Errorf\<close> with \<open>%w\<close>,
  \<open>Joined\<close> is \<open>errors.Join\<close>, \<open>Refused\<close> an error without a known cause.
\<close>

datatype failure =
    Refused string
  | StoreFailure store_error
  | AOFailure ao_error
  | Wrapped string failure
  | Joined failure failure

fun is_store_error :: "failure \<Rightarrow> store_error \<Rightarrow> bool" where
  "is_store_error (Refused m) e \<longleftrightarrow> False"
| "is_store_error (StoreFailure x) e \<longleftrightarrow> x = e"
| "is_store_error (AOFailure x) e \<longleftrightarrow> False"
| "is_store_error (Wrapped m f) e \<longleftrightarrow> is_store_error f e"
| "is_store_error (Joined f g) e \<longleftrightarrow> is_store_error f e \<or> is_store_error g e"

fun is_refusal :: "failure \<Rightarrow> string \<Rightarrow> bool" where
  "is_refusal (Refused m) x \<longleftrightarrow> m = x"
| "is_refusal (StoreFailure e) x \<longleftrightarrow> False"
| "is_refusal (AOFailure e) x \<longleftrightarrow> False"
| "is_refusal (Wrapped m f) x \<longleftrightarrow> m = x \<or> is_refusal f x"
| "is_refusal (Joined f g) x \<longleftrightarrow> is_refusal f x \<or> is_refusal g x"

text \<open>
  A read gets the database, or none when the driver fails. The orchestrator interface may return
  a nil result without an error, hence the options. \<open>Verify\<close> asks the operator boundary for a
  principal, \<open>Permit\<close> the host for an effect permit (none is an error, \<open>False\<close> a nil permit),
  \<open>Release\<close> gives it back, \<open>Handoff\<close> asks whether the downstream handoff is available, \<open>Ask\<close> is a call
  within the process that returns an error or nil (\<open>ctx.Err()\<close>, \<open>poller.Stop()\<close>).
\<close>

datatype (plugins only: code) 'r prog =
    Return 'r
  | Transact command "store_error option \<Rightarrow> 'r prog"
  | Inspect "db option \<Rightarrow> 'r prog"
  | Clock "time \<Rightarrow> 'r prog"
  | Draw "string option \<Rightarrow> 'r prog"
  | Observe string "ao_error + WorkerStatus option \<Rightarrow> 'r prog"
  | Create string string "ao_error + CreateWorkerSessionResult option \<Rightarrow> 'r prog"
  | Send string string "ao_error + DispatchTaskResult option \<Rightarrow> 'r prog"
  | Kill string "ao_error + StopWorkerResult option \<Rightarrow> 'r prog"
  | Resume string "ao_error + ResumeWorkerResult option \<Rightarrow> 'r prog"
  | Verify "string \<times> string \<times> string \<times> string" "(string \<times> bool) option \<Rightarrow> 'r prog"
  | Permit string string "bool option \<Rightarrow> 'r prog"
  | Release "bool \<Rightarrow> 'r prog"
  | Handoff RecoveryExecution "bool option \<Rightarrow> 'r prog"
  | Ask string "failure option \<Rightarrow> 'r prog"

type_synonym call = "failure option prog"

definition driver_error :: store_error where
  "driver_error = StoreError ''driver''"

text \<open>One read operation of the store.\<close>

definition read_store :: "(db \<Rightarrow> store_error + 'a) \<Rightarrow> (store_error + 'a \<Rightarrow> 'r prog) \<Rightarrow> 'r prog" where
  "read_store f k = Inspect (\<lambda>x. case x of None \<Rightarrow> k (Inl driver_error) | Some s \<Rightarrow> k (f s))"

definition fail :: "failure \<Rightarrow> call" where
  "fail e = Return (Some e)"

definition succeed :: call where
  "succeed = Return None"

text \<open>A transaction whose error is returned as it is; and \<open>time.Now().UTC()\<close> passed to a transaction.\<close>

definition transact_or_fail :: "command \<Rightarrow> call \<Rightarrow> call" where
  "transact_or_fail c p =
     Transact c (\<lambda>r. case r of Some e \<Rightarrow> fail (StoreFailure e) | None \<Rightarrow> p)"

text \<open>Sequential composition: the result of the first program selects the second.\<close>

primrec and_then :: "'a prog \<Rightarrow> ('a \<Rightarrow> 'b prog) \<Rightarrow> 'b prog" where
  "and_then (Return r) f = f r"
| "and_then (Transact c k) f = Transact c (\<lambda>x. and_then (k x) f)"
| "and_then (Inspect k) f = Inspect (\<lambda>x. and_then (k x) f)"
| "and_then (Clock k) f = Clock (\<lambda>x. and_then (k x) f)"
| "and_then (Draw k) f = Draw (\<lambda>x. and_then (k x) f)"
| "and_then (Observe sid k) f = Observe sid (\<lambda>x. and_then (k x) f)"
| "and_then (Create pid hn k) f = Create pid hn (\<lambda>x. and_then (k x) f)"
| "and_then (Send sid m k) f = Send sid m (\<lambda>x. and_then (k x) f)"
| "and_then (Kill sid k) f = Kill sid (\<lambda>x. and_then (k x) f)"
| "and_then (Resume sid k) f = Resume sid (\<lambda>x. and_then (k x) f)"
| "and_then (Verify t k) f = Verify t (\<lambda>x. and_then (k x) f)"
| "and_then (Permit pid who k) f = Permit pid who (\<lambda>x. and_then (k x) f)"
| "and_then (Release k) f = Release (\<lambda>x. and_then (k x) f)"
| "and_then (Handoff y k) f = Handoff y (\<lambda>x. and_then (k x) f)"
| "and_then (Ask q k) f = Ask q (\<lambda>x. and_then (k x) f)"

section \<open>Runs\<close>

datatype event = Acked command | Did effect | Quiet

inductive step ::
  "(string \<Rightarrow> string) \<Rightarrow> 'r prog \<Rightarrow> db \<Rightarrow> event \<Rightarrow> 'r prog \<Rightarrow> db \<Rightarrow> bool" for sha where
  committed: "exec h c s = Inr s' \<Longrightarrow> h_sha256 h = sha \<Longrightarrow> step sha (Transact c k) s (Acked c) (k None) s'"
| refused: "exec h c s = Inl e \<Longrightarrow> step sha (Transact c k) s Quiet (k (Some e)) s"
| faulted: "step sha (Transact c k) s Quiet (k (Some e)) s"
| ambiguous: "exec h c s = Inr s' \<Longrightarrow> h_sha256 h = sha \<Longrightarrow> step sha (Transact c k) s Quiet (k (Some e)) s'"
| inspected: "step sha (Inspect k) s Quiet (k (Some s)) s"
| unread: "step sha (Inspect k) s Quiet (k None) s"
| timed: "step sha (Clock k) s Quiet (k t) s"
| drawn: "step sha (Draw k) s Quiet (k x) s"
| observed: "step sha (Observe sid k) s Quiet (k r) s"
| created: "step sha (Create pid hn k) s (Did (Created pid hn)) (k r') s"
| sent: "step sha (Send sid m k) s (Did (Sent sid m)) (k r2) s"
| killed: "step sha (Kill sid k) s (Did (Killed sid)) (k r3) s"
| restored: "step sha (Resume sid k) s (Did (Restored sid)) (k r4) s"
| verified: "step sha (Verify q k) s Quiet (k v) s"
| permitted: "step sha (Permit pid who k) s Quiet (k b) s"
| released: "step sha (Release k) s Quiet (k ok) s"
| handed: "step sha (Handoff x k) s Quiet (k b') s"
| asked: "step sha (Ask q k) s Quiet (k a) s"

inductive_cases step_ReturnE: "step sha (Return r) s ev p s'"

inductive runs ::
  "(string \<Rightarrow> string) \<Rightarrow> 'r prog \<Rightarrow> db \<Rightarrow> event list \<Rightarrow> 'r prog \<Rightarrow> db \<Rightarrow> bool" for sha p0 s0 where
  start: "runs sha p0 s0 [] p0 s0"
| own: "runs sha p0 s0 tr p s \<Longrightarrow> step sha p s ev p' s' \<Longrightarrow> runs sha p0 s0 (tr @ [ev]) p' s'"
| other: "runs sha p0 s0 tr p s \<Longrightarrow> exec h c s = Inr s' \<Longrightarrow> h_sha256 h = sha \<Longrightarrow> runs sha p0 s0 tr p s'"

lemma step_later: "step sha p s ev p' s' \<Longrightarrow> later sha s s'"
  by (induction rule: step.induct) (auto intro: later.now later.next_call)

lemma later_trans: "later sha t u \<Longrightarrow> later sha s t \<Longrightarrow> later sha s u"
  by (induction rule: later.induct) (auto intro: later.next_call)

lemma runs_later: "runs sha p0 s0 tr p s \<Longrightarrow> later sha s0 s"
  by (induction rule: runs.induct) (auto intro: later.now later.next_call later_trans step_later)

text \<open>Whatever a program and its neighbours do, the invariant of the store holds throughout.\<close>

lemma runs_inv: "runs sha p0 s0 tr p s \<Longrightarrow> reachable sha s0 \<Longrightarrow> store_inv sha s"
  by (blast intro: reachable_inv reachable_later runs_later)

section \<open>Monitors\<close>

text \<open>
  A monitor watches the acknowledged transactions and the effects of a program; \<open>None\<close> is a
  violation. \<open>ensures p Q q\<close> is the weakest precondition of \<open>p\<close>: from the monitor state \<open>q\<close> no answer
  leads it into a violation, and whatever it returns satisfies \<open>Q\<close> with the monitor state then.
  It speaks about every run, with whatever interleaving.
\<close>

locale monitor =
  fixes watch :: "'q \<Rightarrow> event \<Rightarrow> 'q option"
  assumes quiet: "watch q Quiet = Some q"
begin

definition sees :: "event \<Rightarrow> ('q \<Rightarrow> bool) \<Rightarrow> 'q \<Rightarrow> bool" where
  "sees ev P q \<longleftrightarrow> (case watch q ev of None \<Rightarrow> False | Some q' \<Rightarrow> P q')"

primrec ensures :: "'r prog \<Rightarrow> ('r \<Rightarrow> 'q \<Rightarrow> bool) \<Rightarrow> 'q \<Rightarrow> bool" where
  "ensures (Return r) Q = Q r"
| "ensures (Transact c k) Q =
     (\<lambda>q. (\<forall>e. ensures (k (Some e)) Q q) \<and> sees (Acked c) (ensures (k None) Q) q)"
| "ensures (Inspect k) Q = (\<lambda>q. \<forall>x. ensures (k x) Q q)"
| "ensures (Clock k) Q = (\<lambda>q. \<forall>x. ensures (k x) Q q)"
| "ensures (Draw k) Q = (\<lambda>q. \<forall>x. ensures (k x) Q q)"
| "ensures (Observe sid k) Q = (\<lambda>q. \<forall>x. ensures (k x) Q q)"
| "ensures (Create pid hn k) Q = sees (Did (Created pid hn)) (\<lambda>q. \<forall>x. ensures (k x) Q q)"
| "ensures (Send sid m k) Q = sees (Did (Sent sid m)) (\<lambda>q. \<forall>x. ensures (k x) Q q)"
| "ensures (Kill sid k) Q = sees (Did (Killed sid)) (\<lambda>q. \<forall>x. ensures (k x) Q q)"
| "ensures (Resume sid k) Q = sees (Did (Restored sid)) (\<lambda>q. \<forall>x. ensures (k x) Q q)"
| "ensures (Verify t k) Q = (\<lambda>q. \<forall>x. ensures (k x) Q q)"
| "ensures (Permit pid who k) Q = (\<lambda>q. \<forall>x. ensures (k x) Q q)"
| "ensures (Release k) Q = (\<lambda>q. \<forall>x. ensures (k x) Q q)"
| "ensures (Handoff y k) Q = (\<lambda>q. \<forall>x. ensures (k x) Q q)"
| "ensures (Ask a k) Q = (\<lambda>q. \<forall>x. ensures (k x) Q q)"

fun watches :: "'q \<Rightarrow> event list \<Rightarrow> 'q option" where
  "watches q [] = Some q"
| "watches q (ev # tr) = Option.bind (watch q ev) (\<lambda>q'. watches q' tr)"

lemma watches_snoc: "watches q (tr @ [ev]) = Option.bind (watches q tr) (\<lambda>q'. watch q' ev)"
  by (induction tr arbitrary: q) (auto simp: bind_eq_Some_conv split: Option.bind_split)

lemma ensures_and_then: "ensures (and_then p f) Q = ensures p (\<lambda>r. ensures (f r) Q)"
proof (induction p)
  case (Return r)
  then show ?case by simp
qed (simp_all add: rangeI)

lemma ensures_read_store:
  "(\<And>x. ensures (k x) Q q) \<Longrightarrow> ensures (read_store f k) Q q"
  by (auto simp: read_store_def split: option.splits)

lemma sees_mono: "sees ev P q \<Longrightarrow> (\<And>q. P q \<Longrightarrow> P' q) \<Longrightarrow> sees ev P' q"
  by (auto simp: sees_def split: option.splits)

lemma ensures_mono: "ensures p Q q \<Longrightarrow> (\<And>r q. Q r q \<Longrightarrow> Q' r q) \<Longrightarrow> ensures p Q' q"
proof (induction p arbitrary: q)
  case (Return r)
  then show ?case by simp
qed (auto elim!: sees_mono)

lemma step_ensures:
  "step sha p s ev p' s' \<Longrightarrow> ensures p Q q \<Longrightarrow> \<exists>q'. watch q ev = Some q' \<and> ensures p' Q q'"
  by (induction rule: step.induct) (auto simp: quiet sees_def split: option.splits)

theorem runs_ensure:
  "runs sha p0 s0 tr p s \<Longrightarrow> ensures p0 Q q \<Longrightarrow> \<exists>q'. watches q tr = Some q' \<and> ensures p Q q'"
proof (induction rule: runs.induct)
  case (own tr p s ev p' s')
  then obtain q1 where "watches q tr = Some q1" "ensures p Q q1" by blast
  with own.hyps(2) show ?case by (auto simp: watches_snoc dest!: step_ensures)
qed auto

corollary runs_return:
  "runs sha p0 s0 tr (Return r) s \<Longrightarrow> ensures p0 Q q \<Longrightarrow> \<exists>q'. watches q tr = Some q' \<and> Q r q'"
  by (drule (1) runs_ensure) simp

end

section \<open>Length of a call\<close>

text \<open>The number of own steps of a program is bounded, whatever the answers are.\<close>

primrec within :: "'r prog \<Rightarrow> nat \<Rightarrow> bool" where
  "within (Return r) = (\<lambda>n. True)"
| "within (Transact c k) = (\<lambda>n. 0 < n \<and> (\<forall>x. within (k x) (n - 1)))"
| "within (Inspect k) = (\<lambda>n. 0 < n \<and> (\<forall>x. within (k x) (n - 1)))"
| "within (Clock k) = (\<lambda>n. 0 < n \<and> (\<forall>x. within (k x) (n - 1)))"
| "within (Draw k) = (\<lambda>n. 0 < n \<and> (\<forall>x. within (k x) (n - 1)))"
| "within (Observe sid k) = (\<lambda>n. 0 < n \<and> (\<forall>x. within (k x) (n - 1)))"
| "within (Create pid hn k) = (\<lambda>n. 0 < n \<and> (\<forall>x. within (k x) (n - 1)))"
| "within (Send sid m k) = (\<lambda>n. 0 < n \<and> (\<forall>x. within (k x) (n - 1)))"
| "within (Kill sid k) = (\<lambda>n. 0 < n \<and> (\<forall>x. within (k x) (n - 1)))"
| "within (Resume sid k) = (\<lambda>n. 0 < n \<and> (\<forall>x. within (k x) (n - 1)))"
| "within (Verify t k) = (\<lambda>n. 0 < n \<and> (\<forall>x. within (k x) (n - 1)))"
| "within (Permit pid who k) = (\<lambda>n. 0 < n \<and> (\<forall>x. within (k x) (n - 1)))"
| "within (Release k) = (\<lambda>n. 0 < n \<and> (\<forall>x. within (k x) (n - 1)))"
| "within (Handoff y k) = (\<lambda>n. 0 < n \<and> (\<forall>x. within (k x) (n - 1)))"
| "within (Ask q k) = (\<lambda>n. 0 < n \<and> (\<forall>x. within (k x) (n - 1)))"

lemma step_within: "step sha p s ev p' s' \<Longrightarrow> within p n \<Longrightarrow> 0 < n \<and> within p' (n - 1)"
  by (induction rule: step.induct) auto

lemma within_mono: "within p n \<Longrightarrow> n \<le> m \<Longrightarrow> within p m"
proof (induction p arbitrary: n m)
  case (Return r)
  then show ?case by simp
qed (simp, meson diff_le_mono less_le_trans rangeI)+

lemma within_and_then: "within p n \<Longrightarrow> (\<And>r. within (f r) m) \<Longrightarrow> within (and_then p f) (n + m)"
proof (induction p arbitrary: n)
  case (Return r)
  then show ?case by (metis and_then.simps(1) within_mono le_add2)
qed (simp, metis Nat.add_diff_assoc2 Suc_leI One_nat_def rangeI)+

theorem runs_within: "runs sha p0 s0 tr p s \<Longrightarrow> within p0 n \<Longrightarrow> length tr \<le> n \<and> within p (n - length tr)"
  by (induction rule: runs.induct) (auto dest!: step_within)

text \<open>A program that has not returned can always go on.\<close>

lemma progress: "(\<forall>r. p \<noteq> Return r) \<Longrightarrow> \<exists>ev p' s'. step sha p s ev p' s'"
  by (cases p) (auto intro: step.intros)

end
