(* ===== verification/Dispatch_Coordinator.thy ===== *)
theory Dispatch_Coordinator
  imports Effects
begin

text \<open>
  \<open>internal/dispatch/coordinator.go\<close>: provisioning, restore, dispatch and the operator calls, as
  programs over the store and the orchestrator. The orchestrator and the operator boundary are
  interfaces in the source; here they are the answers of the program's questions. The formatted
  text around an error is kept up to its fixed part.
\<close>

text \<open>
  \<open>co_detail\<close> is a string member of the decoded details of an event (blank when it is missing or not
  a string), \<open>co_error_text\<close> the text of an orchestrator error.
\<close>

record Coordinator =
  co_Store :: bool
  co_AO :: bool
  co_Operator :: bool
  co_RestoreEnabled :: bool
  co_ExecutionPolicy :: ExecutionBudgetPolicy
  co_sha256 :: "string \<Rightarrow> string"
  co_detail :: "audit_row \<Rightarrow> string \<Rightarrow> string"
  co_error_text :: "ao_error \<Rightarrow> string"

section \<open>Provisioning\<close>

definition provisioned_session :: "PairProvisioningOperation \<Rightarrow> WorkerStatus \<Rightarrow> string \<Rightarrow> WorkerSession" where
  "provisioned_session operation w harness =
     \<lparr>w_PairID = pv_PairID operation, w_SessionID = ws_ID w, w_RuntimeType = harness,
      w_WorktreePath = None, w_WorkerAgentID = harness, w_Status = WorkerSessionIdle,
      w_TerminalGeneration = ws_TerminalGeneration w, w_QuarantineState = QuarantineClean,
      w_CreatedAt = 0, w_UpdatedAt = 0\<rparr>"

definition fail_provisioning :: "PairProvisioningOperation \<Rightarrow> string \<Rightarrow> string \<Rightarrow> failure \<Rightarrow> call" where
  "fail_provisioning operation actor reason e =
     Clock (\<lambda>at. Transact (DoFailPairProvisioning (pv_OperationID operation) actor reason at) (\<lambda>_. fail e))"

definition Provision ::
  "Coordinator \<Rightarrow> PairProvisioningOperation \<Rightarrow> string \<Rightarrow> string \<Rightarrow> string \<Rightarrow> call" where
  "Provision c operation projectID harness actor =
     (if \<not> co_Store c \<or> \<not> co_AO c then fail (Refused ''coordinator dependencies are not configured'')
      else
      transact_or_fail (DoReservePairProvisioning operation actor) (
      Create projectID harness (\<lambda>r.
      case r of
        Inl err \<Rightarrow> fail_provisioning operation actor
          (''upstream create result unresolved: '' @ co_error_text c err)
          (Wrapped ''AO create failed; Pair remains reserved'' (AOFailure err))
      | Inr None \<Rightarrow> fail_provisioning operation actor ''create response missing; provisioning cannot be replayed''
          (Refused ''AO create returned empty result; provisioning intent remains reserved'')
      | Inr (Some result) \<Rightarrow>
          let w = cw_Session result in
          if ws_ID w = [] \<or> ws_TerminalGeneration w = [] \<or> ws_IsTerminated w
          then fail_provisioning operation actor ''create response failed session identity/state validation''
            (Refused ''invalid or terminated create response; Pair remains reserved'')
          else Clock (\<lambda>at.
            Transact (DoConfirmPairProvisioning (pv_OperationID operation)
              (provisioned_session operation w harness) actor at) (\<lambda>confirm.
            case confirm of
              None \<Rightarrow> succeed
            | Some confirmErr \<Rightarrow>
                read_store (\<lambda>s. GetPairProvisioningOperation s (pv_OperationID operation)) (\<lambda>durable.
                case durable of
                  Inr p \<Rightarrow>
                    if pv_Stage p = ProvisionConfirmed \<and> pv_SessionID p = Some (ws_ID w) then succeed
                    else fail (Wrapped ''AO create succeeded but confirmation was not proven'' (StoreFailure confirmErr))
                | Inl _ \<Rightarrow>
                    fail (Wrapped ''AO create succeeded but confirmation was not proven'' (StoreFailure confirmErr))))))))"

section \<open>Restore\<close>

text \<open>An ambiguous restore: record it once, never call again.\<close>

definition restore_unknown :: "RestoreReservation \<Rightarrow> failure \<Rightarrow> call" where
  "restore_unknown rq e =
     Transact (DoRecordPairRestoreUnknown (rr_OperationID rq) (rr_Actor rq)) (\<lambda>_. fail e)"

definition restore_unknown_reread :: "RestoreReservation \<Rightarrow> failure \<Rightarrow> call" where
  "restore_unknown_reread rq e =
     Transact (DoRecordPairRestoreUnknown (rr_OperationID rq) (rr_Actor rq)) (\<lambda>_.
     read_store (\<lambda>s. GetPairRestoreOperation s (rr_OperationID rq)) (\<lambda>_. fail e))"

definition restored_status :: "WorkerStatus \<Rightarrow> WorkerSessionStatus" where
  "restored_status st =
     (case ws_State st of
        ActivityStateIdle \<Rightarrow> WorkerSessionIdle
      | ActivityStateWaitingInput \<Rightarrow> WorkerSessionIdle
      | ActivityStateActive \<Rightarrow> WorkerSessionActive
      | ActivityStateBlocked \<Rightarrow> WorkerSessionActive
      | ActivityStateExited \<Rightarrow> WorkerSessionTerminated
      | OtherActivity _ \<Rightarrow> WorkerSessionActive)"

definition restore_confirmed_durably :: "PairRestoreOperation \<Rightarrow> ResumeWorkerResult \<Rightarrow> bool" where
  "restore_confirmed_durably d result \<longleftrightarrow>
     ro_Stage d = ''RESTORE_CONFIRMED'' \<and> ro_HTTP200At d \<noteq> None \<and>
     ro_ObservedGeneration d = Some (ws_TerminalGeneration (rw_Session result)) \<and>
     ro_RestoreMode d = Some (restore_mode_string (rw_RestoreMode result))"

definition confirm_restore_call :: "RestoreReservation \<Rightarrow> ResumeWorkerResult \<Rightarrow> WorkerStatus \<Rightarrow> call" where
  "confirm_restore_call rq result st =
     Clock (\<lambda>at.
     Transact (DoConfirmPairRestore (rr_OperationID rq) (rr_SessionID rq) (rr_ExpectedGeneration rq)
       (ws_TerminalGeneration (rw_Session result)) (restore_mode_string (rw_RestoreMode result))
       (restored_status st) (rr_Actor rq) at) (\<lambda>confirm.
     case confirm of
       None \<Rightarrow> succeed
     | Some confirmErr \<Rightarrow>
         let e = Wrapped ''restore HTTP 200 confirmation did not persist'' (StoreFailure confirmErr) in
         read_store (\<lambda>s. GetPairRestoreOperation s (rr_OperationID rq)) (\<lambda>durable.
         case durable of
           Inl _ \<Rightarrow> fail e
         | Inr d \<Rightarrow>
             if restore_confirmed_durably d result then succeed
             else if ro_ResolutionState d = RestoreInFlight then restore_unknown_reread rq e
             else fail e)))"

definition Restore :: "Coordinator \<Rightarrow> RestoreReservation \<Rightarrow> call" where
  "Restore c rq0 =
     (if \<not> co_RestoreEnabled c \<or> \<not> co_Operator c \<or> \<not> co_Store c \<or> \<not> co_AO c
      then fail (Refused ''operator restore is disabled; verified host principal boundary unavailable'')
      else
      Verify (rr_PairID rq0, rr_SessionID rq0, rr_ExpectedGeneration rq0, rr_RiskScope rq0) (\<lambda>v.
      case v of
        None \<Rightarrow> fail (Refused ''verify operator principal'')
      | Some (princ, verified) \<Rightarrow>
          if \<not> verified \<or> princ = [] then fail (Refused ''restore requires verified operator principal'')
          else let rq = rq0\<lparr>rr_AuthorizedPrincipal := princ, rr_Actor := princ\<rparr> in
          transact_or_fail (DoReservePairRestore rq) (
          Resume (rr_SessionID rq) (\<lambda>r.
          case r of
            Inl err \<Rightarrow> restore_unknown_reread rq (Wrapped ''restore outcome unresolved'' (AOFailure err))
          | Inr None \<Rightarrow> restore_unknown_reread rq (Refused ''restore response invalid'')
          | Inr (Some result) \<Rightarrow>
              if rw_SessionID result \<noteq> rr_SessionID rq
              then restore_unknown_reread rq (Refused ''restore response invalid'')
              else if ws_ID (rw_Session result) \<noteq> rr_SessionID rq \<or>
                ws_TerminalGeneration (rw_Session result) = []
              then restore_unknown rq (Refused ''restore HTTP 200 body lacks exact session/generation provenance'')
              else
              Observe (rr_SessionID rq) (\<lambda>obs.
              case obs of
                Inr (Some st) \<Rightarrow>
                  if ws_ID st \<noteq> rr_SessionID rq \<or>
                    ws_TerminalGeneration st \<noteq> ws_TerminalGeneration (rw_Session result)
                  then restore_unknown rq (Refused ''post-restore GetWorkerStatus did not confirm same identity/generation'')
                  else confirm_restore_call rq result st
              | _ \<Rightarrow> restore_unknown rq
                  (Refused ''post-restore GetWorkerStatus did not confirm same identity/generation''))))))"

section \<open>Operator calls\<close>

text \<open>The operator boundary: the verified principal of a tuple and scope, or the refusal.\<close>

definition with_principal ::
  "string \<times> string \<times> string \<times> string \<Rightarrow> (string \<Rightarrow> call) \<Rightarrow> call" where
  "with_principal q k =
     Verify q (\<lambda>v.
     case v of
       None \<Rightarrow> fail (Refused ''verify operator principal'')
     | Some (princ, verified) \<Rightarrow>
         if \<not> verified \<or> princ = [] then fail (Refused ''verified operator principal required'')
         else k princ)"

definition observed_exactly :: "WorkerStatus option \<Rightarrow> string \<Rightarrow> string \<Rightarrow> bool" where
  "observed_exactly st sessionID generation =
     (case st of
        None \<Rightarrow> False
      | Some w \<Rightarrow> ws_ID w = sessionID \<and> ws_TerminalGeneration w = generation \<and> \<not> ws_IsTerminated w)"

definition ResolveRestore :: "Coordinator \<Rightarrow> string \<Rightarrow> string \<Rightarrow> string \<Rightarrow> string \<Rightarrow> call" where
  "ResolveRestore c operationID pairID sessionID generation =
     (if \<not> co_Operator c \<or> \<not> co_Store c \<or> \<not> co_AO c
      then fail (Refused ''restore resolution requires verified host boundary'')
      else
      Observe sessionID (\<lambda>r.
      case r of
        Inl err \<Rightarrow> fail (Wrapped ''restore resolution observation failed'' (AOFailure err))
      | Inr None \<Rightarrow> fail (Refused ''restore resolution observation is not admissible'')
      | Inr (Some st) \<Rightarrow>
          if \<not> observed_exactly (Some st) sessionID generation
          then fail (Refused ''restore resolution observation is not admissible'')
          else with_principal (pairID, sessionID, generation, ''RESTORE_RESOLUTION'') (\<lambda>princ.
            Clock (\<lambda>at. transact_or_fail (DoResolveConfirmedRestore operationID sessionID generation
              (activity_string (ws_State st)) princ princ at) succeed))))"

definition Coordinator_ResolveAmbiguousRestore where
  "Coordinator_ResolveAmbiguousRestore c operationID pairID sessionID generation basis evidence =
     (if \<not> co_Operator c \<or> \<not> co_Store c
      then fail (Refused ''restore risk resolution requires host operator boundary'')
      else let scope = (if basis = AdministrativeRiskResolution
             then ''RESTORE_ADMINISTRATIVE_RISK_RESOLUTION'' else ''RESTORE_PHYSICAL_EXECUTION_RESOLUTION'') in
      with_principal (pairID, sessionID, generation, scope) (\<lambda>princ.
      Clock (\<lambda>at. transact_or_fail (DoResolveAmbiguousRestore operationID pairID sessionID generation basis
        evidence princ princ at) succeed)))"

definition Coordinator_ClaimRestoreCleanup :: "Coordinator \<Rightarrow> StopOperation \<Rightarrow> call" where
  "Coordinator_ClaimRestoreCleanup c stop0 =
     (if \<not> co_Operator c \<or> \<not> co_Store c
      then fail (Refused ''cleanup claim requires host operator boundary'')
      else if st_RestoreOperationID stop0 = None
      then fail (Refused ''linked cleanup requires restore operation ID'')
      else
      with_principal (st_PairID stop0, st_SessionID stop0, st_TerminalGeneration stop0, ''RESTORE_CLEANUP_CLAIM'') (\<lambda>princ.
      let stop = stop0\<lparr>st_RestorePrincipal := Some princ, st_Actor := princ\<rparr> in
      if st_Purpose stop = PairMaintenance then
        (if \<not> co_AO c then fail (Refused ''cleanup runtime observation requires AO status reader'')
         else
         Observe (st_SessionID stop) (\<lambda>r.
         case r of
           Inl err \<Rightarrow> fail (Wrapped ''cleanup runtime observation failed'' (AOFailure err))
         | Inr None \<Rightarrow> fail (Refused ''cleanup runtime observation differs from target'')
         | Inr (Some st) \<Rightarrow>
             if \<not> observed_exactly (Some st) (st_SessionID stop) (st_TerminalGeneration stop)
             then fail (Refused ''cleanup runtime observation differs from target'')
             else Clock (\<lambda>at. transact_or_fail (DoClaimRestoreCleanupWithStop stop princ princ at
               [\<lparr>rc_SessionID = ws_ID st, rc_TerminalGeneration = ws_TerminalGeneration st,
                 rc_IsTerminated = ws_IsTerminated st\<rparr>]) succeed)))
      else Clock (\<lambda>at. transact_or_fail (DoClaimRestoreCleanupWithStop stop princ princ at []) succeed)))"

definition Coordinator_ClaimRestoreRecovery ::
  "Coordinator \<Rightarrow> string \<Rightarrow> string \<Rightarrow> string \<Rightarrow> string \<Rightarrow> call" where
  "Coordinator_ClaimRestoreRecovery c operationID pairID sessionID generation =
     (if \<not> co_Operator c \<or> \<not> co_Store c
      then fail (Refused ''restore recovery claim requires host operator boundary'')
      else
      with_principal (pairID, sessionID, generation, ''RESTORE_RECOVERY_CLAIM'') (\<lambda>princ.
      Clock (\<lambda>at. transact_or_fail (DoClaimRestoreRecovery operationID pairID sessionID generation princ princ at)
        succeed)))"

section \<open>Containment of an ambiguous send\<close>

text \<open>
  The audit events of a dispatch that the containment looks for. The source reads the log in pages;
  the log only grows, so the pages together are the log as it is when the last page is read.
\<close>

definition audit_types_of :: "Coordinator \<Rightarrow> DispatchOperation \<Rightarrow> string \<Rightarrow> audit_row \<Rightarrow> string list" where
  "audit_types_of c op operationID e =
     (if co_detail c e ''dispatch_operation_id'' \<noteq> operationID \<or>
        valueOrEmpty (ar_pair_id e) \<noteq> d_PairID op \<or> valueOrEmpty (ar_task_id e) \<noteq> d_TaskID op \<or>
        valueOrEmpty (ar_attempt_id e) \<noteq> d_AttemptID op
      then []
      else if (ar_event_type e = ''DISPATCH_SEND_REQUESTED'' \<or>
          ar_event_type e = ''UNCERTAIN_DELIVERY_QUARANTINE_IMPOSED'') \<and>
        (co_detail c e ''session_id'' \<noteq> d_SessionID op \<or>
         co_detail c e ''terminal_generation'' \<noteq> d_TerminalGeneration op)
      then []
      else ar_event_type e #
        (if ar_event_type e = ''TASK_STATE_TRANSITION'' \<and> co_detail c e ''from_state'' \<noteq> [] \<and>
           co_detail c e ''to_state'' \<noteq> []
         then [''TASK_STATE_TRANSITION:'' @ co_detail c e ''from_state'' @ ''->'' @ co_detail c e ''to_state'']
         else []))"

text \<open>The five reads of the durable tuple, each against the store as it is then.\<close>

definition read_tuple ::
  "Coordinator \<Rightarrow> string \<Rightarrow> string \<Rightarrow>
     (store_error + (DispatchOperation \<times> Task \<times> TaskAttempt \<times> string list) \<Rightarrow> call) \<Rightarrow> call" where
  "read_tuple c operationID attemptID k =
     read_store (\<lambda>s. GetDispatchOperation s operationID) (\<lambda>r1. case r1 of Inl e \<Rightarrow> k (Inl e) | Inr op \<Rightarrow>
     read_store (\<lambda>s. GetTask s (d_TaskID op)) (\<lambda>r2. case r2 of Inl e \<Rightarrow> k (Inl e) | Inr task \<Rightarrow>
     read_store (\<lambda>s. GetTaskAttempt s attemptID) (\<lambda>r3. case r3 of Inl e \<Rightarrow> k (Inl e) | Inr attempt \<Rightarrow>
     read_store (VerifyAuditChain (co_sha256 c)) (\<lambda>r4. case r4 of Inl e \<Rightarrow> k (Inl e) | Inr _ \<Rightarrow>
     read_store (\<lambda>s. Inr (concat (map (audit_types_of c op operationID) (audit_events s)))) (\<lambda>r5.
       case r5 of Inl e \<Rightarrow> k (Inl e) | Inr found \<Rightarrow> k (Inr (op, task, attempt, found)))))))"

definition unknown_recorded :: "DispatchOperation \<Rightarrow> string list \<Rightarrow> bool" where
  "unknown_recorded op found \<longleftrightarrow>
     d_ResolutionState op = Some ''DELIVERY_OUTCOME_UNKNOWN'' \<and>
     ''UNCERTAIN_DELIVERY_QUARANTINE_IMPOSED'' \<in> set found \<and>
     ''TASK_STATE_TRANSITION:DISPATCHED->FAILED'' \<in> set found \<and>
     ''TASK_STATE_TRANSITION:FAILED->HUMAN_REQUIRED'' \<in> set found"

definition containAmbiguousSend :: "Coordinator \<Rightarrow> string \<Rightarrow> string \<Rightarrow> string \<Rightarrow> failure \<Rightarrow> call" where
  "containAmbiguousSend c operationID attemptID actor cause =
     read_tuple c operationID attemptID (\<lambda>r.
     case r of
       Inl e \<Rightarrow> fail (Wrapped ''ambiguous delivery; durable tuple/audit reread failed, no resend'' (StoreFailure e))
     | Inr (op, task, attempt, found) \<Rightarrow>
         if d_OperationID op \<noteq> operationID \<or> d_AttemptID op \<noteq> attemptID \<or> a_AttemptID attempt \<noteq> attemptID \<or>
           a_TaskID attempt \<noteq> d_TaskID op \<or> a_ContractID attempt = [] \<or> t_TaskID task \<noteq> d_TaskID op \<or>
           t_PairID task \<noteq> d_PairID op \<or> t_CurrentAttempt task \<noteq> a_AttemptNumber attempt
         then fail (Refused ''ambiguous delivery tuple is stale or inconsistent, no resend'')
         else if d_Stage op = SendConfirmed \<and> ''DISPATCH_SEND_CONFIRMED'' \<in> set found then succeed
         else if unknown_recorded op found
         then fail (Wrapped ''D5 winner is durable; late caller cannot overwrite unknown delivery'' cause)
         else if d_Stage op \<noteq> SendRequested \<or> d_ResolutionState op \<noteq> None \<or> a_EndedAt attempt \<noteq> None \<or>
           t_State task \<noteq> StateDispatched \<or> ''DISPATCH_SEND_REQUESTED'' \<notin> set found \<or>
           a_SessionID attempt \<noteq> Some (d_SessionID op) \<or>
           a_TerminalGeneration attempt \<noteq> Some (d_TerminalGeneration op)
         then fail (Refused ''ambiguous delivery durable tuple is not the exact SEND_REQUESTED intent'')
         else
         Clock (\<lambda>at.
         Transact (DoRecordUnknownDelivery operationID actor at) (\<lambda>_.
         read_tuple c operationID attemptID (\<lambda>r'.
         case r' of
           Inl _ \<Rightarrow> fail (Wrapped ''D5 containment failed, exact reread failed; intent requires recovery'' cause)
         | Inr (op', task', attempt', found') \<Rightarrow>
             if unknown_recorded op' found' \<and> t_State task' = StateHumanRequired \<and> a_EndedAt attempt' \<noteq> None
             then fail (Wrapped ''delivery outcome unknown; D5 containment is durable'' cause)
             else fail (Wrapped ''D5 containment failed; recovery required and no resend'' cause)))))"

section \<open>Dispatch\<close>

text \<open>After the send intent is durable: one call, then the confirmation or the containment.\<close>

definition send_and_confirm ::
  "Coordinator \<Rightarrow> string \<Rightarrow> string \<Rightarrow> string \<Rightarrow> string \<Rightarrow> string \<Rightarrow> call" where
  "send_and_confirm c attemptID operationID sessionID message actor =
     Send sessionID message (\<lambda>r.
     case r of
       Inl err \<Rightarrow> containAmbiguousSend c operationID attemptID actor (AOFailure err)
     | Inr None \<Rightarrow> containAmbiguousSend c operationID attemptID actor (Refused ''invalid send response'')
     | Inr (Some result) \<Rightarrow>
         if dr_SessionID result \<noteq> sessionID
         then containAmbiguousSend c operationID attemptID actor (Refused ''invalid send response'')
         else Clock (\<lambda>at.
           Transact (DoRecordSendConfirmed operationID actor True at [co_ExecutionPolicy c]) (\<lambda>confirm.
           case confirm of
             None \<Rightarrow> succeed
           | Some e \<Rightarrow> containAmbiguousSend c operationID attemptID actor
               (Wrapped ''HTTP 200 confirmation transaction failed'' (StoreFailure e)))))"

definition close_before_send :: "string \<Rightarrow> string \<Rightarrow> string \<Rightarrow> string \<Rightarrow> failure \<Rightarrow> call" where
  "close_before_send taskID attemptID reason disposition e =
     Transact (DoAtomicTerminalTransition taskID StateDispatched StateFailed reason attemptID disposition) (\<lambda>r.
     case r of
       Some x \<Rightarrow> fail (Wrapped ''D12 transaction failed'' (StoreFailure x))
     | None \<Rightarrow> fail e)"

text \<open>The pre-send observation of a bound attempt.\<close>

definition observe_and_send where
  "observe_and_send c taskID attemptID operationID sessionID generation message actor =
     Observe sessionID (\<lambda>r.
     case r of
       Inl err \<Rightarrow>
         if as_ProtocolError err = Some 404
         then close_before_send taskID attemptID ''AO session absent before send'' ''SESSION_ABSENT''
           (Wrapped ''AO returned HTTP 404; D12 failure recorded; no send issued'' (AOFailure err))
         else let disposition = (if as_ProtocolError err \<noteq> None
                then ''PRE_SEND_PROTOCOL_UNVERIFIED'' else ''RECOVERY_PENDING'') in
           Clock (\<lambda>at.
           Transact (DoRecordPreSendHold operationID disposition actor at) (\<lambda>h.
           case h of
             Some e \<Rightarrow> fail (Wrapped ''pre-send observation unavailable and hold/audit failed; no send'' (StoreFailure e))
           | None \<Rightarrow> fail (Wrapped ''pre-send observation unavailable; SEND was not requested'' (AOFailure err))))
     | Inr None \<Rightarrow>
         Clock (\<lambda>at.
         Transact (DoRecordPreSendHold operationID ''PRE_SEND_PROTOCOL_UNVERIFIED'' actor at) (\<lambda>h.
         case h of
           Some e \<Rightarrow> fail (Wrapped ''missing status and protocol hold/audit failed'' (StoreFailure e))
         | None \<Rightarrow> fail (Refused ''pre-send protocol response missing; no send issued'')))
     | Inr (Some st) \<Rightarrow>
         if ws_ID st \<noteq> sessionID
         then close_before_send taskID attemptID ''pre-send AO session identity mismatch''
           ''PRE_SEND_IDENTITY_MISMATCH'' (Refused ''pre-send identity/generation mismatch; no send issued'')
         else if ws_TerminalGeneration st \<noteq> generation
         then close_before_send taskID attemptID ''stale execution generation''
           ''STALE_EXECUTION_GENERATION'' (Refused ''stale execution generation; attempt failed closed'')
         else if ws_IsTerminated st
         then close_before_send taskID attemptID ''worker termination is unverified''
           ''WORKER_TERMINATION_UNKNOWN'' (Refused ''pre-send termination observed; no send issued'')
         else if ws_State st \<noteq> ActivityStateIdle \<and> ws_State st \<noteq> ActivityStateWaitingInput
         then let activity = activity_string (ws_State st);
                  e = Refused ''pre-send activity is not admissible; attempt remains DISPATCHED'' in
           if activity = ''active'' \<or> activity = ''blocked'' \<or> activity = ''exited''
           then Clock (\<lambda>at.
             Transact (DoRecordPreSendAdmissibilityRejected operationID activity actor at) (\<lambda>a.
             case a of
               Some x \<Rightarrow> fail (Wrapped ''inadmissible state audit failed'' (StoreFailure x))
             | None \<Rightarrow> fail e))
           else fail e
         else Clock (\<lambda>at.
           transact_or_fail (DoRecordSendRequested operationID (ws_ID st) (ws_TerminalGeneration st)
             (activity_string (ws_State st)) (ws_IsTerminated st) actor at)
             (send_and_confirm c attemptID operationID sessionID message actor)))"

text \<open>
  \<open>Dispatch\<close>. The attempt that the source carries along from the binding or the read has the id
  that was asked for, so the id itself is passed on.
\<close>

definition Dispatch where
  "Dispatch c taskID contractID attemptID operationID sessionID generation reportPath message actor =
     (if \<not> co_Store c \<or> \<not> co_AO c then fail (Refused ''coordinator dependencies are not configured'')
      else let policy = co_ExecutionPolicy c in
      if bp_Duration policy \<le> 0 \<or> TrimSpace (bp_PolicyRef policy) = []
      then fail (Refused ''injected execution budget policy required before send'')
      else
      Clock (\<lambda>now. let deadline = now + bp_Duration policy in
      if \<not> now < deadline \<or> now < 0 \<or> year_10000 \<le> deadline
      then fail (Refused ''injected execution budget policy required before send'')
      else
      read_store (\<lambda>s. GetTask s taskID) (\<lambda>r. case r of Inl e \<Rightarrow> fail (StoreFailure e) | Inr task \<Rightarrow>
      if t_State task = StateReady then
        Clock (\<lambda>at.
        transact_or_fail (DoPrepareBoundDispatch taskID contractID attemptID reportPath at
          \<lparr>bd_OperationID = operationID, bd_SessionID = sessionID, bd_TerminalGeneration = generation\<rparr>)
          (observe_and_send c taskID attemptID operationID sessionID generation message actor))
      else if t_State task = StateDispatched then
        read_store (\<lambda>s. GetTaskAttempt s attemptID) (\<lambda>r2. case r2 of Inl e \<Rightarrow> fail (StoreFailure e) | Inr attempt \<Rightarrow>
        read_store (\<lambda>s. GetDispatchOperation s operationID) (\<lambda>r3. case r3 of Inl e \<Rightarrow> fail (StoreFailure e) | Inr durable \<Rightarrow>
        if t_CurrentAttempt task \<noteq> a_AttemptNumber attempt \<or> a_EndedAt attempt \<noteq> None \<or>
          a_TaskID attempt \<noteq> taskID \<or> a_ContractID attempt \<noteq> contractID \<or>
          a_SessionID attempt \<noteq> Some sessionID \<or> a_TerminalGeneration attempt \<noteq> Some generation \<or>
          d_AttemptID durable \<noteq> attemptID \<or> d_Stage durable \<noteq> DispatchBound
        then fail (Refused ''current open attempt/operation does not match retry request'')
        else observe_and_send c taskID attemptID operationID sessionID generation message actor))
      else fail (Refused ''only READY allocation or its existing DISPATCHED attempt is admissible''))))"

section \<open>Recovery of a pre-send hold\<close>

definition RecoverPreSend where
  "RecoverPreSend c attemptID operationID expectedDisposition pairID sessionID generation actor =
     (if \<not> co_Store c \<or> \<not> co_AO c then fail (Refused ''pre-send recovery requires Store and AO'')
      else
      Observe sessionID (\<lambda>r.
      case r of
        Inl err \<Rightarrow> fail (Wrapped ''fresh recovery observation failed'' (AOFailure err))
      | Inr None \<Rightarrow> fail (Refused ''fresh observation does not match held attempt'')
      | Inr (Some st) \<Rightarrow>
          let resolve = (\<lambda>princ. Clock (\<lambda>at. transact_or_fail (DoResolvePreSendHold operationID attemptID
                expectedDisposition sessionID generation (activity_string (ws_State st)) princ
                (if princ \<noteq> [] then princ else actor) at) succeed)) in
          if \<not> observed_exactly (Some st) sessionID generation
          then fail (Refused ''fresh observation does not match held attempt'')
          else if expectedDisposition = ''PRE_SEND_PROTOCOL_UNVERIFIED'' then
            (if \<not> co_Operator c then fail (Refused ''protocol hold recovery requires host operator boundary'')
             else with_principal (pairID, sessionID, generation, ''PRE_SEND_PROTOCOL_COMPATIBILITY_ACK'') resolve)
          else resolve []))"

end
