(* ===== verification/Stop_Coordinator.thy ===== *)
theory Stop_Coordinator
  imports Effects
begin

text \<open>
  \<open>internal/stop/coordinator.go\<close>: the one-use kill of a session, the observation of its outcome and
  the operator calls, as programs over the store and the orchestrator. A nil dereference of the
  source is the error \<open>nil_dereference\<close> here. The clock of the coordinator, injected or not, is the
  clock of the program.
\<close>

record StopCoordinator =
  sc_Store :: bool
  sc_AO :: bool
  sc_Operator :: bool
  sc_KillTimeout :: int
  sc_TimeoutHost :: bool

definition ErrTimeoutPreflightUnavailable :: string where
  "ErrTimeoutPreflightUnavailable = ''stop: timeout preflight unavailable''"

definition ErrTimeoutPreflightInadmissible :: string where
  "ErrTimeoutPreflightInadmissible = ''stop: timeout preflight not admissible''"

definition nil_dereference :: failure where
  "nil_dereference = Refused ''runtime error: invalid memory address or nil pointer dereference''"

section \<open>Outcomes\<close>

definition commitOutcome ::
  "string \<Rightarrow> StopStage \<Rightarrow> StopStage \<Rightarrow> StopResolutionState \<Rightarrow> WorkerStatus option \<Rightarrow> call" where
  "commitOutcome oid expected nxt resolution status =
     Clock (\<lambda>at. transact_or_fail (DoCommitStopOutcome oid
       \<lparr>so_ExpectedStage = expected, so_Stage = nxt, so_Resolution = resolution, so_At = at,
        so_ObservedSessionID = (case status of None \<Rightarrow> [] | Some w \<Rightarrow> ws_ID w),
        so_ObservedGeneration = (case status of None \<Rightarrow> [] | Some w \<Rightarrow> ws_TerminalGeneration w),
        so_ObservedIsTerminated = (case status of None \<Rightarrow> False | Some w \<Rightarrow> ws_IsTerminated w)\<rparr>) succeed)"

text \<open>One observation; it neither kills nor resets the deadline.\<close>

definition Coordinator_Observe :: "StopCoordinator \<Rightarrow> string \<Rightarrow> call" where
  "Coordinator_Observe c operationID =
     (if \<not> sc_Store c \<or> \<not> sc_AO c then fail (Refused ''stop: dependencies unavailable'')
      else
      read_store (\<lambda>s. GetStopOperation s operationID) (\<lambda>r. case r of Inl e \<Rightarrow> fail (StoreFailure e) | Inr stop \<Rightarrow>
      (case st_ConfirmationDeadlineAt stop of
         None \<Rightarrow> fail (StoreFailure ErrStateConflict)
       | Some deadline \<Rightarrow>
      if st_Stage stop \<noteq> StopCallSucceeded \<or> st_ResolutionState stop \<noteq> StopResolutionInFlight
      then fail (StoreFailure ErrStateConflict)
      else
      Observe (st_SessionID stop) (\<lambda>obs.
      let commit = commitOutcome operationID StopCallSucceeded in
      case obs of
        Inl err \<Rightarrow>
          if errors_Is err ErrNotFound then commit StopTargetAbsent StopResolutionTargetAbsent None
          else Clock (\<lambda>now.
            if \<not> now < deadline then commit StopCallSucceeded StopResolutionConfirmationTimeout None
            else fail (AOFailure err))
      | Inr None \<Rightarrow> Clock (\<lambda>now. fail (Refused ''stop: observation identity invalid; quarantine retained''))
      | Inr (Some status) \<Rightarrow> Clock (\<lambda>now.
          if ws_ID status \<noteq> st_SessionID stop
          then fail (Refused ''stop: observation identity invalid; quarantine retained'')
          else if ws_TerminalGeneration status \<noteq> st_TerminalGeneration stop
          then commit StopCallSucceeded StopResolutionGenerationMismatch (Some status)
          else if \<not> now < deadline
          then commit StopCallSucceeded StopResolutionConfirmationTimeout (Some status)
          else if ws_IsTerminated status
          then commit StopTerminationConfirmed StopResolutionTerminationConfirmed (Some status)
          else succeed)))))"

section \<open>Start\<close>

text \<open>What the answer to the kill call says about its outcome.\<close>

definition call_error_outcome :: "ao_error \<Rightarrow> StopStage \<times> StopResolutionState" where
  "call_error_outcome err =
     (if errors_Is err ErrNotFound then (StopTargetAbsent, StopResolutionTargetAbsent)
      else if as_APIError err \<noteq> None then (StopCallFailed, StopResolutionCallFailed)
      else (StopRequested, StopResolutionCallOutcomeUnknown))"

text \<open>The kill call and the record of its outcome.\<close>

definition kill_and_commit :: "StopCoordinator \<Rightarrow> StopOperation \<Rightarrow> call" where
  "kill_and_commit c stop =
     (let commit = commitOutcome (st_OperationID stop) StopRequested in
      Kill (st_SessionID stop) (\<lambda>r.
      case r of
        Inl callErr \<Rightarrow>
          (case call_error_outcome callErr of (stage, resolution) \<Rightarrow>
           and_then (commit stage resolution None) (\<lambda>e. case e of
             Some x \<Rightarrow> fail (Wrapped ''stop: call error; containment failed'' x)
           | None \<Rightarrow> fail (AOFailure callErr)))
      | Inr result \<Rightarrow>
          if map_option sr_SessionID result \<noteq> Some (st_SessionID stop)
          then and_then (commit StopRequested StopResolutionCallOutcomeUnknown None) (\<lambda>e. case e of
             Some x \<Rightarrow> fail (Wrapped ''stop: invalid HTTP 200 response; containment failed'' x)
           | None \<Rightarrow> fail (Refused ''stop: invalid HTTP 200 response; delivery outcome unknown''))
          else Clock (\<lambda>callAt.
            Transact (DoCommitStopCallAccepted (st_OperationID stop) callAt (callAt + sc_KillTimeout c)) (\<lambda>a.
            case a of
              None \<Rightarrow> Coordinator_Observe c (st_OperationID stop)
            | Some e \<Rightarrow>
                read_store (\<lambda>s. GetStopOperation s (st_OperationID stop)) (\<lambda>r2.
                case r2 of
                  Inl re \<Rightarrow> fail (Wrapped ''stop: HTTP 200 confirmation failed, reread failed'' (StoreFailure re))
                | Inr current \<Rightarrow>
                    let lost = fail (Wrapped ''stop: HTTP 200 confirmation failed or writer won'' (StoreFailure e)) in
                    if st_Stage current = StopRequested \<and> st_ResolutionState current = StopResolutionInFlight
                    then and_then (commit StopRequested StopResolutionCallOutcomeUnknown None) (\<lambda>x. case x of
                      Some y \<Rightarrow> fail (Wrapped ''stop: HTTP 200 confirmation failed, containment failed'' y)
                    | None \<Rightarrow> lost)
                    else lost)))))"

definition timeout_activity :: "ActivityState \<Rightarrow> bool" where
  "timeout_activity a \<longleftrightarrow> a = ActivityStateActive \<or> a = ActivityStateWaitingInput"

text \<open>After the reservation is acknowledged: one exact observation, then the kill.\<close>

definition observe_and_kill :: "StopCoordinator \<Rightarrow> StopOperation \<Rightarrow> bool \<Rightarrow> call" where
  "observe_and_kill c stop timeout =
     Observe (st_SessionID stop) (\<lambda>r.
     let commit = commitOutcome (st_OperationID stop) StopRequested in
     case r of
       Inl getErr \<Rightarrow>
         if errors_Is getErr ErrNotFound then commit StopTargetAbsent StopResolutionTargetAbsent None
         else fail (Wrapped ''stop: pre-effect observation unavailable; intent remains locked'' (AOFailure getErr))
     | Inr None \<Rightarrow> fail (Refused ''stop: pre-effect identity invalid; intent remains locked'')
     | Inr (Some status) \<Rightarrow>
         if ws_ID status \<noteq> st_SessionID stop
         then fail (Refused ''stop: pre-effect identity invalid; intent remains locked'')
         else if ws_TerminalGeneration status \<noteq> st_TerminalGeneration stop
         then commit StopRequested StopResolutionGenerationMismatch (Some status)
         else if ws_IsTerminated status
         then commit StopRequested StopResolutionEffectUnprovenAlreadyTerminated (Some status)
         else if timeout then
           (if \<not> timeout_activity (ws_State status)
            then fail (Refused ''stop: timeout pre-effect activity changed; intent retained for exclusive recovery'')
            else
            read_store (ValidateTimeoutEffectOwner (st_OperationID stop)) (\<lambda>v. case v of
              Inl e \<Rightarrow> fail (Wrapped ''stop: timeout pre-effect ownership changed; intent retained'' (StoreFailure e))
            | Inr _ \<Rightarrow> kill_and_commit c stop))
         else kill_and_commit c stop)"

text \<open>The reservation: linked to a restore, or on its own.\<close>

definition reservation :: "StopOperation \<Rightarrow> WorkerStatus option \<Rightarrow> command option" where
  "reservation stop claim =
     (if st_RestoreOperationID stop \<noteq> None
      then map_option (\<lambda>princ. DoClaimRestoreCleanupWithStop stop princ (st_Actor stop) (st_RequestedAt stop)
        (case claim of
           None \<Rightarrow> []
         | Some w \<Rightarrow> [\<lparr>rc_SessionID = ws_ID w, rc_TerminalGeneration = ws_TerminalGeneration w,
             rc_IsTerminated = ws_IsTerminated w\<rparr>])) (st_RestorePrincipal stop)
      else Some (DoReserveStopOperation stop))"

definition reserve_and_stop :: "StopCoordinator \<Rightarrow> StopOperation \<Rightarrow> bool \<Rightarrow> WorkerStatus option \<Rightarrow> call" where
  "reserve_and_stop c stop timeout claim =
     (case reservation stop claim of
        None \<Rightarrow> fail nil_dereference
      | Some reserve \<Rightarrow> transact_or_fail reserve (observe_and_kill c stop timeout))"

text \<open>A linked maintenance claim needs a fresh observation of the target generation.\<close>

definition observe_claim :: "StopCoordinator \<Rightarrow> StopOperation \<Rightarrow> bool \<Rightarrow> call" where
  "observe_claim c stop timeout =
     (if st_RestoreOperationID stop \<noteq> None \<and> st_Purpose stop = PairMaintenance then
        Observe (st_SessionID stop) (\<lambda>r.
        case r of
          Inl err \<Rightarrow> fail (AOFailure err)
        | Inr None \<Rightarrow> fail (Refused ''stop: linked maintenance observation differs from target'')
        | Inr (Some w) \<Rightarrow>
            if ws_ID w \<noteq> st_SessionID stop \<or> ws_TerminalGeneration w \<noteq> st_TerminalGeneration stop \<or>
              ws_IsTerminated w
            then fail (Refused ''stop: linked maintenance observation differs from target'')
            else reserve_and_stop c stop timeout (Some w))
      else reserve_and_stop c stop timeout None)"

definition operator_scope :: "StopOperation \<Rightarrow> string" where
  "operator_scope stop =
     (if st_RestoreOperationID stop \<noteq> None then ''RESTORE_CLEANUP_CLAIM'' else ''STOP_UNLINKED_CLEANUP'')"

definition start_call :: "StopCoordinator \<Rightarrow> StopOperation \<Rightarrow> bool \<Rightarrow> call" where
  "start_call c stop0 timeout =
     (if \<not> sc_Store c \<or> \<not> sc_AO c \<or> sc_KillTimeout c \<le> 0
      then fail (Refused ''stop: store, AO and injected kill timeout are required'')
      else if st_OperationID stop0 = [] \<or> st_PairID stop0 = [] \<or> st_SessionID stop0 = [] \<or>
        st_TerminalGeneration stop0 = []
      then fail (Refused ''stop: exact operation/Pair/session/generation required'')
      else
      Clock (\<lambda>now.
      let stop1 = stop0\<lparr>st_RequestedAt := (if IsZero (st_RequestedAt stop0) then now else st_RequestedAt stop0),
            st_Actor := (if st_Actor stop0 = [] then ''supervisor'' else st_Actor stop0)\<rparr> in
      if st_Purpose stop1 \<noteq> RunningAttemptStop then
        (if \<not> sc_Operator c
         then fail (Refused ''stop: verified operator boundary required for session-scoped cleanup'')
         else
         Verify (st_PairID stop1, st_SessionID stop1, st_TerminalGeneration stop1, operator_scope stop1) (\<lambda>v.
         case v of
           None \<Rightarrow> fail (Refused ''verify operator principal'')
         | Some (princ, verified) \<Rightarrow>
             if \<not> verified \<or> princ = [] then fail (Refused ''stop: verified operator principal required'')
             else observe_claim c (stop1\<lparr>st_Actor := princ,
               st_RestorePrincipal := (if st_RestoreOperationID stop1 \<noteq> None then Some princ
                 else st_RestorePrincipal stop1)\<rparr>) timeout))
      else observe_claim c stop1 timeout))"

definition Start :: "StopCoordinator \<Rightarrow> StopOperation \<Rightarrow> call" where
  "Start c stop =
     (if st_InitiatingFailureReason stop \<noteq> None
      then fail (Refused ''stop: timeout cause requires guarded StartTimeout'')
      else start_call c stop False)"

section \<open>Timeout\<close>

definition join_errors :: "failure option \<Rightarrow> failure option \<Rightarrow> failure option" where
  "join_errors a b =
     (case (a, b) of
        (None, _) \<Rightarrow> b
      | (Some x, None) \<Rightarrow> a
      | (Some x, Some y) \<Rightarrow> Some (Joined x y))"

text \<open>The deferred release of a permit or scope.\<close>

definition and_release :: "call \<Rightarrow> call" where
  "and_release p =
     and_then p (\<lambda>e. Release (\<lambda>ok. Return (join_errors e (if ok then None else Some (Refused ''release'')))))"

definition StartTimeout :: "StopCoordinator \<Rightarrow> StopOperation \<Rightarrow> call" where
  "StartTimeout c stop =
     (if \<not> sc_TimeoutHost c \<or> \<not> sc_AO c \<or> \<not> sc_Store c \<or> st_Purpose stop \<noteq> RunningAttemptStop \<or>
        st_AttemptID stop = None
      then fail (Refused ''stop: trusted timeout admission and exact live attempt required'')
      else
      Permit (st_PairID stop) ''TIMEOUT_MONITOR'' (\<lambda>p.
      case p of
        None \<Rightarrow> fail (Refused ''host: effect permit refused'')
      | Some False \<Rightarrow> fail (Refused ''stop: timeout permit missing'')
      | Some True \<Rightarrow> and_release (
          Ask ''ctx.Err'' (\<lambda>done. case done of Some e \<Rightarrow> fail e | None \<Rightarrow>
          Observe (st_SessionID stop) (\<lambda>r.
          case r of
            Inl err \<Rightarrow> fail (Wrapped ErrTimeoutPreflightUnavailable (AOFailure err))
          | Inr None \<Rightarrow> fail (Refused ErrTimeoutPreflightInadmissible)
          | Inr (Some w) \<Rightarrow>
              if ws_ID w \<noteq> st_SessionID stop \<or> ws_TerminalGeneration w \<noteq> st_TerminalGeneration stop \<or>
                ws_IsTerminated w \<or> \<not> timeout_activity (ws_State w)
              then fail (Refused ErrTimeoutPreflightInadmissible)
              else Clock (\<lambda>now. start_call c (stop\<lparr>st_InitiatingFailureReason := Some ''TIMEOUT'',
                st_RequestedAt := now\<rparr>) True))))))"

section \<open>Operator calls\<close>

text \<open>The verified principal, which must be the one the request names, if it names one.\<close>

definition with_named_principal ::
  "string \<times> string \<times> string \<times> string \<Rightarrow> string \<Rightarrow> (string \<Rightarrow> call) \<Rightarrow> call" where
  "with_named_principal q named k =
     Verify q (\<lambda>v.
     case v of
       None \<Rightarrow> fail (Refused ''verify operator principal'')
     | Some (princ, verified) \<Rightarrow>
         if \<not> verified \<or> princ = [] \<or> named \<noteq> [] \<and> named \<noteq> princ
         then fail (Refused ''stop: verified operator principal required'')
         else k princ)"

definition clearance_scope :: "QuarantineClearance \<Rightarrow> string" where
  "clearance_scope rq =
     (if list_ex (\<lambda>l. lc_Basis l \<noteq> ClearancePhysical) (qc_Session rq # qc_Attempts rq)
      then ''STOP_ADMINISTRATIVE_CLEARANCE'' else ''STOP_PHYSICAL_CLEARANCE'')"

definition ClearQuarantine :: "StopCoordinator \<Rightarrow> QuarantineClearance \<Rightarrow> call" where
  "ClearQuarantine c rq =
     (if \<not> sc_Store c \<or> \<not> sc_Operator c
      then fail (Refused ''stop: trusted operator boundary required for D6 clearance'')
      else
      with_named_principal (qc_PairID rq, lc_SessionID (qc_Session rq), lc_TerminalGeneration (qc_Session rq),
        clearance_scope rq) (qc_Principal rq) (\<lambda>princ.
      transact_or_fail (DoClearQuarantineWithEvidence (rq\<lparr>qc_Principal := princ\<rparr>)) succeed))"

definition AcceptAdministrativeRisk :: "StopCoordinator \<Rightarrow> AdministrativeStopDecision \<Rightarrow> call" where
  "AcceptAdministrativeRisk c d =
     (if \<not> sc_Store c \<or> \<not> sc_Operator c
      then fail (Refused ''stop: trusted operator boundary required for risk acceptance'')
      else let scope = ''STOP_ADMINISTRATIVE_RECONCILIATION'' in
      with_named_principal (sd_PairID d, sd_SessionID d, sd_TerminalGeneration d, scope) (sd_Principal d) (\<lambda>princ.
      transact_or_fail (DoAcceptStopAdministrativeRisk (d\<lparr>sd_Principal := princ, sd_AuthorityScope := scope\<rparr>))
        succeed))"

end
