(* ===== verification/Recovery_Runner.thy ===== *)
theory Recovery_Runner
  imports Stop_Coordinator
begin

text \<open>
  \<open>internal/recovery/scanner.go\<close>: the startup sweep and the classifications it shares with the ticks.
  The programs return the report beside the error, as the source does. The id of a sweep, from the
  sequence counter or the injected function, is drawn; the exclusive scope of the host is a
  permit. The locks of the source are not part of the programs.
\<close>

record Runner =
  rn_Store :: bool
  rn_AO :: bool
  rn_Host :: bool
  rn_MaintenanceHost :: bool
  rn_TimeoutAdmission :: bool
  rn_Operator :: bool
  rn_Handoff :: bool
  rn_ActivityPollInterval :: int
  rn_ExecutionDeadline :: int
  rn_Actor :: string

record Report =
  rp_Complete :: bool
  rp_PendingAO :: bool
  rp_Classified :: int

type_synonym sweep = "(Report \<times> failure option) prog"

definition classified :: "Report \<Rightarrow> Report" where
  "classified rep = rep\<lparr>rp_Classified := rp_Classified rep + 1\<rparr>"

definition pending :: "Report \<Rightarrow> Report" where
  "pending rep = rep\<lparr>rp_PendingAO := True\<rparr>"

definition stop_with :: "Report \<Rightarrow> failure \<Rightarrow> sweep" where
  "stop_with rep e = Return (rep, Some e)"

definition go_on :: "Report \<Rightarrow> sweep" where
  "go_on rep = Return (rep, None)"

text \<open>A call inside a sweep; a step after a sweep that had no error; the check of the context.\<close>

definition with_report :: "Report \<Rightarrow> call \<Rightarrow> sweep" where
  "with_report rep p = and_then p (\<lambda>e. Return (rep, e))"

definition and_ok :: "sweep \<Rightarrow> (Report \<Rightarrow> sweep) \<Rightarrow> sweep" where
  "and_ok p f = and_then p (\<lambda>(rep, e). case e of Some x \<Rightarrow> Return (rep, e) | None \<Rightarrow> f rep)"

definition check_ctx :: "Report \<Rightarrow> sweep \<Rightarrow> sweep" where
  "check_ctx rep p = Ask ''ctx.Err'' (\<lambda>d. case d of Some e \<Rightarrow> stop_with rep e | None \<Rightarrow> p)"

fun each :: "('a \<Rightarrow> Report \<Rightarrow> sweep) \<Rightarrow> 'a list \<Rightarrow> Report \<Rightarrow> sweep" where
  "each f [] rep = go_on rep"
| "each f (x # xs) rep = and_ok (f x rep) (each f xs)"

text \<open>A transaction stamped with the clock of the runner.\<close>

definition transact_now :: "(time \<Rightarrow> command) \<Rightarrow> call" where
  "transact_now c = Clock (\<lambda>at. transact_or_fail (c at) succeed)"

section \<open>Classification of an execution\<close>

definition classifyPreSend :: "Runner \<Rightarrow> RecoveryExecution \<Rightarrow> WorkerStatus \<Rightarrow> call" where
  "classifyPreSend r x status =
     (let close = (\<lambda>reason disposition. transact_or_fail (DoAtomicTerminalTransition (re_TaskID x)
            StateDispatched StateFailed reason (re_AttemptID x) disposition) succeed) in
      if ws_ID status \<noteq> re_SessionID x
      then close ''pre-send identity mismatch'' ''PRE_SEND_IDENTITY_MISMATCH''
      else if ws_TerminalGeneration status \<noteq> re_Generation x
      then close ''pre-send generation mismatch'' ''STALE_EXECUTION_GENERATION''
      else if ws_IsTerminated status
      then close ''pre-send worker terminated'' ''WORKER_TERMINATION_UNKNOWN''
      else if ws_State status \<noteq> ActivityStateIdle \<and> ws_State status \<noteq> ActivityStateWaitingInput
      then transact_now (DoRecordPreSendAdmissibilityRejected (re_OperationID x)
        (activity_string (ws_State status)) (rn_Actor r))
      else if re_Disposition x = Some ''RECOVERY_PENDING''
      then transact_now (DoResolvePreSendHold (re_OperationID x) (re_AttemptID x) ''RECOVERY_PENDING''
        (re_SessionID x) (re_Generation x) (activity_string (ws_State status)) [] (rn_Actor r))
      else succeed)"

definition held_otherwise :: "RecoveryExecution \<Rightarrow> bool" where
  "held_otherwise x \<longleftrightarrow> re_Disposition x \<noteq> None \<and> re_Disposition x \<noteq> Some ''RECOVERY_PENDING''"

text \<open>A transaction after which the report has the orchestrator pending.\<close>

definition then_pending :: "Report \<Rightarrow> call \<Rightarrow> sweep" where
  "then_pending rep p = and_then p (\<lambda>e. case e of Some x \<Rightarrow> stop_with rep x | None \<Rightarrow> go_on (pending rep))"

definition unobserved :: "Runner \<Rightarrow> RecoveryExecution \<Rightarrow> string \<Rightarrow> Report \<Rightarrow> ao_error \<Rightarrow> sweep" where
  "unobserved r x invk rep err =
     (let hold = (\<lambda>disposition. transact_now (DoRecordPreSendHold (re_OperationID x) disposition (rn_Actor r))) in
      if as_ProtocolError err \<noteq> None then
        (if re_DispatchStage x = DispatchBound then
           (if re_Disposition x = Some ''PRE_SEND_PROTOCOL_UNVERIFIED'' then go_on (pending rep)
            else then_pending rep (hold ''PRE_SEND_PROTOCOL_UNVERIFIED''))
         else stop_with rep (AOFailure err))
      else if errors_Is err ErrNotFound then
        (if re_DispatchStage x = DispatchBound
         then with_report rep (transact_or_fail (DoAtomicTerminalTransition (re_TaskID x) StateDispatched
           StateFailed ''AO session absent before send'' (re_AttemptID x) ''SESSION_ABSENT'') succeed)
         else with_report rep (transact_now (DoRecordRecoveryAbsent x (rn_Actor r))))
      else if held_otherwise x then go_on (pending rep)
      else if re_DispatchStage x = DispatchBound then then_pending rep (hold ''RECOVERY_PENDING'')
      else then_pending rep (transact_now (DoRecordPostSendOutage x (rn_Actor r) ''AO_UNAVAILABLE'' invk)))"

definition idle_after_dispatch :: "RecoveryExecution \<Rightarrow> WorkerStatus \<Rightarrow> bool" where
  "idle_after_dispatch x status \<longleftrightarrow>
     re_TaskState x = StateDispatched \<and> ws_ID status = re_SessionID x \<and>
     ws_TerminalGeneration status = re_Generation x \<and> \<not> ws_IsTerminated status \<and>
     ws_State status = ActivityStateIdle"

definition observed_post_send :: "Runner \<Rightarrow> RecoveryExecution \<Rightarrow> string \<Rightarrow> WorkerStatus \<Rightarrow> call" where
  "observed_post_send r x invk status =
     (let observe = (\<lambda>available. transact_now (DoObservePostSend x
            \<lparr>po_SessionID = ws_ID status, po_Generation = ws_TerminalGeneration status,
             po_Activity = activity_string (ws_State status), po_Terminated = ws_IsTerminated status,
             po_Absent = False, po_HandoffAvailable = available\<rparr> (rn_Actor r) invk)) in
      if idle_after_dispatch x status then
        (if \<not> rn_Handoff r then fail (Refused ''recovery: verified downstream handoff dependency required'')
         else Handoff x (\<lambda>a. case a of
           None \<Rightarrow> fail (Refused ''handoff availability unknown'')
         | Some available \<Rightarrow> observe available))
      else observe False)"

definition classifyExecution :: "Runner \<Rightarrow> RecoveryExecution \<Rightarrow> string \<Rightarrow> Report \<Rightarrow> sweep" where
  "classifyExecution r x invk rep =
     (if re_DispatchStage x = SendRequested
      then with_report rep (transact_now (DoRecordUnknownDelivery (re_OperationID x) (rn_Actor r)))
      else
      Observe (re_SessionID x) (\<lambda>obs.
      case obs of
        Inl err \<Rightarrow> unobserved r x invk rep err
      | Inr None \<Rightarrow> stop_with rep (Refused ''recovery: nil AO status'')
      | Inr (Some status) \<Rightarrow>
          if re_DispatchStage x = DispatchBound then with_report rep (classifyPreSend r x status)
          else with_report rep (observed_post_send r x invk status)))"

text \<open>A lost compare-and-set: another writer classified the execution, or nothing changed.\<close>

definition execution_changed ::
  "RecoveryExecution \<Rightarrow> DispatchOperation \<Rightarrow> Task \<Rightarrow> TaskAttempt \<Rightarrow> bool" where
  "execution_changed x op task attempt \<longleftrightarrow>
     t_State task \<noteq> re_TaskState x \<or> a_EndedAt attempt \<noteq> None \<or> d_Stage op \<noteq> re_DispatchStage x \<or>
     a_RecoveryDisposition attempt \<noteq> re_Disposition x \<or>
     d_ResolutionState op = Some ''DELIVERY_OUTCOME_UNKNOWN''"

definition executionWinner :: "RecoveryExecution \<Rightarrow> failure \<Rightarrow> Report \<Rightarrow> sweep" where
  "executionWinner x original rep =
     read_store (\<lambda>s. GetDispatchOperation s (re_OperationID x)) (\<lambda>r1. case r1 of
       Inl e \<Rightarrow> stop_with rep (Joined original (StoreFailure e)) | Inr op \<Rightarrow>
     if d_PairID op \<noteq> re_PairID x \<or> d_TaskID op \<noteq> re_TaskID x \<or> d_AttemptID op \<noteq> re_AttemptID x \<or>
       d_SessionID op \<noteq> re_SessionID x \<or> d_TerminalGeneration op \<noteq> re_Generation x
     then stop_with rep original
     else
     read_store (\<lambda>s. GetTask s (re_TaskID x)) (\<lambda>r2. case r2 of
       Inl e \<Rightarrow> stop_with rep (Joined original (StoreFailure e)) | Inr task \<Rightarrow>
     read_store (\<lambda>s. GetTaskAttempt s (re_AttemptID x)) (\<lambda>r3. case r3 of
       Inl e \<Rightarrow> stop_with rep (Joined original (StoreFailure e)) | Inr attempt \<Rightarrow>
     if a_ContractID attempt \<noteq> re_ContractID x \<or> a_SessionID attempt \<noteq> Some (re_SessionID x) \<or>
       a_TerminalGeneration attempt \<noteq> Some (re_Generation x) \<or> \<not> execution_changed x op task attempt
     then stop_with rep original
     else go_on (if a_RecoveryDisposition attempt = Some ''RECOVERY_PENDING'' then pending rep else rep))))"

section \<open>Classification of a stop\<close>

definition stop_outcome ::
  "StopStage \<Rightarrow> StopStage \<Rightarrow> StopResolutionState \<Rightarrow> WorkerStatus option \<Rightarrow> time \<Rightarrow> StopTerminalOutcome" where
  "stop_outcome expected nxt resolution status at =
     \<lparr>so_ExpectedStage = expected, so_Stage = nxt, so_Resolution = resolution, so_At = at,
      so_ObservedSessionID = (case status of None \<Rightarrow> [] | Some w \<Rightarrow> ws_ID w),
      so_ObservedGeneration = (case status of None \<Rightarrow> [] | Some w \<Rightarrow> ws_TerminalGeneration w),
      so_ObservedIsTerminated = (case status of None \<Rightarrow> False | Some w \<Rightarrow> ws_IsTerminated w)\<rparr>"

definition classifyStop :: "Runner \<Rightarrow> RecoveryStop \<Rightarrow> string \<Rightarrow> Report \<Rightarrow> sweep" where
  "classifyStop r x invk rep =
     (let oid = rs_OperationID x;
          commit = (\<lambda>expected nxt resolution status. with_report rep (transact_now (\<lambda>at.
            DoCommitStopOutcome oid (stop_outcome expected nxt resolution status at)))) in
      Observe (rs_SessionID x) (\<lambda>obs.
      case obs of
        Inl err \<Rightarrow>
          if errors_Is err ErrNotFound then commit (rs_Stage x) StopTargetAbsent StopResolutionTargetAbsent None
          else if rs_Stage x = StopCallSucceeded then
            read_store (\<lambda>s. GetStopOperation s oid) (\<lambda>r1. case r1 of
              Inl e \<Rightarrow> stop_with rep (StoreFailure e)
            | Inr stop \<Rightarrow>
                (case st_ConfirmationDeadlineAt stop of
                   None \<Rightarrow> stop_with rep (Refused ''recovery: confirmed call lacks persisted deadline'')
                 | Some deadline \<Rightarrow> Clock (\<lambda>now.
                     if \<not> now < deadline
                     then commit StopCallSucceeded StopCallSucceeded StopResolutionConfirmationTimeout None
                     else go_on (pending rep))))
          else go_on (pending rep)
      | Inr None \<Rightarrow> stop_with rep (Refused ''recovery: stop observation identity invalid'')
      | Inr (Some status) \<Rightarrow>
          if ws_ID status \<noteq> rs_SessionID x
          then stop_with rep (Refused ''recovery: stop observation identity invalid'')
          else if ws_TerminalGeneration status \<noteq> rs_Generation x
          then commit (rs_Stage x) (rs_Stage x) StopResolutionGenerationMismatch (Some status)
          else if rs_Stage x = StopRequested then
            (if ws_IsTerminated status
             then commit StopRequested StopRequested StopResolutionEffectUnprovenAlreadyTerminated (Some status)
             else with_report rep (transact_now (DoClassifyAbandonedStopAlive oid (ws_ID status)
               (ws_TerminalGeneration status) (rn_Actor r) invk)))
          else
            read_store (\<lambda>s. GetStopOperation s oid) (\<lambda>r1. case r1 of
              Inl e \<Rightarrow> stop_with rep (StoreFailure e)
            | Inr stop \<Rightarrow> Clock (\<lambda>now.
                let open_deadline = (case st_ConfirmationDeadlineAt stop of None \<Rightarrow> False | Some d \<Rightarrow> now < d);
                    commit_at = (\<lambda>nxt resolution. with_report rep (transact_or_fail (DoCommitStopOutcome oid
                      (stop_outcome StopCallSucceeded nxt resolution (Some status) now)) succeed)) in
                if ws_IsTerminated status \<and> open_deadline
                then commit_at StopTerminationConfirmed StopResolutionTerminationConfirmed
                else if open_deadline then go_on (pending rep)
                else commit_at StopCallSucceeded StopResolutionConfirmationTimeout))))"

definition stopWinner :: "RecoveryStop \<Rightarrow> failure \<Rightarrow> call" where
  "stopWinner x original =
     read_store (\<lambda>s. GetStopOperation s (rs_OperationID x)) (\<lambda>r. case r of
       Inl e \<Rightarrow> fail (Joined original (StoreFailure e))
     | Inr op \<Rightarrow>
         if st_SessionID op \<noteq> rs_SessionID x \<or> st_TerminalGeneration op \<noteq> rs_Generation x \<or>
           st_Purpose op \<noteq> rs_Purpose x
         then fail original
         else if st_ResolutionState op = StopResolutionInFlight \<and> st_Stage op = rs_Stage x then fail original
         else succeed)"

section \<open>The startup sweep\<close>

text \<open>
  A classification that loses a compare-and-set asks for the winner; \<open>on_conflict\<close> is that answer.
\<close>

definition or_winner :: "sweep \<Rightarrow> (failure \<Rightarrow> Report \<Rightarrow> sweep) \<Rightarrow> sweep" where
  "or_winner p winner =
     and_then p (\<lambda>(rep, e). case e of
       None \<Rightarrow> go_on rep
     | Some err \<Rightarrow> if is_store_error err ErrStateConflict then winner err rep else stop_with rep err)"

definition counted :: "sweep \<Rightarrow> sweep" where
  "counted p = and_ok p (\<lambda>rep. go_on (classified rep))"

definition sweep_restore :: "Runner \<Rightarrow> string \<Rightarrow> Report \<Rightarrow> sweep" where
  "sweep_restore r oid rep =
     check_ctx rep (counted (or_winner
       (with_report rep (transact_now (DoClassifyInterruptedRestore oid (rn_Actor r))))
       (\<lambda>err rep. read_store (\<lambda>s. GetPairRestoreOperation s oid) (\<lambda>w. case w of
          Inl _ \<Rightarrow> stop_with rep err
        | Inr op \<Rightarrow> if ro_ResolutionState op \<noteq> RestoreInFlight then go_on rep else stop_with rep err))))"

definition sweep_provision :: "Runner \<Rightarrow> string \<Rightarrow> Report \<Rightarrow> sweep" where
  "sweep_provision r oid rep =
     check_ctx rep (counted (or_winner
       (with_report rep (transact_now (DoFailProvisioningAtStartup oid (rn_Actor r))))
       (\<lambda>err rep. read_store (\<lambda>s. GetPairProvisioningOperation s oid) (\<lambda>w. case w of
          Inl _ \<Rightarrow> stop_with rep err
        | Inr op \<Rightarrow> if pv_Stage op \<noteq> ProvisionRequested then go_on rep else stop_with rep err))))"

definition sweep_execution :: "Runner \<Rightarrow> string \<Rightarrow> RecoveryExecution \<Rightarrow> Report \<Rightarrow> sweep" where
  "sweep_execution r invk x rep =
     check_ctx rep (counted (or_winner (classifyExecution r x invk rep) (executionWinner x)))"

definition sweep_stop :: "Runner \<Rightarrow> string \<Rightarrow> RecoveryStop \<Rightarrow> Report \<Rightarrow> sweep" where
  "sweep_stop r invk x rep =
     check_ctx rep (counted (or_winner (classifyStop r x invk rep)
       (\<lambda>err rep. with_report rep (stopWinner x err))))"

definition sweep_blocked :: "RecoveryExecution \<Rightarrow> Report \<Rightarrow> sweep" where
  "sweep_blocked x rep =
     check_ctx rep (counted (or_winner
       (with_report rep (transact_or_fail (DoAtomicAttemptClosureTransition (re_TaskID x) (re_AttemptID x)
          ''AO_BLOCKED_ESCALATED'') succeed))
       (\<lambda>err rep. read_store (\<lambda>s. GetTask s (re_TaskID x)) (\<lambda>t.
          read_store (\<lambda>s. GetTaskAttempt s (re_AttemptID x)) (\<lambda>a.
          case (t, a) of
            (Inr task, Inr attempt) \<Rightarrow>
              if t_State task = StateHumanRequired \<and> a_EndedAt attempt \<noteq> None \<and>
                a_RecoveryDisposition attempt = Some ''AO_BLOCKED_ESCALATED''
              then go_on rep else stop_with rep err
          | _ \<Rightarrow> stop_with rep err)))))"

definition unowned :: "string list \<Rightarrow> (RecoveryExecution \<Rightarrow> bool) \<Rightarrow> RecoveryExecution list \<Rightarrow> RecoveryExecution list" where
  "unowned owned P xs = filter (\<lambda>x. re_AttemptID x \<notin> set owned \<and> P x) xs"

text \<open>The second half: the sent executions, read again, and the completion.\<close>

definition sweep_sent :: "Runner \<Rightarrow> string \<Rightarrow> string list \<Rightarrow> Report \<Rightarrow> sweep" where
  "sweep_sent r invk owned rep =
     read_store ListRecoverySnapshot (\<lambda>l. case l of Inl e \<Rightarrow> stop_with rep (StoreFailure e) | Inr latest \<Rightarrow>
     and_ok (each (sweep_execution r invk)
       (unowned owned (\<lambda>x. re_DispatchStage x = SendConfirmed) (sn_Executions latest)) rep) (\<lambda>rep.
     check_ctx rep (
     read_store (\<lambda>s. Inr (ListOpenConfirmedWithoutBudget s)) (\<lambda>l. case l of
       Inl e \<Rightarrow> stop_with rep (StoreFailure e)
     | Inr legacy \<Rightarrow>
         if legacy \<noteq> []
         then stop_with rep (Refused ''recovery: open SEND_CONFIRMED attempts lack immutable execution budget'')
         else and_ok (with_report rep (transact_now (DoRecordRecoverySweepEvent invk (rn_Actor r)
             ''STARTUP_RECOVERY_SWEEP_COMPLETED'')))
           (\<lambda>rep. go_on (rep\<lparr>rp_Complete := True\<rparr>))))))"

definition sweep_snapshot :: "Runner \<Rightarrow> string \<Rightarrow> RecoverySnapshot \<Rightarrow> Report \<Rightarrow> sweep" where
  "sweep_snapshot r invk snap rep0 =
     (let owned = sn_StopOwnedAttemptIDs snap in
      and_ok (each (sweep_restore r) (sn_RestoreIDs snap) rep0) (\<lambda>rep.
      and_ok (each (sweep_provision r) (sn_ProvisionIDs snap) rep) (\<lambda>rep.
      and_ok (each (sweep_execution r invk)
        (unowned owned (\<lambda>x. re_DispatchStage x \<noteq> SendConfirmed) (sn_Executions snap)) rep) (\<lambda>rep.
      and_ok (each (sweep_stop r invk) (sn_StopOperations snap) rep) (\<lambda>rep.
      and_ok (each sweep_blocked (sn_Blocked snap) rep) (sweep_sent r invk owned))))))"

definition empty_report :: Report where
  "empty_report = \<lparr>rp_Complete = False, rp_PendingAO = False, rp_Classified = 0\<rparr>"

text \<open>
  \<open>Run\<close>. The deferred release of the scope makes a completed report incomplete when it fails. The
  second argument tells whether the runner has an active poller, which is stopped first. Whether
  another \<open>Run\<close> is active is asked, since other goroutines change it.
\<close>

definition Run_scoped :: "Runner \<Rightarrow> sweep" where
  "Run_scoped r =
     check_ctx empty_report (
     Draw (\<lambda>i. case i of
       None \<Rightarrow> stop_with empty_report (Refused ''recovery: empty invocation ID'')
     | Some invk \<Rightarrow>
         if invk = [] then stop_with empty_report (Refused ''recovery: empty invocation ID'')
         else
         and_ok (with_report empty_report (transact_now (DoRecordRecoverySweepEvent invk (rn_Actor r)
           ''STARTUP_RECOVERY_SWEEP_STARTED''))) (\<lambda>rep.
         read_store ListRecoverySnapshot (\<lambda>l. case l of
           Inl e \<Rightarrow> stop_with rep (StoreFailure e)
         | Inr snap \<Rightarrow> sweep_snapshot r invk snap rep))))"

definition Run :: "Runner \<Rightarrow> bool \<Rightarrow> sweep" where
  "Run r poller =
     (if \<not> rn_Store r \<or> \<not> rn_AO r \<or> \<not> rn_Host r \<or> rn_ActivityPollInterval r \<le> 0 \<or>
        rn_ExecutionDeadline r \<le> 0 \<or> rn_Actor r = []
      then stop_with empty_report (Refused ''recovery: trusted host, Store, AO and injected policies required'')
      else
      let scoped = (\<lambda>p. case p of Some e \<Rightarrow> stop_with empty_report e | None \<Rightarrow>
            Permit [] ''RECOVERY_SCAN'' (\<lambda>g.
            case g of
              None \<Rightarrow> stop_with empty_report (Refused ''host: exclusive scope refused'')
            | Some False \<Rightarrow> stop_with empty_report (Refused ''recovery: host returned nil exclusive scope'')
            | Some True \<Rightarrow> and_then (Run_scoped r) (\<lambda>(rep, e).
                Release (\<lambda>ok.
                  if ok then Return (rep, e)
                  else Return (rep\<lparr>rp_Complete := False\<rparr>, join_errors e (Some (Refused ''release''))))))) in
      check_ctx empty_report (
      Ask ''runner not running'' (\<lambda>run. case run of
        Some _ \<Rightarrow> stop_with empty_report (Refused ''recovery: Run already active in this host instance'')
      | None \<Rightarrow> if poller then Ask ''poller.Stop'' scoped else scoped None)))"

end
