(* ===== verification/Recovery_Ticks.thy ===== *)
theory Recovery_Ticks
  imports Recovery_Runner
begin

text \<open>
  The other entries of \<open>internal/recovery\<close>: the legacy maintenance of \<open>scanner.go\<close>, one tick of
  \<open>poller.go\<close> and one tick of \<open>timeout_monitor.go\<close>, as programs; and the gate of the runner, which
  keeps them apart, as a machine. Whether the gate admits a tick is asked, since other goroutines
  change it; two pointers to the same store are a flag.
\<close>

section \<open>Legacy maintenance\<close>

definition withLegacyMaintenance :: "Runner \<Rightarrow> string \<Rightarrow> string \<Rightarrow> call \<Rightarrow> call" where
  "withLegacyMaintenance r pairID purpose body =
     (if \<not> rn_Store r \<or> \<not> rn_Host r \<or> \<not> rn_Operator r \<or> pairID = []
      then fail (Refused ''recovery: trusted maintenance host and operator boundary required'')
      else if \<not> rn_MaintenanceHost r then fail (Refused ''recovery: trusted maintenance scope unavailable'')
      else
      Ask ''runner not running'' (\<lambda>run. case run of
        Some _ \<Rightarrow> fail (Refused ''recovery: Run owns classification; maintenance excluded'')
      | None \<Rightarrow>
      Permit pairID purpose (\<lambda>g.
      case g of
        None \<Rightarrow> fail (Refused ''host: maintenance scope refused'')
      | Some False \<Rightarrow> fail (Refused ''recovery: maintenance scope missing'')
      | Some True \<Rightarrow> and_release (
          Ask ''ctx.Err'' (\<lambda>d. case d of Some e \<Rightarrow> fail e | None \<Rightarrow> body)))))"

definition Runner_BindLegacyBudget :: "Runner \<Rightarrow> string \<Rightarrow> string \<Rightarrow> ExecutionBudgetPolicy \<Rightarrow> call" where
  "Runner_BindLegacyBudget r attemptID evidenceRef policy =
     (if \<not> rn_Store r then fail (Refused ''recovery: Store required'')
      else
      read_store (\<lambda>s. GetTaskAttempt s attemptID) (\<lambda>r1. case r1 of Inl e \<Rightarrow> fail (StoreFailure e) | Inr attempt \<Rightarrow>
      read_store (\<lambda>s. GetTask s (a_TaskID attempt)) (\<lambda>r2. case r2 of Inl e \<Rightarrow> fail (StoreFailure e) | Inr task \<Rightarrow>
      case (a_SessionID attempt, a_TerminalGeneration attempt, a_EndedAt attempt) of
        (Some sid, Some gen, None) \<Rightarrow>
          let scope = ''LEGACY_EXECUTION_BUDGET_RECONCILIATION'' in
          withLegacyMaintenance r (t_PairID task) ''LEGACY_BUDGET_BINDING'' (
          Verify (t_PairID task, sid, gen, scope) (\<lambda>v.
          case v of
            None \<Rightarrow> fail (Refused ''verify operator principal'')
          | Some (princ, verified) \<Rightarrow>
              if \<not> verified \<or> princ = []
              then fail (Refused ''recovery: verified historical-policy principal required'')
              else transact_now (DoBindLegacyExecutionBudget attemptID princ scope evidenceRef policy)))
      | _ \<Rightarrow> fail (StoreFailure ErrAttemptLineageMismatch))))"

definition live_target :: "StopOperation \<Rightarrow> string \<Rightarrow> Task \<Rightarrow> TaskAttempt \<Rightarrow> bool" where
  "live_target op cid task attempt \<longleftrightarrow>
     t_State task = StateRunning \<and> t_PairID task = st_PairID op \<and>
     t_CurrentAttempt task = a_AttemptNumber attempt \<and> a_EndedAt attempt = None \<and>
     a_ContractID attempt = cid \<and> a_SessionID attempt = Some (st_SessionID op) \<and>
     a_TerminalGeneration attempt = Some (st_TerminalGeneration op)"

definition StopLegacyWithoutBudget ::
  "Runner \<Rightarrow> StopCoordinator \<Rightarrow> bool \<Rightarrow> StopOperation \<Rightarrow> call" where
  "StopLegacyWithoutBudget r coordinator same_store op =
     (if \<not> rn_Store r \<or> \<not> same_store
      then fail (Refused ''recovery: exact manual live stop required'')
      else
      case (st_TaskID op, st_AttemptID op, st_ContractID op, st_Purpose op) of
        (Some tid, Some aid, Some cid, RunningAttemptStop) \<Rightarrow>
          let scope = ''MANUAL_STOP_RECONCILIATION'' in
          withLegacyMaintenance r (st_PairID op) scope (
          read_store (\<lambda>s. GetTask s tid) (\<lambda>r1. case r1 of Inl e \<Rightarrow> fail (StoreFailure e) | Inr task \<Rightarrow>
          read_store (\<lambda>s. GetTaskAttempt s aid) (\<lambda>r2. case r2 of Inl e \<Rightarrow> fail (StoreFailure e) | Inr attempt \<Rightarrow>
          if \<not> live_target op cid task attempt then fail (StoreFailure ErrAttemptLineageMismatch)
          else
          read_store (\<lambda>s. GetExecutionBudget s aid) (\<lambda>r3. case r3 of
            Inr _ \<Rightarrow> fail (StoreFailure ErrStateConflict)
          | Inl e \<Rightarrow>
              if e \<noteq> ErrOperationNotFound then fail (StoreFailure e)
              else
              Verify (st_PairID op, st_SessionID op, st_TerminalGeneration op, scope) (\<lambda>v.
              case v of
                None \<Rightarrow> fail (Refused ''verify operator principal'')
              | Some (princ, verified) \<Rightarrow>
                  if \<not> verified \<or> princ = []
                  then fail (Refused ''recovery: verified manual-stop principal required'')
                  else Start coordinator (op\<lparr>st_Actor := princ\<rparr>))))))
      | _ \<Rightarrow> fail (Refused ''recovery: exact manual live stop required''))"

section \<open>One tick of the poller\<close>

record Poller =
  pl_Store :: bool
  pl_AO :: bool
  pl_Owner :: bool
  pl_SameStore :: bool
  pl_Interval :: int
  pl_Actor :: string
  pl_TestFailHook :: bool
  pl_Handoff :: bool

text \<open>The runner that a tick makes up for its classifications has only these parts.\<close>

definition observer_of :: "string \<Rightarrow> bool \<Rightarrow> Runner" where
  "observer_of actor handoff =
     \<lparr>rn_Store = True, rn_AO = True, rn_Host = False, rn_MaintenanceHost = False, rn_TimeoutAdmission = False,
      rn_Operator = False, rn_Handoff = handoff, rn_ActivityPollInterval = 0, rn_ExecutionDeadline = 0,
      rn_Actor = actor\<rparr>"

definition poll_stop :: "Runner \<Rightarrow> RecoveryStop \<Rightarrow> Report \<Rightarrow> sweep" where
  "poll_stop r x rep =
     check_ctx rep (or_winner (classifyStop r x ''poller'' empty_report)
       (\<lambda>err rep. with_report rep (stopWinner x err)))"

definition poll_execution :: "Runner \<Rightarrow> RecoveryExecution \<Rightarrow> Report \<Rightarrow> sweep" where
  "poll_execution r x rep =
     check_ctx rep (
     if re_DispatchStage x \<noteq> SendConfirmed \<and> re_DispatchStage x \<noteq> DispatchBound then go_on rep
     else or_winner (classifyExecution r x ''poller'' empty_report) (executionWinner x))"

definition poll_snapshot :: "Runner \<Rightarrow> RecoverySnapshot \<Rightarrow> sweep" where
  "poll_snapshot r snap =
     and_ok (each (poll_stop r) (filter (\<lambda>x. rs_Stage x = StopCallSucceeded) (sn_StopOperations snap))
       empty_report) (\<lambda>rep.
     each (poll_execution r) (unowned (sn_StopOwnedAttemptIDs snap) (\<lambda>x. True) (sn_Executions snap)) rep)"

text \<open>The ticks return the error only.\<close>

definition only_error :: "sweep \<Rightarrow> call" where
  "only_error p = and_then p (\<lambda>(_, e). Return e)"

definition PollOnce :: "Poller \<Rightarrow> call" where
  "PollOnce p = only_error
     (if \<not> pl_Store p \<or> \<not> pl_AO p \<or> \<not> pl_Owner p \<or> pl_Interval p \<le> 0 \<or> pl_Actor p = []
      then stop_with empty_report (Refused ''recovery: poller dependencies and injected cadence required'')
      else if \<not> pl_SameStore p
      then stop_with empty_report (Refused ''recovery: poller Store differs from completed runner'')
      else
      Ask ''tick admitted'' (\<lambda>g. case g of
        Some _ \<Rightarrow> stop_with empty_report (Refused ''recovery: poll tick has no active ownership boundary'')
      | None \<Rightarrow>
      let poll = read_store ListRecoverySnapshot (\<lambda>l. case l of
            Inl e \<Rightarrow> stop_with empty_report (StoreFailure e)
          | Inr snap \<Rightarrow> poll_snapshot (observer_of (pl_Actor p) (pl_Handoff p)) snap) in
      check_ctx empty_report (
      if pl_TestFailHook p
      then Ask ''TestFailHook'' (\<lambda>t. case t of Some e \<Rightarrow> stop_with empty_report e | None \<Rightarrow> poll)
      else poll)))"

section \<open>One tick of the timeout monitor\<close>

record TimeoutMonitor =
  tm_Owner :: Runner
  tm_Stop :: StopCoordinator
  tm_SameStore :: bool
  tm_Interval :: int
  tm_Actor :: string

definition timeoutOperationID :: "string \<Rightarrow> string" where
  "timeoutOperationID drawn = ''timeout-'' @ drawn"

definition timeout_candidate :: "string list \<Rightarrow> RecoveryExecution \<Rightarrow> bool" where
  "timeout_candidate owned x \<longleftrightarrow>
     re_TaskState x = StateRunning \<and> re_DispatchStage x = SendConfirmed \<and> re_AttemptID x \<notin> set owned \<and>
     (re_Disposition x = None \<or> re_Disposition x = Some ''AO_WAITING_INPUT_OBSERVED'')"

definition timeout_stop :: "TimeoutMonitor \<Rightarrow> RecoveryExecution \<Rightarrow> string \<Rightarrow> StopOperation" where
  "timeout_stop m x oid =
     \<lparr>st_OperationID = oid, st_Purpose = RunningAttemptStop, st_PairID = re_PairID x,
      st_TaskID = Some (re_TaskID x), st_ContractID = Some (re_ContractID x),
      st_AttemptID = Some (re_AttemptID x), st_SessionID = re_SessionID x,
      st_TerminalGeneration = re_Generation x, st_Stage = OtherStopStage [], st_Actor = tm_Actor m,
      st_RequestedAt = 0, st_CallCompletedAt = None, st_ConfirmationDeadlineAt = None,
      st_TerminationConfirmedAt = None, st_ResolvedAt = None, st_ResolutionState = OtherStopResolution [],
      st_RestoreOperationID = None, st_RestorePrincipal = None, st_InitiatingFailureReason = None\<rparr>"

text \<open>What the tick does with an error of the stop call.\<close>

definition timeout_observe :: "TimeoutMonitor \<Rightarrow> RecoveryExecution \<Rightarrow> failure \<Rightarrow> Report \<Rightarrow> sweep" where
  "timeout_observe m x e rep =
     and_then (or_winner (classifyExecution (observer_of (tm_Actor m) (rn_Handoff (tm_Owner m))) x
         ''timeout-monitor'' empty_report) (executionWinner x))
       (\<lambda>(_, o1). case o1 of Some y \<Rightarrow> stop_with rep (Joined e y) | None \<Rightarrow> go_on rep)"

definition timeout_lost :: "RecoveryExecution \<Rightarrow> failure \<Rightarrow> Report \<Rightarrow> sweep" where
  "timeout_lost x e rep =
     read_store ListRecoverySnapshot (\<lambda>l. case l of
       Inl re \<Rightarrow> stop_with rep (Joined e (StoreFailure re))
     | Inr fresh \<Rightarrow>
         if re_AttemptID x \<in> set (sn_StopOwnedAttemptIDs fresh) then go_on rep
         else
         read_store (\<lambda>s. GetTaskAttempt s (re_AttemptID x)) (\<lambda>a.
         read_store (\<lambda>s. GetTask s (re_TaskID x)) (\<lambda>t.
         case (a, t) of
           (Inr attempt, Inr task) \<Rightarrow>
             if a_EndedAt attempt \<noteq> None \<and> (t_State task = StateFailed \<or> t_State task = StateHumanRequired)
             then go_on rep else stop_with rep e
         | _ \<Rightarrow> stop_with rep e)))"

definition timeout_failed :: "TimeoutMonitor \<Rightarrow> RecoveryExecution \<Rightarrow> failure \<Rightarrow> Report \<Rightarrow> sweep" where
  "timeout_failed m x e rep =
     (if is_refusal e ErrTimeoutPreflightUnavailable \<or> is_refusal e ErrTimeoutPreflightInadmissible
      then timeout_observe m x e rep
      else if is_store_error e ErrStateConflict \<or> is_store_error e ErrAttemptLineageMismatch
      then timeout_lost x e rep
      else stop_with rep e)"

definition tick_execution :: "TimeoutMonitor \<Rightarrow> string list \<Rightarrow> RecoveryExecution \<Rightarrow> Report \<Rightarrow> sweep" where
  "tick_execution m owned x rep =
     check_ctx rep (
     if \<not> timeout_candidate owned x then go_on rep
     else
     read_store (\<lambda>s. GetExecutionBudget s (re_AttemptID x)) (\<lambda>b. case b of
       Inl e \<Rightarrow> stop_with rep (Wrapped ''recovery: budget unavailable'' (StoreFailure e))
     | Inr budget \<Rightarrow> Clock (\<lambda>now.
         if now < b_DeadlineAt budget then go_on rep
         else Draw (\<lambda>drawn. case drawn of
           None \<Rightarrow> stop_with rep (Refused ''crypto/rand'')
         | Some bytes \<Rightarrow>
             and_then (StartTimeout ((tm_Stop m)\<lparr>sc_TimeoutHost := True\<rparr>)
               (timeout_stop m x (timeoutOperationID bytes)))
               (\<lambda>r. case r of None \<Rightarrow> go_on rep | Some e \<Rightarrow> timeout_failed m x e rep)))))"

definition Tick :: "TimeoutMonitor \<Rightarrow> call" where
  "Tick m = only_error
     (if \<not> sc_Store (tm_Stop m) \<or> \<not> sc_AO (tm_Stop m) \<or> \<not> tm_SameStore m \<or> \<not> rn_Host (tm_Owner m) \<or>
        tm_Interval m \<le> 0 \<or> tm_Actor m = []
      then stop_with empty_report (Refused ''recovery: timeout monitor dependencies required'')
      else if \<not> rn_TimeoutAdmission (tm_Owner m)
      then stop_with empty_report (Refused ''recovery: shared host timeout admission unavailable'')
      else
      Ask ''tick admitted'' (\<lambda>g. case g of
        Some _ \<Rightarrow> stop_with empty_report
          (Refused ''recovery: timeout monitor requires completed startup classification'')
      | None \<Rightarrow>
      check_ctx empty_report (
      read_store ListRecoverySnapshot (\<lambda>l. case l of
        Inl e \<Rightarrow> stop_with empty_report (StoreFailure e)
      | Inr snap \<Rightarrow>
          each (tick_execution m (sn_StopOwnedAttemptIDs snap)) (sn_Executions snap) empty_report))))"

section \<open>The gate\<close>

text \<open>
  The flags \<open>running\<close> and \<open>ready\<close> of the runner and its lock \<open>pollAccess\<close>, as the entries change them:
  \<open>Run\<close> enters, takes the lock, gives it back and leaves with its result; a tick holds the lock shared
  and looks at the flags; the maintenance invalidates, takes the lock and looks at \<open>running\<close>. The
  deferred statements of \<open>Run\<close> give the lock back before they set the flags.
\<close>

record gate =
  g_running :: bool
  g_ready :: bool
  g_writer :: bool
  g_readers :: nat

datatype gate_action =
    RunEnter | RunLock | RunUnlock | RunLeave Report "failure option"
  | TickLock | TickUnlock | Invalidate | MaintenanceLock | MaintenanceUnlock

definition invalidate :: "gate \<Rightarrow> gate" where
  "invalidate g = g\<lparr>g_ready := False\<rparr>"

definition tick_admitted :: "gate \<Rightarrow> bool" where
  "tick_admitted g \<longleftrightarrow> g_ready g \<and> \<not> g_running g"

fun gate_step :: "gate_action \<Rightarrow> gate \<Rightarrow> gate option" where
  "gate_step RunEnter g = (if g_running g then None else Some (g\<lparr>g_running := True, g_ready := False\<rparr>))"
| "gate_step RunLock g =
     (if g_writer g \<or> g_readers g \<noteq> 0 then None else Some (g\<lparr>g_writer := True\<rparr>))"
| "gate_step RunUnlock g = (if g_writer g then Some (g\<lparr>g_writer := False\<rparr>) else None)"
| "gate_step (RunLeave rep e) g =
     (if g_running g then Some (g\<lparr>g_running := False, g_ready := (e = None \<and> rp_Complete rep)\<rparr>) else None)"
| "gate_step TickLock g = (if g_writer g then None else Some (g\<lparr>g_readers := g_readers g + 1\<rparr>))"
| "gate_step TickUnlock g = (if g_readers g = 0 then None else Some (g\<lparr>g_readers := g_readers g - 1\<rparr>))"
| "gate_step Invalidate g = Some (invalidate g)"
| "gate_step MaintenanceLock g =
     (if g_writer g \<or> g_readers g \<noteq> 0 then None else Some (g\<lparr>g_writer := True\<rparr>))"
| "gate_step MaintenanceUnlock g = (if g_writer g then Some (g\<lparr>g_writer := False\<rparr>) else None)"

fun gate_steps :: "gate_action list \<Rightarrow> gate \<Rightarrow> gate option" where
  "gate_steps [] g = Some g"
| "gate_steps (a # as) g = Option.bind (gate_step a g) (gate_steps as)"

definition initial_gate :: gate where
  "initial_gate = \<lparr>g_running = False, g_ready = False, g_writer = False, g_readers = 0\<rparr>"

text \<open>
  A tick is admitted only while no run is under way, and the lock is exclusive. An \<open>invalidate\<close> does
  not outlive a run that overlaps it: the run that is already entered sets \<open>ready\<close> when it leaves, and
  the maintenance that invalidated then takes the lock with the gate open.
\<close>

lemma gate_step_keeps:
  "gate_step a g = Some g' \<Longrightarrow> (g_ready g \<longrightarrow> \<not> g_running g) \<and> (g_writer g \<longrightarrow> g_readers g = 0) \<Longrightarrow>
     (g_ready g' \<longrightarrow> \<not> g_running g') \<and> (g_writer g' \<longrightarrow> g_readers g' = 0)"
  by (cases a) (auto simp: invalidate_def split: if_splits)

lemma gate_steps_keep:
  "gate_steps as g = Some g' \<Longrightarrow> (g_ready g \<longrightarrow> \<not> g_running g) \<and> (g_writer g \<longrightarrow> g_readers g = 0) \<Longrightarrow>
     (g_ready g' \<longrightarrow> \<not> g_running g') \<and> (g_writer g' \<longrightarrow> g_readers g' = 0)"
proof (induction as arbitrary: g)
  case (Cons a as)
  then obtain h where "gate_step a g = Some h" "gate_steps as h = Some g'" by (auto split: bind_splits)
  with Cons.IH [of h] gate_step_keeps [of a g h] Cons.prems(2) show ?case by blast
qed simp

lemma run_overtakes_invalidate:
  "gate_steps [RunEnter, RunLock, Invalidate, RunUnlock, RunLeave (empty_report\<lparr>rp_Complete := True\<rparr>) None,
      MaintenanceLock] initial_gate =
     Some \<lparr>g_running = False, g_ready = True, g_writer = True, g_readers = 0\<rparr>"
  by (simp add: initial_gate_def invalidate_def)

end
