(* ===== verification/Coordinator_Guarantees.thy ===== *)
theory Coordinator_Guarantees
  imports Protocol_Guarantees Store_Guarantees Dispatch_Coordinator Recovery_Ticks
begin

text \<open>
  What the coordinators do to the outside world, over every run: any answer of the store, the
  orchestrator and the operator boundary, and any transactions of other processes in between.
  The monitors of this theory are instances of the locale of the same name.
\<close>

section \<open>Traces\<close>

definition effects :: "event list \<Rightarrow> effect list" where
  "effects tr = List.map_filter (\<lambda>ev. case ev of Did x \<Rightarrow> Some x | _ \<Rightarrow> None) tr"

lemma effects_simps [simp]:
  "effects [] = []"
  "effects (Did x # tr) = x # effects tr"
  "effects (Acked c # tr) = effects tr"
  "effects (Quiet # tr) = effects tr"
  "effects (tr @ tr') = effects tr @ effects tr'"
  by (simp_all add: effects_def map_filter_def)

text \<open>An acknowledged transaction was committed, on a database from which the present one follows.\<close>

lemma runs_acked:
  assumes "runs sha p0 s0 tr p s" and "Acked c \<in> set tr" and "reachable sha s0"
  shows "\<exists>h s1 s2. reachable sha s1 \<and> h_sha256 h = sha \<and> exec h c s1 = Inr s2 \<and> later sha s2 s"
  using assms
proof (induction rule: runs.induct)
  case (own tr p s ev p' s')
  show ?case
  proof (cases "Acked c \<in> set tr")
    case True
    with own show ?thesis by (blast intro: later_trans step_later)
  next
    case False
    with own.prems(1) have "ev = Acked c" by simp
    with own.hyps(2) obtain h where "exec h c s = Inr s'" "h_sha256 h = sha" by (auto elim: step.cases)
    moreover have "reachable sha s" using own.hyps(1) own.prems(2) by (blast intro: reachable_later runs_later)
    ultimately show ?thesis by (blast intro: later.now)
  qed
qed (simp, blast intro: later.next_call)

lemmas program_simps = fail_def succeed_def transact_or_fail_def Let_def

lemma runs_first:
  assumes "step sha p s ev p1 s1" "runs sha p1 s1 tr p' s'"
  shows "runs sha p s (ev # tr) p' s'"
  using assms(2)
proof (induction rule: runs.induct)
  case start
  show ?case using runs.own [OF runs.start assms(1)] by simp
next
  case (own tr p2 s2 ev2 p3 s3)
  then show ?case using runs.own by fastforce
next
  case (other tr p2 s2 h c s3)
  then show ?case by (blast intro: runs.other)
qed

section \<open>One-use effects\<close>

text \<open>
  The monitor of a call that may have one effect \<open>x\<close>, once, after an acknowledged transaction
  that \<open>intent\<close> recognises.
\<close>

datatype use = NoIntent | Intended | Used

fun watch_once :: "(command \<Rightarrow> bool) \<Rightarrow> effect \<Rightarrow> use \<Rightarrow> event \<Rightarrow> use option" where
  "watch_once intent x q Quiet = Some q"
| "watch_once intent x q (Acked c) =
     (if intent c then (if q = NoIntent then Some Intended else None) else Some q)"
| "watch_once intent x q (Did y) = (if q = Intended \<and> y = x then Some Used else None)"

interpretation once: monitor "watch_once intent x" for intent x
  by unfold_locales simp

abbreviation (input) "anyhow \<equiv> (\<lambda>_ _. True)"

lemma once_watched:
  "once.watches intent x NoIntent tr = Some q \<Longrightarrow>
     (case q of
        NoIntent \<Rightarrow> effects tr = []
      | Intended \<Rightarrow> effects tr = [] \<and> (\<exists>i. intent i \<and> Acked i \<in> set tr)
      | Used \<Rightarrow> effects tr = [x] \<and>
          (\<exists>i before after. tr = before @ Acked i # after \<and> intent i \<and> effects before = []))"
proof (induction tr arbitrary: q rule: rev_induct)
  case (snoc ev tr)
  obtain q1 where q1: "once.watches intent x NoIntent tr = Some q1" "watch_once intent x q1 ev = Some q"
    using snoc.prems by (auto simp: once.watches_snoc bind_eq_Some_conv)
  note IH = snoc.IH [OF q1(1)]
  show ?case
  proof (cases ev)
    case Quiet
    with q1(2) IH show ?thesis by (auto split: use.splits) (metis append_Cons append_assoc)
  next
    case (Acked c)
    with q1(2) IH show ?thesis by (auto split: use.splits if_splits)
  next
    case (Did y)
    with q1(2) IH show ?thesis by (auto split: use.splits if_splits dest!: split_list) blast
  qed
qed simp

lemma runs_once:
  assumes "runs sha p0 s0 tr p s" and "once.ensures intent x p0 anyhow NoIntent"
  shows "effects tr = [] \<or>
    effects tr = [x] \<and> (\<exists>i before after. tr = before @ Acked i # after \<and> intent i \<and> effects before = [])"
proof -
  obtain q where "once.watches intent x NoIntent tr = Some q"
    using once.runs_ensure [OF assms] by blast
  then show ?thesis using once_watched by (cases q) fastforce+
qed

section \<open>Sending\<close>

definition send_intent :: "string \<Rightarrow> command \<Rightarrow> bool" where
  "send_intent oid c \<longleftrightarrow> (case c of DoRecordSendRequested o1 a b d e f g \<Rightarrow> o1 = oid | _ \<Rightarrow> False)"

lemma send_intent_simps [simp]:
  "send_intent oid (DoRecordSendRequested o1 a b d e f g) \<longleftrightarrow> o1 = oid"
  "\<not> send_intent oid (DoRecordSendConfirmed o1 a1 b1 c1 d1)"
  "\<not> send_intent oid (DoRecordUnknownDelivery o1 a2 b2)"
  "\<not> send_intent oid (DoPrepareBoundDispatch a3 b3 c3 d3 e3 f3)"
  "\<not> send_intent oid (DoRecordPreSendHold a4 b4 c4 d4)"
  "\<not> send_intent oid (DoRecordPreSendAdmissibilityRejected a5 b5 c5 d5)"
  "\<not> send_intent oid (DoAtomicTerminalTransition a6 b6 c6 d6 e6 f6)"
  by (simp_all add: send_intent_def)

lemma contain_ensures: "once.ensures (send_intent oid) x (containAmbiguousSend c oid' aid actor cause) anyhow q"
  by (simp add: containAmbiguousSend_def read_tuple_def program_simps once.ensures_read_store once.sees_def
      split: sum.splits prod.splits option.splits)

lemma send_and_confirm_ensures:
  "once.ensures (send_intent oid) (Sent sid m) (send_and_confirm c aid oid sid m actor) anyhow Intended"
  by (simp add: send_and_confirm_def program_simps once.sees_def contain_ensures
      split: sum.splits option.splits)

lemma observe_and_send_ensures:
  "once.ensures (send_intent oid) (Sent sid m) (observe_and_send c tid aid oid sid gen m actor) anyhow NoIntent"
  by (simp add: observe_and_send_def close_before_send_def program_simps once.sees_def send_and_confirm_ensures
      split: sum.splits option.splits)

lemma Dispatch_ensures:
  "once.ensures (send_intent oid) (Sent sid m) (Dispatch c tid cid aid oid sid gen path m actor) anyhow NoIntent"
  by (simp add: Dispatch_def program_simps once.sees_def once.ensures_read_store observe_and_send_ensures
      split: sum.splits option.splits)

text \<open>A committed intent is a row that left the bound stage; from then on no intent is committed again.\<close>

lemma send_intent_exec:
  assumes "exec h c s = Inr s'" and "send_intent oid c"
  obtains d e where "d \<in> set (dispatch_operations s)" "d_OperationID d = oid" "d_Stage d = DispatchBound"
    "e \<in> set (dispatch_operations s')" "d_OperationID e = oid" "d_Stage e = SendRequested"
proof -
  obtain a1 a2 a3 a4 a5 a6 where c: "c = DoRecordSendRequested oid a1 a2 a3 a4 a5 a6"
    using assms(2) by (cases c) (auto simp: send_intent_def)
  obtain h' ev s1 where "audit_tx h' ev s = Inr s1" and
    cas: "dispatch_cas ErrStateConflict
        (\<lambda>x. d_OperationID x = oid \<and> d_Stage x = DispatchBound \<and> d_ResolutionState x = None)
        (\<lambda>x. x\<lparr>d_Stage := SendRequested\<rparr>) s1 = Inr s'"
    using assms(1) by (auto simp: c RecordSendRequested_def Let_def chain_simps split: if_splits prod.splits)
  then have "dispatch_operations s1 = dispatch_operations s" by (simp add: audit_tx_frame)
  with dispatch_cas_row [OF cas] that show thesis by (metis (no_types, lifting) DispatchOperation.select_convs(1)
      DispatchOperation.surjective DispatchOperation.update_convs(7) DispatchOperation.select_convs(7))
qed

lemma intent_final:
  assumes "reachable sha s" and "later sha s s'" and "d \<in> set (dispatch_operations s)"
    and "d_Stage d \<noteq> DispatchBound" and "send_intent (d_OperationID d) c" and "exec h c s' = Inr s''"
  shows False
proof -
  obtain e where e: "e \<in> set (dispatch_operations s')" "dispatch_evolves d e"
    using later_evolves [OF assms(2,1)] assms(3) by (rule evolves_dispatch)
  obtain x where x: "x \<in> set (dispatch_operations s')" "d_OperationID x = d_OperationID d" "d_Stage x = DispatchBound"
    using send_intent_exec [OF assms(6,5)] by metis
  have "keyed d_OperationID (dispatch_operations s')"
    using reachable_invs(2) [OF reachable_later [OF assms(2,1)]] by (simp add: keys_inv_def)
  then have "x = e" using e x by (auto simp: dispatch_evolves_def intro: keyed_uniq)
  with e(2) x(3) assms(4) show False by (auto simp: dispatch_evolves_def)
qed

text \<open>
  C2: a dispatch call sends at most one message, the one it was asked to send to the session it
  was asked to use, and has no other effect. It sends only after the store acknowledged the intent;
  the intent is durable then, whatever other processes did since, and no process can ever record
  an intent for that operation again.
\<close>

theorem dispatch_sends_at_most_once:
  assumes "reachable sha s0"
    and "runs sha (Dispatch c tid cid aid oid sid gen path m actor) s0 tr p s"
  shows "effects tr = [] \<or>
    effects tr = [Sent sid m] \<and>
    (\<exists>before i after. tr = before @ Acked i # after \<and> send_intent oid i \<and> effects before = []) \<and>
    (\<exists>d\<in>set (dispatch_operations s). d_OperationID d = oid \<and> d_Stage d \<noteq> DispatchBound) \<and>
    \<not> (\<exists>s' h i s''. later sha s s' \<and> send_intent oid i \<and> exec h i s' = Inr s'')"
proof -
  note once = runs_once [OF assms(2) Dispatch_ensures]
  show ?thesis
  proof (cases "effects tr = []")
    case False
    then obtain before i after where tr: "tr = before @ Acked i # after" "send_intent oid i" "effects before = []"
      and sent: "effects tr = [Sent sid m]" using once by auto
    then obtain h s1 s2 where "reachable sha s1" and h: "h_sha256 h = sha" and exec: "exec h i s1 = Inr s2"
      and later: "later sha s2 s" using runs_acked [OF assms(2) _ assms(1), of i] by auto
    then have reach: "reachable sha s2" by (blast intro: reachable.call)
    obtain e where e: "e \<in> set (dispatch_operations s2)" "d_OperationID e = oid" "d_Stage e = SendRequested"
      by (rule send_intent_exec [OF exec tr(2)])
    obtain d where d: "d \<in> set (dispatch_operations s)" "dispatch_evolves e d"
      using later_evolves [OF later reach] e(1) by (rule evolves_dispatch)
    then have "d_OperationID d = oid" "d_Stage d \<noteq> DispatchBound"
      using e by (auto simp: dispatch_evolves_def)
    moreover have "\<not> (\<exists>s' h i s''. later sha s s' \<and> send_intent oid i \<and> exec h i s' = Inr s'')"
      using intent_final [OF reachable_later [OF later reach] _ d(1)] calculation by blast
    ultimately show ?thesis using tr sent d(1) by blast
  qed simp
qed

text \<open>A dispatch on the sample history, from the ready task to the confirmed delivery.\<close>

lemma step_sent: "step sha (Send sid m k) s (Did (Sent sid m)) (k reply) s"
  by (rule step.sent)

definition sample_coordinator :: Coordinator where
  "sample_coordinator = \<lparr>co_Store = True, co_AO = True, co_Operator = False, co_RestoreEnabled = False,
     co_ExecutionPolicy = sample_policy, co_sha256 = sample_sha, co_detail = (\<lambda>_ _. []), co_error_text = (\<lambda>_. [])\<rparr>"

definition sample_status :: "ActivityState \<Rightarrow> bool \<Rightarrow> WorkerStatus" where
  "sample_status st term = \<lparr>ws_ID = ''S'', ws_ProjectID = ''P'', ws_Status = [], ws_DisplayStatus = [], ws_IsTerminated = term,
     ws_State = st, ws_LastActivityAt = 0, ws_Harness = [], ws_Branch = [], ws_Model = [],
     ws_TerminalGeneration = ''g'', ws_PreviewURL = []\<rparr>"

lemma ready_task: "GetTask ready_db ''T'' = Inr (sample_task StateReady 0 100)"
  by code_simp

lemmas sample_commits =
  step.committed [OF exec_bind call_hosts(1), unfolded call_defs fst_conv snd_conv]
  step.committed [OF exec_request call_hosts(2), unfolded call_defs fst_conv snd_conv]
  step.committed [OF exec_confirm call_hosts(3), unfolded call_defs fst_conv snd_conv]

lemma sample_send:
  "runs sample_sha (observe_and_send sample_coordinator ''T'' ''A'' ''D'' ''S'' ''g'' ''m'' ''u'') bound_db
     [Quiet, Quiet, Acked (DoRecordSendRequested ''D'' ''S'' ''g'' ''idle'' False ''u'' 5), Did (Sent ''S'' ''m''),
      Quiet, Acked (DoRecordSendConfirmed ''D'' ''u'' True 6 [sample_policy])]
     (Return None) confirmed_db"
  unfolding observe_and_send_def
  apply (rule runs_first, rule step.observed [where r = "Inr (Some (sample_status ActivityStateIdle False))"])
  apply (simp add: sample_status_def)
  apply (rule runs_first, rule step.timed [where t = 5])
  apply (simp add: transact_or_fail_def)
  apply (rule runs_first, rule sample_commits(2))
  apply (simp add: send_and_confirm_def)
  apply (rule runs_first, rule step_sent [where reply = "Inr (Some \<lparr>dr_SessionID = ''S'', dr_Message = []\<rparr>)"])
  apply simp
  apply (rule runs_first, rule step.timed [where t = 6])
  apply (simp add: sample_coordinator_def)
  apply (rule runs_first, rule sample_commits(3))
  apply (simp add: succeed_def runs.start)
  done

lemma sample_dispatch_run:
  "runs sample_sha (Dispatch sample_coordinator ''T'' ''C'' ''A'' ''D'' ''S'' ''g'' sample_path ''m'' ''u'') ready_db
     [Quiet, Quiet, Quiet, Acked (DoPrepareBoundDispatch ''T'' ''C'' ''A'' sample_path 4 sample_binding),
      Quiet, Quiet, Acked (DoRecordSendRequested ''D'' ''S'' ''g'' ''idle'' False ''u'' 5), Did (Sent ''S'' ''m''),
      Quiet, Acked (DoRecordSendConfirmed ''D'' ''u'' True 6 [sample_policy])]
     (Return None) confirmed_db"
proof -
  have policy: "co_Store sample_coordinator" "co_AO sample_coordinator"
    "co_ExecutionPolicy sample_coordinator = sample_policy" "bp_Duration sample_policy = 10"
    "TrimSpace (bp_PolicyRef sample_policy) \<noteq> []"
    by (simp_all add: sample_coordinator_def sample_policy_def) code_simp
  show ?thesis
  unfolding Dispatch_def
  apply (simp add: policy)
  apply (rule runs_first, rule step.timed [where t = 1])
  apply (simp add: year_10000_def nanos_per_day_def read_store_def)
  apply (rule runs_first, rule step.inspected)
  apply (simp add: ready_task sample_task_def)
  apply (rule runs_first, rule step.timed [where t = 4])
  apply (simp add: transact_or_fail_def flip: sample_binding_def)
  apply (rule runs_first, rule sample_commits(1))
  apply (simp add: sample_send)
  done
qed

theorem dispatch_sends_at_most_once_witness:
  "\<not> (\<exists>s' h i s''. later sample_sha confirmed_db s' \<and> send_intent ''D'' i \<and> exec h i s' = Inr s'')"
  using dispatch_sends_at_most_once [OF ready_reachable sample_dispatch_run] by simp

section \<open>Killing, restoring, creating\<close>

text \<open>The stop that a transaction reserves; the intent of a stop is a reservation with its target.\<close>

definition reserved_stop :: "command \<Rightarrow> StopOperation option" where
  "reserved_stop c =
     (case c of
        DoReserveStopOperation st \<Rightarrow> Some st
      | DoClaimRestoreCleanupWithStop st a b d e \<Rightarrow> Some st
      | _ \<Rightarrow> None)"

definition same_target :: "StopOperation \<Rightarrow> StopOperation \<Rightarrow> bool" where
  "same_target p q \<longleftrightarrow>
     st_OperationID p = st_OperationID q \<and> st_Purpose p = st_Purpose q \<and> st_PairID p = st_PairID q \<and>
     st_AttemptID p = st_AttemptID q \<and> st_SessionID p = st_SessionID q \<and>
     st_TerminalGeneration p = st_TerminalGeneration q"

definition stop_intent :: "StopOperation \<Rightarrow> command \<Rightarrow> bool" where
  "stop_intent stop c \<longleftrightarrow> (case reserved_stop c of None \<Rightarrow> False | Some st \<Rightarrow> same_target stop st)"

definition restore_intent :: "string \<Rightarrow> command \<Rightarrow> bool" where
  "restore_intent oid c \<longleftrightarrow> (case c of DoReservePairRestore rq \<Rightarrow> rr_OperationID rq = oid | _ \<Rightarrow> False)"

definition create_intent :: "string \<Rightarrow> command \<Rightarrow> bool" where
  "create_intent oid c \<longleftrightarrow> (case c of DoReservePairProvisioning p a \<Rightarrow> pv_OperationID p = oid | _ \<Rightarrow> False)"

lemma reserved_stop_simps [simp]:
  "reserved_stop (DoReserveStopOperation st) = Some st"
  "reserved_stop (DoClaimRestoreCleanupWithStop st a b d e) = Some st"
  "reserved_stop (DoCommitStopOutcome a1 b1) = None" "reserved_stop (DoCommitStopCallAccepted a2 b2 c2) = None"
  by (simp_all add: reserved_stop_def)

lemma same_target_simps [simp]:
  "same_target stop (stop'\<lparr>st_RequestedAt := t\<rparr>) = same_target stop stop'"
  "same_target stop (stop'\<lparr>st_Actor := a\<rparr>) = same_target stop stop'"
  "same_target stop (stop'\<lparr>st_RestorePrincipal := b\<rparr>) = same_target stop stop'"
  "same_target stop (stop'\<lparr>st_InitiatingFailureReason := r\<rparr>) = same_target stop stop'"
  "same_target stop (default_stop h stop') = same_target stop stop'"
  "same_target stop (default_cleanup_stop stop' actor at) = same_target stop stop'"
  "same_target stop stop" "st_OperationID (default_cleanup_stop stop' actor at) = st_OperationID stop'"
  by (simp_all add: same_target_def default_cleanup_stop_def)

lemmas stop_program_simps = program_simps commitOutcome_def once.ensures_and_then once.sees_def stop_intent_def

lemma Coordinator_Observe_ensures: "once.ensures (stop_intent stop) x (Coordinator_Observe c oid) anyhow q"
  by (simp add: Coordinator_Observe_def stop_program_simps once.ensures_read_store
      split: sum.splits option.splits)

lemma kill_and_commit_ensures:
  "once.ensures (stop_intent stop') (Killed (st_SessionID stop)) (kill_and_commit c stop) anyhow Intended"
  by (simp add: kill_and_commit_def stop_program_simps once.ensures_read_store
      Coordinator_Observe_ensures split: sum.splits option.splits prod.splits)

lemma observe_and_kill_ensures:
  "once.ensures (stop_intent stop') (Killed (st_SessionID stop)) (observe_and_kill c stop timeout) anyhow Intended"
  by (simp add: observe_and_kill_def stop_program_simps once.ensures_read_store
      kill_and_commit_ensures split: sum.splits option.splits)

lemma reservation_intent: "reservation stop claim = Some r \<Longrightarrow> reserved_stop r = Some stop"
  by (auto simp: reservation_def split: if_splits)

lemma observe_claim_ensures:
  assumes "same_target stop' stop"
  shows "once.ensures (stop_intent stop') (Killed (st_SessionID stop')) (observe_claim c stop timeout) anyhow NoIntent"
proof -
  have sid: "st_SessionID stop' = st_SessionID stop" using assms by (simp add: same_target_def)
  have "once.ensures (stop_intent stop') (Killed (st_SessionID stop)) (reserve_and_stop c stop timeout claim)
      anyhow NoIntent" for claim
    using assms by (simp add: reserve_and_stop_def program_simps once.sees_def reservation_intent stop_intent_def
        observe_and_kill_ensures split: option.splits)
  then show ?thesis by (simp add: observe_claim_def program_simps sid split: sum.splits option.splits)
qed

lemma start_call_ensures:
  "same_target stop' stop \<Longrightarrow>
     once.ensures (stop_intent stop') (Killed (st_SessionID stop')) (start_call c stop timeout) anyhow NoIntent"
  by (simp add: start_call_def program_simps observe_claim_ensures split: option.splits prod.splits)

lemma Start_ensures:
  "once.ensures (stop_intent stop) (Killed (st_SessionID stop)) (Start c stop) anyhow NoIntent"
  by (simp add: Start_def fail_def start_call_ensures)

lemma StartTimeout_ensures:
  "once.ensures (stop_intent stop) (Killed (st_SessionID stop)) (StartTimeout c stop) anyhow NoIntent"
  by (simp add: StartTimeout_def program_simps and_release_def once.ensures_and_then start_call_ensures
      split: option.splits bool.splits sum.splits)

text \<open>A committed reservation is a new row, so an operation is reserved at most once.\<close>

lemma createStopOperationTx_rows:
  assumes "createStopOperationTx h st obs s = Inr s'"
  shows "stop_operations s' = stop_operations s @ [st\<lparr>st_RestorePrincipal := None\<rparr>] \<and>
    (\<forall>q\<in>set (stop_operations s). st_OperationID q \<noteq> st_OperationID st)"
proof -
  obtain s1 where ins: "insert_stop st s = Inr s1" and "stop_operations s' = stop_operations s1"
    using assms by (auto simp: createStopOperationTx_def chain_simps split: if_splits option.splits
        dest!: audit_tx_frame(5))
  moreover from ins have "stop_operations s1 = stop_operations s @ [st\<lparr>st_RestorePrincipal := None\<rparr>]"
    by (simp add: insert_stop_Inr)
  ultimately show ?thesis using insert_stop_unique [OF ins] by simp
qed

lemma stop_intent_exec:
  assumes "exec h c s = Inr s'" and "stop_intent stop c"
  obtains q where "\<forall>p\<in>set (stop_operations s). st_OperationID p \<noteq> st_OperationID stop"
    "q \<in> set (stop_operations s')" "same_target stop q"
proof -
  obtain st where st: "reserved_stop c = Some st" "same_target stop st"
    using assms(2) by (auto simp: stop_intent_def split: option.splits)
  have "\<exists>q. (\<forall>p\<in>set (stop_operations s). st_OperationID p \<noteq> st_OperationID st) \<and>
      q \<in> set (stop_operations s') \<and> same_target st q"
  proof (cases c)
    case (DoReserveStopOperation st')
    with st assms(1) have "ReserveStopOperation h st s = Inr s'" by simp
    then obtain s1 where ins: "insert_stop (default_stop h st) s = Inr s1"
      and "stop_operations s' = stop_operations s1"
      by (rule ReserveStopOperation_ok)
        (cases "st_Purpose st = RunningAttemptStop"; auto simp: result_simps update_simps dest!: appendStopAudit_frame(4))
    then show ?thesis using insert_stop_unique [OF ins]
      by (auto simp: insert_stop_Inr intro!: exI [of _ "default_stop h st\<lparr>st_RestorePrincipal := None\<rparr>"])
  next
    case (DoClaimRestoreCleanupWithStop st' a b d e)
    with st have st': "st' = st" by simp
    obtain h' obs s2 at where "createStopOperationTx h' (default_cleanup_stop st b at) obs s2 = Inr s'"
      and "stop_operations s2 = stop_operations s"
      using assms(1) DoClaimRestoreCleanupWithStop st'
      by (auto simp: ClaimRestoreCleanupWithStop_def Let_def chain_simps restore_cas_def cas1_eq_Inr
          update_restore_operations_def split: option.splits sum.splits if_splits dest!: audit_tx_frame(5))
    then show ?thesis
      using createStopOperationTx_rows [of h' "default_cleanup_stop st b at" obs s2 s']
      by (auto intro!: exI [of _ "default_cleanup_stop st b at\<lparr>st_RestorePrincipal := None\<rparr>"])
  qed (use st(1) in \<open>simp_all add: reserved_stop_def\<close>)
  then show thesis using st(2) that by (auto simp: same_target_def)
qed

text \<open>
  C3: a stop call kills at most one session, its own, and has no other effect. It kills only after
  the store acknowledged the reservation of exactly this stop; the reservation is durable then,
  whatever other processes did since, and no process can ever reserve that operation again: a
  persisted reservation is not a permit.
\<close>

theorem stop_kills_at_most_once:
  assumes "reachable sha s0"
    and "runs sha (Start c stop) s0 tr p s \<or> runs sha (StartTimeout c stop) s0 tr p s"
  shows "effects tr = [] \<or>
    effects tr = [Killed (st_SessionID stop)] \<and>
    (\<exists>before i after. tr = before @ Acked i # after \<and> stop_intent stop i \<and> effects before = []) \<and>
    (\<exists>q\<in>set (stop_operations s). same_target stop q) \<and>
    \<not> (\<exists>s' h i s''. later sha s s' \<and> stop_intent stop i \<and> exec h i s' = Inr s'')"
proof -
  obtain p0 where p0: "runs sha p0 s0 tr p s"
    "once.ensures (stop_intent stop) (Killed (st_SessionID stop)) p0 anyhow NoIntent"
    using assms(2) Start_ensures StartTimeout_ensures by blast
  show ?thesis
  proof (cases "effects tr = []")
    case False
    then obtain before i after where tr: "tr = before @ Acked i # after" "stop_intent stop i" "effects before = []"
      and killed: "effects tr = [Killed (st_SessionID stop)]" using runs_once [OF p0] by auto
    then obtain h s1 s2 where "reachable sha s1" "h_sha256 h = sha" and exec: "exec h i s1 = Inr s2"
      and later: "later sha s2 s" using runs_acked [OF p0(1) _ assms(1), of i] by auto
    then have reach: "reachable sha s2" by (blast intro: reachable.call)
    have kept: "\<exists>q\<in>set (stop_operations s'). same_target stop q" if later': "later sha s2 s'" for s'
    proof -
      obtain e where e: "e \<in> set (stop_operations s2)" "same_target stop e"
        by (rule stop_intent_exec [OF exec tr(2)])
      obtain q where "q \<in> set (stop_operations s')" "stop_evolves e q"
        using later_evolves [OF later' reach] e(1) by (rule evolves_stop)
      moreover from this e(2) have "same_target stop q" by (simp add: same_target_def stop_evolves_def)
      ultimately show ?thesis by blast
    qed
    have "False" if "later sha s s'" "stop_intent stop i'" "exec h' i' s' = Inr s''" for s' h' i' s''
      using kept [OF later_trans [OF that(1) later]] stop_intent_exec [OF that(3,2)]
      by (metis same_target_def)
    then show ?thesis using tr killed kept [OF later] by blast
  qed simp
qed

lemma step_killed: "step sha (Kill sid k) s (Did (Killed sid)) (k reply) s"
  by (rule step.killed)

definition sample_stopper :: StopCoordinator where
  "sample_stopper = \<lparr>sc_Store = True, sc_AO = True, sc_Operator = False, sc_KillTimeout = 9, sc_TimeoutHost = True\<rparr>"

lemma stopping_owner: "ValidateTimeoutEffectOwner ''X'' stopping_db = Inr ()"
  by code_simp

lemma sample_timeout_run:
  "\<exists>p. runs sample_sha (StartTimeout sample_stopper sample_stop) running_db
     ([Quiet, Quiet, Quiet, Quiet, Quiet, Acked (DoReserveStopOperation sample_stop), Quiet, Quiet, Did (Killed ''S'')])
     p stopping_db"
proof -
  have commit: "step sample_sha (Transact (DoReserveStopOperation sample_stop) k) running_db
      (Acked (DoReserveStopOperation sample_stop)) (k None) stopping_db" for k :: "store_error option \<Rightarrow> call"
    using step.committed [OF exec_stop call_hosts(5), unfolded call_defs fst_conv snd_conv] .
  have stop: "sample_stop\<lparr>st_InitiatingFailureReason := Some ''TIMEOUT'', st_RequestedAt := 20\<rparr> = sample_stop"
    "sample_stop\<lparr>st_RequestedAt := 20, st_Actor := ''u''\<rparr> = sample_stop"
    by (simp_all add: sample_stop_def)
  let ?alive = "Inr (Some (sample_status ActivityStateActive False))"
  have fields: "st_Purpose sample_stop = RunningAttemptStop" "st_AttemptID sample_stop = Some ''A''"
    "st_SessionID sample_stop = ''S''" "st_TerminalGeneration sample_stop = ''g''" "st_PairID sample_stop = ''Q''"
    "st_OperationID sample_stop = ''X''" "st_RestoreOperationID sample_stop = None" "st_Actor sample_stop = ''u''"
    "st_RequestedAt sample_stop = 20" "sc_Store sample_stopper" "sc_AO sample_stopper" "sc_TimeoutHost sample_stopper"
    "sc_KillTimeout sample_stopper = 9"
    by (simp_all add: sample_stop_def sample_stopper_def)
  show ?thesis
    unfolding StartTimeout_def
    apply (rule exI)
    apply (simp add: fields)
    apply (rule runs_first, rule step.permitted [where b = "Some True"])
    apply (simp add: and_release_def)
    apply (rule runs_first, rule step.asked [where a = None])
    apply simp
    apply (rule runs_first, rule step.observed [where r = ?alive])
    apply (simp add: sample_status_def timeout_activity_def)
    apply (rule runs_first, rule step.timed [where t = 20])
    apply (simp add: stop start_call_def fields)
    apply (rule runs_first, rule step.timed [where t = 20])
    apply (simp add: IsZero_def fields stop observe_claim_def reserve_and_stop_def reservation_def transact_or_fail_def)
    apply (rule runs_first, rule commit)
    apply (simp add: observe_and_kill_def)
    apply (rule runs_first, rule step.observed [where r = ?alive])
    apply (simp add: sample_status_def timeout_activity_def fields read_store_def)
    apply (rule runs_first, rule step.inspected)
    apply (simp add: stopping_owner kill_and_commit_def Let_def fields)
    apply (rule runs_first, rule step_killed, rule runs.start)
    done
qed

theorem stop_kills_at_most_once_witness:
  "\<not> (\<exists>s' h i s''. later sample_sha stopping_db s' \<and> stop_intent sample_stop i \<and> exec h i s' = Inr s'')"
proof -
  obtain p where "runs sample_sha (StartTimeout sample_stopper sample_stop) running_db
     ([Quiet, Quiet, Quiet, Quiet, Quiet, Acked (DoReserveStopOperation sample_stop), Quiet, Quiet, Did (Killed ''S'')])
     p stopping_db" using sample_timeout_run by blast
  from stop_kills_at_most_once [OF running_reachable disjI2 [OF this]] show ?thesis by simp
qed

lemma Restore_ensures:
  "once.ensures (restore_intent (rr_OperationID rq)) (Restored (rr_SessionID rq)) (Restore c rq) anyhow NoIntent"
  by (simp add: Restore_def restore_unknown_def restore_unknown_reread_def confirm_restore_call_def program_simps
      restore_intent_def once.sees_def once.ensures_read_store split: sum.splits option.splits prod.splits)

lemma Provision_ensures:
  "once.ensures (create_intent (pv_OperationID op)) (Created pid harness) (Provision c op pid harness actor) anyhow NoIntent"
  by (simp add: Provision_def fail_provisioning_def program_simps create_intent_def once.sees_def
      once.ensures_read_store split: sum.splits option.splits)

end
