(* ===== verification/Recovery_Guarantees.thy ===== *)
theory Recovery_Guarantees
  imports Coordinator_Guarantees "HOL-Library.Multiset"
begin

text \<open>
  The recovery sweep and the timeout monitor over every run: what they may do to the outside world,
  and what a completed report means.
\<close>

section \<open>The startup sweep\<close>

text \<open>
  The phases of a sweep: nothing recorded, its start acknowledged, its completion acknowledged. Any
  effect is a violation.
\<close>

datatype sweep_phase = Unstarted | Started | Completed

definition sweep_event :: "command \<Rightarrow> string option" where
  "sweep_event c = (case c of DoRecordRecoverySweepEvent invk actor ev at \<Rightarrow> Some ev | _ \<Rightarrow> None)"

fun watch_sweep :: "sweep_phase \<Rightarrow> event \<Rightarrow> sweep_phase option" where
  "watch_sweep q Quiet = Some q"
| "watch_sweep q (Acked c) = Some
     (if q = Unstarted \<and> sweep_event c = Some ''STARTUP_RECOVERY_SWEEP_STARTED'' then Started
      else if q = Started \<and> sweep_event c = Some ''STARTUP_RECOVERY_SWEEP_COMPLETED'' then Completed
      else q)"
| "watch_sweep q (Did x) = None"

interpretation sweep: monitor watch_sweep
  by unfold_locales simp

definition under_way :: "Report \<times> failure option \<Rightarrow> sweep_phase \<Rightarrow> bool" where
  "under_way r q \<longleftrightarrow> \<not> rp_Complete (fst r) \<and> q = Started"

lemma under_way_simps [simp]:
  "under_way (pending rep, e) q = under_way (rep, e) q" "under_way (classified rep, e) q = under_way (rep, e) q"
  "under_way (rep, Some x) q = under_way (rep, None) q"
  by (simp_all add: under_way_def pending_def classified_def)

lemma sweep_event_simps [simp]:
  "sweep_event (DoRecordRecoverySweepEvent invk actor ev at) = Some ev"
  "sweep_event (DoAtomicTerminalTransition a1 b1 c1 d1 e1 f1) = None"
  "sweep_event (DoRecordPreSendAdmissibilityRejected a2 b2 c2 d2) = None"
  "sweep_event (DoResolvePreSendHold a3 b3 c3 d3 e3 f3 g3 h3 i3) = None"
  "sweep_event (DoRecordPreSendHold a4 b4 c4 d4) = None"
  "sweep_event (DoRecordRecoveryAbsent a5 b5 c5) = None"
  "sweep_event (DoRecordPostSendOutage a6 b6 c6 d6 e6) = None"
  "sweep_event (DoObservePostSend a7 b7 c7 d7 e7) = None"
  "sweep_event (DoRecordUnknownDelivery a8 b8 c8) = None"
  "sweep_event (DoCommitStopOutcome a9 b9) = None"
  "sweep_event (DoClassifyAbandonedStopAlive a10 b10 c10 d10 e10 f10) = None"
  "sweep_event (DoClassifyInterruptedRestore a11 b11 c11) = None"
  "sweep_event (DoFailProvisioningAtStartup a12 b12 c12) = None"
  "sweep_event (DoAtomicAttemptClosureTransition a13 b13 c13) = None"
  by (simp_all add: sweep_event_def)

lemmas sweep_simps = program_simps transact_now_def with_report_def then_pending_def stop_with_def go_on_def
  check_ctx_def and_ok_def counted_def or_winner_def sweep.ensures_and_then sweep.sees_def

lemma classifyExecution_ensures:
  assumes "under_way (rep, None) q"
  shows "sweep.ensures (classifyExecution r x invk rep) under_way q"
  using assms
  by (simp add: classifyExecution_def unobserved_def classifyPreSend_def observed_post_send_def sweep_simps
      split: sum.splits option.splits)

lemma executionWinner_ensures:
  assumes "under_way (rep, None) q"
  shows "sweep.ensures (executionWinner x e rep) under_way q"
  using assms
  by (simp add: executionWinner_def sweep_simps sweep.ensures_read_store split: sum.splits option.splits)

lemma classifyStop_ensures:
  assumes "under_way (rep, None) q"
  shows "sweep.ensures (classifyStop r x invk rep) under_way q"
  using assms
  by (simp add: classifyStop_def sweep_simps sweep.ensures_read_store split: sum.splits option.splits)

lemma stopWinner_ensures:
  assumes "under_way (rep, None) q"
  shows "sweep.ensures (with_report rep (stopWinner x e)) under_way q"
  using assms
  by (simp add: stopWinner_def sweep_simps sweep.ensures_read_store split: sum.splits option.splits)

lemma round_ensures:
  assumes "sweep.ensures p under_way q"
    and "\<And>e rep q. under_way (rep, None) q \<Longrightarrow> sweep.ensures (winner e rep) under_way q"
    and "under_way (rep, None) q"
  shows "sweep.ensures (check_ctx rep (counted (or_winner p winner))) under_way q"
proof -
  have "sweep.ensures (or_winner p winner) under_way q"
    using assms(1,2) unfolding or_winner_def sweep.ensures_and_then
    by (auto elim!: sweep.ensures_mono simp: go_on_def stop_with_def split: option.splits)
  then show ?thesis using assms(3)
    unfolding counted_def check_ctx_def and_ok_def
    by (auto simp: sweep.ensures_and_then stop_with_def go_on_def elim!: sweep.ensures_mono split: option.splits)
qed

lemma and_ok_ensures:
  assumes "sweep.ensures p under_way q"
    and "\<And>rep q. under_way (rep, None) q \<Longrightarrow> sweep.ensures (f rep) Q q"
    and "\<And>rep e q. under_way (rep, None) q \<Longrightarrow> Q (rep, Some e) q"
  shows "sweep.ensures (and_ok p f) Q q"
  using assms unfolding and_ok_def sweep.ensures_and_then
  by (auto elim!: sweep.ensures_mono split: option.splits)

lemma each_ensures:
  assumes "\<And>x rep q. under_way (rep, None) q \<Longrightarrow> sweep.ensures (f x rep) under_way q"
    and "under_way (rep, None) q"
  shows "sweep.ensures (each f xs rep) under_way q"
  using assms(2)
proof (induction xs arbitrary: rep q)
  case (Cons x xs)
  then show ?case by (auto intro!: and_ok_ensures assms(1))
qed (simp add: go_on_def)

lemma sweep_round_ensures:
  assumes "under_way (rep, None) q"
  shows "sweep.ensures (sweep_restore r oid rep) under_way q" "sweep.ensures (sweep_provision r oid rep) under_way q"
    "sweep.ensures (sweep_execution r invk x rep) under_way q" "sweep.ensures (sweep_stop r invk y rep) under_way q"
    "sweep.ensures (sweep_blocked x rep) under_way q"
  unfolding sweep_restore_def sweep_provision_def sweep_execution_def sweep_stop_def sweep_blocked_def
  by (rule round_ensures; (rule assms classifyExecution_ensures executionWinner_ensures classifyStop_ensures
        stopWinner_ensures | simp add: assms sweep_simps sweep.ensures_read_store split: sum.splits option.splits);
      (rule assms | assumption)?)+

definition settled :: "Report \<times> failure option \<Rightarrow> sweep_phase \<Rightarrow> bool" where
  "settled r q \<longleftrightarrow> (rp_Complete (fst r) \<longrightarrow> snd r = None \<and> q = Completed)"

lemma under_way_settled: "under_way (rep, e) q \<Longrightarrow> settled (rep, e') q"
  by (simp add: under_way_def settled_def)

lemma sweep_sent_ensures:
  assumes "under_way (rep, None) q"
  shows "sweep.ensures (sweep_sent r invk owned rep) settled q"
proof -
  have finish: "sweep.ensures (read_store (\<lambda>s. Inr (ListOpenConfirmedWithoutBudget s)) (\<lambda>l. case l of
       Inl e \<Rightarrow> stop_with rep (StoreFailure e)
     | Inr legacy \<Rightarrow>
         if legacy \<noteq> []
         then stop_with rep (Refused ''recovery: open SEND_CONFIRMED attempts lack immutable execution budget'')
         else and_ok (with_report rep (transact_now (DoRecordRecoverySweepEvent invk (rn_Actor r)
             ''STARTUP_RECOVERY_SWEEP_COMPLETED'')))
           (\<lambda>rep. go_on (rep\<lparr>rp_Complete := True\<rparr>)))) settled q" if "under_way (rep, None) q" for rep q
    using that by (simp add: sweep_simps sweep.ensures_read_store settled_def under_way_def split: sum.splits)
  show ?thesis
    unfolding sweep_sent_def
    using assms finish
    by (intro sweep.ensures_read_store)
      (auto simp: stop_with_def check_ctx_def intro: under_way_settled
        intro!: and_ok_ensures each_ensures sweep_round_ensures split: sum.splits option.splits)
qed

lemma sweep_snapshot_ensures:
  assumes "under_way (rep, None) q"
  shows "sweep.ensures (sweep_snapshot r invk snap rep) settled q"
  unfolding sweep_snapshot_def Let_def
  by (intro and_ok_ensures each_ensures sweep_round_ensures sweep_sent_ensures assms | assumption |
      erule under_way_settled)+

lemma Run_scoped_ensures: "sweep.ensures (Run_scoped r) settled Unstarted"
  by (auto simp: Run_scoped_def sweep_simps empty_report_def settled_def under_way_def
      intro!: sweep.ensures_read_store sweep_snapshot_ensures split: option.splits sum.splits)

lemma Run_ensures: "sweep.ensures (Run r poller) settled Unstarted"
proof -
  have scoped: "sweep.ensures (and_then (Run_scoped r) (\<lambda>(rep, e). Release (\<lambda>ok.
      if ok then Return (rep, e)
      else Return (rep\<lparr>rp_Complete := False\<rparr>, join_errors e (Some (Refused ''release'')))))) settled Unstarted"
    unfolding sweep.ensures_and_then
    by (rule sweep.ensures_mono [OF Run_scoped_ensures]) (auto simp: settled_def)
  then show ?thesis
    by (auto simp: Run_def Let_def check_ctx_def stop_with_def settled_def empty_report_def split: option.splits bool.splits)
qed

lemma sweep_effects: "sweep.watches q tr = Some q' \<Longrightarrow> effects tr = []"
  by (induction q tr rule: sweep.watches.induct) (auto simp: bind_eq_Some_conv elim!: watch_sweep.elims)

lemma sweep_completed:
  "sweep.watches q tr = Some Completed \<Longrightarrow> q \<noteq> Completed \<Longrightarrow>
     \<exists>before c after. tr = before @ Acked c # after \<and> sweep_event c = Some ''STARTUP_RECOVERY_SWEEP_COMPLETED'' \<and>
       (q = Unstarted \<longrightarrow> (\<exists>d. Acked d \<in> set before \<and> sweep_event d = Some ''STARTUP_RECOVERY_SWEEP_STARTED''))"
proof (induction tr arbitrary: q)
  case (Cons ev tr)
  then obtain q1 where q1: "watch_sweep q ev = Some q1" "sweep.watches q1 tr = Some Completed"
    by (auto simp: bind_eq_Some_conv)
  show ?case
  proof (cases "q1 = Completed")
    case True
    with q1(1) Cons.prems(2) obtain c where "ev = Acked c" "q = Started"
      "sweep_event c = Some ''STARTUP_RECOVERY_SWEEP_COMPLETED''"
      by (cases ev) (auto split: if_splits)
    then show ?thesis by (intro exI [of _ "[]"]) auto
  next
    case False
    from Cons.IH [OF q1(2) False] obtain before c after where
      IH: "tr = before @ Acked c # after" "sweep_event c = Some ''STARTUP_RECOVERY_SWEEP_COMPLETED''"
        "q1 = Unstarted \<longrightarrow> (\<exists>d. Acked d \<in> set before \<and> sweep_event d = Some ''STARTUP_RECOVERY_SWEEP_STARTED'')"
      by blast
    have "q = Unstarted \<longrightarrow> (\<exists>d. Acked d \<in> set (ev # before) \<and> sweep_event d = Some ''STARTUP_RECOVERY_SWEEP_STARTED'')"
      using q1(1) IH(3) by (cases ev) (auto split: if_splits)
    with IH(1,2) show ?thesis by (intro exI [of _ "ev # before"]) auto
  qed
qed simp

text \<open>
  C5: the startup sweep never sends, kills, restores or creates, whatever it finds and whatever the
  orchestrator answers; and it reports completion only without an error, after the store
  acknowledged first its start and then its completion.
\<close>

theorem sweep_never_acts:
  assumes "runs sha (Run r poller) s0 tr p s"
  shows "effects tr = [] \<and>
    (\<forall>rep e. p = Return (rep, e) \<and> rp_Complete rep \<longrightarrow>
       e = None \<and>
       (\<exists>before c after d. tr = before @ Acked c # after \<and> Acked d \<in> set before \<and>
          sweep_event d = Some ''STARTUP_RECOVERY_SWEEP_STARTED'' \<and>
          sweep_event c = Some ''STARTUP_RECOVERY_SWEEP_COMPLETED''))"
proof -
  obtain q where q: "sweep.watches Unstarted tr = Some q" "sweep.ensures p settled q"
    using sweep.runs_ensure [OF assms Run_ensures] by blast
  have "e = None \<and> q = Completed" if "p = Return (rep, e)" "rp_Complete rep" for rep e
    using q(2) that by (simp add: settled_def)
  then show ?thesis using q(1) sweep_effects [OF q(1)] sweep_completed [of Unstarted tr] by blast
qed

section \<open>The timeout monitor\<close>

text \<open>The sessions with an acknowledged reservation that was not used yet.\<close>

definition reserved_session :: "command \<Rightarrow> string multiset" where
  "reserved_session c = (case reserved_stop c of None \<Rightarrow> {#} | Some st \<Rightarrow> {#st_SessionID st#})"

fun watch_kill :: "string multiset \<Rightarrow> event \<Rightarrow> string multiset option" where
  "watch_kill q Quiet = Some q"
| "watch_kill q (Acked c) = Some (q + reserved_session c)"
| "watch_kill q (Did (Killed sid)) = (if sid \<in># q then Some (q - {#sid#}) else None)"
| "watch_kill q (Did x) = None"

interpretation kill: monitor watch_kill
  by unfold_locales simp

lemma once_kill:
  "once.ensures (stop_intent stop) (Killed (st_SessionID stop)) p Q u \<Longrightarrow>
     (u = Intended \<longrightarrow> st_SessionID stop \<in># q) \<Longrightarrow> kill.ensures p anyhow q"
proof (induction p arbitrary: u q)
  case (Transact c k)
  have "st_SessionID stop \<in># q + reserved_session c" if "stop_intent stop c \<or> u = Intended"
    using that Transact.prems(2)
    by (auto simp: reserved_session_def stop_intent_def same_target_def split: option.splits)
  moreover have "kill.ensures (k (Some e)) anyhow q" for e
    using Transact.IH [OF rangeI, of "Some e" u q] Transact.prems by simp
  ultimately show ?case
    using Transact.IH [OF rangeI, of None _ "q + reserved_session c"] Transact.prems(1)
    by (auto simp: kill.sees_def once.sees_def split: if_splits)
next
  case (Kill sid k)
  then have "u = Intended" "sid = st_SessionID stop"
    "\<And>x. once.ensures (stop_intent stop) (Killed (st_SessionID stop)) (k x) Q Used"
    by (auto simp: once.sees_def split: if_splits)
  with Kill show ?case using Kill.IH [OF rangeI, of _ Used "q - {#sid#}"] by (simp add: kill.sees_def)
qed (simp add: kill.sees_def once.sees_def split: if_splits; meson rangeI)+

lemma sweep_kill: "sweep.ensures p Q u \<Longrightarrow> kill.ensures p anyhow q"
proof (induction p arbitrary: u q)
  case (Transact c k)
  then have "sweep.ensures (k (Some e)) Q u" "\<exists>u'. sweep.ensures (k None) Q u'" for e
    by (auto simp: sweep.sees_def)
  then show ?case using Transact.IH [OF rangeI] by (auto simp: kill.sees_def)
qed (simp add: kill.sees_def sweep.sees_def; meson rangeI)+

lemma each_kill:
  assumes "\<And>x rep q. kill.ensures (f x rep) anyhow q"
  shows "kill.ensures (each f xs rep) anyhow q"
proof (induction xs arbitrary: rep q)
  case (Cons x xs)
  then show ?case
    unfolding each.simps and_ok_def kill.ensures_and_then
    by (auto intro!: kill.ensures_mono [OF assms] split: option.splits)
qed (simp add: go_on_def)

lemma classify_kill:
  "kill.ensures (or_winner (classifyExecution r x invk empty_report) (executionWinner x)) anyhow q"
proof -
  have "under_way (empty_report, None) Started" by (simp add: under_way_def empty_report_def)
  then have "sweep.ensures (or_winner (classifyExecution r x invk empty_report) (executionWinner x)) under_way Started"
    unfolding or_winner_def sweep.ensures_and_then
    by (rule sweep.ensures_mono [OF classifyExecution_ensures])
      (auto simp: go_on_def stop_with_def intro!: executionWinner_ensures split: option.splits)
  then show ?thesis by (rule sweep_kill)
qed

lemma tick_execution_kill: "kill.ensures (tick_execution m owned x rep) anyhow q"
proof -
  have failed: "kill.ensures (timeout_failed m x e rep) anyhow q" for e q
    by (auto simp: timeout_failed_def timeout_observe_def timeout_lost_def kill.ensures_and_then stop_with_def
        go_on_def intro!: kill.ensures_read_store kill.ensures_mono [OF classify_kill] split: sum.splits option.splits)
  have start: "kill.ensures (StartTimeout c stop) anyhow q" for c stop q
    by (rule once_kill [OF StartTimeout_ensures]) simp
  show ?thesis
    by (auto simp: tick_execution_def check_ctx_def stop_with_def go_on_def kill.ensures_and_then
        intro!: kill.ensures_read_store failed kill.ensures_mono [OF start] split: sum.splits option.splits)
qed

lemma Tick_kill: "kill.ensures (Tick m) anyhow q"
  by (auto simp: Tick_def only_error_def check_ctx_def stop_with_def kill.ensures_and_then
      intro!: kill.ensures_read_store kill.ensures_mono [OF each_kill [OF tick_execution_kill]]
      split: sum.splits option.splits)

definition kills :: "string \<Rightarrow> event list \<Rightarrow> nat" where
  "kills sid tr = length (filter (\<lambda>ev. ev = Did (Killed sid)) tr)"

definition reservations :: "string \<Rightarrow> event list \<Rightarrow> nat" where
  "reservations sid tr =
     length (filter (\<lambda>ev. case ev of Acked c \<Rightarrow> map_option st_SessionID (reserved_stop c) = Some sid | _ \<Rightarrow> False) tr)"

lemma kill_counted:
  "kill.watches {#} tr = Some q \<Longrightarrow> count q sid + kills sid tr = reservations sid tr"
proof (induction tr arbitrary: q rule: rev_induct)
  case (snoc ev tr)
  then obtain q1 where "kill.watches {#} tr = Some q1" "watch_kill q1 ev = Some q"
    by (auto simp: kill.watches_snoc bind_eq_Some_conv)
  then show ?case using snoc.IH [of q1]
    by (cases "(q1, ev)" rule: watch_kill.cases)
      (auto simp: kills_def reservations_def reserved_session_def count_greater_zero_iff [symmetric]
        simp del: count_greater_zero_iff split: if_splits option.splits)
qed (simp add: kills_def reservations_def)

lemma kill_watches_append:
  "kill.watches q (tr @ tr') = Option.bind (kill.watches q tr) (\<lambda>q'. kill.watches q' tr')"
  by (induction tr arbitrary: q) (auto split: Option.bind_split)

text \<open>
  C6: a tick of the timeout monitor has no effect but kills, and at every kill of a session there are
  more acknowledged reservations of stops of that session in the tick than kills before it: every
  kill uses up a reservation of its own.
\<close>

theorem tick_kill_uses_reservation:
  assumes "runs sha (Tick m) s0 (before @ Did x # after) p s"
  shows "\<exists>sid. x = Killed sid \<and> kills sid before < reservations sid before"
proof -
  obtain q where "kill.watches {#} (before @ Did x # after) = Some q"
    using kill.runs_ensure [OF assms Tick_kill] by blast
  then obtain q1 q2 where q1: "kill.watches {#} before = Some q1" "watch_kill q1 (Did x) = Some q2"
    by (auto simp: kill_watches_append bind_eq_Some_conv)
  then obtain sid where "x = Killed sid" "sid \<in># q1" by (cases x) (auto split: if_splits)
  then show ?thesis using kill_counted [OF q1(1), of sid] by (metis count_greater_zero_iff less_add_same_cancel2)
qed

text \<open>A tick on the sample history that stops the running attempt after its deadline.\<close>

definition sample_monitor :: TimeoutMonitor where
  "sample_monitor =
     \<lparr>tm_Owner = (observer_of ''u'' False)\<lparr>rn_Host := True, rn_TimeoutAdmission := True\<rparr>, tm_Stop = sample_stopper,
      tm_SameStore = True, tm_Interval = 1, tm_Actor = ''u''\<rparr>"

definition sample_execution :: RecoveryExecution where
  "sample_execution =
     \<lparr>re_OperationID = ''D'', re_PairID = ''Q'', re_TaskID = ''T'', re_ContractID = ''C'', re_AttemptID = ''A'',
      re_SessionID = ''S'', re_Generation = ''g'', re_TaskState = StateRunning, re_DispatchStage = SendConfirmed,
      re_Disposition = None\<rparr>"

definition tick_stop :: StopOperation where
  "tick_stop = (timeout_stop sample_monitor sample_execution ''timeout-x'')\<lparr>
     st_InitiatingFailureReason := Some ''TIMEOUT'', st_RequestedAt := 20\<rparr>"

lemma running_evaluated:
  "case run running_calls empty_db of
     Inl e \<Rightarrow> False
   | Inr s \<Rightarrow>
       map_sum id (\<lambda>s. (sn_Executions s, sn_StopOwnedAttemptIDs s)) (ListRecoverySnapshot s) = Inr ([sample_execution], []) \<and>
       map_sum id b_DeadlineAt (GetExecutionBudget s ''A'') = Inr 16 \<and>
       (case exec (sample_host ''m'') (DoReserveStopOperation tick_stop) s of
          Inl e \<Rightarrow> False | Inr s' \<Rightarrow> ValidateTimeoutEffectOwner ''timeout-x'' s' = Inr ())"
  by code_simp

lemma running_snapshot:
    "map_sum id (\<lambda>s. (sn_Executions s, sn_StopOwnedAttemptIDs s)) (ListRecoverySnapshot running_db) =
       Inr ([sample_execution], [])"
  and running_budget: "map_sum id b_DeadlineAt (GetExecutionBudget running_db ''A'') = Inr 16"
  and tick_reserve: "case exec (sample_host ''m'') (DoReserveStopOperation tick_stop) running_db of
     Inl e \<Rightarrow> False | Inr s \<Rightarrow> ValidateTimeoutEffectOwner ''timeout-x'' s = Inr ()"
  using running_evaluated by (cases "run running_calls empty_db"; simp add: running_db_def after_calls_def)+

text \<open>A sweep of the empty store.\<close>

lemma sample_sweep_execs:
  "case exec (sample_host ''a'') (DoRecordRecoverySweepEvent ''i'' ''u'' ''STARTUP_RECOVERY_SWEEP_STARTED'' 1) empty_db of
     Inl e \<Rightarrow> False
   | Inr s \<Rightarrow>
       ListRecoverySnapshot s = Inr \<lparr>sn_RestoreIDs = [], sn_ProvisionIDs = [], sn_StopOwnedAttemptIDs = [],
         sn_Executions = [], sn_StopOperations = [], sn_Blocked = []\<rparr> \<and>
       ListOpenConfirmedWithoutBudget s = [] \<and>
       \<not> isl (exec (sample_host ''b'') (DoRecordRecoverySweepEvent ''i'' ''u'' ''STARTUP_RECOVERY_SWEEP_COMPLETED'' 2) s)"
  by code_simp

definition sample_runner :: Runner where
  "sample_runner = (observer_of ''u'' False)\<lparr>rn_Host := True, rn_ActivityPollInterval := 1, rn_ExecutionDeadline := 1\<rparr>"

lemma sample_sweep_run:
  "\<exists>s. runs sample_sha (Run sample_runner False) empty_db
     [Quiet, Quiet, Quiet, Quiet, Quiet, Quiet,
      Acked (DoRecordRecoverySweepEvent ''i'' ''u'' ''STARTUP_RECOVERY_SWEEP_STARTED'' 1), Quiet, Quiet, Quiet,
      Quiet, Quiet, Acked (DoRecordRecoverySweepEvent ''i'' ''u'' ''STARTUP_RECOVERY_SWEEP_COMPLETED'' 2), Quiet]
     (Return (empty_report\<lparr>rp_Complete := True\<rparr>, None)) s"
proof -
  let ?completed = "DoRecordRecoverySweepEvent ''i'' ''u'' ''STARTUP_RECOVERY_SWEEP_COMPLETED'' 2"
  obtain s1 where
    e1: "exec (sample_host ''a'') (DoRecordRecoverySweepEvent ''i'' ''u'' ''STARTUP_RECOVERY_SWEEP_STARTED'' 1) empty_db = Inr s1"
    and l: "ListRecoverySnapshot s1 = Inr \<lparr>sn_RestoreIDs = [], sn_ProvisionIDs = [], sn_StopOwnedAttemptIDs = [],
         sn_Executions = [], sn_StopOperations = [], sn_Blocked = []\<rparr>" "ListOpenConfirmedWithoutBudget s1 = []"
    and ok: "\<not> isl (exec (sample_host ''b'') ?completed s1)"
    using sample_sweep_execs by (auto split: sum.splits)
  from ok obtain s2 where e2: "exec (sample_host ''b'') ?completed s1 = Inr s2"
    by (cases "exec (sample_host ''b'') ?completed s1") auto
  have sha: "h_sha256 (sample_host x) = sample_sha" for x by (simp add: sample_host_def)
  have fields: "rn_Store sample_runner" "rn_AO sample_runner" "rn_Host sample_runner" "rn_Actor sample_runner = ''u''"
    "rn_ActivityPollInterval sample_runner = 1" "rn_ExecutionDeadline sample_runner = 1"
    by (simp_all add: sample_runner_def observer_of_def)
  show ?thesis
    unfolding Run_def
    apply (rule exI)
    apply (simp add: fields check_ctx_def)
    apply (rule runs_first, rule step.asked [where a = None])
    apply simp
    apply (rule runs_first, rule step.asked [where a = None])
    apply simp
    apply (rule runs_first, rule step.permitted [where b = "Some True"])
    apply (simp add: Run_scoped_def check_ctx_def)
    apply (rule runs_first, rule step.asked [where a = None])
    apply simp
    apply (rule runs_first, rule step.drawn [where x = "Some ''i''"])
    apply (simp add: and_ok_def with_report_def transact_now_def transact_or_fail_def fields)
    apply (rule runs_first, rule step.timed [where t = 1])
    apply (rule runs_first, rule step.committed [OF e1 sha])
    apply (simp add: succeed_def read_store_def)
    apply (rule runs_first, rule step.inspected)
    apply (simp add: l sweep_snapshot_def and_ok_def go_on_def unowned_def sweep_sent_def read_store_def)
    apply (rule runs_first, rule step.inspected)
    apply (simp add: l unowned_def and_ok_def go_on_def check_ctx_def read_store_def)
    apply (rule runs_first, rule step.asked [where a = None])
    apply simp
    apply (rule runs_first, rule step.inspected)
    apply (simp add: l and_ok_def with_report_def transact_now_def transact_or_fail_def fields)
    apply (rule runs_first, rule step.timed [where t = 2])
    apply (rule runs_first, rule step.committed [OF e2 sha])
    apply (simp add: succeed_def go_on_def)
    apply (rule runs_first, rule step.released [where ok = True])
    apply (simp, rule runs.start)
    done
qed

theorem sweep_never_acts_witness:
  "\<exists>tr s. runs sample_sha (Run sample_runner False) empty_db tr (Return (empty_report\<lparr>rp_Complete := True\<rparr>, None)) s \<and>
     effects tr = [] \<and>
     (\<exists>before c after d. tr = before @ Acked c # after \<and> Acked d \<in> set before \<and>
        sweep_event d = Some ''STARTUP_RECOVERY_SWEEP_STARTED'' \<and>
        sweep_event c = Some ''STARTUP_RECOVERY_SWEEP_COMPLETED'')"
proof -
  obtain s tr where run: "runs sample_sha (Run sample_runner False) empty_db tr
      (Return (empty_report\<lparr>rp_Complete := True\<rparr>, None)) s" using sample_sweep_run by blast
  from sweep_never_acts [OF run] have "effects tr = [] \<and>
     (\<exists>before c after d. tr = before @ Acked c # after \<and> Acked d \<in> set before \<and>
        sweep_event d = Some ''STARTUP_RECOVERY_SWEEP_STARTED'' \<and>
        sweep_event c = Some ''STARTUP_RECOVERY_SWEEP_COMPLETED'')" by simp
  with run show ?thesis by blast
qed

lemma sample_tick_run:
  "\<exists>p s. runs sample_sha (Tick sample_monitor) running_db
     ([Quiet, Quiet, Quiet, Quiet, Quiet, Quiet, Quiet, Quiet, Quiet, Quiet, Quiet, Quiet,
       Acked (DoReserveStopOperation tick_stop), Quiet, Quiet] @ Did (Killed ''S'') # []) p s"
proof -
  obtain s1 where e1: "exec (sample_host ''m'') (DoReserveStopOperation tick_stop) running_db = Inr s1"
    and owner: "ValidateTimeoutEffectOwner ''timeout-x'' s1 = Inr ()"
    using tick_reserve by (auto split: sum.splits)
  obtain snap where snap: "ListRecoverySnapshot running_db = Inr snap" "sn_Executions snap = [sample_execution]"
    "sn_StopOwnedAttemptIDs snap = []"
    using running_snapshot by (cases "ListRecoverySnapshot running_db") auto
  obtain b where budget: "GetExecutionBudget running_db ''A'' = Inr b" "b_DeadlineAt b = 16"
    using running_budget by (cases "GetExecutionBudget running_db ''A''") auto
  have sha: "h_sha256 (sample_host x) = sample_sha" for x by (simp add: sample_host_def)
  let ?alive = "Inr (Some (sample_status ActivityStateActive False))"
  let ?stop = "timeout_stop sample_monitor sample_execution ''timeout-x''"
  have stop: "?stop\<lparr>st_InitiatingFailureReason := Some ''TIMEOUT'', st_RequestedAt := 20\<rparr> = tick_stop"
    "tick_stop\<lparr>st_RequestedAt := 20, st_Actor := ''u''\<rparr> = tick_stop"
    by (simp_all add: tick_stop_def timeout_stop_def sample_monitor_def)
  have fields: "st_Purpose ?stop = RunningAttemptStop" "st_AttemptID ?stop = Some ''A''"
    "st_SessionID ?stop = ''S''" "st_TerminalGeneration ?stop = ''g''" "st_PairID ?stop = ''Q''"
    "st_Purpose tick_stop = RunningAttemptStop" "st_SessionID tick_stop = ''S''"
    "st_TerminalGeneration tick_stop = ''g''" "st_PairID tick_stop = ''Q''"
    "st_OperationID tick_stop = ''timeout-x''" "st_RestoreOperationID tick_stop = None" "st_Actor tick_stop = ''u''"
    "st_RequestedAt tick_stop = 20"
    by (simp_all add: tick_stop_def timeout_stop_def sample_monitor_def sample_execution_def)
  have deps: "sc_Store sample_stopper" "sc_AO sample_stopper" "sc_KillTimeout sample_stopper = 9"
    "tm_Stop sample_monitor = sample_stopper" "tm_SameStore sample_monitor" "rn_Host (tm_Owner sample_monitor)"
    "rn_TimeoutAdmission (tm_Owner sample_monitor)" "tm_Interval sample_monitor = 1" "tm_Actor sample_monitor = ''u''"
    by (simp_all add: sample_monitor_def sample_stopper_def)
  have candidate: "timeout_candidate [] sample_execution" "re_AttemptID sample_execution = ''A''"
    by (simp_all add: timeout_candidate_def sample_execution_def)
  show ?thesis
    unfolding Tick_def only_error_def
    apply (rule exI, rule exI)
    apply (simp add: deps)
    apply (rule runs_first, rule step.asked [where a = None])
    apply (simp add: check_ctx_def)
    apply (rule runs_first, rule step.asked [where a = None])
    apply (simp add: read_store_def)
    apply (rule runs_first, rule step.inspected)
    apply (simp add: snap and_ok_def tick_execution_def check_ctx_def candidate)
    apply (rule runs_first, rule step.asked [where a = None])
    apply (simp add: candidate read_store_def)
    apply (rule runs_first, rule step.inspected)
    apply (simp add: budget)
    apply (rule runs_first, rule step.timed [where t = 20])
    apply (simp add: budget)
    apply (rule runs_first, rule step.drawn [where x = "Some ''x''"])
    apply (simp add: timeoutOperationID_def StartTimeout_def deps fields)
    apply (rule runs_first, rule step.permitted [where b = "Some True"])
    apply (simp add: and_release_def)
    apply (rule runs_first, rule step.asked [where a = None])
    apply simp
    apply (rule runs_first, rule step.observed [where r = ?alive])
    apply (simp add: sample_status_def timeout_activity_def)
    apply (rule runs_first, rule step.timed [where t = 20])
    apply (simp add: stop start_call_def fields deps)
    apply (rule runs_first, rule step.timed [where t = 20])
    apply (simp add: IsZero_def fields stop observe_claim_def reserve_and_stop_def reservation_def transact_or_fail_def)
    apply (rule runs_first, rule step.committed [OF e1 sha])
    apply (simp add: observe_and_kill_def)
    apply (rule runs_first, rule step.observed [where r = ?alive])
    apply (simp add: sample_status_def timeout_activity_def fields read_store_def)
    apply (rule runs_first, rule step.inspected)
    apply (simp add: owner kill_and_commit_def Let_def fields)
    apply (rule runs_first, rule step_killed, rule runs.start)
    done
qed

theorem tick_kill_uses_reservation_witness:
  "\<exists>before p s. runs sample_sha (Tick sample_monitor) running_db (before @ [Did (Killed ''S'')]) p s \<and>
     kills ''S'' before < reservations ''S'' before"
proof -
  obtain before p s where run: "runs sample_sha (Tick sample_monitor) running_db (before @ [Did (Killed ''S'')]) p s"
    using sample_tick_run by blast
  from tick_kill_uses_reservation [OF run] run show ?thesis by auto
qed

end
