(* ===== verification/Poller_Cycle.thy ===== *)
theory Poller_Cycle
  imports Recovery_Ticks
begin

text \<open>
  The life of a poller in \<open>internal/recovery/poller.go\<close>: \<open>Start\<close> makes a cycle and its goroutine, which
  ticks until its context is cancelled or a tick fails; \<open>Stop\<close> cancels the active cycle and joins it;
  \<open>Done\<close>, \<open>Err\<close> and \<open>ErrFor\<close> report. A cycle and its channel are known by the number \<open>Start\<close> gave the
  cycle, so \<open>cycleByDone\<close> is the map of all cycles. Every section under the mutex is one step; the
  goroutine of a cycle and one \<open>Stop\<close> (they exclude each other) run in several steps.
\<close>

section \<open>State\<close>

datatype goroutine = Looping | Returning | DoneClosed

record pollerCycle =
  cy_err :: "failure option"
  cy_errRead :: bool
  cy_stopped :: bool
  cy_running :: bool
  cy_goroutine :: goroutine

datatype stop_call = NoStop | Joining nat | Joined_with "failure option"

record poller =
  pr_cycles :: "nat \<rightharpoonup> pollerCycle"
  pr_activeCycle :: "nat option"
  pr_prevCycle :: "nat option"
  pr_cycleSeq :: nat
  pr_running :: bool
  pr_lastErr :: "failure option"
  pr_shutdown :: bool
  pr_stopping :: bool
  pr_stop :: stop_call

definition new_poller :: poller where
  "new_poller = \<lparr>pr_cycles = Map.empty, pr_activeCycle = None, pr_prevCycle = None, pr_cycleSeq = 0,
     pr_running = False, pr_lastErr = None, pr_shutdown = False, pr_stopping = False, pr_stop = NoStop\<rparr>"

definition cycle_err :: "poller \<Rightarrow> nat option \<Rightarrow> failure option" where
  "cycle_err p c = Option.bind c (\<lambda>i. Option.bind (pr_cycles p i) cy_err)"

definition set_cycle :: "nat \<Rightarrow> (pollerCycle \<Rightarrow> pollerCycle) \<Rightarrow> poller \<Rightarrow> poller" where
  "set_cycle i f p = p\<lparr>pr_cycles := (pr_cycles p)(i := map_option f (pr_cycles p i))\<rparr>"

section \<open>Operations\<close>

text \<open>What \<open>Start\<close> asks of its surroundings: the fields, the gate of the runner, another poller, the context.\<close>

record start_context =
  sx_configured :: bool
  sx_gate :: gate
  sx_same_store :: bool
  sx_other_active :: bool
  sx_ctx_err :: "failure option"

definition active_running :: "poller \<Rightarrow> bool" where
  "active_running p \<longleftrightarrow>
     (case Option.bind (pr_activeCycle p) (pr_cycles p) of None \<Rightarrow> False | Some c \<Rightarrow> cy_running c) \<or> pr_running p"

definition Poller_Start :: "start_context \<Rightarrow> poller \<Rightarrow> failure + poller" where
  "Poller_Start x p =
     (if \<not> sx_configured x then Inl (Refused ''recovery: poller dependencies and injected cadence required'')
      else if g_running (sx_gate x) \<or> \<not> g_ready (sx_gate x)
      then Inl (Refused ''recovery: startup classification has not completed'')
      else if \<not> sx_same_store x then Inl (Refused ''recovery: poller Store differs from completed runner'')
      else if sx_other_active x then Inl (Refused ''recovery: another poller owns this runner'')
      else if active_running p \<or> pr_stopping p then Inl (Refused ''recovery: poller already running'')
      else case sx_ctx_err x of
        Some e \<Rightarrow> Inl e
      | None \<Rightarrow>
          let i = pr_cycleSeq p + 1;
              c = \<lparr>cy_err = None, cy_errRead = False, cy_stopped = False, cy_running = True,
                   cy_goroutine = Looping\<rparr> in
          Inr (p\<lparr>pr_cycleSeq := i, pr_cycles := (pr_cycles p)(i \<mapsto> c), pr_activeCycle := Some i,
            pr_running := True, pr_shutdown := False, pr_lastErr := None\<rparr>))"

text \<open>
  The goroutine: its context is cancelled, by \<open>Stop\<close> or from outside; or a tick fails otherwise, and
  the error is recorded. Then it closes its channel.
\<close>

definition cycle_cancelled :: "nat \<Rightarrow> poller \<Rightarrow> poller option" where
  "cycle_cancelled i p =
     (case pr_cycles p i of
        None \<Rightarrow> None
      | Some c \<Rightarrow> if cy_goroutine c = Looping then Some (set_cycle i (cy_goroutine_update (\<lambda>_. Returning)) p) else None)"

definition cycle_fails :: "nat \<Rightarrow> failure \<Rightarrow> poller \<Rightarrow> poller option" where
  "cycle_fails i e p =
     (case pr_cycles p i of
        None \<Rightarrow> None
      | Some c \<Rightarrow>
          if cy_goroutine c = Looping
          then Some ((set_cycle i (\<lambda>c. c\<lparr>cy_err := Some e, cy_running := False, cy_goroutine := Returning\<rparr>) p)
            \<lparr>pr_lastErr := Some e, pr_running := False\<rparr>)
          else None)"

definition cycle_closes :: "nat \<Rightarrow> poller \<Rightarrow> poller option" where
  "cycle_closes i p =
     (case pr_cycles p i of
        None \<Rightarrow> None
      | Some c \<Rightarrow> if cy_goroutine c = Returning then Some (set_cycle i (cy_goroutine_update (\<lambda>_. DoneClosed)) p) else None)"

text \<open>
  \<open>Stop\<close>: close the ticks and take the active cycle; wait for its channel and retire it; let the ticks
  go and return its error.
\<close>

definition stop_begins :: "poller \<Rightarrow> poller option" where
  "stop_begins p =
     (if pr_stop p \<noteq> NoStop then None
      else let p1 = p\<lparr>pr_shutdown := True, pr_stopping := True\<rparr> in
        case pr_activeCycle p of
          None \<Rightarrow> Some (p1\<lparr>pr_stop := Joined_with
            (if pr_prevCycle p \<noteq> None then cycle_err p (pr_prevCycle p) else pr_lastErr p)\<rparr>)
        | Some i \<Rightarrow> Some (p1\<lparr>pr_stop := Joining i\<rparr>))"

definition stop_joins :: "poller \<Rightarrow> poller option" where
  "stop_joins p =
     (case pr_stop p of
        Joining i \<Rightarrow>
          (case pr_cycles p i of
             None \<Rightarrow> None
           | Some c \<Rightarrow>
               if cy_goroutine c = DoneClosed
               then Some ((set_cycle i (\<lambda>c. c\<lparr>cy_running := False, cy_stopped := True\<rparr>) p)
                 \<lparr>pr_running := False, pr_lastErr := cy_err c, pr_prevCycle := Some i, pr_activeCycle := None,
                  pr_stop := Joined_with (cy_err c)\<rparr>)
               else None)
      | _ \<Rightarrow> None)"

definition stop_ends :: "poller \<Rightarrow> (failure option \<times> poller) option" where
  "stop_ends p =
     (case pr_stop p of
        Joined_with e \<Rightarrow> Some (e, p\<lparr>pr_stopping := False, pr_stop := NoStop\<rparr>)
      | _ \<Rightarrow> None)"

definition Done :: "poller \<Rightarrow> nat option" where
  "Done p =
     (if pr_activeCycle p \<noteq> None then pr_activeCycle p
      else if pr_prevCycle p \<noteq> None then pr_prevCycle p
      else if pr_cycleSeq p = 0 then None else Some (pr_cycleSeq p))"

definition mark_read :: "nat option \<Rightarrow> poller \<Rightarrow> poller" where
  "mark_read c p = (case c of None \<Rightarrow> p | Some i \<Rightarrow> set_cycle i (cy_errRead_update (\<lambda>_. True)) p)"

definition Err :: "poller \<Rightarrow> failure option \<times> poller" where
  "Err p =
     (if cycle_err p (pr_activeCycle p) \<noteq> None
      then (cycle_err p (pr_activeCycle p), mark_read (pr_activeCycle p) p)
      else if cycle_err p (pr_prevCycle p) \<noteq> None
      then (cycle_err p (pr_prevCycle p), mark_read (pr_prevCycle p) p)
      else (pr_lastErr p, p))"

definition ErrFor :: "nat option \<Rightarrow> poller \<Rightarrow> failure option \<times> poller" where
  "ErrFor done p =
     (case done of
        None \<Rightarrow> (None, p)
      | Some i \<Rightarrow>
          (case pr_cycles p i of
             Some c \<Rightarrow> (cy_err c, mark_read (Some i) p)
           | None \<Rightarrow>
               if pr_prevCycle p = Some i then (cycle_err p (pr_prevCycle p), mark_read (pr_prevCycle p) p)
               else (pr_lastErr p, p)))"

section \<open>Histories\<close>

datatype poller_action =
    CallStart start_context
  | CycleCancelled nat
  | CycleFails nat failure
  | CycleCloses nat
  | StopBegins
  | StopJoins
  | StopEnds
  | CallErr
  | CallErrFor "nat option"

fun poller_step :: "poller_action \<Rightarrow> poller \<Rightarrow> poller option" where
  "poller_step (CallStart x) p = (case Poller_Start x p of Inl e \<Rightarrow> Some p | Inr q \<Rightarrow> Some q)"
| "poller_step (CycleCancelled i) p = cycle_cancelled i p"
| "poller_step (CycleFails i e) p = cycle_fails i e p"
| "poller_step (CycleCloses i) p = cycle_closes i p"
| "poller_step StopBegins p = stop_begins p"
| "poller_step StopJoins p = stop_joins p"
| "poller_step StopEnds p = map_option snd (stop_ends p)"
| "poller_step CallErr p = Some (snd (Err p))"
| "poller_step (CallErrFor d) p = Some (snd (ErrFor d p))"

fun poller_steps :: "poller_action list \<Rightarrow> poller \<Rightarrow> poller option" where
  "poller_steps [] p = Some p"
| "poller_steps (a # as) p = Option.bind (poller_step a p) (poller_steps as)"

lemma poller_steps_append:
  "poller_steps (as @ bs) p = Option.bind (poller_steps as p) (poller_steps bs)"
  by (induction as arbitrary: p) (auto split: Option.bind_splits)

section \<open>The invariant\<close>

text \<open>
  The numbers given out are the cycles there are; a goroutine that still ticks belongs to the active
  cycle, which counts as running; a failed cycle ticks no more; a stop keeps the cycle it joins active.
\<close>

definition cycle_ok :: "nat option \<Rightarrow> nat \<Rightarrow> pollerCycle \<Rightarrow> bool" where
  "cycle_ok active i c \<longleftrightarrow>
     (cy_goroutine c = Looping \<longrightarrow> active = Some i \<and> cy_running c \<and> cy_err c = None)"

definition poller_inv :: "poller \<Rightarrow> bool" where
  "poller_inv p \<longleftrightarrow>
     dom (pr_cycles p) = {1..pr_cycleSeq p} \<and>
     (\<forall>i c. pr_cycles p i = Some c \<longrightarrow> cycle_ok (pr_activeCycle p) i c) \<and>
     set_option (pr_activeCycle p) \<union> set_option (pr_prevCycle p) \<subseteq> {1..pr_cycleSeq p} \<and>
     (\<forall>i. pr_stop p = Joining i \<longrightarrow> pr_activeCycle p = Some i) \<and>
     (pr_stopping p \<longleftrightarrow> pr_stop p \<noteq> NoStop)"

lemma new_poller_inv: "poller_inv new_poller"
  by (simp add: poller_inv_def new_poller_def)

lemma set_cycle_simps [simp]:
  "pr_cycles (set_cycle i f p) j = (if j = i then map_option f (pr_cycles p i) else pr_cycles p j)"
  "pr_activeCycle (set_cycle i f p) = pr_activeCycle p" "pr_prevCycle (set_cycle i f p) = pr_prevCycle p"
  "pr_cycleSeq (set_cycle i f p) = pr_cycleSeq p" "pr_running (set_cycle i f p) = pr_running p"
  "pr_lastErr (set_cycle i f p) = pr_lastErr p" "pr_stopping (set_cycle i f p) = pr_stopping p"
  "pr_stop (set_cycle i f p) = pr_stop p" "pr_shutdown (set_cycle i f p) = pr_shutdown p"
  by (simp_all add: set_cycle_def)

lemma dom_set_cycle [simp]: "dom (pr_cycles (set_cycle i f p)) = dom (pr_cycles p)"
  by (auto simp: dom_def)

text \<open>The flags that only guard the entries are not part of the invariant.\<close>

lemma poller_inv_flags [simp]:
  "poller_inv (p\<lparr>pr_running := x\<rparr>) = poller_inv p" "poller_inv (p\<lparr>pr_lastErr := y\<rparr>) = poller_inv p"
  "poller_inv (p\<lparr>pr_shutdown := z\<rparr>) = poller_inv p"
  by (simp_all add: poller_inv_def)

lemma set_cycle_inv:
  "poller_inv p \<Longrightarrow> (\<And>c. pr_cycles p i = Some c \<Longrightarrow> cycle_ok (pr_activeCycle p) i (f c)) \<Longrightarrow>
     poller_inv (set_cycle i f p)"
  unfolding poller_inv_def by (simp, blast)

lemma poller_inv_cycle: "poller_inv p \<Longrightarrow> pr_cycles p i = Some c \<Longrightarrow> cycle_ok (pr_activeCycle p) i c"
  by (simp add: poller_inv_def)

lemma mark_read_inv: "poller_inv p \<Longrightarrow> poller_inv (mark_read c p)"
proof (cases c)
  case (Some i)
  assume "poller_inv p"
  moreover from this have "cycle_ok (pr_activeCycle p) i (cy_errRead_update (\<lambda>_. True) d)"
    if "pr_cycles p i = Some d" for d
    using poller_inv_cycle [of p i d] that by (simp add: cycle_ok_def)
  ultimately show ?thesis using Some by (simp add: mark_read_def set_cycle_inv)
qed (simp add: mark_read_def)

lemma Poller_Start_ok:
  "Poller_Start x p = Inr q \<Longrightarrow> \<not> active_running p \<and> \<not> pr_stopping p \<and>
     q = p\<lparr>pr_cycleSeq := pr_cycleSeq p + 1, pr_cycles := (pr_cycles p)(pr_cycleSeq p + 1 \<mapsto> \<lparr>cy_err = None,
         cy_errRead = False, cy_stopped = False, cy_running = True, cy_goroutine = Looping\<rparr>),
       pr_activeCycle := Some (pr_cycleSeq p + 1), pr_running := True, pr_shutdown := False, pr_lastErr := None\<rparr>"
  by (auto simp: Poller_Start_def Let_def split: if_splits option.splits)

lemma idle_not_looping:
  "poller_inv p \<Longrightarrow> \<not> active_running p \<Longrightarrow> pr_cycles p i = Some c \<Longrightarrow> cy_goroutine c \<noteq> Looping"
  using poller_inv_cycle [of p i c] by (auto simp: cycle_ok_def active_running_def)

lemma Poller_Start_inv:
  assumes inv: "poller_inv p" and start: "Poller_Start x p = Inr q"
  shows "poller_inv q"
proof -
  note ok = Poller_Start_ok [OF start]
  have "dom (pr_cycles q) = insert (pr_cycleSeq p + 1) {1..pr_cycleSeq p}"
    using inv ok by (simp add: poller_inv_def)
  also have "\<dots> = {1..pr_cycleSeq q}" using ok by (auto simp: le_Suc_eq)
  finally have dom: "dom (pr_cycles q) = {1..pr_cycleSeq q}" .
  have cycles: "cycle_ok (pr_activeCycle q) i c" if "pr_cycles q i = Some c" for i c
    using that ok idle_not_looping [OF inv, of i c] by (auto simp: cycle_ok_def split: if_splits)
  have "set_option (pr_activeCycle q) \<union> set_option (pr_prevCycle q) \<subseteq> {1..pr_cycleSeq q}"
    using inv ok by (auto simp: poller_inv_def)
  with dom cycles show ?thesis using inv ok by (simp add: poller_inv_def)
qed

lemma goroutine_step_inv:
  assumes inv: "poller_inv p" and moved: "\<And>c. cy_goroutine (f c) \<noteq> Looping"
  shows "poller_inv (set_cycle i f p)"
  using inv moved by (intro set_cycle_inv) (simp_all add: cycle_ok_def)

lemma stop_begins_inv: "poller_inv p \<Longrightarrow> stop_begins p = Some q \<Longrightarrow> poller_inv q"
  by (cases "pr_activeCycle p")
    (simp_all add: stop_begins_def poller_inv_def Let_def split: if_splits, (clarsimp simp: poller_inv_def)+)

lemma stop_joins_inv:
  assumes inv: "poller_inv p" and step: "stop_joins p = Some q"
  shows "poller_inv q"
proof -
  obtain i c where i: "pr_stop p = Joining i" "pr_cycles p i = Some c" "cy_goroutine c = DoneClosed"
    and q: "q = (set_cycle i (\<lambda>c. c\<lparr>cy_running := False, cy_stopped := True\<rparr>) p)\<lparr>pr_running := False,
      pr_lastErr := cy_err c, pr_prevCycle := Some i, pr_activeCycle := None, pr_stop := Joined_with (cy_err c)\<rparr>"
    using step by (auto simp: stop_joins_def split: stop_call.splits option.splits if_splits)
  have active: "pr_activeCycle p = Some i" using inv i(1) by (simp add: poller_inv_def)
  have "cycle_ok None j d" if "pr_cycles q j = Some d" for j d
    using that poller_inv_cycle [OF inv, of j] i active by (auto simp: q cycle_ok_def split: if_splits)
  then show ?thesis using inv active i(1) by (simp add: poller_inv_def q)
qed

lemma poller_step_inv:
  assumes inv: "poller_inv p" and step: "poller_step a p = Some q"
  shows "poller_inv q"
proof (cases a)
  case (CallStart x)
  with step inv show ?thesis by (auto intro: Poller_Start_inv split: sum.splits)
next
  case CallErr
  with step inv show ?thesis by (auto simp: Err_def intro: mark_read_inv split: if_splits)
next
  case (CallErrFor d)
  with step inv show ?thesis by (auto simp: ErrFor_def intro: mark_read_inv split: option.splits if_splits)
next
  case StopEnds
  then obtain e where "q = p\<lparr>pr_stopping := False, pr_stop := NoStop\<rparr>"
    using step by (auto simp: stop_ends_def split: stop_call.splits)
  then show ?thesis using inv by (simp add: poller_inv_def)
next
  case (CycleCancelled i)
  with step inv show ?thesis
    by (auto simp: cycle_cancelled_def intro!: goroutine_step_inv split: if_splits option.splits)
next
  case (CycleFails i e)
  with step inv show ?thesis
    by (auto simp: cycle_fails_def intro!: goroutine_step_inv split: if_splits option.splits)
next
  case (CycleCloses i)
  with step inv show ?thesis
    by (auto simp: cycle_closes_def intro!: goroutine_step_inv split: if_splits option.splits)
next
  case StopBegins
  with step show ?thesis using stop_begins_inv [OF inv] by simp
next
  case StopJoins
  with step show ?thesis using stop_joins_inv [OF inv] by simp
qed

text \<open>The error of a cycle is the one its goroutine failed with.\<close>

definition recorded :: "poller_action list \<Rightarrow> poller \<Rightarrow> bool" where
  "recorded as p \<longleftrightarrow> (\<forall>i e. CycleFails i e \<in> set as \<longleftrightarrow> cycle_err p (Some i) = Some e)"

lemma cycle_err_set_cycle:
  "(\<And>c. cy_err (f c) = cy_err c) \<Longrightarrow> cycle_err (set_cycle i f p) j = cycle_err p j"
  by (cases j) (auto simp: cycle_err_def bind_map_option comp_def)

lemma cycle_err_flags [simp]:
  "cycle_err (p\<lparr>pr_running := x\<rparr>) j = cycle_err p j" "cycle_err (p\<lparr>pr_lastErr := y\<rparr>) j = cycle_err p j"
  "cycle_err (p\<lparr>pr_prevCycle := c\<rparr>) j = cycle_err p j" "cycle_err (p\<lparr>pr_activeCycle := c\<rparr>) j = cycle_err p j"
  "cycle_err (p\<lparr>pr_stop := z\<rparr>) j = cycle_err p j" "cycle_err (p\<lparr>pr_stopping := x\<rparr>) j = cycle_err p j"
  "cycle_err (p\<lparr>pr_shutdown := x\<rparr>) j = cycle_err p j" "cycle_err (p\<lparr>pr_cycleSeq := n\<rparr>) j = cycle_err p j"
  by (simp_all add: cycle_err_def)

lemma cycle_err_mark_read [simp]: "cycle_err (mark_read c p) j = cycle_err p j"
  by (cases c) (simp_all add: mark_read_def cycle_err_set_cycle)

lemma cycle_err_Start:
  assumes "poller_inv p" and "Poller_Start x p = Inr q"
  shows "cycle_err q j = cycle_err p j"
proof -
  have "pr_cycleSeq p + 1 \<notin> dom (pr_cycles p)" using assms(1) by (simp add: poller_inv_def)
  then have "pr_cycles p (pr_cycleSeq p + 1) = None" by blast
  then show ?thesis using Poller_Start_ok [OF assms(2)] by (cases j) (auto simp: cycle_err_def)
qed

lemma cycle_fails_err:
  assumes "poller_inv p" and "cycle_fails i e p = Some q"
  shows "cycle_err p (Some i) = None" and "cycle_err q (Some j) = (if j = i then Some e else cycle_err p (Some j))"
proof -
  obtain c where c: "pr_cycles p i = Some c" "cy_goroutine c = Looping"
    and q: "q = (set_cycle i (\<lambda>c. c\<lparr>cy_err := Some e, cy_running := False, cy_goroutine := Returning\<rparr>) p)
            \<lparr>pr_lastErr := Some e, pr_running := False\<rparr>"
    using assms(2) by (auto simp: cycle_fails_def split: option.splits if_splits)
  show "cycle_err p (Some i) = None"
    using poller_inv_cycle [OF assms(1) c(1)] c by (simp add: cycle_ok_def cycle_err_def)
  show "cycle_err q (Some j) = (if j = i then Some e else cycle_err p (Some j))"
    using c by (simp add: q cycle_err_def)
qed

lemma other_step_err:
  assumes "poller_inv p" and "poller_step a p = Some q" and "\<And>i e. a \<noteq> CycleFails i e"
  shows "cycle_err q j = cycle_err p j"
proof (cases a)
  case (CallStart x)
  with assms(1,2) show ?thesis by (auto simp: cycle_err_Start split: sum.splits)
next
  case StopBegins
  with assms(2) show ?thesis by (auto simp: stop_begins_def Let_def split: if_splits option.splits)
next
  case StopJoins
  with assms(2) show ?thesis
    by (auto simp: stop_joins_def cycle_err_set_cycle split: if_splits option.splits stop_call.splits)
next
  case StopEnds
  with assms(2) show ?thesis by (auto simp: stop_ends_def split: stop_call.splits)
next
  case CallErr
  with assms(2) show ?thesis by (auto simp: Err_def split: if_splits)
next
  case (CallErrFor d)
  with assms(2) show ?thesis by (auto simp: ErrFor_def split: if_splits option.splits)
next
  case (CycleCancelled i)
  with assms(2) show ?thesis
    by (auto simp: cycle_cancelled_def cycle_err_set_cycle split: if_splits option.splits)
next
  case (CycleCloses i)
  with assms(2) show ?thesis
    by (auto simp: cycle_closes_def cycle_err_set_cycle split: if_splits option.splits)
qed (use assms(3) in blast)

lemma poller_step_recorded:
  assumes "poller_inv p" and "recorded as p" and "poller_step a p = Some q"
  shows "recorded (as @ [a]) q"
proof (cases "\<exists>i e. a = CycleFails i e")
  case True
  then obtain i e where a: "a = CycleFails i e" by blast
  then have "cycle_fails i e p = Some q" using assms(3) by simp
  note err = cycle_fails_err [OF assms(1) this]
  then show ?thesis using assms(2) a by (auto simp: recorded_def split: if_splits)
next
  case False
  then show ?thesis using assms(2) other_step_err [OF assms(1,3)] by (auto simp: recorded_def)
qed

lemma poller_steps_inv:
  "poller_steps as new_poller = Some p \<Longrightarrow> poller_inv p \<and> recorded as p"
proof (induction as arbitrary: p rule: rev_induct)
  case Nil
  then show ?case using new_poller_inv by (auto simp: recorded_def new_poller_def cycle_err_def)
next
  case (snoc a as)
  then obtain q where q: "poller_steps as new_poller = Some q" "poller_step a q = Some p"
    by (auto simp: poller_steps_append split: Option.bind_splits)
  with snoc.IH show ?case using poller_step_inv poller_step_recorded by blast
qed

section \<open>Properties\<close>

text \<open>A stop that has begun: the steps that are left to it.\<close>

definition finish_stop :: "poller \<Rightarrow> poller_action list" where
  "finish_stop p =
     (case pr_stop p of
        NoStop \<Rightarrow> []
      | Joined_with e \<Rightarrow> [StopEnds]
      | Joining i \<Rightarrow>
          (case pr_cycles p i of
             None \<Rightarrow> []
           | Some c \<Rightarrow>
               (case cy_goroutine c of
                  Looping \<Rightarrow> [CycleCancelled i, CycleCloses i]
                | Returning \<Rightarrow> [CycleCloses i]
                | DoneClosed \<Rightarrow> []) @ [StopJoins, StopEnds]))"

lemma finish_stop_finishes:
  assumes "poller_inv p"
  shows "\<exists>q. poller_steps (finish_stop p) p = Some q \<and> pr_stop q = NoStop"
proof (cases "pr_stop p")
  case (Joining i)
  have "i \<in> dom (pr_cycles p)" using assms Joining by (auto simp: poller_inv_def)
  then obtain c where "pr_cycles p i = Some c" by blast
  with Joining show ?thesis
    by (cases "cy_goroutine c")
      (simp_all add: finish_stop_def cycle_cancelled_def cycle_closes_def stop_joins_def stop_ends_def)
qed (simp_all add: finish_stop_def stop_ends_def)

text \<open>
  C33: over any history of a poller at most one goroutine ticks; the error that is asked for by a captured
  channel is exactly the one the goroutine of that cycle failed with, whatever was started, stopped or
  read since; and a stop that has begun returns once the goroutine it joins has taken the at most two
  steps that are left to it.
\<close>

theorem cycle_error_bound:
  assumes "poller_steps as new_poller = Some p"
  shows "(\<forall>i j c d. pr_cycles p i = Some c \<and> pr_cycles p j = Some d \<and>
       cy_goroutine c = Looping \<and> cy_goroutine d = Looping \<longrightarrow> i = j) \<and>
    (\<forall>i\<in>{1..pr_cycleSeq p}. \<forall>e. fst (ErrFor (Some i) p) = Some e \<longleftrightarrow> CycleFails i e \<in> set as) \<and>
    (\<exists>q. poller_steps (finish_stop p) p = Some q \<and> pr_stop q = NoStop \<and> length (finish_stop p) \<le> 4)"
proof -
  have inv: "poller_inv p" and rec: "recorded as p" using poller_steps_inv [OF assms] by simp_all
  have "i = j" if "pr_cycles p i = Some c" "pr_cycles p j = Some d" "cy_goroutine c = Looping" "cy_goroutine d = Looping"
    for i j c d
    using poller_inv_cycle [OF inv that(1)] poller_inv_cycle [OF inv that(2)] that by (simp add: cycle_ok_def)
  moreover have "fst (ErrFor (Some i) p) = Some e \<longleftrightarrow> CycleFails i e \<in> set as" if "i \<in> {1..pr_cycleSeq p}" for i e
  proof -
    have "i \<in> dom (pr_cycles p)" using inv that by (simp add: poller_inv_def)
    then show ?thesis using rec by (auto simp: ErrFor_def recorded_def cycle_err_def)
  qed
  moreover have "length (finish_stop p) \<le> 4"
    by (auto simp: finish_stop_def split: stop_call.splits option.splits goroutine.splits)
  ultimately show ?thesis using finish_stop_finishes [OF inv] by blast
qed

definition sample_start :: start_context where
  "sample_start = \<lparr>sx_configured = True, sx_gate = initial_gate\<lparr>g_ready := True\<rparr>, sx_same_store = True,
     sx_other_active = False, sx_ctx_err = None\<rparr>"

text \<open>
  A start without a stop after a failure drops the failed cycle: \<open>Err\<close> reports no error then, although the
  error was never read; only the captured channel still gives it.
\<close>

lemma start_masks_error:
  "map_option (\<lambda>p. (fst (Err p), fst (ErrFor (Some 1) p)))
     (poller_steps [CallStart sample_start, CycleFails 1 (Refused ''e''), CycleCloses 1, CallStart sample_start] new_poller) =
   Some (None, Some (Refused ''e''))"
  by code_simp

theorem cycle_error_bound_witness:
  "\<exists>p. poller_steps [CallStart sample_start, CycleFails 1 (Refused ''e''), StopBegins] new_poller = Some p \<and>
     fst (ErrFor (Some 1) p) = Some (Refused ''e'')"
proof -
  let ?as = "[CallStart sample_start, CycleFails 1 (Refused ''e''), StopBegins]"
  have "map_option pr_cycleSeq (poller_steps ?as new_poller) = Some 1" by code_simp
  then obtain p where p: "poller_steps ?as new_poller = Some p" "pr_cycleSeq p = 1" by auto
  from cycle_error_bound [OF p(1)] p(2) have "fst (ErrFor (Some 1) p) = Some (Refused ''e'')" by simp
  with p(1) show ?thesis by blast
qed

end
