(* ===== verification/Host_Authority.thy ===== *)
theory Host_Authority
  imports Prelude
begin

text \<open>
  \<open>internal/host\<close> without its operating system parts: the admission authority of \<open>authority.go\<close>, the
  order of the shutdown of \<open>drain.go\<close> and the policies of \<open>types.go\<close>. Every method of the authority
  runs under its mutex, so a history is a sequence of method calls. The wait group is its counter;
  a counter below zero panics in Go and is \<open>None\<close> here.
\<close>

section \<open>Admission\<close>

record Authority =
  au_pairLocks :: "string \<rightharpoonup> string"
  au_globalLocked :: bool
  au_globalOwner :: string
  au_activeOps :: nat
  au_draining :: bool
  au_principal :: string

datatype host_error =
    EmptyPairID | Draining | GlobalHeld string | PairHeld string string | PairScopesActive | ErrDrainTimeout

text \<open>A scope: what its release function gives back, and whether it was released.\<close>

datatype scope_kind = PairScope string | GlobalScope

record scopePermit =
  sp_kind :: scope_kind
  sp_released :: bool

definition NewAuthority :: "string \<Rightarrow> Authority" where
  "NewAuthority princ =
     \<lparr>au_pairLocks = Map.empty, au_globalLocked = False, au_globalOwner = [], au_activeOps = 0,
      au_draining = False, au_principal = princ\<rparr>"

definition Available :: "Authority \<Rightarrow> bool" where
  "Available a \<longleftrightarrow> \<not> au_draining a"

definition SetUnavailable :: "Authority \<Rightarrow> Authority" where
  "SetUnavailable a = a\<lparr>au_draining := True\<rparr>"

definition VerifiedRestorePrincipal :: "Authority \<Rightarrow> string \<times> string \<times> string \<times> string \<Rightarrow> string \<times> bool" where
  "VerifiedRestorePrincipal a q = ([], False)"

definition AcquireExclusiveScope ::
  "string \<Rightarrow> string \<Rightarrow> Authority \<Rightarrow> host_error + (scopePermit \<times> Authority)" where
  "AcquireExclusiveScope pairID purpose a =
     (if pairID = [] then Inl EmptyPairID
      else if au_draining a then Inl Draining
      else if au_globalLocked a then Inl (GlobalHeld (au_globalOwner a))
      else case au_pairLocks a pairID of
        Some existing \<Rightarrow> Inl (PairHeld pairID existing)
      | None \<Rightarrow> Inr (\<lparr>sp_kind = PairScope pairID, sp_released = False\<rparr>,
          a\<lparr>au_pairLocks := (au_pairLocks a)(pairID \<mapsto> purpose), au_activeOps := au_activeOps a + 1\<rparr>))"

definition AcquireGlobalExclusiveScope :: "string \<Rightarrow> Authority \<Rightarrow> host_error + (scopePermit \<times> Authority)" where
  "AcquireGlobalExclusiveScope purpose a =
     (if au_draining a then Inl Draining
      else if au_globalLocked a then Inl (GlobalHeld (au_globalOwner a))
      else if dom (au_pairLocks a) \<noteq> {} then Inl PairScopesActive
      else Inr (\<lparr>sp_kind = GlobalScope, sp_released = False\<rparr>,
        a\<lparr>au_globalLocked := True, au_globalOwner := purpose, au_activeOps := au_activeOps a + 1\<rparr>))"

definition Acquire :: "Authority \<Rightarrow> host_error + (scopePermit \<times> Authority)" where
  "Acquire = AcquireGlobalExclusiveScope ''RECOVERY_SCAN''"

definition AcquireMaintenanceScope ::
  "string \<Rightarrow> string \<Rightarrow> Authority \<Rightarrow> host_error + (scopePermit \<times> Authority)" where
  "AcquireMaintenanceScope pairID purpose = AcquireExclusiveScope pairID (''MAINTENANCE:'' @ purpose)"

definition AcquireEffect :: "string \<Rightarrow> string \<Rightarrow> Authority \<Rightarrow> host_error + (scopePermit \<times> Authority)" where
  "AcquireEffect pairID caller = AcquireExclusiveScope pairID (''EFFECT:'' @ caller)"

definition wait_group_done :: "Authority \<Rightarrow> Authority option" where
  "wait_group_done a = (if au_activeOps a = 0 then None else Some (a\<lparr>au_activeOps := au_activeOps a - 1\<rparr>))"

definition release_scope :: "scope_kind \<Rightarrow> Authority \<Rightarrow> Authority option" where
  "release_scope k a =
     (case k of
        PairScope pairID \<Rightarrow> wait_group_done (a\<lparr>au_pairLocks := (au_pairLocks a)(pairID := None)\<rparr>)
      | GlobalScope \<Rightarrow> wait_group_done (a\<lparr>au_globalLocked := False, au_globalOwner := []\<rparr>))"

definition Release_permit :: "scopePermit \<Rightarrow> Authority \<Rightarrow> (scopePermit \<times> Authority) option" where
  "Release_permit p a =
     (if sp_released p then Some (p, a)
      else map_option (Pair (p\<lparr>sp_released := True\<rparr>)) (release_scope (sp_kind p) a))"

text \<open>
  \<open>Drain\<close> closes admission at once and then waits. It can return without an error only when the
  counter is zero; \<open>WaitAllReleased\<close> returns only then.
\<close>

definition Drain_close :: "Authority \<Rightarrow> Authority" where
  "Drain_close a = a\<lparr>au_draining := True\<rparr>"

definition wait_returns :: "Authority \<Rightarrow> bool" where
  "wait_returns a \<longleftrightarrow> au_activeOps a = 0"

section \<open>Histories of the authority\<close>

text \<open>The permits that callers hold are numbered in the order they were issued.\<close>

datatype host_call =
    CallAcquire string string
  | CallAcquireGlobal string
  | CallRelease nat
  | CallSetUnavailable
  | CallDrain

record host_state =
  hs_authority :: Authority
  hs_permits :: "scopePermit list"

definition issue :: "host_state \<Rightarrow> host_error + (scopePermit \<times> Authority) \<Rightarrow> host_state" where
  "issue w r =
     (case r of
        Inl e \<Rightarrow> w
      | Inr (p, a) \<Rightarrow> w\<lparr>hs_authority := a, hs_permits := hs_permits w @ [p]\<rparr>)"

fun host_step :: "host_call \<Rightarrow> host_state \<Rightarrow> host_state option" where
  "host_step (CallAcquire pairID purpose) w =
     Some (issue w (AcquireExclusiveScope pairID purpose (hs_authority w)))"
| "host_step (CallAcquireGlobal purpose) w =
     Some (issue w (AcquireGlobalExclusiveScope purpose (hs_authority w)))"
| "host_step (CallRelease i) w =
     (if i < length (hs_permits w)
      then map_option (\<lambda>(p, a). w\<lparr>hs_authority := a, hs_permits := (hs_permits w)[i := p]\<rparr>)
        (Release_permit (hs_permits w ! i) (hs_authority w))
      else Some w)"
| "host_step CallSetUnavailable w = Some (w\<lparr>hs_authority := SetUnavailable (hs_authority w)\<rparr>)"
| "host_step CallDrain w = Some (w\<lparr>hs_authority := Drain_close (hs_authority w)\<rparr>)"

fun host_steps :: "host_call list \<Rightarrow> host_state \<Rightarrow> host_state option" where
  "host_steps [] w = Some w"
| "host_steps (c # cs) w = Option.bind (host_step c w) (host_steps cs)"

definition new_host :: "string \<Rightarrow> host_state" where
  "new_host princ = \<lparr>hs_authority = NewAuthority princ, hs_permits = []\<rparr>"

definition held_kinds :: "host_state \<Rightarrow> scope_kind list" where
  "held_kinds w = map sp_kind (filter (\<lambda>p. \<not> sp_released p) (hs_permits w))"

section \<open>Shutdown\<close>

datatype shutdown_action =
    ClosePipeServer | CloseHTTPServer | DrainAuthority | WaitAllReleased | CloseScheduler nat | CloseStore
  | CleanMetadata | ClosePinnedDB | CloseLockHandle

record ShutdownComponents =
  cs_PipeServer :: bool
  cs_HTTPServer :: bool
  cs_Authority :: bool
  cs_Store :: bool
  cs_PinnedDB :: bool
  cs_OwnerLease :: bool
  cs_Schedulers :: "bool list"

text \<open>
  The actions in their order, and the first error among them; \<open>answer\<close> gives the error of an
  action. A drain that times out is followed by the wait, and its error is recorded after it.
\<close>

definition teardown :: "bool \<Rightarrow> shutdown_action \<Rightarrow> shutdown_action list" where
  "teardown present act = (if present then [act] else [])"

definition shutdown_actions :: "(shutdown_action \<Rightarrow> string option) \<Rightarrow> ShutdownComponents \<Rightarrow> shutdown_action list" where
  "shutdown_actions answer c =
     teardown (cs_PipeServer c) ClosePipeServer @ teardown (cs_HTTPServer c) CloseHTTPServer @
     teardown (cs_Authority c) DrainAuthority @
     teardown (cs_Authority c \<and> answer DrainAuthority \<noteq> None) WaitAllReleased @
     concat (map (\<lambda>i. teardown (cs_Schedulers c ! i) (CloseScheduler i)) [0..<length (cs_Schedulers c)]) @
     teardown (cs_Store c) CloseStore @ teardown (cs_OwnerLease c) CleanMetadata @
     teardown (cs_PinnedDB c) ClosePinnedDB @ teardown (cs_OwnerLease c) CloseLockHandle"

fun records_error :: "shutdown_action \<Rightarrow> bool" where
  "records_error WaitAllReleased = False"
| "records_error CleanMetadata = False"
| "records_error _ = True"

definition ExecuteShutdownDrain ::
  "(shutdown_action \<Rightarrow> string option) \<Rightarrow> ShutdownComponents \<Rightarrow> shutdown_action list \<times> string option" where
  "ExecuteShutdownDrain answer c =
     (let acts = shutdown_actions answer c;
          errors = List.map_filter (\<lambda>x. if records_error x then answer x else None) acts in
      (acts, if errors = [] then None else Some (''host: error during shutdown drain: '' @ hd errors)))"

section \<open>Policies\<close>

record Policies =
  po_SupervisorHTTPTimeout :: int
  po_SupervisorHealthProbeTimeout :: int
  po_SupervisorSpawnTimeout :: int
  po_SupervisorSendTimeout :: int
  po_SupervisorActivityPollInterval :: int
  po_SupervisorExecutionDeadline :: int
  po_SupervisorKillStopTimeout :: int
  po_SupervisorWorkspaceReadTimeout :: int

text \<open>The name of the first policy that is not positive, if any.\<close>

definition Policies_Validate :: "Policies \<Rightarrow> string option" where
  "Policies_Validate p =
     (if po_SupervisorHTTPTimeout p \<le> 0 then Some ''SUPERVISOR_HTTP_TIMEOUT''
      else if po_SupervisorHealthProbeTimeout p \<le> 0 then Some ''SUPERVISOR_HEALTH_PROBE_TIMEOUT''
      else if po_SupervisorSpawnTimeout p \<le> 0 then Some ''SUPERVISOR_SPAWN_TIMEOUT''
      else if po_SupervisorSendTimeout p \<le> 0 then Some ''SUPERVISOR_SEND_TIMEOUT''
      else if po_SupervisorActivityPollInterval p \<le> 0 then Some ''SUPERVISOR_ACTIVITY_POLL_INTERVAL''
      else if po_SupervisorExecutionDeadline p \<le> 0 then Some ''SUPERVISOR_EXECUTION_DEADLINE''
      else if po_SupervisorKillStopTimeout p \<le> 0 then Some ''SUPERVISOR_KILL_STOP_TIMEOUT''
      else if po_SupervisorWorkspaceReadTimeout p \<le> 0 then Some ''SUPERVISOR_WORKSPACE_READ_TIMEOUT''
      else None)"

section \<open>The invariant\<close>

text \<open>
  The counter counts the permits that are held; the locks are exactly theirs; a held global scope
  is the only one.
\<close>

definition owned_by :: "scope_kind list \<Rightarrow> Authority \<Rightarrow> bool" where
  "owned_by held a \<longleftrightarrow>
     au_activeOps a = length held \<and> distinct held \<and>
     (\<forall>pid. PairScope pid \<in> set held \<longleftrightarrow> au_pairLocks a pid \<noteq> None) \<and>
     (au_globalLocked a \<longleftrightarrow> GlobalScope \<in> set held) \<and>
     (GlobalScope \<in> set held \<longrightarrow> set held = {GlobalScope})"

definition host_inv :: "host_state \<Rightarrow> bool" where
  "host_inv w \<longleftrightarrow> owned_by (held_kinds w) (hs_authority w)"

lemma held_kinds_append:
  "held_kinds (w\<lparr>hs_authority := a, hs_permits := hs_permits w @ [p]\<rparr>) =
     held_kinds w @ (if sp_released p then [] else [sp_kind p])"
  by (simp add: held_kinds_def)

lemma held_kinds_authority [simp]: "held_kinds (w\<lparr>hs_authority := a\<rparr>) = held_kinds w"
  by (simp add: held_kinds_def)

lemma held_kinds_release:
  assumes "i < length (hs_permits w)" "\<not> sp_released (hs_permits w ! i)"
  shows "\<exists>before after. held_kinds w = before @ sp_kind (hs_permits w ! i) # after \<and>
    (\<forall>a. held_kinds (w\<lparr>hs_authority := a,
       hs_permits := (hs_permits w)[i := (hs_permits w ! i)\<lparr>sp_released := True\<rparr>]\<rparr>) = before @ after)"
proof -
  let ?held = "\<lambda>ps. map sp_kind (filter (\<lambda>p. \<not> sp_released p) ps)"
  have "hs_permits w = take i (hs_permits w) @ hs_permits w ! i # drop (Suc i) (hs_permits w)"
    using assms(1) by (rule id_take_nth_drop)
  then have 1: "held_kinds w =
      ?held (take i (hs_permits w)) @ sp_kind (hs_permits w ! i) # ?held (drop (Suc i) (hs_permits w))"
    using assms(2) by (metis (no_types, lifting) append_Cons filter.simps(2) filter_append held_kinds_def
        list.simps(9) map_append)
  have 2: "\<And>a. held_kinds (w\<lparr>hs_authority := a, hs_permits := (hs_permits w)[i := (hs_permits w ! i)\<lparr>sp_released := True\<rparr>]\<rparr>) =
      ?held (take i (hs_permits w)) @ ?held (drop (Suc i) (hs_permits w))"
    using assms(1) by (simp add: held_kinds_def upd_conv_take_nth_drop)
  from 1 2 show ?thesis by blast
qed

lemma AcquireExclusiveScope_owned:
  assumes "AcquireExclusiveScope pid purpose a = Inr (p, a')" "owned_by held a"
  shows "owned_by (held @ [sp_kind p]) a' \<and> \<not> sp_released p"
  using assms by (auto simp: AcquireExclusiveScope_def owned_by_def simp del: not_None_eq split: if_splits option.splits)

lemma AcquireGlobalExclusiveScope_owned:
  assumes "AcquireGlobalExclusiveScope purpose a = Inr (p, a')" "owned_by held a"
  shows "owned_by (held @ [sp_kind p]) a' \<and> \<not> sp_released p"
proof -
  have acquired: "\<not> au_globalLocked a" "dom (au_pairLocks a) = {}"
    "p = \<lparr>sp_kind = GlobalScope, sp_released = False\<rparr>"
    "a' = a\<lparr>au_globalLocked := True, au_globalOwner := purpose, au_activeOps := au_activeOps a + 1\<rparr>"
    using assms(1) by (auto simp: AcquireGlobalExclusiveScope_def split: if_splits)
  have "held = []"
  proof (cases held)
    case (Cons k ks)
    then have "k \<in> set held" by simp
    with assms(2) acquired(1,2) show ?thesis by (cases k) (auto simp: owned_by_def)
  qed
  with assms(2) acquired show ?thesis by (simp add: owned_by_def)
qed

lemma release_scope_owned:
  assumes "owned_by (before @ k # after) a"
  shows "\<exists>a'. release_scope k a = Some a' \<and> owned_by (before @ after) a'"
  using assms by (cases k) (auto simp: release_scope_def wait_group_done_def owned_by_def simp del: not_None_eq)

lemma issue_inv:
  assumes "host_inv w" "\<And>p a. r = Inr (p, a) \<Longrightarrow> owned_by (held_kinds w @ [sp_kind p]) a \<and> \<not> sp_released p"
  shows "host_inv (issue w r)"
  using assms by (auto simp: issue_def host_inv_def held_kinds_append split: sum.splits)

lemma host_step_inv:
  assumes "host_inv w"
  shows "\<exists>w'. host_step c w = Some w' \<and> host_inv w'"
proof (cases c)
  case (CallRelease i)
  show ?thesis
  proof (cases "i < length (hs_permits w) \<and> \<not> sp_released (hs_permits w ! i)")
    case True
    let ?p = "hs_permits w ! i"
    obtain before after where
      split: "held_kinds w = before @ sp_kind ?p # after" and
      rest: "\<And>a. held_kinds (w\<lparr>hs_authority := a, hs_permits := (hs_permits w)[i := ?p\<lparr>sp_released := True\<rparr>]\<rparr>) =
        before @ after"
      using True held_kinds_release [of i w] by blast
    from assms have "owned_by (before @ sp_kind ?p # after) (hs_authority w)" by (simp add: host_inv_def split)
    from release_scope_owned [OF this] obtain a' where
      "release_scope (sp_kind ?p) (hs_authority w) = Some a'" "owned_by (before @ after) a'" by blast
    with True rest CallRelease show ?thesis by (simp add: Release_permit_def host_inv_def)
  qed (use assms CallRelease in \<open>auto simp: Release_permit_def host_inv_def held_kinds_def\<close>)
next
  case (CallAcquire pid purpose)
  then show ?thesis
    using issue_inv [OF assms AcquireExclusiveScope_owned] assms by (simp add: host_inv_def)
next
  case (CallAcquireGlobal purpose)
  then show ?thesis
    using issue_inv [OF assms AcquireGlobalExclusiveScope_owned] assms by (simp add: host_inv_def)
qed (use assms in \<open>simp_all add: SetUnavailable_def Drain_close_def host_inv_def owned_by_def\<close>)

lemma host_steps_inv: "host_inv w \<Longrightarrow> \<exists>w'. host_steps cs w = Some w' \<and> host_inv w'"
proof (induction cs arbitrary: w)
  case (Cons c cs)
  from host_step_inv [OF Cons.prems, of c] Cons.IH show ?case by auto
qed simp

lemma new_host_inv: "host_inv (new_host princ)"
  by (simp add: host_inv_def owned_by_def new_host_def NewAuthority_def held_kinds_def)

section \<open>Exclusion\<close>

text \<open>
  C37: over any history of acquisitions, releases, repeated releases, drains and closures of admission,
  no release panics; a pair is held by at most one scope, a global scope excludes every other one,
  and the counter of active operations is the number of scopes held.
\<close>

theorem host_scopes_exclusive:
  "\<exists>w. host_steps cs (new_host princ) = Some w \<and> distinct (held_kinds w) \<and>
     (GlobalScope \<in> set (held_kinds w) \<longrightarrow> held_kinds w = [GlobalScope]) \<and>
     au_activeOps (hs_authority w) = length (held_kinds w) \<and>
     {pid. PairScope pid \<in> set (held_kinds w)} = dom (au_pairLocks (hs_authority w))"
proof -
  obtain w where w: "host_steps cs (new_host princ) = Some w" "host_inv w"
    using host_steps_inv [OF new_host_inv] by blast
  have "held_kinds w = [GlobalScope]" if "GlobalScope \<in> set (held_kinds w)"
  proof -
    have "set (held_kinds w) = {GlobalScope}" "distinct (held_kinds w)"
      using w(2) that by (simp_all add: host_inv_def owned_by_def)
    then show ?thesis by (cases "held_kinds w" rule: remdups_adj.cases) auto
  qed
  then show ?thesis using w by (auto simp: host_inv_def owned_by_def)
qed

theorem host_scopes_exclusive_witness:
  "\<exists>w. host_steps [CallAcquireGlobal ''r'', CallAcquire ''Q'' ''e''] (new_host ''u'') = Some w \<and>
     held_kinds w = [GlobalScope]"
proof -
  obtain w where w: "host_steps [CallAcquireGlobal ''r'', CallAcquire ''Q'' ''e''] (new_host ''u'') = Some w"
    "GlobalScope \<in> set (held_kinds w) \<longrightarrow> held_kinds w = [GlobalScope]"
    using host_scopes_exclusive [of "[CallAcquireGlobal ''r'', CallAcquire ''Q'' ''e'']" "''u''"] by blast
  then have "GlobalScope \<in> set (held_kinds w)"
    by (auto simp: new_host_def NewAuthority_def AcquireGlobalExclusiveScope_def AcquireExclusiveScope_def issue_def
        held_kinds_def simp del: set_map set_filter)
  with w show ?thesis by blast
qed

section \<open>Draining\<close>

lemma host_step_draining:
  assumes "host_step c w = Some w'" "au_draining (hs_authority w)"
  shows "au_draining (hs_authority w') \<and> length (hs_permits w') = length (hs_permits w)"
  using assms
  by (cases c) (auto simp: issue_def AcquireExclusiveScope_def AcquireGlobalExclusiveScope_def SetUnavailable_def
      Drain_close_def Release_permit_def release_scope_def wait_group_done_def Let_def
      split: if_splits option.splits scope_kind.splits)

lemma host_steps_draining:
  "host_steps cs w = Some w' \<Longrightarrow> au_draining (hs_authority w) \<Longrightarrow>
     au_draining (hs_authority w') \<and> length (hs_permits w') = length (hs_permits w)"
proof (induction cs arbitrary: w)
  case (Cons c cs)
  then obtain w1 where "host_step c w = Some w1" "host_steps cs w1 = Some w'" by (auto simp: bind_eq_Some_conv)
  then show ?case using host_step_draining Cons by metis
qed simp

lemma host_steps_append: "host_steps (cs @ ds) w = Option.bind (host_steps cs w) (host_steps ds)"
  by (induction cs arbitrary: w) (auto split: Option.bind_split)

lemma wait_returns_iff: "host_inv w \<Longrightarrow> wait_returns (hs_authority w) \<longleftrightarrow> (\<forall>p\<in>set (hs_permits w). sp_released p)"
  by (auto simp: wait_returns_def host_inv_def owned_by_def held_kinds_def filter_empty_conv)

lemma release_effect:
  assumes "host_step (CallRelease i) w = Some w'"
  shows "length (hs_permits w') = length (hs_permits w)"
    "i < length (hs_permits w) \<Longrightarrow> sp_released (hs_permits w' ! i)"
    "j < length (hs_permits w) \<Longrightarrow> sp_released (hs_permits w ! j) \<Longrightarrow> sp_released (hs_permits w' ! j)"
  using assms by (auto simp: Release_permit_def nth_list_update split: if_splits)

lemma releases_all:
  assumes "host_inv w" "n \<le> length (hs_permits w)"
  shows "\<exists>w'. host_steps (map CallRelease [0..<n]) w = Some w' \<and> host_inv w' \<and>
    length (hs_permits w') = length (hs_permits w) \<and> (\<forall>j<n. sp_released (hs_permits w' ! j))"
  using assms(2)
proof (induction n)
  case (Suc n)
  then obtain w1 where w1: "host_steps (map CallRelease [0..<n]) w = Some w1" "host_inv w1"
    "length (hs_permits w1) = length (hs_permits w)" "\<forall>j<n. sp_released (hs_permits w1 ! j)" by auto
  obtain w2 where w2: "host_step (CallRelease n) w1 = Some w2" "host_inv w2"
    using host_step_inv [OF w1(2)] by blast
  have "sp_released (hs_permits w2 ! j)" if "j < Suc n" for j
    using release_effect(2,3) [OF w2(1)] w1(3,4) Suc.prems that by (cases "j = n") auto
  moreover have "host_steps (map CallRelease [0..<Suc n]) w = Some w2"
    using w1(1) w2(1) by (simp add: host_steps_append)
  ultimately show ?case using w2 release_effect(1) [OF w2(1)] w1(3) by auto
qed (use assms in auto)

text \<open>
  C38: once draining has begun, no history of calls issues a permit any more; the wait for the active
  operations returns exactly when every permit that was issued has been released; and it can always
  be brought to return, by releasing the permits.
\<close>

theorem drain_joins_all:
  assumes "host_steps cs (new_host princ) = Some w" and "host_steps (CallDrain # ds) w = Some w'"
  shows "length (hs_permits w') = length (hs_permits w) \<and> \<not> Available (hs_authority w') \<and>
    (wait_returns (hs_authority w') \<longleftrightarrow> (\<forall>p\<in>set (hs_permits w'). sp_released p)) \<and>
    (\<exists>w''. host_steps (map CallRelease [0..<length (hs_permits w')]) w' = Some w'' \<and>
       wait_returns (hs_authority w''))"
proof -
  have inv: "host_inv w" "host_inv w'"
    using host_steps_inv [OF new_host_inv, of cs princ] assms(1) host_steps_inv [of w "CallDrain # ds"] assms(2)
    by auto
  let ?d = "w\<lparr>hs_authority := Drain_close (hs_authority w)\<rparr>"
  have "host_steps ds ?d = Some w'" "au_draining (hs_authority ?d)"
    using assms(2) by (simp_all add: Drain_close_def)
  note drained = host_steps_draining [OF this]
  obtain w'' where w'': "host_steps (map CallRelease [0..<length (hs_permits w')]) w' = Some w''" "host_inv w''"
    "length (hs_permits w'') = length (hs_permits w')" "\<forall>j<length (hs_permits w'). sp_released (hs_permits w'' ! j)"
    using releases_all [OF inv(2) order_refl] by blast
  then have "wait_returns (hs_authority w'')" by (simp add: wait_returns_iff all_set_conv_all_nth)
  with w''(1) drained wait_returns_iff [OF inv(2)] show ?thesis by (auto simp: Available_def)
qed

theorem drain_joins_all_witness:
  "\<exists>w w'. host_steps [CallAcquire ''Q'' ''e''] (new_host ''u'') = Some w \<and>
     host_steps [CallDrain, CallAcquire ''R'' ''e''] w = Some w' \<and>
     length (hs_permits w') = length (hs_permits w) \<and> \<not> Available (hs_authority w')"
proof -
  obtain w where w: "host_steps [CallAcquire ''Q'' ''e''] (new_host ''u'') = Some w" "host_inv w"
    using host_steps_inv [OF new_host_inv] by blast
  obtain w' where w': "host_steps [CallDrain, CallAcquire ''R'' ''e''] w = Some w'"
    using host_steps_inv [OF w(2)] by blast
  from drain_joins_all [OF w(1) w'] w(1) w' show ?thesis by blast
qed

section \<open>Order of the shutdown\<close>

text \<open>
  The lock handle is closed last, after every other resource; the store is closed only after the
  drain, and after the wait when the drain timed out.
\<close>

lemma shutdown_lock_last:
  "cs_OwnerLease c \<Longrightarrow> \<exists>before. shutdown_actions answer c = before @ [CloseLockHandle] \<and>
     CloseLockHandle \<notin> set before \<and> (cs_Store c \<longrightarrow> CloseStore \<in> set before) \<and>
     (cs_PinnedDB c \<longrightarrow> ClosePinnedDB \<in> set before)"
  by (simp add: shutdown_actions_def teardown_def)

lemma shutdown_store_after_wait:
  assumes "cs_Store c" "cs_Authority c"
  shows "\<exists>before after. shutdown_actions answer c = before @ CloseStore # after \<and> DrainAuthority \<in> set before \<and>
    (answer DrainAuthority \<noteq> None \<longrightarrow> WaitAllReleased \<in> set before) \<and>
    (\<forall>i<length (cs_Schedulers c). cs_Schedulers c ! i \<longrightarrow> CloseScheduler i \<in> set before)"
proof -
  let ?before = "teardown (cs_PipeServer c) ClosePipeServer @ teardown (cs_HTTPServer c) CloseHTTPServer @
     [DrainAuthority] @ teardown (answer DrainAuthority \<noteq> None) WaitAllReleased @
     concat (map (\<lambda>i. teardown (cs_Schedulers c ! i) (CloseScheduler i)) [0..<length (cs_Schedulers c)])"
  have "shutdown_actions answer c = ?before @ CloseStore # teardown (cs_OwnerLease c) CleanMetadata @
     teardown (cs_PinnedDB c) ClosePinnedDB @ teardown (cs_OwnerLease c) CloseLockHandle"
    using assms by (simp add: shutdown_actions_def teardown_def)
  moreover have "DrainAuthority \<in> set ?before" "answer DrainAuthority \<noteq> None \<longrightarrow> WaitAllReleased \<in> set ?before"
    "\<forall>i<length (cs_Schedulers c). cs_Schedulers c ! i \<longrightarrow> CloseScheduler i \<in> set ?before"
    by (auto simp: teardown_def)
  ultimately show ?thesis by (intro exI conjI)
qed

text \<open>The policies are accepted exactly when all eight are positive.\<close>

lemma Policies_Validate_iff:
  "Policies_Validate p = None \<longleftrightarrow>
     0 < po_SupervisorHTTPTimeout p \<and> 0 < po_SupervisorHealthProbeTimeout p \<and> 0 < po_SupervisorSpawnTimeout p \<and>
     0 < po_SupervisorSendTimeout p \<and> 0 < po_SupervisorActivityPollInterval p \<and>
     0 < po_SupervisorExecutionDeadline p \<and> 0 < po_SupervisorKillStopTimeout p \<and>
     0 < po_SupervisorWorkspaceReadTimeout p"
  by (auto simp: Policies_Validate_def)

end
