(* ===== verification/Spec2Isabelle.thy ===== *)
theory Spec2Isabelle
  imports Contract_Validator Store_Guarantees Task_Board Protocol_Guarantees AO_Guarantees Clearance_Guarantees
    Recovery_Guarantees Termination_Guarantees Poller_Cycle Host_Authority
begin

text \<open>
  Verification of the AI Engineering Supervisor control plane, the Go module under \<open>src/\<close>.

  \<^bold>\<open>The program.\<close> The supervisor runs engineering tasks on worker sessions of an external daemon, the
  Agent Orchestrator (AO). Its durable state is an SQLite database; every change is one transaction
  of \<open>internal/store\<close>, which appends to a hash-chained audit log as it writes. Coordinators
  (\<open>internal/dispatch\<close>, \<open>internal/stop\<close>) drive the calls that leave the process: they record an intent,
  call AO through the client of \<open>internal/ao\<close> and record the outcome. After a restart the runner of
  \<open>internal/recovery\<close> classifies what the last process left behind; a poller and a timeout monitor
  then tick beside normal operation. The authority of \<open>internal/host\<close> hands out the exclusive scopes
  under which all of them work. The hard part is that a call to AO may have happened although its
  answer is lost, and that several processes write at once; the design is that an ambiguous effect
  is never repeated and that a session in doubt is quarantined until there is evidence.

  \<^bold>\<open>Shared.\<close> \<open>Prelude\<close> has the result type and its sequencing (\<open>bindE\<close>, \<open>andThen\<close>, \<open>require\<close>, \<open>ensure\<close>),
  the string functions of Go that the source uses, and the lemma collections of the development
  (\<open>result_simps\<close>, \<open>chain_simps\<close> and others). \<open>Domain\<close> has the enumerations and structs of
  \<open>internal/domain\<close>; an enumeration that is a string in Go has a constructor for every other string.

  \<^bold>\<open>Pure components.\<close> \<open>Workflow\<close> is the task state machine of \<open>internal/workflow\<close> and shows that the
  transition table is the documented graph. \<open>Scrubber\<close> is \<open>internal/audit\<close>: the redaction patterns over
  a leftmost-first matcher and the recursive scrubbing of dynamic values; accepted details hold no
  secret under a sensitive key at any depth. \<open>Report_Path\<close> is \<open>store/report_path.go\<close>: the report path is
  confined and determines task and attempt. \<open>Contract\<close> and \<open>Contract_Validator\<close> are \<open>internal/contract\<close>:
  revisions, scopes, the exact projection of JSON numbers for the schema library, the containment of
  working directories and the validation of a raw contract, which accepts only safe contracts.

  \<^bold>\<open>The store.\<close> \<open>Store_Errors\<close> has the sentinel errors, \<open>Database\<close> the tables of \<open>store/migrations.go\<close> as
  lists of rows with their constraints and triggers, \<open>Audit_Chain\<close> the log of \<open>audit_store.go\<close>.
  \<open>Store_Writes\<close> names the primitive writes and proves once what they keep; the theories
  \<open>Task_Store\<close>, \<open>Dispatch_Store\<close>, \<open>Atomic_Transitions\<close>, \<open>Session_Store\<close>, \<open>Stop_Store\<close>, \<open>Recovery_Store\<close>,
  \<open>Stop_Risk\<close>, \<open>Restore_Store\<close> and \<open>Clearance_Store\<close> translate the transactions of the files of
  \<open>internal/store\<close>, each a function from a host record, its arguments and a database to an error or
  the new database. A transaction that fails leaves the database as it was. \<open>Restart_Recovery\<close> is the
  read-only classification of \<open>store/recovery.go\<close>.
  \<open>Store_Trace\<close> makes one datatype \<open>command\<close> of all transactions, with \<open>exec\<close>, the databases that are
  \<open>reachable\<close> from a freshly migrated one, and \<open>later\<close>, the databases that any further calls lead to.

  \<^bold>\<open>Properties of the store.\<close> \<open>Store_Guarantees\<close> has the invariants of every reachable database (the log
  verifies and grows, one active task per pair, attempts without a gap, linear contract history,
  budgets, dispatches bound to attempts, exclusive pair operations) and the relations between an
  earlier and a later one (a task follows the workflow, a stop proof is never withdrawn).
  \<open>Operation_Guarantees\<close>, \<open>Protocol_Guarantees\<close> and \<open>Clearance_Guarantees\<close> say what single transactions
  demand and achieve; \<open>Task_Board\<close> is an abstract board of tasks and attempts and shows that every
  successful transaction is a sequence of its moves. \<open>Sample_History\<close> runs a concrete history that the
  witnesses use.

  \<^bold>\<open>The orchestrator client.\<close> \<open>AO_Client\<close> translates \<open>internal/ao\<close> over a transport and a JSON decoder;
  \<open>AO_Guarantees\<close> shows that an accepted reply names the requested target and which class an error is of,
  and that path escaping is injective.

  \<^bold>\<open>Programs with effects.\<close> \<open>Effects\<close> has the type \<open>prog\<close> of interaction trees: a store transaction, a
  read, the clock, a call of AO, a question to the operator, the host or the process. Its step
  relation interleaves transactions of other processes at every point, lets a transaction fail,
  fail in the driver, or commit although an error is reported, and lets AO answer anything. The
  locale \<open>monitor\<close> is a safety automaton over the events with a weakest precondition for programs
  and its soundness. \<open>Dispatch_Coordinator\<close>, \<open>Stop_Coordinator\<close>, \<open>Recovery_Runner\<close> and \<open>Recovery_Ticks\<close>
  translate the coordinators, the startup sweep, the legacy maintenance, one tick of the poller and
  one of the timeout monitor; the last also has the gate of the runner as a machine. \<open>Poller_Cycle\<close> has
  the cycles of the poller: at most one goroutine ticks, and a captured channel gives the error of
  its own cycle.
  \<open>Coordinator_Guarantees\<close> and \<open>Recovery_Guarantees\<close> interpret the locale: a dispatch sends and a stop
  kills at most once and only after an acknowledged intent, which no process can record again; the
  sweep has no effect; a tick kills only on a reservation of its own. \<open>Termination_Guarantees\<close> bounds
  the own steps of every coordinator call by 22, the longest path of a dispatch through both rereads
  of its containment. No definition of the development uses fuel.

  \<^bold>\<open>The host.\<close> \<open>Host_Authority\<close> has the scopes, the drain, the shutdown order and the policies of
  \<open>internal/host\<close>: scopes exclude each other, a drained authority grants none, the wait returns when
  all are released, and the lock of the database is given back last.

  \<^bold>\<open>Parameters.\<close> The digest (\<open>h_sha256\<close>), random ids and the clock of the host, \<open>json_extract\<close> of SQLite,
  the JSON decoders (\<open>unmarshal\<close> of the host, \<open>codec\<close> of the client), the details of a stored event that
  a coordinator reads (\<open>co_detail\<close>), the text of an AO error (\<open>co_error_text\<close>), the HTTP transport,
  the JSON Schema library, and the file system with the path functions of the platform. No law is assumed of any of them; tamper evidence of the log is stated up to a
  collision of the digest. Times are integers counted from the zero time of Go.

  \<^bold>\<open>Not modelled.\<close> \<open>cmd/supervisor/main.go\<close> (flags, wiring, listeners, process exit); the Windows files of
  \<open>internal/host\<close> (named pipes, file handles, leases); \<open>store/store.go\<close> and \<open>store/config.go\<close> (opening the
  driver, pragmas) and the step-by-step upgrade of older databases; \<open>NewClient\<close> of the AO client
  (parsing the base URL). These forward to the operating system or to libraries and hold no state of the protocols above. The locks of the
  runner and the poller are not part of the programs: whether a tick is admitted and whether a
  context is cancelled are answers the environment gives.
\<close>

end
